(* ===== verification/Prelude.thy ===== *)
theory Prelude
  imports Main
begin

text \<open>
  Shared vocabulary of the development: the result type of an operation that may throw, the
  truthiness tests of the source language on nullable values, key-value data with an expiry
  instant, and the few list lemmas several components use.

  An asynchronous method of the source becomes a function from the state it runs in to its
  outcome and the state it leaves. A thrown error keeps the writes made before it, as in the
  code, so the state is returned on both outcomes.
\<close>

named_theorems op_simps \<open>unfolding rules of the state-and-error operations\<close>
named_theorems wp_simps \<open>weakest-precondition rules of the state-and-error operations\<close>

type_synonym ident = string
type_synonym ('s, 'e, 'a) op = "'s \<Rightarrow> ('e + 'a) \<times> 's"

definition ret :: "'a \<Rightarrow> ('s, 'e, 'a) op" where
  "ret a s = (Inr a, s)"

definition throw :: "'e \<Rightarrow> ('s, 'e, 'a) op" where
  "throw e s = (Inl e, s)"

definition bind_op :: "('s, 'e, 'a) op \<Rightarrow> ('a \<Rightarrow> ('s, 'e, 'b) op) \<Rightarrow> ('s, 'e, 'b) op" where
  "bind_op m f s = (case m s of (r, s') \<Rightarrow>
     (case r of Inl e \<Rightarrow> (Inl e, s') | Inr a \<Rightarrow> f a s'))"

definition then_op :: "('s, 'e, 'a) op \<Rightarrow> ('s, 'e, 'b) op \<Rightarrow> ('s, 'e, 'b) op" where
  "then_op m m' = bind_op m (\<lambda>_. m')"

definition guard_op :: "bool \<Rightarrow> 'e \<Rightarrow> ('s, 'e, unit) op" where
  "guard_op b e = (if b then ret () else throw e)"

definition reads :: "('s \<Rightarrow> 'a) \<Rightarrow> ('s, 'e, 'a) op" where
  "reads f s = (Inr (f s), s)"

definition writes :: "('s \<Rightarrow> 's) \<Rightarrow> ('s, 'e, unit) op" where
  "writes f s = (Inr (), f s)"

definition of_option :: "'e \<Rightarrow> 'a option \<Rightarrow> ('s, 'e, 'a) op" where
  "of_option e x = (case x of None \<Rightarrow> throw e | Some a \<Rightarrow> ret a)"

lemmas op_defs [op_simps] = ret_def throw_def bind_op_def then_op_def guard_op_def reads_def
  writes_def of_option_def

text \<open>
  The weakest precondition of an operation: \<open>Q\<close> holds of a normal outcome and \<open>E\<close> of a thrown
  one. Its rules turn an invariant proof over a handler into one goal per path.
\<close>

definition wp :: "('s, 'e, 'a) op \<Rightarrow> ('a \<Rightarrow> 's \<Rightarrow> bool) \<Rightarrow> ('e \<Rightarrow> 's \<Rightarrow> bool) \<Rightarrow> 's \<Rightarrow> bool" where
  "wp m Q E s = (case m s of (Inr a, s') \<Rightarrow> Q a s' | (Inl e, s') \<Rightarrow> E e s')"

lemma wp_ret [wp_simps]: "wp (ret a) Q E s = Q a s"
  by (simp add: wp_def ret_def)

lemma wp_throw [wp_simps]: "wp (throw e) Q E s = E e s"
  by (simp add: wp_def throw_def)

lemma wp_bind [wp_simps]: "wp (bind_op m f) Q E s = wp m (\<lambda>a. wp (f a) Q E) E s"
  by (simp add: wp_def bind_op_def split: prod.splits sum.splits)

lemma wp_then [wp_simps]: "wp (then_op m m') Q E s = wp m (\<lambda>_. wp m' Q E) E s"
  by (simp add: then_op_def wp_bind)

lemma wp_guard [wp_simps]: "wp (guard_op b e) Q E s = (if b then Q () s else E e s)"
  by (simp add: guard_op_def wp_ret wp_throw)

lemma wp_reads [wp_simps]: "wp (reads f) Q E s = Q (f s) s"
  by (simp add: wp_def reads_def)

lemma wp_writes [wp_simps]: "wp (writes f) Q E s = Q () (f s)"
  by (simp add: wp_def writes_def)

lemma wp_of_option [wp_simps]:
  "wp (of_option e x) Q E s = (case x of None \<Rightarrow> E e s | Some a \<Rightarrow> Q a s)"
  by (simp add: of_option_def wp_ret wp_throw split: option.splits)

lemma wp_if [wp_simps]: "wp (if b then m else m') Q E s = (if b then wp m Q E s else wp m' Q E s)"
  by simp

lemma wp_mono:
  assumes "wp m Q E s" and "\<And>a t. Q a t \<Longrightarrow> Q' a t" and "\<And>e t. E e t \<Longrightarrow> E' e t"
  shows "wp m Q' E' s"
  using assms by (auto simp: wp_def split: prod.splits sum.splits)

lemma wp_snd: "wp m (\<lambda>_. P) (\<lambda>_. P) s = P (snd (m s))"
  by (auto simp: wp_def split: prod.splits sum.splits)

lemma wp_result: "wp m Q E s \<Longrightarrow> m s = (Inr a, t) \<Longrightarrow> Q a t"
  by (simp add: wp_def)

lemma wp_error: "wp m Q E s \<Longrightarrow> m s = (Inl e, t) \<Longrightarrow> E e t"
  by (simp add: wp_def)

text \<open>An operation keeps a predicate of the state on both outcomes.\<close>

definition keeps :: "('s \<Rightarrow> bool) \<Rightarrow> ('s, 'e, 'a) op \<Rightarrow> bool" where
  "keeps P m \<longleftrightarrow> (\<forall>w. P w \<longrightarrow> wp m (\<lambda>_. P) (\<lambda>_. P) w)"

lemma keepsD: "keeps P m \<Longrightarrow> P w \<Longrightarrow> P (snd (m w))"
  by (simp add: keeps_def wp_snd)

lemma keeps_ret: "keeps P (ret a)" "keeps P (throw e)" "keeps P (reads f)" "keeps P (guard_op b e)" "keeps P (of_option e x)"
  by (auto simp: keeps_def wp_simps split: option.splits)

lemma keeps_writes: "(\<And>w. P w \<Longrightarrow> P (f w)) \<Longrightarrow> keeps P (writes f)"
  by (simp add: keeps_def wp_simps)

lemma keeps_bind: "keeps P m \<Longrightarrow> (\<And>a. keeps P (f a)) \<Longrightarrow> keeps P (bind_op m f)"
  unfolding keeps_def wp_bind by (blast intro: wp_mono)

lemma wp_bind_keeps: "wp m (\<lambda>_. P) (\<lambda>_. P) w \<Longrightarrow> (\<And>a. keeps P (f a)) \<Longrightarrow> wp (bind_op m f) (\<lambda>_. P) (\<lambda>_. P) w"
  unfolding keeps_def wp_bind by (blast intro: wp_mono)

lemma keeps_then: "keeps P m \<Longrightarrow> keeps P m' \<Longrightarrow> keeps P (then_op m m')"
  by (simp add: then_op_def keeps_bind)

subsection \<open>Truthiness\<close>

text \<open>
  The source tests nullable strings and numbers with \<open>!x\<close>, \<open>x ? a : b\<close> and \<open>&&\<close>: the empty
  string and zero count as absent there, while \<open>??\<close> looks at null only.
\<close>

definition truthy_str :: "string option \<Rightarrow> bool" where
  "truthy_str x \<longleftrightarrow> (case x of None \<Rightarrow> False | Some s \<Rightarrow> s \<noteq> [])"

definition truthy_int :: "int option \<Rightarrow> bool" where
  "truthy_int x \<longleftrightarrow> (case x of None \<Rightarrow> False | Some n \<Rightarrow> n \<noteq> 0)"

definition coalesce :: "'a option \<Rightarrow> 'a option \<Rightarrow> 'a option" where
  "coalesce x y = (case x of None \<Rightarrow> y | Some a \<Rightarrow> Some a)"

lemma coalesce_simps [simp]: "coalesce None y = y" "coalesce (Some a) y = Some a"
  by (simp_all add: coalesce_def)

lemma truthy_simps [simp]:
  "truthy_str None = False" "truthy_str (Some s) = (s \<noteq> [])"
  "truthy_int None = False" "truthy_int (Some n) = (n \<noteq> 0)"
  by (simp_all add: truthy_str_def truthy_int_def)

subsection \<open>Keys with an expiry instant\<close>

text \<open>
  The data a Redis key family holds: each present key has a value and, when the code set a time
  to live, the instant (epoch milliseconds) after which it reads as absent.
\<close>

type_synonym ('k, 'v) kv = "'k \<Rightarrow> ('v \<times> int option) option"

definition alive :: "int \<Rightarrow> int option \<Rightarrow> bool" where
  "alive now x \<longleftrightarrow> (case x of None \<Rightarrow> True | Some t \<Rightarrow> now \<le> t)"

definition kv_get :: "int \<Rightarrow> ('k, 'v) kv \<Rightarrow> 'k \<Rightarrow> 'v option" where
  "kv_get now m k = (case m k of None \<Rightarrow> None | Some (v, x) \<Rightarrow> if alive now x then Some v else None)"

definition kv_put :: "('k, 'v) kv \<Rightarrow> 'k \<Rightarrow> 'v \<Rightarrow> int option \<Rightarrow> ('k, 'v) kv" where
  "kv_put m k v x = m(k := Some (v, x))"

definition kv_del :: "('k, 'v) kv \<Rightarrow> 'k \<Rightarrow> ('k, 'v) kv" where
  "kv_del m k = m(k := None)"

lemma alive_simps [simp]: "alive now None" "alive now (Some t) = (now \<le> t)"
  by (simp_all add: alive_def)

lemma kv_get_put: "kv_get now (kv_put m k v x) k' =
    (if k' = k then (if alive now x then Some v else None) else kv_get now m k')"
  by (simp add: kv_get_def kv_put_def)

lemma kv_get_del: "kv_get now (kv_del m k) k' = (if k' = k then None else kv_get now m k')"
  by (simp add: kv_get_def kv_del_def)

lemma kv_get_empty [simp]: "kv_get now Map.empty k = None"
  by (simp add: kv_get_def)

lemma kv_get_Some: "kv_get now m k = Some v \<longleftrightarrow> (\<exists>x. m k = Some (v, x) \<and> alive now x)"
  by (auto simp: kv_get_def split: option.splits)

lemmas kv_simps = kv_get_put kv_get_del

text \<open>A key that holds a list or a set reads as empty when it is absent.\<close>

definition kv_list :: "int \<Rightarrow> ('k, 'v list) kv \<Rightarrow> 'k \<Rightarrow> 'v list" where
  "kv_list now m k = (case kv_get now m k of None \<Rightarrow> [] | Some xs \<Rightarrow> xs)"

lemma kv_list_empty [simp]: "kv_list now Map.empty k = []"
  by (simp add: kv_list_def)

lemma kv_list_put: "kv_list now (kv_put m k v x) k' =
    (if k' = k then (if alive now x then v else []) else kv_list now m k')"
  by (simp add: kv_list_def kv_get_put)

lemma kv_list_del: "kv_list now (kv_del m k) k' = (if k' = k then [] else kv_list now m k')"
  by (simp add: kv_list_def kv_get_del)

subsection \<open>Lists\<close>

text \<open>A JavaScript set read back in insertion order: duplicates after the first are dropped.\<close>

fun js_set :: "'a list \<Rightarrow> 'a list" where
  "js_set [] = []"
| "js_set (x # xs) = x # filter (\<lambda>y. y \<noteq> x) (js_set xs)"

lemma set_js_set [simp]: "set (js_set xs) = set xs"
  by (induction xs) auto

lemma distinct_js_set [simp]: "distinct (js_set xs)"
  by (induction xs) auto

lemma js_set_distinct: "distinct xs \<Longrightarrow> js_set xs = xs"
proof (induction xs)
  case (Cons x xs)
  then have "filter (\<lambda>y. y \<noteq> x) xs = xs" by (auto simp: filter_id_conv)
  with Cons show ?case by simp
qed simp

lemma find_Some_set: "List.find P xs = Some x \<Longrightarrow> x \<in> set xs \<and> P x"
  by (auto simp: find_Some_iff)

lemma distinct_map_eqD: "distinct (map f xs) \<Longrightarrow> x \<in> set xs \<Longrightarrow> y \<in> set xs \<Longrightarrow> f x = f y \<Longrightarrow> x = y"
  by (auto simp: distinct_map inj_on_def)

section \<open>Interfaces several components provide\<close>

text \<open>
  A replay guard keeps a high-water mark and accepts a number only above it. Clients rely on the
  accepted numbers of any request sequence being strictly increasing.
\<close>

locale nonce_guard =
  fixes accept :: "'s \<Rightarrow> int \<Rightarrow> bool \<times> 's"
    and mark :: "'s \<Rightarrow> int"
  assumes accepted: "fst (accept s n) \<Longrightarrow> mark s < n \<and> mark (snd (accept s n)) = n"
    and refused: "\<not> fst (accept s n) \<Longrightarrow> n \<le> mark s \<and> snd (accept s n) = s"
begin

fun run :: "'s \<Rightarrow> int list \<Rightarrow> int list" where
  "run s [] = []"
| "run s (n # ns) = (if fst (accept s n) then n # run (snd (accept s n)) ns else run (snd (accept s n)) ns)"

lemma run_above: "m \<in> set (run s ns) \<Longrightarrow> mark s < m"
proof (induction s ns rule: run.induct)
  case (2 s n ns)
  show ?case
  proof (cases "fst (accept s n)")
    case True
    with accepted[OF True] 2 show ?thesis by (auto dest: order_less_trans)
  next
    case False
    with refused[OF False] 2 show ?thesis by simp
  qed
qed simp

lemma run_increasing: "sorted_wrt (<) (run s ns)"
proof (induction s ns rule: run.induct)
  case (2 s n ns)
  show ?case
  proof (cases "fst (accept s n)")
    case True
    have "\<forall>m \<in> set (run (snd (accept s n)) ns). n < m"
    proof
      fix m assume "m \<in> set (run (snd (accept s n)) ns)"
      from run_above[OF this] accepted[OF True] show "n < m" by simp
    qed
    with True 2 show ?thesis by simp
  qed (use 2 in simp)
qed simp

lemma replay_refused: "fst (accept s n) \<Longrightarrow> m \<le> n \<Longrightarrow> \<not> fst (accept (snd (accept s n)) m)"
  using accepted[of s n] accepted[of "snd (accept s n)" m] by auto

end

text \<open>
  A store with a compare-and-set on a state field. Two requests that start from the same expected
  state and leave it cannot both succeed.
\<close>

locale cas_store =
  fixes get :: "'s \<Rightarrow> 'k \<Rightarrow> 'r option"
    and cas :: "'s \<Rightarrow> 'k \<Rightarrow> 'st \<Rightarrow> ('r \<Rightarrow> 'r) \<Rightarrow> 'r option \<times> 's"
    and field :: "'r \<Rightarrow> 'st"
  assumes cas_Some: "fst (cas s k e m) = Some r \<Longrightarrow>
      \<exists>c. get s k = Some c \<and> field c = e \<and> field r = field (m c) \<and> get (snd (cas s k e m)) k = Some r"
    and cas_None: "fst (cas s k e m) = None \<Longrightarrow> snd (cas s k e m) = s"
    and cas_other: "k' \<noteq> k \<Longrightarrow> get (snd (cas s k e m)) k' = get s k'"
begin

lemma cas_once:
  assumes "fst (cas s k e m) \<noteq> None" and "\<And>c. field (m c) \<noteq> e"
  shows "fst (cas (snd (cas s k e m)) k e m') = None"
proof (rule ccontr)
  assume "fst (cas (snd (cas s k e m)) k e m') \<noteq> None"
  then obtain r' where "fst (cas (snd (cas s k e m)) k e m') = Some r'" by auto
  from cas_Some[OF this] obtain c where c: "get (snd (cas s k e m)) k = Some c" "field c = e" by auto
  from assms(1) obtain r where "fst (cas s k e m) = Some r" by auto
  from cas_Some[OF this] obtain c0 where "field r = field (m c0)" "get (snd (cas s k e m)) k = Some r"
    by blast
  with c assms(2)[of c0] show False by simp
qed

end

end
