(* ===== verification/BattleTypes.thy ===== *)
theory BattleTypes
  imports Prelude
begin

text \<open>
  The battle engine's vocabulary, from battles/types, battles/errors and battles/state: the
  ephemeral lifecycle state and its transition table, the durable status it is projected on, the
  runtime record kept in Redis, the rows kept in Postgres and the replay events.
\<close>

section \<open>Lifecycle\<close>

datatype runtime_state = WAITING | COUNTDOWN | ACTIVE | PAUSED | FINISHED | CANCELLED | EXPIRED

datatype battle_type =
  TypeOneVsOne | TypePractice | TypeInterview | TypeCollaboration | TypePrivate | TypeTournament

datatype battle_mode = ModeOneVsOne | ModeFreeForAll | ModeTeam

datatype battle_status = StScheduled | StInProgress | StFinished | StAborted

datatype room_status = RoomWaiting | RoomActive | RoomCompleted | RoomCancelled

datatype room_type = RtBattle | RtCollaboration | RtInterview

fun toPersistedStatus :: "runtime_state \<Rightarrow> battle_status" where
  "toPersistedStatus WAITING = StScheduled"
| "toPersistedStatus COUNTDOWN = StScheduled"
| "toPersistedStatus ACTIVE = StInProgress"
| "toPersistedStatus PAUSED = StInProgress"
| "toPersistedStatus FINISHED = StFinished"
| "toPersistedStatus CANCELLED = StAborted"
| "toPersistedStatus EXPIRED = StAborted"

fun transitions :: "runtime_state \<Rightarrow> runtime_state list" where
  "transitions WAITING = [COUNTDOWN, CANCELLED, EXPIRED]"
| "transitions COUNTDOWN = [ACTIVE, CANCELLED]"
| "transitions ACTIVE = [PAUSED, FINISHED, EXPIRED]"
| "transitions PAUSED = [ACTIVE, FINISHED, EXPIRED]"
| "transitions FINISHED = []"
| "transitions CANCELLED = []"
| "transitions EXPIRED = []"

definition canTransition :: "runtime_state \<Rightarrow> runtime_state \<Rightarrow> bool" where
  "canTransition from to \<longleftrightarrow> List.member (transitions from) to"

definition isTerminal :: "runtime_state \<Rightarrow> bool" where
  "isTerminal s \<longleftrightarrow> length (transitions s) = 0"

definition allowedNext :: "runtime_state \<Rightarrow> runtime_state list" where
  "allowedNext from = transitions from"

fun state_name :: "runtime_state \<Rightarrow> string" where
  "state_name WAITING = ''WAITING''"
| "state_name COUNTDOWN = ''COUNTDOWN''"
| "state_name ACTIVE = ''ACTIVE''"
| "state_name PAUSED = ''PAUSED''"
| "state_name FINISHED = ''FINISHED''"
| "state_name CANCELLED = ''CANCELLED''"
| "state_name EXPIRED = ''EXPIRED''"

fun status_name :: "battle_status \<Rightarrow> string" where
  "status_name StScheduled = ''SCHEDULED''"
| "status_name StInProgress = ''IN_PROGRESS''"
| "status_name StFinished = ''FINISHED''"
| "status_name StAborted = ''ABORTED''"

section \<open>Records\<close>

record runtime_battle =
  rb_battleId :: ident
  rb_roomId :: ident
  rb_hostId :: ident
  rb_mode :: battle_mode
  rb_type :: battle_type
  rb_rated :: bool
  rb_state :: runtime_state
  rb_problemId :: "ident option"
  rb_participantIds :: "ident list"
  rb_startedAt :: "int option"
  rb_durationMs :: int
  rb_pausedAt :: "int option"
  rb_winnerId :: "ident option"
  rb_updatedAt :: int

datatype submission_event =
  FIRST_COMPILE | EV_COMPILATION_ERROR | EV_WRONG_ANSWER | EV_ACCEPTED | EV_TIME_LIMIT_EXCEEDED
| EV_MEMORY_LIMIT_EXCEEDED | EV_RUNTIME_ERROR | FINAL_SUBMISSION

record submission_info =
  si_submissionId :: ident
  si_event :: submission_event
  si_language :: "string option"
  si_passed :: int
  si_total :: int
  si_runtimeMs :: "int option"

datatype event_type = EvState | EvSubmission | EvParticipant

record battle_event =
  ev_seq :: nat
  ev_at :: int
  ev_type :: event_type
  ev_userId :: "ident option"
  ev_state :: "runtime_state option"
  ev_submission :: "submission_info option"
  ev_note :: "string option"

record room_participant =
  rp_userId :: ident
  rp_joinedAt :: int
  rp_leftAt :: "int option"

record room_row =
  rm_code :: string
  rm_name :: string
  rm_type :: room_type
  rm_status :: room_status
  rm_hostId :: ident
  rm_maxParticipants :: nat
  rm_isPrivate :: bool
  rm_battleType :: "battle_type option"
  rm_participants :: "room_participant list"

record battle_participant =
  bp_userId :: ident
  bp_score :: int
  bp_rank :: "nat option"

record battle_row =
  b_id :: ident
  b_roomId :: ident
  b_problemId :: ident
  b_mode :: battle_mode
  b_status :: battle_status
  b_rated :: bool
  b_startedAt :: "int option"
  b_endedAt :: "int option"
  b_winnerId :: "ident option"
  b_createdAt :: int
  b_room :: room_row
  b_participants :: "battle_participant list"

section \<open>Errors\<close>

text \<open>
  The operational errors, and \<open>InternalError\<close> for any other exception (a violated
  unique key, a missing row), which is not an operational error and leaves the API as a 500.
\<close>

datatype battle_error =
  BattleNotFound ident | RoomClosed | RoomFull nat | AlreadyJoined | BattleFinished
| InvalidInvite | NotHost | InvalidTransition string string | ReplayDetected | Forbidden string
| InternalError string

fun battle_error_code :: "battle_error \<Rightarrow> nat \<times> string" where
  "battle_error_code (BattleNotFound _) = (404, ''BATTLE_NOT_FOUND'')"
| "battle_error_code RoomClosed = (409, ''ROOM_CLOSED'')"
| "battle_error_code (RoomFull _) = (409, ''ROOM_FULL'')"
| "battle_error_code AlreadyJoined = (409, ''ALREADY_JOINED'')"
| "battle_error_code BattleFinished = (409, ''BATTLE_FINISHED'')"
| "battle_error_code InvalidInvite = (403, ''INVALID_INVITE'')"
| "battle_error_code NotHost = (403, ''NOT_HOST'')"
| "battle_error_code (InvalidTransition _ _) = (409, ''INVALID_TRANSITION'')"
| "battle_error_code ReplayDetected = (409, ''REPLAY_DETECTED'')"
| "battle_error_code (Forbidden _) = (403, ''FORBIDDEN'')"
| "battle_error_code (InternalError _) = (500, ''INTERNAL_ERROR'')"

section \<open>The transition table\<close>

lemma canTransition_set: "canTransition a b \<longleftrightarrow> b \<in> set (transitions a)"
  by (simp add: canTransition_def)

lemma terminal_states: "isTerminal s \<longleftrightarrow> s \<in> {FINISHED, CANCELLED, EXPIRED}"
  by (cases s) (simp_all add: isTerminal_def)

lemma terminal_stuck: "isTerminal s \<Longrightarrow> \<not> canTransition s t"
  by (simp add: isTerminal_def canTransition_set)

text \<open>The durable status only moves forward along a transition.\<close>

fun status_rank :: "battle_status \<Rightarrow> nat" where
  "status_rank StScheduled = 0"
| "status_rank StInProgress = 1"
| "status_rank StFinished = 2"
| "status_rank StAborted = 2"

lemma transition_status_mono:
  "canTransition a b \<Longrightarrow> status_rank (toPersistedStatus a) \<le> status_rank (toPersistedStatus b)"
  by (cases a; cases b) (simp_all add: canTransition_def)

end
