(* ===== verification/BattleStore.thy ===== *)
theory BattleStore
  imports BattleTypes
begin

text \<open>
  The data the battle engine owns and the adapters over it: battles/store (the ephemeral state in
  Redis), battles/scheduler (the delayed BullMQ jobs) and the two outbound adapters of
  battles/gateway (socket emissions and published results). Each key family of
  \<open>BATTLE_CONSTANTS.REDIS_KEYS\<close> is a component of the state, each command its documented effect
  on it; values are kept as the records the code serialises.
\<close>

section \<open>Constants\<close>

definition default_capacity :: nat where "default_capacity = 2"
definition code_length :: nat where "code_length = 6"
definition max_capacity :: nat where "max_capacity = 16"
definition countdown_seconds :: int where "countdown_seconds = 5"
definition ready_timeout_ms :: int where "ready_timeout_ms = 60000"
definition default_duration_ms :: int where "default_duration_ms = 30 * 60000"
definition invite_ttl_seconds :: int where "invite_ttl_seconds = 3600"
definition runtime_state_ttl_seconds :: int where "runtime_state_ttl_seconds = 6 * 3600"

definition ttl_ms :: "int \<Rightarrow> int \<Rightarrow> int option" where
  "ttl_ms now secs = Some (now + secs * 1000)"

lemma ttl_ms_alive [simp]: "0 \<le> secs \<Longrightarrow> alive now (ttl_ms now secs)"
  by (simp add: ttl_ms_def)

section \<open>State\<close>

datatype job_kind = JobStartActive | JobExpire | JobReadyTimeout

text \<open>
  What is pushed to a room: a replay event under its socket event name, the end-of-battle notice,
  or the notice that another member owns the lobby.
\<close>

datatype push =
  PushEvent ident battle_event
| PushEnd ident "ident option"
| PushOwner ident ident

record emission =
  em_roomId :: ident
  em_event :: string
  em_payload :: push

record rating_result =
  rr_battleId :: ident
  rr_winnerId :: "ident option"
  rr_participantIds :: "ident list"
  rr_rated :: bool

record battle_world =
  w_rows :: "battle_row list"
  w_runtime :: "(ident, runtime_battle) kv"
  w_ready :: "(ident, ident list) kv"
  w_invites :: "(string, ident) kv"
  w_events :: "(ident, battle_event list) kv"
  w_nonces :: "(ident \<times> ident, int) kv"
  w_locks :: "(ident, string) kv"
  w_jobs :: "(job_kind \<times> ident) \<Rightarrow> int option"
  w_sent :: "emission list"
  w_ratingQueue :: "rating_result list"

type_synonym 'a battle_op = "(battle_world, battle_error, 'a) op"

section \<open>The Redis state store\<close>

definition put :: "int \<Rightarrow> runtime_battle \<Rightarrow> unit battle_op" where
  "put now r = writes (\<lambda>w. w\<lparr>w_runtime := kv_put (w_runtime w) (rb_battleId r)
     (r\<lparr>rb_updatedAt := now\<rparr>) (ttl_ms now runtime_state_ttl_seconds)\<rparr>)"

definition get_runtime :: "int \<Rightarrow> ident \<Rightarrow> runtime_battle option battle_op" where
  "get_runtime now i = reads (\<lambda>w. kv_get now (w_runtime w) i)"

definition delete_state :: "ident \<Rightarrow> unit battle_op" where
  "delete_state i = writes (\<lambda>w. w\<lparr>w_runtime := kv_del (w_runtime w) i,
     w_ready := kv_del (w_ready w) i, w_events := kv_del (w_events w) i\<rparr>)"

definition setReady :: "int \<Rightarrow> ident \<Rightarrow> ident \<Rightarrow> ident list battle_op" where
  "setReady now i u = then_op
     (writes (\<lambda>w. w\<lparr>w_ready := kv_put (w_ready w) i (List.insert u (kv_list now (w_ready w) i))
        (ttl_ms now runtime_state_ttl_seconds)\<rparr>))
     (reads (\<lambda>w. kv_list now (w_ready w) i))"

definition getReady :: "int \<Rightarrow> ident \<Rightarrow> ident list battle_op" where
  "getReady now i = reads (\<lambda>w. kv_list now (w_ready w) i)"

definition createInvite :: "int \<Rightarrow> string \<Rightarrow> ident \<Rightarrow> unit battle_op" where
  "createInvite now tok i =
     writes (\<lambda>w. w\<lparr>w_invites := kv_put (w_invites w) tok i (ttl_ms now invite_ttl_seconds)\<rparr>)"

definition resolveInvite :: "int \<Rightarrow> string \<Rightarrow> ident option battle_op" where
  "resolveInvite now tok = reads (\<lambda>w. kv_get now (w_invites w) tok)"

definition appendEvent :: "int \<Rightarrow> ident \<Rightarrow> battle_event \<Rightarrow> unit battle_op" where
  "appendEvent now i e = writes (\<lambda>w. w\<lparr>w_events := kv_put (w_events w) i
     (kv_list now (w_events w) i @ [e]) (ttl_ms now runtime_state_ttl_seconds)\<rparr>)"

definition listEvents :: "int \<Rightarrow> ident \<Rightarrow> battle_event list battle_op" where
  "listEvents now i = reads (\<lambda>w. kv_list now (w_events w) i)"

definition checkAndBumpNonce :: "int \<Rightarrow> ident \<Rightarrow> ident \<Rightarrow> int \<Rightarrow> bool battle_op" where
  "checkAndBumpNonce now i u n =
     bind_op (reads (\<lambda>w. case kv_get now (w_nonces w) (i, u) of None \<Rightarrow> 0 | Some c \<Rightarrow> c))
       (\<lambda>current. if n \<le> current then ret False
         else then_op (writes (\<lambda>w. w\<lparr>w_nonces :=
                kv_put (w_nonces w) (i, u) n (ttl_ms now runtime_state_ttl_seconds)\<rparr>))
              (ret True))"

subsection \<open>Compare-and-set\<close>

text \<open>
  One attempt of \<open>transition\<close> watches the key, reads it, checks the expected state, and writes the
  mutated record in a transaction that fails when another client wrote the key in between. The
  argument \<open>others\<close> gives, for each attempt, the writes other clients make between the read and
  the transaction: an attempt without any commits, one with some is repeated on what they left.
\<close>

datatype other_write = OtherPut runtime_battle "int option" | OtherDel

fun apply_other :: "ident \<Rightarrow> other_write \<Rightarrow> battle_world \<Rightarrow> battle_world" where
  "apply_other i (OtherPut r x) w = w\<lparr>w_runtime := kv_put (w_runtime w) i r x\<rparr>"
| "apply_other i OtherDel w = w\<lparr>w_runtime := kv_del (w_runtime w) i\<rparr>"

definition cas_attempts :: nat where "cas_attempts = 5"

fun transition_loop ::
  "nat \<Rightarrow> (nat \<Rightarrow> other_write list) \<Rightarrow> int \<Rightarrow> ident \<Rightarrow> runtime_state
     \<Rightarrow> (runtime_battle \<Rightarrow> runtime_battle) \<Rightarrow> runtime_battle battle_op" where
  "transition_loop 0 others now i expected mutate w =
     (Inl (InvalidTransition (state_name expected) ''contended''), w)"
| "transition_loop (Suc k) others now i expected mutate w =
     (case kv_get now (w_runtime w) i of
        None \<Rightarrow> (Inl (InvalidTransition ''MISSING'' ''ANY''), w)
      | Some current \<Rightarrow>
          if rb_state current \<noteq> expected
          then (Inl (InvalidTransition (state_name (rb_state current))
                       (''expected '' @ state_name expected)), w)
          else (let next' = (mutate current)\<lparr>rb_updatedAt := now\<rparr>; os = others (cas_attempts - Suc k)
                in if os = []
                   then (Inr next', w\<lparr>w_runtime := kv_put (w_runtime w) i next'
                            (ttl_ms now runtime_state_ttl_seconds)\<rparr>)
                   else transition_loop k others now i expected mutate (fold (apply_other i) os w)))"

text \<open>A request that runs alone: no attempt is disturbed.\<close>

definition transition ::
  "int \<Rightarrow> ident \<Rightarrow> runtime_state \<Rightarrow> (runtime_battle \<Rightarrow> runtime_battle) \<Rightarrow> runtime_battle battle_op" where
  "transition now i expected mutate = transition_loop cas_attempts (\<lambda>_. []) now i expected mutate"

subsection \<open>The lease lock\<close>

definition lock_lease_ms :: int where "lock_lease_ms = 5000"
definition lock_attempts :: nat where "lock_attempts = 50"

fun acquire :: "nat \<Rightarrow> int \<Rightarrow> ident \<Rightarrow> battle_world \<Rightarrow> int option" where
  "acquire 0 now i w = None"
| "acquire (Suc k) now i w =
     (if kv_get now (w_locks w) i = None then Some now else acquire k (now + 100) i w)"

definition release :: "int \<Rightarrow> ident \<Rightarrow> string \<Rightarrow> battle_world \<Rightarrow> battle_world" where
  "release now i tok w =
     (if kv_get now (w_locks w) i = Some tok
      then w\<lparr>w_locks := kv_del (w_locks w) i\<rparr> else w)"

text \<open>The critical section runs at the instant the lease was obtained.\<close>

definition withLock :: "int \<Rightarrow> string \<Rightarrow> ident \<Rightarrow> (int \<Rightarrow> 'a battle_op) \<Rightarrow> 'a battle_op" where
  "withLock now tok i f w =
     (case acquire lock_attempts now i w of
        None \<Rightarrow> (Inl ReplayDetected, w)
      | Some t \<Rightarrow>
          (case f t (w\<lparr>w_locks := kv_put (w_locks w) i tok (Some (t + lock_lease_ms))\<rparr>) of
             (r, w') \<Rightarrow> (r, release t i tok w')))"

section \<open>The scheduler\<close>

text \<open>
  A delayed job is identified by its kind and battle; adding an identifier that is already
  queued leaves the queued job as it is, as the queue library documents for a repeated job id.
\<close>

definition add_job :: "job_kind \<Rightarrow> int \<Rightarrow> ident \<Rightarrow> int \<Rightarrow> unit battle_op" where
  "add_job k now i delayMs = writes (\<lambda>w. case w_jobs w (k, i) of
      None \<Rightarrow> w\<lparr>w_jobs := (w_jobs w)((k, i) := Some (now + delayMs))\<rparr>
    | Some _ \<Rightarrow> w)"

definition scheduleStartActive :: "int \<Rightarrow> ident \<Rightarrow> int \<Rightarrow> unit battle_op" where
  "scheduleStartActive = add_job JobStartActive"

definition scheduleExpiry :: "int \<Rightarrow> ident \<Rightarrow> int \<Rightarrow> unit battle_op" where
  "scheduleExpiry = add_job JobExpire"

definition scheduleReadyTimeout :: "int \<Rightarrow> ident \<Rightarrow> int \<Rightarrow> unit battle_op" where
  "scheduleReadyTimeout = add_job JobReadyTimeout"

definition cancelAll :: "ident \<Rightarrow> unit battle_op" where
  "cancelAll i = writes (\<lambda>w. w\<lparr>w_jobs := (w_jobs w)
     ((JobStartActive, i) := None, (JobExpire, i) := None, (JobReadyTimeout, i) := None)\<rparr>)"

section \<open>Outbound adapters\<close>

definition emitToRoom :: "ident \<Rightarrow> string \<Rightarrow> push \<Rightarrow> unit battle_op" where
  "emitToRoom room ev p = writes (\<lambda>w. w\<lparr>w_sent := w_sent w @
     [\<lparr>em_roomId = room, em_event = ev, em_payload = p\<rparr>]\<rparr>)"

definition publishBattleResult :: "rating_result \<Rightarrow> unit battle_op" where
  "publishBattleResult p = writes (\<lambda>w.
     if rr_rated p then w\<lparr>w_ratingQueue := w_ratingQueue w @ [p]\<rparr> else w)"

end
