(* ===== verification/BattleRepo.thy ===== *)
theory BattleRepo
  imports BattleStore
begin

text \<open>
  The durable side of the battle engine: battles/repositories (the Prisma queries over the battle,
  room and participant rows) and the room rules of battles/services/room.service.ts. A row holds
  its room and participants, as the relation the repository always includes. References to users
  and problems are not checked: those tables are outside the engine.
\<close>

section \<open>Repository\<close>

definition update_row :: "ident \<Rightarrow> (battle_row \<Rightarrow> battle_row) \<Rightarrow> battle_row list \<Rightarrow> battle_row list" where
  "update_row i f rows = map (\<lambda>b. if b_id b = i then f b else b) rows"

definition find_row :: "ident \<Rightarrow> battle_row list \<Rightarrow> battle_row option" where
  "find_row i rows = List.find (\<lambda>b. b_id b = i) rows"

record room_input =
  ri_code :: string
  ri_name :: string
  ri_type :: room_type
  ri_maxParticipants :: nat
  ri_isPrivate :: bool
  ri_battleType :: battle_type

record battle_input =
  bi_mode :: battle_mode
  bi_rated :: bool
  bi_problemId :: ident

text \<open>The database generates the two identifiers (\<open>roomId\<close>, \<open>battleId\<close>).\<close>

definition createRoomWithBattle ::
  "int \<Rightarrow> ident \<Rightarrow> ident \<Rightarrow> room_input \<Rightarrow> battle_input \<Rightarrow> ident \<Rightarrow> battle_row battle_op" where
  "createRoomWithBattle now roomId battleId ri bi hostId w =
     (if \<exists>b \<in> set (w_rows w). rm_code (b_room b) = ri_code ri
      then (Inl (InternalError ''rooms.code''), w)
      else (let row = \<lparr>b_id = battleId, b_roomId = roomId, b_problemId = bi_problemId bi,
               b_mode = bi_mode bi, b_status = StScheduled, b_rated = bi_rated bi,
               b_startedAt = None, b_endedAt = None, b_winnerId = None, b_createdAt = now,
               b_room = \<lparr>rm_code = ri_code ri, rm_name = ri_name ri, rm_type = ri_type ri,
                 rm_status = RoomWaiting, rm_hostId = hostId,
                 rm_maxParticipants = ri_maxParticipants ri, rm_isPrivate = ri_isPrivate ri,
                 rm_battleType = Some (ri_battleType ri),
                 rm_participants = [\<lparr>rp_userId = hostId, rp_joinedAt = now, rp_leftAt = None\<rparr>]\<rparr>,
               b_participants = [\<lparr>bp_userId = hostId, bp_score = 0, bp_rank = None\<rparr>]\<rparr>
            in (Inr row, w\<lparr>w_rows := w_rows w @ [row]\<rparr>)))"

definition findById :: "ident \<Rightarrow> battle_row option battle_op" where
  "findById i = reads (\<lambda>w. find_row i (w_rows w))"

definition findByRoomCode :: "string \<Rightarrow> battle_row option battle_op" where
  "findByRoomCode code = bind_op
     (reads (\<lambda>w. List.find (\<lambda>b. rm_code (b_room b) = code) (w_rows w)))
     (\<lambda>room. case room of None \<Rightarrow> ret None | Some b \<Rightarrow> findById (b_id b))"

definition upsert_room_participant :: "int \<Rightarrow> ident \<Rightarrow> room_row \<Rightarrow> room_row" where
  "upsert_room_participant now u r = r\<lparr>rm_participants :=
     (if \<exists>p \<in> set (rm_participants r). rp_userId p = u
      then map (\<lambda>p. if rp_userId p = u then p\<lparr>rp_leftAt := None\<rparr> else p) (rm_participants r)
      else rm_participants r @ [\<lparr>rp_userId = u, rp_joinedAt = now, rp_leftAt = None\<rparr>])\<rparr>"

definition upsert_battle_participant :: "ident \<Rightarrow> battle_participant list \<Rightarrow> battle_participant list" where
  "upsert_battle_participant u ps =
     (if \<exists>p \<in> set ps. bp_userId p = u then ps
      else ps @ [\<lparr>bp_userId = u, bp_score = 0, bp_rank = None\<rparr>])"

definition addParticipant :: "int \<Rightarrow> ident \<Rightarrow> ident \<Rightarrow> ident \<Rightarrow> unit battle_op" where
  "addParticipant now battleId roomId u = writes (\<lambda>w. w\<lparr>w_rows :=
     update_row battleId (\<lambda>b. b\<lparr>b_participants := upsert_battle_participant u (b_participants b)\<rparr>)
       (map (\<lambda>b. if b_roomId b = roomId
                 then b\<lparr>b_room := upsert_room_participant now u (b_room b)\<rparr> else b) (w_rows w))\<rparr>)"

definition mark_left :: "int \<Rightarrow> ident \<Rightarrow> room_row \<Rightarrow> room_row" where
  "mark_left now u r = r\<lparr>rm_participants :=
     map (\<lambda>p. if rp_userId p = u \<and> rp_leftAt p = None then p\<lparr>rp_leftAt := Some now\<rparr> else p)
       (rm_participants r)\<rparr>"

definition removeParticipant :: "int \<Rightarrow> ident \<Rightarrow> ident \<Rightarrow> unit battle_op" where
  "removeParticipant now roomId u = writes (\<lambda>w. w\<lparr>w_rows :=
     map (\<lambda>b. if b_roomId b = roomId then b\<lparr>b_room := mark_left now u (b_room b)\<rparr> else b)
       (w_rows w)\<rparr>)"

text \<open>An update addresses one existing row; the client throws when there is none.\<close>

definition update_existing :: "ident \<Rightarrow> (battle_row \<Rightarrow> battle_row) \<Rightarrow> unit battle_op" where
  "update_existing i f = bind_op (reads (\<lambda>w. find_row i (w_rows w)))
     (\<lambda>r. case r of None \<Rightarrow> throw (InternalError ''battles.id'')
          | Some _ \<Rightarrow> writes (\<lambda>w. w\<lparr>w_rows := update_row i f (w_rows w)\<rparr>))"

definition markStarted :: "ident \<Rightarrow> int \<Rightarrow> unit battle_op" where
  "markStarted i startedAt =
     update_existing i (\<lambda>b. b\<lparr>b_status := StInProgress, b_startedAt := Some startedAt\<rparr>)"

record rank_row =
  rk_userId :: ident
  rk_rank :: nat
  rk_score :: int

definition apply_rank :: "rank_row \<Rightarrow> battle_participant list \<Rightarrow> battle_participant list" where
  "apply_rank r ps =
     map (\<lambda>p. if bp_userId p = rk_userId r then p\<lparr>bp_rank := Some (rk_rank r), bp_score := rk_score r\<rparr>
              else p) ps"

definition finish_row :: "ident option \<Rightarrow> int \<Rightarrow> rank_row list \<Rightarrow> battle_row \<Rightarrow> battle_row" where
  "finish_row winnerId endedAt ranks b =
     b\<lparr>b_status := StFinished, b_endedAt := Some endedAt,
       b_winnerId := (if truthy_str winnerId then winnerId else None),
       b_room := (b_room b)\<lparr>rm_status := RoomCompleted\<rparr>,
       b_participants := fold apply_rank ranks (b_participants b)\<rparr>"

text \<open>The ranks are written in the same transaction: one for an unknown participant aborts it.\<close>

definition finish_repo :: "ident \<Rightarrow> ident option \<Rightarrow> int \<Rightarrow> rank_row list \<Rightarrow> unit battle_op" where
  "finish_repo i winnerId endedAt ranks = bind_op (reads (\<lambda>w. find_row i (w_rows w)))
     (\<lambda>r. case r of None \<Rightarrow> throw (InternalError ''battles.id'')
        | Some b \<Rightarrow>
            if \<forall>k \<in> set ranks. rk_userId k \<in> bp_userId ` set (b_participants b)
            then update_existing i (finish_row winnerId endedAt ranks)
            else throw (InternalError ''battle_participants''))"

definition abort_row :: "battle_row \<Rightarrow> battle_row" where
  "abort_row b = b\<lparr>b_status := StAborted, b_room := (b_room b)\<lparr>rm_status := RoomCancelled\<rparr>\<rparr>"

definition abort_repo :: "ident \<Rightarrow> unit battle_op" where
  "abort_repo i = bind_op (reads (\<lambda>w. find_row i (w_rows w)))
     (\<lambda>r. case r of None \<Rightarrow> ret () | Some _ \<Rightarrow> update_existing i abort_row)"

definition listHistoryForUser :: "ident \<Rightarrow> nat \<Rightarrow> nat \<Rightarrow> (battle_row list \<times> nat) battle_op" where
  "listHistoryForUser u page pageSize = reads (\<lambda>w.
     let hits = filter (\<lambda>b. (\<exists>p \<in> set (b_participants b). bp_userId p = u) \<and>
                  (b_status b = StFinished \<or> b_status b = StAborted)) (w_rows w);
         ordered = sort_key (\<lambda>b. - b_createdAt b) hits
     in (take pageSize (drop ((page - 1) * pageSize) ordered), length hits))"

section \<open>Room rules\<close>

definition code_alphabet :: string where
  "code_alphabet = ''ABCDEFGHJKLMNPQRSTUVWXYZ23456789''"

text \<open>\<open>bytes\<close> are the random bytes the runtime supplies, one for each character of the code.\<close>

definition generateCode :: "nat list \<Rightarrow> string" where
  "generateCode bytes =
     map (\<lambda>i. code_alphabet ! ((bytes ! i) mod length code_alphabet)) [0..<code_length]"

definition active_members :: "battle_row \<Rightarrow> room_participant list" where
  "active_members b = filter (\<lambda>p. rp_leftAt p = None) (rm_participants (b_room b))"

definition assertJoinable :: "battle_row \<Rightarrow> unit battle_op" where
  "assertJoinable b =
     (if rm_status (b_room b) \<noteq> RoomWaiting then throw RoomClosed
      else if length (active_members b) \<ge> rm_maxParticipants (b_room b)
      then throw (RoomFull (rm_maxParticipants (b_room b)))
      else ret ())"

definition isHost :: "battle_row \<Rightarrow> ident \<Rightarrow> bool" where
  "isHost b u \<longleftrightarrow> rm_hostId (b_room b) = u"

definition isParticipant :: "battle_row \<Rightarrow> ident \<Rightarrow> bool" where
  "isParticipant b u \<longleftrightarrow> (\<exists>p \<in> set (b_participants b). bp_userId p = u)"

definition nextOwner :: "battle_row \<Rightarrow> ident \<Rightarrow> ident option" where
  "nextOwner b leaving =
     (let remaining = sort_key rp_joinedAt
            (filter (\<lambda>p. rp_leftAt p = None \<and> rp_userId p \<noteq> leaving) (rm_participants (b_room b)))
      in case remaining of [] \<Rightarrow> None | p # _ \<Rightarrow> Some (rp_userId p))"

end
