(* ===== verification/BattleService.thy ===== *)
theory BattleService
  imports BattleRepo
begin

text \<open>
  battles/services/battle.service.ts, one definition per method, with the response mapping of
  battles/dto and the workers that call the service (battles/scheduler, battles/gateway). A
  request runs alone at one instant \<open>now\<close>; a request that waits for the lock goes on at the
  instant it obtained it. Random values and generated identifiers are arguments.
\<close>

section \<open>Requests and responses\<close>

record create_battle_dto =
  cd_type :: battle_type
  cd_mode :: battle_mode
  cd_problemId :: "ident option"
  cd_rated :: bool
  cd_isPrivate :: bool
  cd_name :: string
  cd_capacity :: nat
  cd_durationMs :: "int option"

record join_dto =
  jd_battleId :: "ident option"
  jd_code :: "string option"
  jd_inviteToken :: "string option"

record fresh_values =
  fr_bytes :: "nat list"
  fr_inviteToken :: string
  fr_lockToken :: string
  fr_roomId :: ident
  fr_battleId :: ident

record verdict_msg =
  v_battleId :: ident
  v_userId :: ident
  v_submissionId :: ident
  v_status :: string
  v_passed :: int
  v_total :: int
  v_runtimeMs :: "int option"
  v_language :: "string option"
  v_isFinal :: "bool option"

record battle_dto =
  d_id :: ident
  d_roomId :: ident
  d_roomCode :: string
  d_hostId :: ident
  d_mode :: battle_mode
  d_status :: battle_status
  d_runtimeState :: "runtime_state option"
  d_rated :: bool
  d_problemId :: "ident option"
  d_participants :: "battle_participant list"
  d_startedAt :: "int option"
  d_endedAt :: "int option"
  d_winnerId :: "ident option"
  d_createdAt :: int

definition toBattleDto :: "battle_row \<Rightarrow> runtime_battle option \<Rightarrow> battle_dto" where
  "toBattleDto b runtime =
     \<lparr>d_id = b_id b, d_roomId = b_roomId b, d_roomCode = rm_code (b_room b),
      d_hostId = rm_hostId (b_room b), d_mode = b_mode b, d_status = b_status b,
      d_runtimeState = map_option rb_state runtime, d_rated = b_rated b,
      d_problemId = coalesce (Option.bind runtime rb_problemId) (Some (b_problemId b)),
      d_participants = b_participants b, d_startedAt = b_startedAt b, d_endedAt = b_endedAt b,
      d_winnerId = b_winnerId b, d_createdAt = b_createdAt b\<rparr>"

record replay_dto =
  rd_battleId :: ident
  rd_events :: "battle_event list"
  rd_totalEvents :: nat

definition toReplayDto :: "ident \<Rightarrow> battle_event list \<Rightarrow> replay_dto" where
  "toReplayDto i events = \<lparr>rd_battleId = i, rd_events = events, rd_totalEvents = length events\<rparr>"

section \<open>Helpers\<close>

definition load :: "ident \<Rightarrow> battle_row battle_op" where
  "load i = bind_op (findById i) (of_option (BattleNotFound i))"

definition emitAndLog :: "int \<Rightarrow> battle_row \<Rightarrow> string \<Rightarrow> battle_event \<Rightarrow> unit battle_op" where
  "emitAndLog now b ev e =
     then_op (appendEvent now (b_id b) e) (emitToRoom (b_roomId b) ev (PushEvent (b_id b) e))"

definition nextSeq :: "battle_event list \<Rightarrow> nat" where
  "nextSeq events = (if events = [] then 1 else ev_seq (last events) + 1)"

definition assertNotReplay :: "int \<Rightarrow> ident \<Rightarrow> ident \<Rightarrow> int \<Rightarrow> unit battle_op" where
  "assertNotReplay now i u nonce =
     bind_op (checkAndBumpNonce now i u nonce) (\<lambda>ok. guard_op ok ReplayDetected)"

definition guardedTransition ::
  "int \<Rightarrow> ident \<Rightarrow> runtime_state \<Rightarrow> runtime_state \<Rightarrow> (runtime_battle \<Rightarrow> runtime_battle)
     \<Rightarrow> runtime_battle battle_op" where
  "guardedTransition now i from to mutate =
     then_op (guard_op (canTransition from to) (InvalidTransition (state_name from) (state_name to)))
       (transition now i from mutate)"

definition state_event :: "nat \<Rightarrow> int \<Rightarrow> runtime_state \<Rightarrow> string option \<Rightarrow> battle_event" where
  "state_event seq at st note =
     \<lparr>ev_seq = seq, ev_at = at, ev_type = EvState, ev_userId = None, ev_state = Some st,
      ev_submission = None, ev_note = note\<rparr>"

definition participant_event :: "nat \<Rightarrow> int \<Rightarrow> ident \<Rightarrow> string \<Rightarrow> battle_event" where
  "participant_event seq at u note =
     \<lparr>ev_seq = seq, ev_at = at, ev_type = EvParticipant, ev_userId = Some u, ev_state = None,
      ev_submission = None, ev_note = Some note\<rparr>"

section \<open>Create and join\<close>

definition room_type_of :: "battle_type \<Rightarrow> room_type" where
  "room_type_of t = (if t = TypeCollaboration then RtCollaboration
     else if t = TypeInterview then RtInterview else RtBattle)"

definition create :: "int \<Rightarrow> fresh_values \<Rightarrow> create_battle_dto \<Rightarrow> ident \<Rightarrow> (battle_dto \<times> string) battle_op" where
  "create now fr dto actor =
     (case cd_problemId dto of
        None \<Rightarrow> throw (Forbidden ''problemId is required to create a battle'')
      | Some pid \<Rightarrow>
          if pid = [] then throw (Forbidden ''problemId is required to create a battle'')
          else bind_op
            (createRoomWithBattle now (fr_roomId fr) (fr_battleId fr)
               \<lparr>ri_code = generateCode (fr_bytes fr), ri_name = cd_name dto,
                ri_type = room_type_of (cd_type dto), ri_maxParticipants = cd_capacity dto,
                ri_isPrivate = (cd_isPrivate dto \<or> cd_type dto = TypePrivate),
                ri_battleType = cd_type dto\<rparr>
               \<lparr>bi_mode = cd_mode dto, bi_rated = (cd_rated dto \<and> cd_type dto \<noteq> TypePractice),
                bi_problemId = pid\<rparr> actor)
            (\<lambda>created. let runtime =
                \<lparr>rb_battleId = b_id created, rb_roomId = b_roomId created, rb_hostId = actor,
                 rb_mode = b_mode created, rb_type = cd_type dto, rb_rated = b_rated created,
                 rb_state = WAITING, rb_problemId = Some (b_problemId created),
                 rb_participantIds = [actor], rb_startedAt = None,
                 rb_durationMs = (case cd_durationMs dto of None \<Rightarrow> default_duration_ms | Some d \<Rightarrow> d),
                 rb_pausedAt = None, rb_winnerId = None, rb_updatedAt = now\<rparr>
              in then_op (put now runtime)
                (then_op (createInvite now (fr_inviteToken fr) (b_id created))
                (then_op (scheduleReadyTimeout now (b_id created) ready_timeout_ms)
                (ret (toBattleDto created (Some runtime), fr_inviteToken fr))))))"

definition join_locked :: "ident \<Rightarrow> ident \<Rightarrow> int \<Rightarrow> battle_dto battle_op" where
  "join_locked i actor now =
     bind_op (findById i) (\<lambda>found. bind_op (of_option (InternalError ''null'') found) (\<lambda>b.
     then_op (guard_op (\<not> isParticipant b actor) AlreadyJoined)
     (then_op (assertJoinable b)
     (then_op (addParticipant now (b_id b) (b_roomId b) actor)
     (bind_op (get_runtime now (b_id b)) (\<lambda>r.
        let r' = map_option (\<lambda>rt. rt\<lparr>rb_participantIds := js_set (rb_participantIds rt @ [actor])\<rparr>) r
        in then_op (case r' of None \<Rightarrow> ret () | Some rt \<Rightarrow> put now rt)
     (bind_op (load (b_id b)) (\<lambda>fresh.
      bind_op (listEvents now (b_id b)) (\<lambda>events.
      then_op (emitAndLog now fresh ''battle:join'' (participant_event (nextSeq events) now actor ''joined''))
        (ret (toBattleDto fresh r')))))))))))"

definition join_target :: "int \<Rightarrow> join_dto \<Rightarrow> battle_row battle_op" where
  "join_target now dto =
     bind_op
       (if \<not> truthy_str (jd_battleId dto) \<and> truthy_str (jd_inviteToken dto)
        then bind_op (resolveInvite now (the (jd_inviteToken dto)))
               (\<lambda>r. if truthy_str r then ret r else throw InvalidInvite)
        else ret (jd_battleId dto))
       (\<lambda>bid. bind_op
          (if truthy_str bid then findById (the bid)
           else if truthy_str (jd_code dto) then findByRoomCode (the (jd_code dto))
           else ret None)
          (of_option (BattleNotFound
             (the (coalesce (jd_battleId dto) (coalesce (jd_code dto) (Some ''invite'')))))))"

definition join :: "int \<Rightarrow> fresh_values \<Rightarrow> join_dto \<Rightarrow> ident \<Rightarrow> battle_dto battle_op" where
  "join now fr dto actor = bind_op (join_target now dto)
     (\<lambda>b. withLock now (fr_lockToken fr) (b_id b) (join_locked (b_id b) actor))"

section \<open>Ready, countdown, activation\<close>

definition startCountdown :: "int \<Rightarrow> ident \<Rightarrow> ident \<Rightarrow> battle_dto battle_op" where
  "startCountdown now i actor =
     bind_op (load i) (\<lambda>b.
     then_op (guard_op (isHost b actor) NotHost)
     (bind_op (guardedTransition now i WAITING COUNTDOWN (\<lambda>r. r\<lparr>rb_state := COUNTDOWN\<rparr>)) (\<lambda>runtime.
      bind_op (listEvents now i) (\<lambda>events.
      then_op (emitAndLog now b ''countdown'' (state_event (nextSeq events) now COUNTDOWN (Some ''5s'')))
      (then_op (scheduleStartActive now i (countdown_seconds * 1000))
        (ret (toBattleDto b (Some runtime))))))))"

definition markReady :: "int \<Rightarrow> ident \<Rightarrow> ident \<Rightarrow> (ident list \<times> bool) battle_op" where
  "markReady now i actor =
     bind_op (load i) (\<lambda>b.
     then_op (guard_op (isParticipant b actor) (Forbidden ''Not a participant''))
     (bind_op (setReady now i actor) (\<lambda>ready.
        let active = map rp_userId (active_members b);
            everyoneReady = (length active \<ge> 2 \<and> (\<forall>u \<in> set active. u \<in> set ready))
        in if everyoneReady
           then then_op (startCountdown now i (rm_hostId (b_room b))) (ret (ready, True))
           else ret (ready, False))))"

definition activate :: "int \<Rightarrow> ident \<Rightarrow> unit battle_op" where
  "activate now i =
     bind_op (load i) (\<lambda>b.
     bind_op (guardedTransition now i COUNTDOWN ACTIVE
        (\<lambda>r. r\<lparr>rb_state := ACTIVE, rb_startedAt := Some now\<rparr>)) (\<lambda>runtime.
     then_op (markStarted i now)
     (bind_op (listEvents now i) (\<lambda>events.
      then_op (emitAndLog now b ''battle:start'' (state_event (nextSeq events) now ACTIVE (rb_problemId runtime)))
        (scheduleExpiry now i (rb_durationMs runtime))))))"

section \<open>Pause and resume\<close>

definition pause :: "int \<Rightarrow> ident \<Rightarrow> int \<Rightarrow> ident \<Rightarrow> battle_dto battle_op" where
  "pause now i nonce actor =
     then_op (assertNotReplay now i actor nonce)
     (bind_op (load i) (\<lambda>b.
      then_op (guard_op (isHost b actor) NotHost)
      (bind_op (guardedTransition now i ACTIVE PAUSED
          (\<lambda>r. r\<lparr>rb_state := PAUSED, rb_pausedAt := Some now\<rparr>)) (\<lambda>runtime.
       bind_op (listEvents now i) (\<lambda>events.
       then_op (emitAndLog now b ''battle:pause'' (state_event (nextSeq events) now PAUSED None))
         (ret (toBattleDto b (Some runtime))))))))"

definition resume_mutate :: "int \<Rightarrow> runtime_battle \<Rightarrow> runtime_battle" where
  "resume_mutate now r =
     (let pausedMs = (if truthy_int (rb_pausedAt r) then now - the (rb_pausedAt r) else 0)
      in r\<lparr>rb_state := ACTIVE, rb_pausedAt := None, rb_durationMs := rb_durationMs r + pausedMs\<rparr>)"

definition resume :: "int \<Rightarrow> ident \<Rightarrow> int \<Rightarrow> ident \<Rightarrow> battle_dto battle_op" where
  "resume now i nonce actor =
     then_op (assertNotReplay now i actor nonce)
     (bind_op (load i) (\<lambda>b.
      then_op (guard_op (isHost b actor) NotHost)
      (bind_op (guardedTransition now i PAUSED ACTIVE (resume_mutate now)) (\<lambda>runtime.
       bind_op (listEvents now i) (\<lambda>events.
       then_op (emitAndLog now b ''battle:resume'' (state_event (nextSeq events) now ACTIVE None))
         (ret (toBattleDto b (Some runtime))))))))"

section \<open>Finish, cancel, leave\<close>

definition computeRanks :: "battle_row \<Rightarrow> ident option \<Rightarrow> rank_row list" where
  "computeRanks b winnerId = sort_key rk_rank
     (map (\<lambda>p. \<lparr>rk_userId = bp_userId p,
                rk_rank = (if Some (bp_userId p) = winnerId then 1 else 2),
                rk_score = (if Some (bp_userId p) = winnerId then 100 else bp_score p)\<rparr>)
        (b_participants b))"

definition finalize ::
  "int \<Rightarrow> battle_row \<Rightarrow> runtime_battle \<Rightarrow> ident option \<Rightarrow> string \<Rightarrow> battle_dto battle_op" where
  "finalize now b runtime winnerId reason =
     then_op (finish_repo (b_id b) winnerId now (computeRanks b winnerId))
     (then_op (cancelAll (b_id b))
     (bind_op (listEvents now (b_id b)) (\<lambda>events.
      then_op (emitAndLog now b ''winner''
        ((state_event (nextSeq events) now FINISHED (Some reason))\<lparr>ev_userId := winnerId\<rparr>))
      (then_op (emitToRoom (b_roomId b) ''battle:end'' (PushEnd (b_id b) winnerId))
      (then_op (publishBattleResult \<lparr>rr_battleId = b_id b, rr_winnerId = winnerId,
          rr_participantIds = rb_participantIds runtime, rr_rated = rb_rated runtime\<rparr>)
      (then_op (delete_state (b_id b))
      (bind_op (load (b_id b)) (\<lambda>fresh.
        ret (toBattleDto fresh (Some (runtime\<lparr>rb_state := FINISHED, rb_winnerId := winnerId\<rparr>)))))))))))"

definition finish_locked ::
  "ident \<Rightarrow> ident option \<Rightarrow> ident \<Rightarrow> int \<Rightarrow> battle_dto battle_op" where
  "finish_locked i dtoWinner actor now =
     bind_op (load i) (\<lambda>b.
     then_op (guard_op (b_status b \<noteq> StFinished) BattleFinished)
     (then_op (guard_op (isHost b actor) NotHost)
     (bind_op (get_runtime now i) (\<lambda>r.
      bind_op (of_option (BattleNotFound i) r) (\<lambda>runtime.
      then_op (guard_op (rb_state runtime = ACTIVE \<or> rb_state runtime = PAUSED)
                 (InvalidTransition (state_name (rb_state runtime)) ''FINISHED''))
        (finalize now b runtime (coalesce dtoWinner (rb_winnerId runtime)) ''host_finish''))))))"

definition finish ::
  "int \<Rightarrow> fresh_values \<Rightarrow> ident \<Rightarrow> int \<Rightarrow> ident option \<Rightarrow> ident \<Rightarrow> battle_dto battle_op" where
  "finish now fr i nonce dtoWinner actor =
     then_op (assertNotReplay now i actor nonce)
       (withLock now (fr_lockToken fr) i (finish_locked i dtoWinner actor))"

definition cancelInternal ::
  "int \<Rightarrow> battle_row \<Rightarrow> runtime_battle \<Rightarrow> runtime_state \<Rightarrow> string \<Rightarrow> battle_dto battle_op" where
  "cancelInternal now b runtime to reason =
     then_op (abort_repo (b_id b))
     (then_op (cancelAll (b_id b))
     (bind_op (listEvents now (b_id b)) (\<lambda>events.
      then_op (emitAndLog now b ''battle:end'' (state_event (nextSeq events) now to (Some reason)))
      (then_op (delete_state (b_id b))
      (bind_op (load (b_id b)) (\<lambda>fresh.
        ret (toBattleDto fresh (Some (runtime\<lparr>rb_state := to\<rparr>)))))))))"

definition expire :: "int \<Rightarrow> ident \<Rightarrow> unit battle_op" where
  "expire now i =
     bind_op (get_runtime now i) (\<lambda>r. case r of None \<Rightarrow> ret ()
       | Some runtime \<Rightarrow> bind_op (load i) (\<lambda>b.
           if rb_state runtime = WAITING \<or> rb_state runtime = COUNTDOWN
           then then_op (cancelInternal now b runtime EXPIRED ''expired_in_lobby'') (ret ())
           else then_op (finalize now b runtime (rb_winnerId runtime) ''time_expired'') (ret ())))"

definition readyTimeout :: "int \<Rightarrow> ident \<Rightarrow> unit battle_op" where
  "readyTimeout now i =
     bind_op (get_runtime now i) (\<lambda>r. case r of None \<Rightarrow> ret ()
       | Some runtime \<Rightarrow> if rb_state runtime \<noteq> WAITING then ret ()
           else bind_op (load i) (\<lambda>b.
             then_op (cancelInternal now b runtime CANCELLED ''ready_timeout'') (ret ())))"

definition cancel :: "int \<Rightarrow> ident \<Rightarrow> ident \<Rightarrow> battle_dto battle_op" where
  "cancel now i actor =
     bind_op (load i) (\<lambda>b.
     then_op (guard_op (isHost b actor) NotHost)
     (bind_op (get_runtime now i) (\<lambda>r.
      bind_op (of_option (BattleNotFound i) r) (\<lambda>runtime.
      then_op (guard_op (rb_state runtime = WAITING \<or> rb_state runtime = COUNTDOWN)
                 (InvalidTransition (state_name (rb_state runtime)) ''CANCELLED''))
        (cancelInternal now b runtime CANCELLED ''host_cancel'')))))"

definition leave :: "int \<Rightarrow> ident \<Rightarrow> ident \<Rightarrow> unit battle_op" where
  "leave now i actor =
     bind_op (load i) (\<lambda>b.
     if \<not> isParticipant b actor then ret ()
     else then_op (removeParticipant now (b_roomId b) actor)
       (bind_op (listEvents now i) (\<lambda>events.
        then_op (emitAndLog now b ''battle:leave'' (participant_event (nextSeq events) now actor ''left''))
        (if \<not> isHost b actor then ret ()
         else bind_op (get_runtime now i) (\<lambda>r.
           case nextOwner b actor of
             Some nxt \<Rightarrow> if nxt \<noteq> [] then emitToRoom (b_roomId b) ''battle:update'' (PushOwner i nxt)
                else (case r of None \<Rightarrow> ret ()
                  | Some runtime \<Rightarrow> then_op (cancelInternal now b runtime CANCELLED ''host_left_empty'') (ret ()))
           | None \<Rightarrow> (case r of None \<Rightarrow> ret ()
                | Some runtime \<Rightarrow> then_op (cancelInternal now b runtime CANCELLED ''host_left_empty'') (ret ())))))))"

section \<open>Rematch and reads\<close>

definition rematch :: "int \<Rightarrow> fresh_values \<Rightarrow> ident \<Rightarrow> ident \<Rightarrow> (battle_dto \<times> string) battle_op" where
  "rematch now fr i actor =
     bind_op (load i) (\<lambda>previous.
     then_op (guard_op (b_status previous = StFinished \<or> b_status previous = StAborted)
                (InvalidTransition (status_name (b_status previous)) ''REMATCH''))
       (create now fr
          \<lparr>cd_type = (case rm_battleType (b_room previous) of None \<Rightarrow> TypeOneVsOne | Some t \<Rightarrow> t),
           cd_mode = b_mode previous, cd_problemId = Some (b_problemId previous),
           cd_rated = b_rated previous, cd_isPrivate = rm_isPrivate (b_room previous),
           cd_name = rm_name (b_room previous) @ '' (rematch)'',
           cd_capacity = rm_maxParticipants (b_room previous), cd_durationMs = None\<rparr> actor))"

definition getById :: "int \<Rightarrow> ident \<Rightarrow> battle_dto battle_op" where
  "getById now i = bind_op (load i) (\<lambda>b. bind_op (get_runtime now i) (\<lambda>r. ret (toBattleDto b r)))"

definition history :: "ident \<Rightarrow> nat \<Rightarrow> nat \<Rightarrow> (battle_dto list \<times> nat) battle_op" where
  "history u page pageSize = bind_op (listHistoryForUser u page pageSize)
     (\<lambda>(rows, total). ret (map (\<lambda>b. toBattleDto b None) rows, total))"

definition replay :: "int \<Rightarrow> ident \<Rightarrow> replay_dto battle_op" where
  "replay now i = then_op (load i) (bind_op (listEvents now i) (\<lambda>events. ret (toReplayDto i events)))"

section \<open>Verdicts\<close>

definition mapVerdict :: "string \<Rightarrow> bool option \<Rightarrow> submission_event" where
  "mapVerdict status isFinal =
     (if isFinal = Some True then FINAL_SUBMISSION
      else if status = ''ACCEPTED'' then EV_ACCEPTED
      else if status = ''WRONG_ANSWER'' then EV_WRONG_ANSWER
      else if status = ''TIME_LIMIT_EXCEEDED'' then EV_TIME_LIMIT_EXCEEDED
      else if status = ''MEMORY_LIMIT_EXCEEDED'' then EV_MEMORY_LIMIT_EXCEEDED
      else if status = ''RUNTIME_ERROR'' then EV_RUNTIME_ERROR
      else if status = ''COMPILATION_ERROR'' then EV_COMPILATION_ERROR
      else FIRST_COMPILE)"

definition submission_event_of :: "nat \<Rightarrow> int \<Rightarrow> verdict_msg \<Rightarrow> battle_event" where
  "submission_event_of seq at v =
     \<lparr>ev_seq = seq, ev_at = at, ev_type = EvSubmission, ev_userId = Some (v_userId v),
      ev_state = None,
      ev_submission = Some \<lparr>si_submissionId = v_submissionId v,
        si_event = mapVerdict (v_status v) (v_isFinal v), si_language = v_language v,
        si_passed = v_passed v, si_total = v_total v, si_runtimeMs = v_runtimeMs v\<rparr>,
      ev_note = None\<rparr>"

definition claim_win :: "battle_row \<Rightarrow> verdict_msg \<Rightarrow> int \<Rightarrow> unit battle_op" where
  "claim_win b v now =
     bind_op (get_runtime now (v_battleId v)) (\<lambda>r. case r of None \<Rightarrow> ret ()
       | Some latest \<Rightarrow> if truthy_str (rb_winnerId latest) then ret ()
           else let latest' = latest\<lparr>rb_winnerId := Some (v_userId v)\<rparr>
                in then_op (put now latest')
                     (then_op (finalize now b latest' (Some (v_userId v)) ''first_accepted'') (ret ())))"

definition recordSubmission :: "int \<Rightarrow> fresh_values \<Rightarrow> verdict_msg \<Rightarrow> unit battle_op" where
  "recordSubmission now fr v =
     bind_op (get_runtime now (v_battleId v)) (\<lambda>r. case r of None \<Rightarrow> ret ()
       | Some runtime \<Rightarrow> if rb_state runtime \<noteq> ACTIVE then ret ()
           else bind_op (load (v_battleId v)) (\<lambda>b.
             bind_op (listEvents now (v_battleId v)) (\<lambda>events.
             then_op (emitAndLog now b ''submission:update'' (submission_event_of (nextSeq events) now v))
             (if v_status v = ''ACCEPTED'' \<and> rb_mode runtime = ModeOneVsOne
                 \<and> \<not> truthy_str (rb_winnerId runtime)
              then withLock now (fr_lockToken fr) (v_battleId v) (claim_win b v)
              else ret ()))))"

section \<open>Workers and adapters\<close>

definition run_job :: "int \<Rightarrow> job_kind \<Rightarrow> ident \<Rightarrow> unit battle_op" where
  "run_job now k i = (case k of
      JobStartActive \<Rightarrow> activate now i
    | JobExpire \<Rightarrow> expire now i
    | JobReadyTimeout \<Rightarrow> readyTimeout now i)"

text \<open>The judge adapter logs a failed recording and goes on.\<close>

definition handle_verdict :: "int \<Rightarrow> fresh_values \<Rightarrow> verdict_msg \<Rightarrow> unit battle_op" where
  "handle_verdict now fr v w = (Inr (), snd (recordSubmission now fr v w))"

end
