(* ===== verification/BattleInv.thy ===== *)
theory BattleInv
  imports BattleService
begin

text \<open>
  The invariant of the battle engine and its preservation by every operation. Durable rows,
  ephemeral records, event logs and pending jobs are related: a stored runtime record is never
  terminal, projects on the durable status of its row and has the timer of its state pending.
\<close>

section \<open>Rows\<close>

definition participant_ids :: "battle_row \<Rightarrow> ident list" where
  "participant_ids b = map bp_userId (b_participants b)"

fun room_status_for :: "battle_status \<Rightarrow> room_status" where
  "room_status_for StScheduled = RoomWaiting"
| "room_status_for StInProgress = RoomWaiting"
| "room_status_for StFinished = RoomCompleted"
| "room_status_for StAborted = RoomCancelled"

definition row_ok :: "battle_row \<Rightarrow> bool" where
  "row_ok b \<longleftrightarrow> distinct (participant_ids b)
     \<and> map rp_userId (rm_participants (b_room b)) = participant_ids b
     \<and> length (active_members b) \<le> rm_maxParticipants (b_room b)
     \<and> 1 \<le> rm_maxParticipants (b_room b)
     \<and> rm_status (b_room b) = room_status_for (b_status b)
     \<and> (b_winnerId b \<noteq> None \<longrightarrow> b_status b = StFinished)
     \<and> (b_status b \<noteq> StScheduled \<longrightarrow> b_status b \<noteq> StAborted \<longrightarrow> b_startedAt b \<noteq> None)"

definition rows_ok :: "battle_row list \<Rightarrow> bool" where
  "rows_ok rows \<longleftrightarrow> distinct (map b_id rows) \<and> distinct (map b_roomId rows) \<and> (\<forall>b \<in> set rows. row_ok b)"

lemma find_row_Some: "find_row i rows = Some b \<Longrightarrow> b \<in> set rows \<and> b_id b = i"
  by (auto simp: find_row_def dest: find_Some_set)

lemma find_row_id: "find_row i rows = Some b \<Longrightarrow> b_id b = i"
  by (auto dest: find_row_Some)

lemma find_row_None: "find_row i rows = None \<longleftrightarrow> i \<notin> b_id ` set rows"
  by (auto simp: find_row_def find_None_iff)

lemma find_row_mem: "distinct (map b_id rows) \<Longrightarrow> b \<in> set rows \<Longrightarrow> find_row (b_id b) rows = Some b"
proof (induction rows)
  case (Cons a rows)
  then show ?case by (auto simp: find_row_def)
qed simp

lemma find_row_append:
  "find_row i (rows @ [b]) = (case find_row i rows of None \<Rightarrow> if b_id b = i then Some b else None | Some c \<Rightarrow> Some c)"
  by (induction rows) (auto simp: find_row_def)

lemma find_row_update:
  assumes "\<And>b. b_id (f b) = b_id b"
  shows "find_row j (update_row i f rows) = (if j = i then map_option f (find_row i rows) else find_row j rows)"
  by (induction rows) (auto simp: find_row_def update_row_def assms)

lemma rows_ok_update:
  assumes "rows_ok rows" and "find_row i rows = Some b"
    and "\<And>c. b_id (f c) = b_id c" and "\<And>c. b_roomId (f c) = b_roomId c" and "row_ok (f b)"
  shows "rows_ok (update_row i f rows)"
proof -
  have ids: "map b_id (update_row i f rows) = map b_id rows"
    by (simp add: update_row_def assms(3))
  have rooms: "map b_roomId (update_row i f rows) = map b_roomId rows"
    by (simp add: update_row_def assms(4))
  have "row_ok c" if c: "c \<in> set (update_row i f rows)" for c
  proof -
    from c obtain d where d: "d \<in> set rows" and c': "c = (if b_id d = i then f d else d)"
      by (auto simp: update_row_def)
    show ?thesis
    proof (cases "b_id d = i")
      case True
      with d assms(1,2) have "d = b" by (auto simp: rows_ok_def dest: find_row_mem)
      with True c' assms(5) show ?thesis by simp
    next
      case False
      with d c' assms(1) show ?thesis by (simp add: rows_ok_def)
    qed
  qed
  with assms(1) ids rooms show ?thesis by (simp add: rows_ok_def)
qed

lemma room_update_is_row_update:
  assumes "rows_ok rows" and "find_row i rows = Some b"
  shows "map (\<lambda>c. if b_roomId c = b_roomId b then f c else c) rows = update_row i f rows"
proof -
  from assms have b: "b \<in> set rows" "b_id b = i" by (auto dest: find_row_Some)
  from assms(1) have dr: "distinct (map b_roomId rows)" and di: "distinct (map b_id rows)"
    by (auto simp: rows_ok_def)
  have "b_roomId c = b_roomId b \<longleftrightarrow> b_id c = i" if "c \<in> set rows" for c
    using distinct_map_eqD[OF dr that b(1)] distinct_map_eqD[OF di that b(1)] b(2) by auto
  then show ?thesis by (auto simp: update_row_def intro!: map_cong)
qed

lemma rows_ok_row: "rows_ok rows \<Longrightarrow> find_row i rows = Some b \<Longrightarrow> row_ok b"
  by (auto simp: rows_ok_def dest: find_row_Some)

section \<open>Runtime records, jobs and logs\<close>

fun timer_of :: "runtime_state \<Rightarrow> job_kind" where
  "timer_of WAITING = JobReadyTimeout"
| "timer_of COUNTDOWN = JobStartActive"
| "timer_of _ = JobExpire"

definition runtime_ok :: "battle_row list \<Rightarrow> ident \<Rightarrow> runtime_battle \<Rightarrow> bool" where
  "runtime_ok rows i r \<longleftrightarrow> rb_battleId r = i \<and> \<not> isTerminal (rb_state r) \<and> rb_winnerId r = None
     \<and> (\<exists>b. find_row i rows = Some b \<and> b_status b = toPersistedStatus (rb_state r)
          \<and> b_roomId b = rb_roomId r \<and> rm_hostId (b_room b) = rb_hostId r \<and> b_mode b = rb_mode r
          \<and> b_rated b = rb_rated r \<and> set (rb_participantIds r) \<subseteq> set (participant_ids b))"

definition runtimes_ok ::
  "int \<Rightarrow> battle_row list \<Rightarrow> (ident, runtime_battle) kv \<Rightarrow> (job_kind \<times> ident \<Rightarrow> int option) \<Rightarrow> bool" where
  "runtimes_ok t rows rt jobs \<longleftrightarrow> (\<forall>i r x. rt i = Some (r, x) \<longrightarrow>
     runtime_ok rows i r \<and> (alive t x \<longrightarrow> jobs (timer_of (rb_state r), i) \<noteq> None))"

definition numbered :: "battle_event list \<Rightarrow> bool" where
  "numbered es \<longleftrightarrow> map ev_seq es = [1..<Suc (length es)]"

definition logs_ok :: "(ident, battle_event list) kv \<Rightarrow> bool" where
  "logs_ok ev \<longleftrightarrow> (\<forall>i es x. ev i = Some (es, x) \<longrightarrow> numbered es)"

definition battle_inv :: "int \<Rightarrow> battle_world \<Rightarrow> bool" where
  "battle_inv t w \<longleftrightarrow> rows_ok (w_rows w) \<and> runtimes_ok t (w_rows w) (w_runtime w) (w_jobs w)
     \<and> logs_ok (w_events w)"

lemma numbered_Nil [simp]: "numbered []"
  by (simp add: numbered_def)

lemma numbered_next: "numbered es \<Longrightarrow> nextSeq es = Suc (length es)"
proof (cases es rule: rev_cases)
  case (snoc ys y)
  assume "numbered es"
  with snoc show ?thesis by (simp add: numbered_def nextSeq_def)
qed (simp add: nextSeq_def)

lemma numbered_append: "numbered es \<Longrightarrow> ev_seq e = nextSeq es \<Longrightarrow> numbered (es @ [e])"
  by (simp add: numbered_next) (simp add: numbered_def)

lemma logs_ok_list: "logs_ok ev \<Longrightarrow> numbered (kv_list t ev i)"
  by (auto simp: logs_ok_def kv_list_def kv_get_def split: option.splits)

lemma logs_ok_append:
  "logs_ok ev \<Longrightarrow> ev_seq e = nextSeq (kv_list t ev i) \<Longrightarrow> logs_ok (kv_put ev i (kv_list t ev i @ [e]) x)"
  using numbered_append[OF logs_ok_list] by (auto simp: logs_ok_def kv_put_def)

lemma logs_ok_del: "logs_ok ev \<Longrightarrow> logs_ok (kv_del ev i)"
  by (auto simp: logs_ok_def kv_del_def split: if_splits)

lemma kv_del_put [simp]: "kv_del (kv_put m k v x) k = kv_del m k"
  by (simp add: kv_del_def kv_put_def)

lemma runtimes_okD:
  assumes "runtimes_ok t rows rt jobs" and "kv_get t rt i = Some r"
  shows "runtime_ok rows i r" and "jobs (timer_of (rb_state r), i) \<noteq> None"
  using assms by (auto simp: runtimes_ok_def kv_get_Some)

lemma runtimes_ok_later: "runtimes_ok t rows rt jobs \<Longrightarrow> t \<le> t' \<Longrightarrow> runtimes_ok t' rows rt jobs"
proof -
  assume "runtimes_ok t rows rt jobs" and "t \<le> t'"
  moreover from \<open>t \<le> t'\<close> have "alive t' x \<Longrightarrow> alive t x" for x by (cases x) auto
  ultimately show ?thesis by (auto simp: runtimes_ok_def)
qed

lemma runtime_ok_row_update:
  assumes "runtime_ok rows i r" and "\<And>c. b_id (f c) = b_id c"
    and "\<And>b. find_row i rows = Some b \<Longrightarrow> i = j \<Longrightarrow> b_status (f b) = b_status b \<and> b_roomId (f b) = b_roomId b
      \<and> rm_hostId (b_room (f b)) = rm_hostId (b_room b) \<and> b_mode (f b) = b_mode b \<and> b_rated (f b) = b_rated b
      \<and> set (participant_ids b) \<subseteq> set (participant_ids (f b))"
  shows "runtime_ok (update_row j f rows) i r"
proof -
  from assms(1) obtain b where b: "find_row i rows = Some b" "b_status b = toPersistedStatus (rb_state r)"
      "b_roomId b = rb_roomId r" "rm_hostId (b_room b) = rb_hostId r" "b_mode b = rb_mode r"
      "b_rated b = rb_rated r" "set (rb_participantIds r) \<subseteq> set (participant_ids b)"
    and r: "rb_battleId r = i" "\<not> isTerminal (rb_state r)" "rb_winnerId r = None"
    by (auto simp: runtime_ok_def)
  show ?thesis
  proof (cases "i = j")
    case True
    from assms(3)[OF b(1) True] b True
    have "find_row i (update_row j f rows) = Some (f b)" by (simp add: find_row_update assms(2))
    with assms(3)[OF b(1) True] b r show ?thesis unfolding runtime_ok_def by auto
  next
    case False
    then have "find_row i (update_row j f rows) = Some b" using b(1) by (simp add: find_row_update assms(2))
    with b r show ?thesis unfolding runtime_ok_def by auto
  qed
qed

text \<open>A row may change status when its runtime record goes away with its jobs.\<close>

lemma runtimes_ok_drop:
  assumes "runtimes_ok t rows rt jobs" and "\<And>c. b_id (f c) = b_id c"
    and "\<And>k j. j \<noteq> i \<Longrightarrow> jobs' (k, j) = jobs (k, j)"
  shows "runtimes_ok t (update_row i f rows) (kv_del rt i) jobs'"
  unfolding runtimes_ok_def
proof (intro allI impI)
  fix j r x assume "kv_del rt i j = Some (r, x)"
  then have j: "j \<noteq> i" "rt j = Some (r, x)" by (auto simp: kv_del_def split: if_splits)
  with assms(1) have "runtime_ok rows j r" "alive t x \<longrightarrow> jobs (timer_of (rb_state r), j) \<noteq> None"
    by (auto simp: runtimes_ok_def)
  with j assms(3) runtime_ok_row_update[of rows j r f i, OF _ assms(2)]
  show "runtime_ok (update_row i f rows) j r \<and> (alive t x \<longrightarrow> jobs' (timer_of (rb_state r), j) \<noteq> None)"
    by auto
qed

text \<open>A stored record is replaced by one that fits the (possibly updated) row.\<close>

lemma runtimes_ok_replace:
  assumes "runtimes_ok t rows rt jobs" and "\<And>c. b_id (f c) = b_id c"
    and "runtime_ok (update_row i f rows) i r" and "jobs' (timer_of (rb_state r), i) \<noteq> None"
    and "\<And>k j. jobs (k, j) \<noteq> None \<Longrightarrow> jobs' (k, j) \<noteq> None"
  shows "runtimes_ok t (update_row i f rows) (kv_put rt i r x) jobs'"
  unfolding runtimes_ok_def
proof (intro allI impI)
  fix j s y assume jj: "kv_put rt i r x j = Some (s, y)"
  show "runtime_ok (update_row i f rows) j s \<and> (alive t y \<longrightarrow> jobs' (timer_of (rb_state s), j) \<noteq> None)"
  proof (cases "j = i")
    case True
    with jj assms(3,4) show ?thesis by (simp add: kv_put_def)
  next
    case False
    with jj have "rt j = Some (s, y)" by (simp add: kv_put_def)
    with assms(1) have "runtime_ok rows j s" "alive t y \<longrightarrow> jobs (timer_of (rb_state s), j) \<noteq> None"
      by (auto simp: runtimes_ok_def)
    with False assms(5) runtime_ok_row_update[of rows j s f i, OF _ assms(2)] show ?thesis by auto
  qed
qed

end
