(* ===== verification/BattleSteps.thy ===== *)
theory BattleSteps
  imports BattleInv
begin

text \<open>
  What one operation does to a world that satisfies the invariant: the exact result of the two
  closing paths (\<open>finalize\<close>, \<open>cancelInternal\<close>), and for every operation that the invariant holds
  again, that durable rows only move forward and that a stored record only changes state along
  the transition table.
\<close>

lemmas store_defs = put_def get_runtime_def delete_state_def setReady_def getReady_def
  createInvite_def resolveInvite_def appendEvent_def listEvents_def checkAndBumpNonce_def
  add_job_def scheduleStartActive_def scheduleExpiry_def scheduleReadyTimeout_def cancelAll_def
  emitToRoom_def publishBattleResult_def findById_def findByRoomCode_def update_existing_def
  markStarted_def finish_repo_def abort_repo_def addParticipant_def removeParticipant_def
  load_def emitAndLog_def assertNotReplay_def

section \<open>Progress of rows and records\<close>

definition terminal_status :: "battle_status \<Rightarrow> bool" where
  "terminal_status s \<longleftrightarrow> s = StFinished \<or> s = StAborted"

definition row_evolves :: "battle_row \<Rightarrow> battle_row \<Rightarrow> bool" where
  "row_evolves b b' \<longleftrightarrow> status_rank (b_status b) \<le> status_rank (b_status b')
     \<and> (terminal_status (b_status b) \<longrightarrow>
          b_status b' = b_status b \<and> b_winnerId b' = b_winnerId b \<and> b_endedAt b' = b_endedAt b)
     \<and> rm_hostId (b_room b') = rm_hostId (b_room b) \<and> b_problemId b' = b_problemId b
     \<and> set (participant_ids b) \<subseteq> set (participant_ids b')"

definition rows_evolve :: "battle_row list \<Rightarrow> battle_row list \<Rightarrow> bool" where
  "rows_evolve rows rows' \<longleftrightarrow> (\<forall>i b. find_row i rows = Some b \<longrightarrow>
     (\<exists>b'. find_row i rows' = Some b' \<and> row_evolves b b'))"

definition state_evolves :: "runtime_battle option \<Rightarrow> runtime_battle option \<Rightarrow> bool" where
  "state_evolves before after \<longleftrightarrow> (case after of None \<Rightarrow> True
     | Some r' \<Rightarrow> (case before of None \<Rightarrow> rb_state r' = WAITING
         | Some r \<Rightarrow> rb_state r' = rb_state r \<or> canTransition (rb_state r) (rb_state r')))"

definition runtime_evolves :: "int \<Rightarrow> (ident, runtime_battle) kv \<Rightarrow> (ident, runtime_battle) kv \<Rightarrow> bool" where
  "runtime_evolves t rt rt' \<longleftrightarrow> (\<forall>i. state_evolves (kv_get t rt i) (kv_get t rt' i))"

definition good :: "int \<Rightarrow> battle_world \<Rightarrow> battle_world \<Rightarrow> bool" where
  "good t w w' \<longleftrightarrow> battle_inv t w' \<and> w_locks w' = w_locks w
     \<and> rows_evolve (w_rows w) (w_rows w') \<and> runtime_evolves t (w_runtime w) (w_runtime w')"

lemma row_evolves_refl [simp]: "row_evolves b b"
  by (simp add: row_evolves_def)

lemma rows_evolve_refl [simp]: "rows_evolve rows rows"
  by (simp add: rows_evolve_def)

lemma state_evolves_refl [simp]: "state_evolves r r" "state_evolves r None"
  by (simp_all add: state_evolves_def split: option.splits)

lemma runtime_evolves_refl [simp]: "runtime_evolves t rt rt"
  by (simp add: runtime_evolves_def)

lemma runtime_evolves_del [simp]: "runtime_evolves t rt (kv_del rt i)"
  by (simp add: runtime_evolves_def kv_get_del)

lemma good_same: "battle_inv t w \<Longrightarrow> good t w w"
  by (simp add: good_def)

lemma rows_evolve_update:
  assumes "find_row i rows = Some b" and "\<And>c. b_id (f c) = b_id c" and "row_evolves b (f b)"
  shows "rows_evolve rows (update_row i f rows)"
  using assms by (auto simp: rows_evolve_def find_row_update)

lemma runtime_evolves_put:
  assumes "kv_get t rt i = Some r" and "rb_state r' = rb_state r \<or> canTransition (rb_state r) (rb_state r')"
  shows "runtime_evolves t rt (kv_put rt i r' x)"
  using assms by (auto simp: runtime_evolves_def kv_get_put state_evolves_def split: option.splits)

lemma row_evolves_trans: "row_evolves a b \<Longrightarrow> row_evolves b c \<Longrightarrow> row_evolves a c"
  by (auto simp: row_evolves_def)

lemma rows_evolve_trans: "rows_evolve a b \<Longrightarrow> rows_evolve b c \<Longrightarrow> rows_evolve a c"
  unfolding rows_evolve_def by (meson row_evolves_trans)

text \<open>Two steps compose when at most the second touches the stored records.\<close>

lemma good_after:
  "good t w w1 \<Longrightarrow> w_runtime w1 = w_runtime w \<Longrightarrow> good t w1 w2 \<Longrightarrow> good t w w2"
  by (auto simp: good_def intro: rows_evolve_trans)

section \<open>Row updates\<close>

lemma finish_row_fields [simp]:
  "b_id (finish_row win t ranks b) = b_id b" "b_roomId (finish_row win t ranks b) = b_roomId b"
  "b_status (finish_row win t ranks b) = StFinished"
  "b_winnerId (finish_row win t ranks b) = (if truthy_str win then win else None)"
  "b_endedAt (finish_row win t ranks b) = Some t"
  "b_problemId (finish_row win t ranks b) = b_problemId b"
  "rm_hostId (b_room (finish_row win t ranks b)) = rm_hostId (b_room b)"
  by (simp_all add: finish_row_def)

lemma apply_ranks_ids: "map bp_userId (fold apply_rank ranks ps) = map bp_userId ps"
proof (induction ranks arbitrary: ps)
  case (Cons r ranks)
  have "map bp_userId (apply_rank r ps) = map bp_userId ps" by (simp add: apply_rank_def)
  with Cons show ?case by simp
qed simp

lemma finish_row_participants [simp]: "participant_ids (finish_row win t ranks b) = participant_ids b"
  by (simp add: participant_ids_def finish_row_def apply_ranks_ids)

lemma finish_row_ok: "row_ok b \<Longrightarrow> b_status b = StInProgress \<Longrightarrow> row_ok (finish_row win t ranks b)"
  by (simp add: row_ok_def) (simp add: finish_row_def active_members_def)

lemma abort_row_fields [simp]:
  "b_id (abort_row b) = b_id b" "b_roomId (abort_row b) = b_roomId b"
  "b_status (abort_row b) = StAborted" "b_winnerId (abort_row b) = b_winnerId b"
  "b_problemId (abort_row b) = b_problemId b"
  "rm_hostId (b_room (abort_row b)) = rm_hostId (b_room b)"
  "participant_ids (abort_row b) = participant_ids b"
  by (simp_all add: abort_row_def participant_ids_def)

lemma abort_row_ok: "row_ok b \<Longrightarrow> b_status b \<noteq> StFinished \<Longrightarrow> row_ok (abort_row b)"
  by (auto simp: row_ok_def) (auto simp: abort_row_def active_members_def)

lemma rank_users: "set (map rk_userId (computeRanks b win)) = set (participant_ids b)"
  by (force simp: computeRanks_def participant_ids_def)

lemma ranks_known: "\<forall>k \<in> set (computeRanks b win). rk_userId k \<in> bp_userId ` set (b_participants b)"
  using rank_users[of b win] by (auto simp: participant_ids_def)

section \<open>The closing paths\<close>

definition finalized :: "int \<Rightarrow> battle_row \<Rightarrow> runtime_battle \<Rightarrow> ident option \<Rightarrow> string \<Rightarrow> battle_world \<Rightarrow> battle_world" where
  "finalized now b runtime win reason w = (let i = b_id b in
     w\<lparr>w_rows := update_row i (finish_row win now (computeRanks b win)) (w_rows w),
       w_jobs := (w_jobs w)((JobStartActive, i) := None, (JobExpire, i) := None, (JobReadyTimeout, i) := None),
       w_sent := w_sent w @
         [\<lparr>em_roomId = b_roomId b, em_event = ''winner'', em_payload = PushEvent i
            ((state_event (nextSeq (kv_list now (w_events w) i)) now FINISHED (Some reason))\<lparr>ev_userId := win\<rparr>)\<rparr>,
          \<lparr>em_roomId = b_roomId b, em_event = ''battle:end'', em_payload = PushEnd i win\<rparr>],
       w_ratingQueue := w_ratingQueue w @ (if rb_rated runtime
         then [\<lparr>rr_battleId = i, rr_winnerId = win, rr_participantIds = rb_participantIds runtime,
                rr_rated = rb_rated runtime\<rparr>] else []),
       w_runtime := kv_del (w_runtime w) i, w_ready := kv_del (w_ready w) i,
       w_events := kv_del (w_events w) i\<rparr>)"

definition cancelled :: "int \<Rightarrow> battle_row \<Rightarrow> runtime_state \<Rightarrow> string \<Rightarrow> battle_world \<Rightarrow> battle_world" where
  "cancelled now b to reason w = (let i = b_id b in
     w\<lparr>w_rows := update_row i abort_row (w_rows w),
       w_jobs := (w_jobs w)((JobStartActive, i) := None, (JobExpire, i) := None, (JobReadyTimeout, i) := None),
       w_sent := w_sent w @
         [\<lparr>em_roomId = b_roomId b, em_event = ''battle:end'', em_payload = PushEvent i
            (state_event (nextSeq (kv_list now (w_events w) i)) now to (Some reason))\<rparr>],
       w_runtime := kv_del (w_runtime w) i, w_ready := kv_del (w_ready w) i,
       w_events := kv_del (w_events w) i\<rparr>)"

lemma finalize_result:
  assumes "find_row (b_id b) (w_rows w) = Some b"
  shows "finalize now b runtime win reason w =
     (Inr (toBattleDto (finish_row win now (computeRanks b win) b)
        (Some (runtime\<lparr>rb_state := FINISHED, rb_winnerId := win\<rparr>))),
      finalized now b runtime win reason w)"
  using assms ranks_known[of b win]
  by (simp add: finalize_def op_defs store_defs find_row_update finalized_def Let_def)

lemma cancelInternal_result:
  assumes "find_row (b_id b) (w_rows w) = Some c"
  shows "cancelInternal now b runtime to reason w =
     (Inr (toBattleDto (abort_row c) (Some (runtime\<lparr>rb_state := to\<rparr>))), cancelled now b to reason w)"
  using assms by (simp add: cancelInternal_def op_defs store_defs find_row_update cancelled_def Let_def)

lemma good_finalized:
  assumes rows: "rows_ok (w_rows w)" and rts: "runtimes_ok t (w_rows w) (w_runtime w) (w_jobs w)"
    and logs: "logs_ok (w_events w)" and b: "find_row (b_id b) (w_rows w) = Some b"
    and st: "b_status b = StInProgress"
    and w1: "w_rows w1 = w_rows w" "w_jobs w1 = w_jobs w" "w_locks w1 = w_locks w"
      "kv_del (w_runtime w1) (b_id b) = kv_del (w_runtime w) (b_id b)"
      "kv_del (w_events w1) (b_id b) = kv_del (w_events w) (b_id b)"
  shows "good t w (finalized now b runtime win reason w1)"
proof -
  have "row_ok b" using rows b by (rule rows_ok_row)
  then have "rows_ok (update_row (b_id b) (finish_row win now (computeRanks b win)) (w_rows w))"
    using rows_ok_update[OF rows b] finish_row_ok st by simp
  moreover have "rows_evolve (w_rows w) (update_row (b_id b) (finish_row win now (computeRanks b win)) (w_rows w))"
    using b by (rule rows_evolve_update) (simp_all add: row_evolves_def st terminal_status_def)
  ultimately show ?thesis
    using runtimes_ok_drop[OF rts, of "finish_row win now (computeRanks b win)" "b_id b"] logs
    by (simp add: good_def battle_inv_def finalized_def Let_def w1 logs_ok_del)
qed

lemma good_cancelled:
  assumes rows: "rows_ok (w_rows w)" and rts: "runtimes_ok t (w_rows w) (w_runtime w) (w_jobs w)"
    and logs: "logs_ok (w_events w)" and b: "find_row (b_id b) (w_rows w) = Some c"
    and st: "\<not> terminal_status (b_status c)"
    and w1: "w_rows w1 = w_rows w" "w_jobs w1 = w_jobs w" "w_locks w1 = w_locks w"
      "kv_del (w_runtime w1) (b_id b) = kv_del (w_runtime w) (b_id b)"
      "kv_del (w_events w1) (b_id b) = kv_del (w_events w) (b_id b)"
  shows "good t w (cancelled now b to reason w1)"
proof -
  have "row_ok c" using rows b by (rule rows_ok_row)
  with st have "row_ok (abort_row c)" by (intro abort_row_ok) (auto simp: terminal_status_def)
  then have "rows_ok (update_row (b_id b) abort_row (w_rows w))"
    using rows_ok_update[OF rows b] by simp
  moreover have "row_evolves c (abort_row c)"
    using st by (cases "b_status c") (simp_all add: row_evolves_def terminal_status_def)
  with b have "rows_evolve (w_rows w) (update_row (b_id b) abort_row (w_rows w))"
    by (auto intro: rows_evolve_update)
  ultimately show ?thesis
    using runtimes_ok_drop[OF rts, of abort_row "b_id b"] logs
    by (simp add: good_def battle_inv_def cancelled_def Let_def w1 logs_ok_del)
qed

section \<open>Single operations\<close>

lemma good_frame:
  assumes "battle_inv t w" and "w_rows w' = w_rows w" and "w_runtime w' = w_runtime w"
    and "w_locks w' = w_locks w" and "logs_ok (w_events w')"
    and "\<And>k. w_jobs w k \<noteq> None \<Longrightarrow> w_jobs w' k \<noteq> None"
  shows "good t w w'"
proof -
  from assms(1,6) have "runtimes_ok t (w_rows w) (w_runtime w) (w_jobs w')"
    by (auto simp: battle_inv_def runtimes_ok_def)
  with assms show ?thesis by (simp add: good_def battle_inv_def)
qed

lemma battle_invD:
  assumes "battle_inv t w" and "kv_get t (w_runtime w) i = Some r"
  obtains b where "find_row i (w_rows w) = Some b" "b_id b = i" "b_status b = toPersistedStatus (rb_state r)"
    "rb_battleId r = i" "\<not> isTerminal (rb_state r)" "rb_winnerId r = None" "rb_mode r = b_mode b"
    "set (rb_participantIds r) \<subseteq> set (participant_ids b)"
proof -
  from assms have "runtime_ok (w_rows w) i r" by (auto simp: battle_inv_def dest: runtimes_okD)
  then show ?thesis by (auto simp: runtime_ok_def intro!: that dest: find_row_id)
qed

lemma logs_okI: "battle_inv t w \<Longrightarrow> logs_ok (w_events w)"
  by (simp add: battle_inv_def)

text \<open>A state change through the compare-and-set, with the row and the jobs brought along.\<close>

lemma good_transition:
  assumes inv: "battle_inv t w" and r: "kv_get t (w_runtime w) i = Some r"
    and can: "rb_state r' = rb_state r \<or> canTransition (rb_state r) (rb_state r')"
    and b: "find_row i (w_rows w) = Some b" and rows: "w_rows w' = update_row i f (w_rows w)"
    and f: "\<And>c. b_id (f c) = b_id c" "\<And>c. b_roomId (f c) = b_roomId c" "row_ok (f b)" "row_evolves b (f b)"
      "b_status (f b) = toPersistedStatus (rb_state r')" "b_mode (f b) = b_mode b" "b_rated (f b) = b_rated b"
    and r': "rb_battleId r' = rb_battleId r" "rb_roomId r' = rb_roomId r" "rb_hostId r' = rb_hostId r"
      "rb_mode r' = rb_mode r" "rb_rated r' = rb_rated r" "rb_winnerId r' = rb_winnerId r"
      "set (rb_participantIds r') \<subseteq> set (participant_ids (f b))" "\<not> isTerminal (rb_state r')"
    and w': "w_runtime w' = kv_put (w_runtime w) i r' x" "w_locks w' = w_locks w" "logs_ok (w_events w')"
      "w_jobs w' (timer_of (rb_state r'), i) \<noteq> None" "\<And>k. w_jobs w k \<noteq> None \<Longrightarrow> w_jobs w' k \<noteq> None"
  shows "good t w w'"
proof -
  from inv have rok: "rows_ok (w_rows w)" and rts: "runtimes_ok t (w_rows w) (w_runtime w) (w_jobs w)"
    by (auto simp: battle_inv_def)
  from runtimes_okD(1)[OF rts r] b have ro: "rb_battleId r = i" "b_roomId b = rb_roomId r"
      "rm_hostId (b_room b) = rb_hostId r" "b_mode b = rb_mode r" "b_rated b = rb_rated r" "rb_winnerId r = None"
    by (auto simp: runtime_ok_def)
  have "runtime_ok (update_row i f (w_rows w)) i r'"
    using b f r' ro by (simp add: runtime_ok_def find_row_update row_evolves_def)
  then have "runtimes_ok t (w_rows w') (w_runtime w') (w_jobs w')"
    unfolding rows w'(1) using w'(4,5) by (intro runtimes_ok_replace[OF rts f(1)]) auto
  moreover have "rows_ok (w_rows w')"
    unfolding rows by (rule rows_ok_update[OF rok b f(1,2,3)])
  moreover have "rows_evolve (w_rows w) (w_rows w')"
    unfolding rows by (rule rows_evolve_update[OF b f(1) f(4)])
  moreover have "runtime_evolves t (w_runtime w) (w_runtime w')"
    unfolding w'(1) by (rule runtime_evolves_put[OF r can])
  ultimately show ?thesis using w'(2,3) by (simp add: good_def battle_inv_def)
qed

section \<open>Handlers\<close>

lemma row_of_runtime:
  assumes "battle_inv t w" and "kv_get t (w_runtime w) i = Some r" and "find_row i (w_rows w) = Some b"
  shows "b_status b = toPersistedStatus (rb_state r)" and "rb_mode r = b_mode b"
    and "set (rb_participantIds r) \<subseteq> set (participant_ids b)" and "rb_winnerId r = None"
    and "\<not> isTerminal (rb_state r)" and "rb_battleId r = i"
  using assms by (auto elim!: battle_invD)

lemma row_evolves_id: "row_evolves b ((\<lambda>c. c) b)"
  by simp

lemma update_row_id: "update_row i (\<lambda>c. c) rows = rows"
  by (simp add: update_row_def)

text \<open>A compare-and-set that leaves the rows alone, with an event and a timer.\<close>

lemma good_set_state:
  assumes inv: "battle_inv t w" and r: "kv_get t (w_runtime w) i = Some r"
    and can: "canTransition (rb_state r) (rb_state r')"
    and st: "toPersistedStatus (rb_state r') = toPersistedStatus (rb_state r)"
    and r': "rb_battleId r' = rb_battleId r" "rb_roomId r' = rb_roomId r" "rb_hostId r' = rb_hostId r"
      "rb_mode r' = rb_mode r" "rb_rated r' = rb_rated r" "rb_winnerId r' = rb_winnerId r"
      "rb_participantIds r' = rb_participantIds r" "\<not> isTerminal (rb_state r')"
    and w': "w_rows w' = w_rows w" "w_runtime w' = kv_put (w_runtime w) i r' x" "w_locks w' = w_locks w"
      "logs_ok (w_events w')" "w_jobs w' (timer_of (rb_state r'), i) \<noteq> None"
      "\<And>k. w_jobs w k \<noteq> None \<Longrightarrow> w_jobs w' k \<noteq> None"
  shows "good t w w'"
proof -
  from inv r obtain b where b: "find_row i (w_rows w) = Some b" "b_status b = toPersistedStatus (rb_state r)"
      "set (rb_participantIds r) \<subseteq> set (participant_ids b)"
    by (auto elim!: battle_invD)
  from inv b(1) have "row_ok b" by (auto simp: battle_inv_def dest: rows_ok_row)
  show ?thesis
    by (rule good_transition[where f = "\<lambda>c. c", OF inv r _ b(1)])
      (use can st r' w' b \<open>row_ok b\<close> in \<open>simp_all add: update_row_id\<close>)
qed

subsection \<open>Elementary effects as functions of the world\<close>

definition logged :: "int \<Rightarrow> battle_row \<Rightarrow> string \<Rightarrow> battle_event \<Rightarrow> battle_world \<Rightarrow> battle_world" where
  "logged now b ev e w = w\<lparr>w_events := kv_put (w_events w) (b_id b) (kv_list now (w_events w) (b_id b) @ [e])
       (ttl_ms now runtime_state_ttl_seconds),
     w_sent := w_sent w @ [\<lparr>em_roomId = b_roomId b, em_event = ev, em_payload = PushEvent (b_id b) e\<rparr>]\<rparr>"

definition stored :: "int \<Rightarrow> ident \<Rightarrow> runtime_battle \<Rightarrow> battle_world \<Rightarrow> battle_world" where
  "stored now i r w = w\<lparr>w_runtime := kv_put (w_runtime w) i r (ttl_ms now runtime_state_ttl_seconds)\<rparr>"

definition timed :: "job_kind \<Rightarrow> int \<Rightarrow> ident \<Rightarrow> battle_world \<Rightarrow> battle_world" where
  "timed k at i w = (if w_jobs w (k, i) = None then w\<lparr>w_jobs := (w_jobs w)((k, i) := Some at)\<rparr> else w)"

lemma logged_fields [simp]:
  "w_rows (logged now b ev e w) = w_rows w" "w_runtime (logged now b ev e w) = w_runtime w"
  "w_jobs (logged now b ev e w) = w_jobs w" "w_locks (logged now b ev e w) = w_locks w"
  "w_nonces (logged now b ev e w) = w_nonces w" "w_ratingQueue (logged now b ev e w) = w_ratingQueue w"
  "w_events (logged now b ev e w) = kv_put (w_events w) (b_id b) (kv_list now (w_events w) (b_id b) @ [e])
       (ttl_ms now runtime_state_ttl_seconds)"
  by (simp_all add: logged_def)

lemma stored_fields [simp]:
  "w_rows (stored now i r w) = w_rows w" "w_events (stored now i r w) = w_events w"
  "w_jobs (stored now i r w) = w_jobs w" "w_locks (stored now i r w) = w_locks w"
  "w_nonces (stored now i r w) = w_nonces w" "w_ratingQueue (stored now i r w) = w_ratingQueue w"
  "w_runtime (stored now i r w) = kv_put (w_runtime w) i r (ttl_ms now runtime_state_ttl_seconds)"
  by (simp_all add: stored_def)

lemma timed_fields [simp]:
  "w_rows (timed k at i w) = w_rows w" "w_events (timed k at i w) = w_events w"
  "w_runtime (timed k at i w) = w_runtime w" "w_locks (timed k at i w) = w_locks w"
  "w_nonces (timed k at i w) = w_nonces w" "w_ratingQueue (timed k at i w) = w_ratingQueue w"
  "w_jobs (timed k at i w) = (if w_jobs w (k, i) = None then (w_jobs w)((k, i) := Some at) else w_jobs w)"
  by (simp_all add: timed_def)

lemma emitAndLog_eq [op_simps]: "emitAndLog now b ev e w = (Inr (), logged now b ev e w)"
  by (simp add: emitAndLog_def store_defs op_defs logged_def)

lemma add_job_eq [op_simps]: "add_job k now i d w = (Inr (), timed k (now + d) i w)"
  by (simp add: add_job_def op_defs timed_def split: option.splits)

lemma put_eq [op_simps]: "rb_battleId r = i \<Longrightarrow> put now r w = (Inr (), stored now i (r\<lparr>rb_updatedAt := now\<rparr>) w)"
  by (simp add: put_def op_defs stored_def)

lemma transition_eq [op_simps]: "transition now i expected mutate w =
     (case kv_get now (w_runtime w) i of
        None \<Rightarrow> (Inl (InvalidTransition ''MISSING'' ''ANY''), w)
      | Some c \<Rightarrow> if rb_state c \<noteq> expected
          then (Inl (InvalidTransition (state_name (rb_state c)) (''expected '' @ state_name expected)), w)
          else (Inr ((mutate c)\<lparr>rb_updatedAt := now\<rparr>), stored now i ((mutate c)\<lparr>rb_updatedAt := now\<rparr>) w))"
  by (simp add: transition_def cas_attempts_def numeral_eq_Suc Let_def stored_def split: option.splits)

lemma load_eq [op_simps]: "load i w = (case find_row i (w_rows w) of
     None \<Rightarrow> (Inl (BattleNotFound i), w) | Some b \<Rightarrow> (Inr b, w))"
  by (simp add: load_def findById_def op_defs split: option.splits)

lemma get_runtime_eq [op_simps]: "get_runtime now i w = (Inr (kv_get now (w_runtime w) i), w)"
  by (simp add: get_runtime_def op_defs)

lemma listEvents_eq [op_simps]: "listEvents now i w = (Inr (kv_list now (w_events w) i), w)"
  by (simp add: listEvents_def op_defs)

lemma guardedTransition_eq [op_simps]: "canTransition from to \<Longrightarrow>
    guardedTransition now i from to m w = transition now i from m w"
  by (simp add: guardedTransition_def op_defs)

definition bumped :: "int \<Rightarrow> ident \<Rightarrow> ident \<Rightarrow> int \<Rightarrow> battle_world \<Rightarrow> battle_world" where
  "bumped now i u n w = w\<lparr>w_nonces := kv_put (w_nonces w) (i, u) n (ttl_ms now runtime_state_ttl_seconds)\<rparr>"

definition nonce_of :: "int \<Rightarrow> battle_world \<Rightarrow> ident \<Rightarrow> ident \<Rightarrow> int" where
  "nonce_of now w i u = (case kv_get now (w_nonces w) (i, u) of None \<Rightarrow> 0 | Some c \<Rightarrow> c)"

lemma bumped_fields [simp]:
  "w_rows (bumped now i u n w) = w_rows w" "w_events (bumped now i u n w) = w_events w"
  "w_runtime (bumped now i u n w) = w_runtime w" "w_locks (bumped now i u n w) = w_locks w"
  "w_jobs (bumped now i u n w) = w_jobs w" "w_ratingQueue (bumped now i u n w) = w_ratingQueue w"
  by (simp_all add: bumped_def)

lemma assertNotReplay_eq [op_simps]: "assertNotReplay now i u n w =
    (if n \<le> nonce_of now w i u then (Inl ReplayDetected, w) else (Inr (), bumped now i u n w))"
  by (simp add: assertNotReplay_def checkAndBumpNonce_def op_defs nonce_of_def bumped_def)

lemma canTransition_table [simp]:
  "canTransition WAITING COUNTDOWN" "canTransition COUNTDOWN ACTIVE" "canTransition ACTIVE PAUSED"
  "canTransition PAUSED ACTIVE"
  by (simp_all add: canTransition_def)

subsection \<open>Functional description of the handlers\<close>

lemma startCountdown_eq: "startCountdown now i u w =
    (case find_row i (w_rows w) of None \<Rightarrow> (Inl (BattleNotFound i), w)
     | Some b \<Rightarrow> if \<not> isHost b u then (Inl NotHost, w)
       else (case kv_get now (w_runtime w) i of None \<Rightarrow> (Inl (InvalidTransition ''MISSING'' ''ANY''), w)
         | Some r \<Rightarrow> if rb_state r \<noteq> WAITING
             then (Inl (InvalidTransition (state_name (rb_state r)) ''expected WAITING''), w)
             else (let r' = r\<lparr>rb_state := COUNTDOWN, rb_updatedAt := now\<rparr>
               in (Inr (toBattleDto b (Some r')), timed JobStartActive (now + 5000) i
                   (logged now b ''countdown''
                     (state_event (nextSeq (kv_list now (w_events w) i)) now COUNTDOWN (Some ''5s''))
                     (stored now i r' w))))))"
  by (simp add: startCountdown_def op_simps scheduleStartActive_def countdown_seconds_def Let_def
      split: option.splits)

lemma activate_eq: "rows_ok (w_rows w) \<Longrightarrow> activate now i w =
    (case find_row i (w_rows w) of None \<Rightarrow> (Inl (BattleNotFound i), w)
     | Some b \<Rightarrow> (case kv_get now (w_runtime w) i of None \<Rightarrow> (Inl (InvalidTransition ''MISSING'' ''ANY''), w)
         | Some r \<Rightarrow> if rb_state r \<noteq> COUNTDOWN
             then (Inl (InvalidTransition (state_name (rb_state r)) ''expected COUNTDOWN''), w)
             else (let r' = r\<lparr>rb_state := ACTIVE, rb_startedAt := Some now, rb_updatedAt := now\<rparr>
               in (Inr (), timed JobExpire (now + rb_durationMs r) i
                   (logged now b ''battle:start''
                     (state_event (nextSeq (kv_list now (w_events w) i)) now ACTIVE (rb_problemId r))
                     ((stored now i r' w)\<lparr>w_rows := update_row i
                        (\<lambda>b. b\<lparr>b_status := StInProgress, b_startedAt := Some now\<rparr>) (w_rows w)\<rparr>))))))"
  by (simp add: activate_def op_simps markStarted_def update_existing_def scheduleExpiry_def Let_def
      split: option.splits)

lemma pause_eq: "pause now i n u w =
    (if n \<le> nonce_of now w i u then (Inl ReplayDetected, w) else let w1 = bumped now i u n w in
     (case find_row i (w_rows w) of None \<Rightarrow> (Inl (BattleNotFound i), w1)
     | Some b \<Rightarrow> if \<not> isHost b u then (Inl NotHost, w1)
       else (case kv_get now (w_runtime w) i of None \<Rightarrow> (Inl (InvalidTransition ''MISSING'' ''ANY''), w1)
         | Some r \<Rightarrow> if rb_state r \<noteq> ACTIVE
             then (Inl (InvalidTransition (state_name (rb_state r)) ''expected ACTIVE''), w1)
             else (let r' = r\<lparr>rb_state := PAUSED, rb_pausedAt := Some now, rb_updatedAt := now\<rparr>
               in (Inr (toBattleDto b (Some r')),
                   logged now b ''battle:pause''
                     (state_event (nextSeq (kv_list now (w_events w) i)) now PAUSED None)
                     (stored now i r' w1))))))"
  by (simp add: pause_def op_simps Let_def split: option.splits)

lemma resume_eq: "resume now i n u w =
    (if n \<le> nonce_of now w i u then (Inl ReplayDetected, w) else let w1 = bumped now i u n w in
     (case find_row i (w_rows w) of None \<Rightarrow> (Inl (BattleNotFound i), w1)
     | Some b \<Rightarrow> if \<not> isHost b u then (Inl NotHost, w1)
       else (case kv_get now (w_runtime w) i of None \<Rightarrow> (Inl (InvalidTransition ''MISSING'' ''ANY''), w1)
         | Some r \<Rightarrow> if rb_state r \<noteq> PAUSED
             then (Inl (InvalidTransition (state_name (rb_state r)) ''expected PAUSED''), w1)
             else (let r' = (resume_mutate now r)\<lparr>rb_updatedAt := now\<rparr>
               in (Inr (toBattleDto b (Some r')),
                   logged now b ''battle:resume''
                     (state_event (nextSeq (kv_list now (w_events w) i)) now ACTIVE None)
                     (stored now i r' w1))))))"
  by (simp add: resume_def op_simps Let_def split: option.splits)

section \<open>Interfaces of the state store\<close>

definition nonce_accept :: "int \<Rightarrow> ident \<Rightarrow> ident \<Rightarrow> battle_world \<Rightarrow> int \<Rightarrow> bool \<times> battle_world" where
  "nonce_accept now i u w n = (case checkAndBumpNonce now i u n w of (r, w') \<Rightarrow> (r = Inr True, w'))"

lemma nonce_accept_eq: "nonce_accept now i u w n =
    (if n \<le> nonce_of now w i u then (False, w) else (True, bumped now i u n w))"
  by (simp add: nonce_accept_def checkAndBumpNonce_def op_defs nonce_of_def bumped_def)

lemma nonce_of_bumped: "t \<le> now + 21600000 \<Longrightarrow> nonce_of t (bumped now i u n w) i u = n"
  by (simp add: nonce_of_def bumped_def kv_get_put ttl_ms_def runtime_state_ttl_seconds_def)

interpretation battle_nonce: nonce_guard "nonce_accept now i u" "\<lambda>w. nonce_of now w i u" for now i u
  by unfold_locales (auto simp: nonce_accept_eq nonce_of_bumped split: if_splits)

definition transition_opt ::
  "int \<Rightarrow> battle_world \<Rightarrow> ident \<Rightarrow> runtime_state \<Rightarrow> (runtime_battle \<Rightarrow> runtime_battle) \<Rightarrow> runtime_battle option \<times> battle_world" where
  "transition_opt now w i e m = (case transition now i e m w of
     (Inl _, w') \<Rightarrow> (None, w') | (Inr r, w') \<Rightarrow> (Some r, w'))"

interpretation battle_cas: cas_store "\<lambda>w i. kv_get now (w_runtime w) i" "transition_opt now" rb_state for now
  by unfold_locales
    (auto simp: transition_opt_def transition_eq kv_get_put ttl_ms_def runtime_state_ttl_seconds_def
       split: option.splits if_splits)

end
