(* ===== verification/BattleGood.thy ===== *)
theory BattleGood
  imports BattleSteps
begin

text \<open>Every operation of the battle service keeps the invariant and moves the data forward only.\<close>

section \<open>Locks\<close>

lemma withLock_free:
  assumes "kv_get now (w_locks w) i = None"
  shows "withLock now tok i f w =
    (case f now (w\<lparr>w_locks := kv_put (w_locks w) i tok (Some (now + lock_lease_ms))\<rparr>) of
       (r, w') \<Rightarrow> (r, release now i tok w'))"
  using assms by (simp add: withLock_def lock_attempts_def numeral_eq_Suc)

lemma release_fields [simp]:
  "w_rows (release now i tok w) = w_rows w" "w_runtime (release now i tok w) = w_runtime w"
  "w_jobs (release now i tok w) = w_jobs w" "w_events (release now i tok w) = w_events w"
  "w_ratingQueue (release now i tok w) = w_ratingQueue w" "w_sent (release now i tok w) = w_sent w"
  "w_nonces (release now i tok w) = w_nonces w"
  by (simp_all add: release_def)

lemma battle_inv_locks [simp]: "battle_inv t (w\<lparr>w_locks := l\<rparr>) = battle_inv t w"
  by (simp add: battle_inv_def)

lemma withLock_good:
  assumes free: "w_locks w = Map.empty"
    and body: "\<And>l. good now (w\<lparr>w_locks := l\<rparr>) (snd (f now (w\<lparr>w_locks := l\<rparr>)))"
  shows "good now w (snd (withLock now tok i f w))"
proof -
  let ?l = "kv_put (w_locks w) i tok (Some (now + lock_lease_ms))"
  obtain r w' where f: "f now (w\<lparr>w_locks := ?l\<rparr>) = (r, w')" by (cases "f now (w\<lparr>w_locks := ?l\<rparr>)")
  from body[of ?l] f have g: "good now (w\<lparr>w_locks := ?l\<rparr>) w'" by simp
  then have "w_locks w' = ?l" by (simp add: good_def)
  then have "w_locks (release now i tok w') = Map.empty"
    by (simp add: release_def free kv_get_put lock_lease_ms_def) (simp add: kv_del_def)
  with g f free show ?thesis
    by (simp add: withLock_free good_def battle_inv_def)
qed

section \<open>Lifecycle\<close>

lemma good_bumped: "battle_inv now w \<Longrightarrow> good now w (bumped now i u n w)"
  by (rule good_frame) (simp_all add: logs_okI)

lemma battle_inv_bumped [simp]: "battle_inv now (bumped now i u n w) = battle_inv now w"
  by (simp add: battle_inv_def)

lemma logs_ok_logged:
  "battle_inv now w \<Longrightarrow> ev_seq e = nextSeq (kv_list now (w_events w) i) \<Longrightarrow> b_id b = i \<Longrightarrow>
    w_events w' = w_events w \<Longrightarrow> logs_ok (w_events (logged now b ev e w'))"
  by (simp add: logs_okI logs_ok_append)

lemma state_event_seq [simp]: "ev_seq (state_event n t s note) = n"
  by (simp add: state_event_def)

lemma participant_event_seq [simp]: "ev_seq (participant_event n t u note) = n"
  by (simp add: participant_event_def)

lemma job_pending:
  "battle_inv now w \<Longrightarrow> kv_get now (w_runtime w) i = Some r \<Longrightarrow> w_jobs w (timer_of (rb_state r), i) \<noteq> None"
  by (auto simp: battle_inv_def dest: runtimes_okD(2))

lemma startCountdown_good:
  assumes inv: "battle_inv now w"
  shows "good now w (snd (startCountdown now i u w))"
proof (cases "\<exists>b r. find_row i (w_rows w) = Some b \<and> isHost b u \<and> kv_get now (w_runtime w) i = Some r \<and> rb_state r = WAITING")
  case True
  then obtain b r where b: "find_row i (w_rows w) = Some b" "isHost b u"
    and r: "kv_get now (w_runtime w) i = Some r" "rb_state r = WAITING" by blast
  let ?r' = "r\<lparr>rb_state := COUNTDOWN, rb_updatedAt := now\<rparr>"
  show ?thesis
    by (rule good_set_state[where r' = ?r', OF inv r(1)])
      (use b r find_row_id[OF b(1)] in \<open>simp_all add: startCountdown_eq Let_def isTerminal_def
         logs_ok_append logs_okI[OF inv]\<close>)
next
  case False
  then show ?thesis using good_same[OF inv] by (auto simp: startCountdown_eq split: option.splits)
qed

lemma activate_good:
  assumes inv: "battle_inv now w"
  shows "good now w (snd (activate now i w))"
proof -
  from inv have rows: "rows_ok (w_rows w)" by (simp add: battle_inv_def)
  show ?thesis
  proof (cases "\<exists>b r. find_row i (w_rows w) = Some b \<and> kv_get now (w_runtime w) i = Some r \<and> rb_state r = COUNTDOWN")
    case True
    then obtain b r where b: "find_row i (w_rows w) = Some b"
      and r: "kv_get now (w_runtime w) i = Some r" "rb_state r = COUNTDOWN" by blast
    let ?r' = "r\<lparr>rb_state := ACTIVE, rb_startedAt := Some now, rb_updatedAt := now\<rparr>"
    let ?f = "\<lambda>b. b\<lparr>b_status := StInProgress, b_startedAt := Some now\<rparr>"
    note rr = row_of_runtime[OF inv r(1) b]
    have f: "row_ok (?f b)" "row_evolves b (?f b)"
      using rows_ok_row[OF rows b] rr r(2)
      by (simp_all add: row_ok_def active_members_def participant_ids_def row_evolves_def terminal_status_def)
    have p: "participant_ids (?f b) = participant_ids b" by (simp add: participant_ids_def)
    show ?thesis
      by (rule good_transition[where r' = ?r' and f = ?f, OF inv r(1) _ b])
        (use b r f p rr find_row_id[OF b(1)] in \<open>simp_all add: activate_eq[OF rows] Let_def isTerminal_def
           logs_ok_append logs_okI[OF inv]\<close>)
  next
    case False
    then show ?thesis using good_same[OF inv] by (auto simp: activate_eq[OF rows] split: option.splits)
  qed
qed

lemma pause_good:
  assumes inv: "battle_inv now w"
  shows "good now w (snd (pause now i n u w))"
proof (cases "nonce_of now w i u < n \<and> (\<exists>b r. find_row i (w_rows w) = Some b \<and> isHost b u
    \<and> kv_get now (w_runtime w) i = Some r \<and> rb_state r = ACTIVE)")
  case True
  then obtain b r where n: "nonce_of now w i u < n" and b: "find_row i (w_rows w) = Some b" "isHost b u"
    and r: "kv_get now (w_runtime w) i = Some r" "rb_state r = ACTIVE" by blast
  let ?r' = "r\<lparr>rb_state := PAUSED, rb_pausedAt := Some now, rb_updatedAt := now\<rparr>"
  have "w_jobs w (JobExpire, i) \<noteq> None" using job_pending[OF inv r(1)] r(2) by simp
  then show ?thesis
    by (intro good_set_state[where r' = ?r', OF inv r(1)])
      (use n b r find_row_id[OF b(1)] in \<open>simp_all add: pause_eq Let_def isTerminal_def
         logs_ok_append logs_okI[OF inv]\<close>)
next
  case False
  then show ?thesis using good_same[OF inv] good_bumped[OF inv]
    by (auto simp: pause_eq Let_def split: option.splits)
qed

lemma resume_mutate_fields [simp]:
  "rb_battleId (resume_mutate t r) = rb_battleId r" "rb_roomId (resume_mutate t r) = rb_roomId r"
  "rb_hostId (resume_mutate t r) = rb_hostId r" "rb_mode (resume_mutate t r) = rb_mode r"
  "rb_rated (resume_mutate t r) = rb_rated r" "rb_winnerId (resume_mutate t r) = rb_winnerId r"
  "rb_participantIds (resume_mutate t r) = rb_participantIds r" "rb_state (resume_mutate t r) = ACTIVE"
  "rb_startedAt (resume_mutate t r) = rb_startedAt r" "rb_pausedAt (resume_mutate t r) = None"
  by (simp_all add: resume_mutate_def Let_def)

lemma resume_good:
  assumes inv: "battle_inv now w"
  shows "good now w (snd (resume now i n u w))"
proof (cases "nonce_of now w i u < n \<and> (\<exists>b r. find_row i (w_rows w) = Some b \<and> isHost b u
    \<and> kv_get now (w_runtime w) i = Some r \<and> rb_state r = PAUSED)")
  case True
  then obtain b r where n: "nonce_of now w i u < n" and b: "find_row i (w_rows w) = Some b" "isHost b u"
    and r: "kv_get now (w_runtime w) i = Some r" "rb_state r = PAUSED" by blast
  let ?r' = "(resume_mutate now r)\<lparr>rb_updatedAt := now\<rparr>"
  have "w_jobs w (JobExpire, i) \<noteq> None" using job_pending[OF inv r(1)] r(2) by simp
  then show ?thesis
    by (intro good_set_state[where r' = ?r', OF inv r(1)])
      (use n b r find_row_id[OF b(1)] in \<open>simp_all add: resume_eq Let_def isTerminal_def
         logs_ok_append logs_okI[OF inv]\<close>)
next
  case False
  then show ?thesis using good_same[OF inv] good_bumped[OF inv]
    by (auto simp: resume_eq Let_def split: option.splits)
qed

lemma markReady_good:
  assumes inv: "battle_inv now w"
  shows "good now w (snd (markReady now i u w))"
proof -
  let ?w = "w\<lparr>w_ready := kv_put (w_ready w) i (List.insert u (kv_list now (w_ready w) i))
        (ttl_ms now runtime_state_ttl_seconds)\<rparr>"
  have inv': "battle_inv now ?w" using inv by (simp add: battle_inv_def)
  have g: "good now w ?w" by (rule good_frame[OF inv]) (simp_all add: logs_okI[OF inv])
  have "good now w (snd (startCountdown now i v ?w))" for v
    using startCountdown_good[OF inv'] by (simp add: good_def)
  then show ?thesis using good_same[OF inv] g
    by (auto simp: markReady_def op_simps setReady_def Let_def split: option.splits sum.splits prod.splits dest: sndI)
qed

section \<open>Closing\<close>

lemma inv_parts:
  "battle_inv t w \<Longrightarrow> rows_ok (w_rows w)"
  "battle_inv t w \<Longrightarrow> runtimes_ok t (w_rows w) (w_runtime w) (w_jobs w)"
  by (simp_all add: battle_inv_def)

lemma good_finalized_now:
  assumes inv: "battle_inv now w" and r: "kv_get now (w_runtime w) i = Some r" "rb_state r = ACTIVE \<or> rb_state r = PAUSED"
    and b: "find_row i (w_rows w) = Some b"
  shows "good now w (finalized now b runtime win reason w)"
proof -
  have "b_status b = StInProgress" using row_of_runtime(1)[OF inv r(1) b] r(2) by auto
  then show ?thesis
    using good_finalized[OF inv_parts[OF inv] logs_okI[OF inv], of b w] b find_row_id[OF b] by simp
qed

lemma good_cancelled_now:
  assumes inv: "battle_inv now w" and r: "kv_get now (w_runtime w) i = Some r"
    and b: "find_row i (w_rows w) = Some b"
  shows "good now w (cancelled now b to reason w)"
proof -
  have "\<not> terminal_status (b_status b)"
    using row_of_runtime(1,5)[OF inv r b] by (cases "rb_state r") (simp_all add: terminal_status_def isTerminal_def)
  then show ?thesis
    using good_cancelled[OF inv_parts[OF inv] logs_okI[OF inv], of b b w] b find_row_id[OF b] by simp
qed

lemma finalize_found [simp]:
  "find_row i (w_rows w) = Some b \<Longrightarrow> finalize now b runtime win reason w =
     (Inr (toBattleDto (finish_row win now (computeRanks b win) b)
        (Some (runtime\<lparr>rb_state := FINISHED, rb_winnerId := win\<rparr>))),
      finalized now b runtime win reason w)"
  using find_row_id[of i] finalize_result[of b w] by metis

lemma cancelInternal_found [simp]:
  "find_row i (w_rows w) = Some b \<Longrightarrow> cancelInternal now b runtime to reason w =
     (Inr (toBattleDto (abort_row b) (Some (runtime\<lparr>rb_state := to\<rparr>))), cancelled now b to reason w)"
  using find_row_id[of i] cancelInternal_result[of b w b] by metis

lemma finish_locked_eq: "finish_locked i win u now w =
    (case find_row i (w_rows w) of None \<Rightarrow> (Inl (BattleNotFound i), w)
     | Some b \<Rightarrow> if b_status b = StFinished then (Inl BattleFinished, w)
       else if \<not> isHost b u then (Inl NotHost, w)
       else (case kv_get now (w_runtime w) i of None \<Rightarrow> (Inl (BattleNotFound i), w)
         | Some r \<Rightarrow> if \<not> (rb_state r = ACTIVE \<or> rb_state r = PAUSED)
             then (Inl (InvalidTransition (state_name (rb_state r)) ''FINISHED''), w)
             else finalize now b r (coalesce win (rb_winnerId r)) ''host_finish'' w))"
  by (auto simp: finish_locked_def op_simps split: option.splits)

lemma finish_locked_good:
  assumes inv: "battle_inv now w"
  shows "good now w (snd (finish_locked i win u now w))"
  using good_same[OF inv] good_finalized_now[OF inv]
  by (auto simp: finish_locked_eq split: option.splits)

lemma finish_good:
  assumes inv: "battle_inv now w" and free: "w_locks w = Map.empty"
  shows "good now w (snd (finish now fr i n win u w))"
proof (cases "n \<le> nonce_of now w i u")
  case True
  then show ?thesis using good_same[OF inv] by (simp add: finish_def op_simps)
next
  case False
  let ?w = "bumped now i u n w"
  have "good now ?w (snd (withLock now (fr_lockToken fr) i (finish_locked i win u) ?w))"
    using inv free by (intro withLock_good finish_locked_good) simp_all
  with False show ?thesis by (simp add: finish_def op_simps) (simp add: good_def)
qed

lemma cancel_eq: "cancel now i u w =
    (case find_row i (w_rows w) of None \<Rightarrow> (Inl (BattleNotFound i), w)
     | Some b \<Rightarrow> if \<not> isHost b u then (Inl NotHost, w)
       else (case kv_get now (w_runtime w) i of None \<Rightarrow> (Inl (BattleNotFound i), w)
         | Some r \<Rightarrow> if \<not> (rb_state r = WAITING \<or> rb_state r = COUNTDOWN)
             then (Inl (InvalidTransition (state_name (rb_state r)) ''CANCELLED''), w)
             else cancelInternal now b r CANCELLED ''host_cancel'' w))"
  by (auto simp: cancel_def op_simps split: option.splits)

lemma cancel_good: "battle_inv now w \<Longrightarrow> good now w (snd (cancel now i u w))"
  using good_same good_cancelled_now
  by (auto simp: cancel_eq split: option.splits)

lemma expire_eq: "battle_inv now w \<Longrightarrow> expire now i w =
    (case kv_get now (w_runtime w) i of None \<Rightarrow> (Inr (), w)
     | Some r \<Rightarrow> (case find_row i (w_rows w) of None \<Rightarrow> (Inl (BattleNotFound i), w)
         | Some b \<Rightarrow> (Inr (), if rb_state r = WAITING \<or> rb_state r = COUNTDOWN
             then cancelled now b EXPIRED ''expired_in_lobby'' w
             else finalized now b r (rb_winnerId r) ''time_expired'' w)))"
  by (auto simp: expire_def op_simps split: option.splits)

lemma live_states: "\<not> isTerminal s \<Longrightarrow> s \<noteq> WAITING \<Longrightarrow> s \<noteq> COUNTDOWN \<Longrightarrow> s = ACTIVE \<or> s = PAUSED"
  by (cases s) (simp_all add: isTerminal_def)

lemma expire_good:
  assumes inv: "battle_inv now w"
  shows "good now w (snd (expire now i w))"
proof (cases "kv_get now (w_runtime w) i")
  case None
  then show ?thesis using good_same[OF inv] by (simp add: expire_eq[OF inv])
next
  case (Some r)
  then obtain b where b: "find_row i (w_rows w) = Some b" and nt: "\<not> isTerminal (rb_state r)"
    using inv by (auto elim!: battle_invD)
  show ?thesis
  proof (cases "rb_state r = WAITING \<or> rb_state r = COUNTDOWN")
    case True
    with Some b good_cancelled_now[OF inv Some b] show ?thesis by (auto simp: expire_eq[OF inv])
  next
    case False
    with live_states[OF nt] have "rb_state r = ACTIVE \<or> rb_state r = PAUSED" by blast
    from good_finalized_now[OF inv Some this b] Some b False show ?thesis by (simp add: expire_eq[OF inv])
  qed
qed

lemma readyTimeout_eq: "battle_inv now w \<Longrightarrow> readyTimeout now i w =
    (case kv_get now (w_runtime w) i of None \<Rightarrow> (Inr (), w)
     | Some r \<Rightarrow> if rb_state r \<noteq> WAITING then (Inr (), w)
       else (case find_row i (w_rows w) of None \<Rightarrow> (Inl (BattleNotFound i), w)
         | Some b \<Rightarrow> (Inr (), cancelled now b CANCELLED ''ready_timeout'' w)))"
  by (auto simp: readyTimeout_def op_simps split: option.splits)

lemma readyTimeout_good: "battle_inv now w \<Longrightarrow> good now w (snd (readyTimeout now i w))"
  using good_same good_cancelled_now by (auto simp: readyTimeout_eq split: option.splits)

section \<open>Verdicts\<close>

lemma claim_win_wins:
  assumes "find_row i (w_rows w) = Some b" and "v_battleId v = i" and "kv_get now (w_runtime w) i = Some r"
    and "rb_battleId r = i" and "\<not> truthy_str (rb_winnerId r)"
  shows "claim_win b v now w = (Inr (),
     finalized now b (r\<lparr>rb_winnerId := Some (v_userId v)\<rparr>) (Some (v_userId v)) ''first_accepted''
       (stored now i (r\<lparr>rb_winnerId := Some (v_userId v), rb_updatedAt := now\<rparr>) w))"
proof -
  have "find_row i (w_rows (stored now i r' w)) = Some b" for r' using assms(1) by simp
  from finalize_found[OF this] show ?thesis
    using assms by (simp add: claim_win_def op_simps Let_def)
qed

lemma kv_del_put_same [simp]: "kv_del (kv_put m k v x) k = kv_del m k"
  by (simp add: kv_del_def kv_put_def)

lemma claim_win_good:
  assumes inv: "battle_inv now w" and b: "find_row i (w_rows w) = Some b" and v: "v_battleId v = i"
    and act: "\<And>r. kv_get now (w_runtime w) i = Some r \<Longrightarrow> rb_state r = ACTIVE"
  shows "good now w (snd (claim_win b v now w))"
proof (cases "kv_get now (w_runtime w) i")
  case None
  with v good_same[OF inv] show ?thesis by (simp add: claim_win_def op_simps)
next
  case (Some r)
  have id: "b_id b = i" "rb_battleId r = i" using find_row_id[OF b] row_of_runtime(6)[OF inv Some b] .
  have "b_status b = StInProgress" using row_of_runtime(1)[OF inv Some b] act[OF Some] by simp
  then have "good now w (finalized now b (r\<lparr>rb_winnerId := Some (v_userId v)\<rparr>) (Some (v_userId v)) ''first_accepted''
               (stored now i (r\<lparr>rb_winnerId := Some (v_userId v), rb_updatedAt := now\<rparr>) w))"
    using b id by (intro good_finalized[OF inv_parts[OF inv] logs_okI[OF inv]]) simp_all
  then show ?thesis using row_of_runtime(4)[OF inv Some b] by (simp add: claim_win_wins[OF b v Some id(2)])
qed

lemma recordSubmission_eq: "recordSubmission now fr v w = (let i = v_battleId v in
    (case kv_get now (w_runtime w) i of None \<Rightarrow> (Inr (), w)
     | Some r \<Rightarrow> if rb_state r \<noteq> ACTIVE then (Inr (), w)
       else (case find_row i (w_rows w) of None \<Rightarrow> (Inl (BattleNotFound i), w)
         | Some b \<Rightarrow> (let w1 = logged now b ''submission:update''
               (submission_event_of (nextSeq (kv_list now (w_events w) i)) now v) w
             in if v_status v = ''ACCEPTED'' \<and> rb_mode r = ModeOneVsOne \<and> \<not> truthy_str (rb_winnerId r)
                then withLock now (fr_lockToken fr) i (claim_win b v) w1 else (Inr (), w1)))))"
  by (auto simp: recordSubmission_def op_simps Let_def split: option.splits)

lemma submission_event_seq [simp]: "ev_seq (submission_event_of n t v) = n"
  by (simp add: submission_event_of_def)

lemma recordSubmission_good:
  assumes inv: "battle_inv now w" and free: "w_locks w = Map.empty"
  shows "good now w (snd (recordSubmission now fr v w))"
proof (cases "\<exists>b r. find_row (v_battleId v) (w_rows w) = Some b
    \<and> kv_get now (w_runtime w) (v_battleId v) = Some r \<and> rb_state r = ACTIVE")
  case True
  then obtain b r where b: "find_row (v_battleId v) (w_rows w) = Some b"
    and r: "kv_get now (w_runtime w) (v_battleId v) = Some r" "rb_state r = ACTIVE" by blast
  let ?w1 = "logged now b ''submission:update''
     (submission_event_of (nextSeq (kv_list now (w_events w) (v_battleId v))) now v) w"
  have "logs_ok (w_events ?w1)"
    by (simp add: logs_ok_append logs_okI[OF inv] find_row_id[OF b])
  then have inv1: "battle_inv now ?w1" and g1: "good now w ?w1"
    using inv good_frame[OF inv, of ?w1] by (simp_all add: battle_inv_def)
  have "good now ?w1 (snd (withLock now (fr_lockToken fr) (v_battleId v) (claim_win b v) ?w1))"
    using inv1 free b r by (intro withLock_good claim_win_good) auto
  then have "good now w (snd (withLock now (fr_lockToken fr) (v_battleId v) (claim_win b v) ?w1))"
    by (simp add: good_def)
  with g1 b r show ?thesis by (simp add: recordSubmission_eq Let_def)
next
  case False
  then show ?thesis using good_same[OF inv] by (auto simp: recordSubmission_eq Let_def split: option.splits)
qed

section \<open>Joining and leaving\<close>

text \<open>A change of a row's members that keeps its status.\<close>

lemma good_row_update:
  assumes inv: "battle_inv t w" and b: "find_row i (w_rows w) = Some b"
    and f: "\<And>c. b_id (f c) = b_id c" "\<And>c. b_roomId (f c) = b_roomId c" "\<And>c. b_status (f c) = b_status c"
      "\<And>c. b_mode (f c) = b_mode c" "\<And>c. b_rated (f c) = b_rated c" "row_ok (f b)" "row_evolves b (f b)"
    and w': "w_rows w' = update_row i f (w_rows w)" "w_runtime w' = w_runtime w" "w_locks w' = w_locks w"
      "w_jobs w' = w_jobs w" "logs_ok (w_events w')"
  shows "good t w w'"
proof -
  have "runtime_ok (update_row i f (w_rows w)) j r" if "runtime_ok (w_rows w) j r" for j r
    using that f(1)
  proof (rule runtime_ok_row_update)
    fix c assume "find_row j (w_rows w) = Some c" "j = i"
    with b have c: "c = b" by simp
    with f show "b_status (f c) = b_status c \<and> b_roomId (f c) = b_roomId c
      \<and> rm_hostId (b_room (f c)) = rm_hostId (b_room c) \<and> b_mode (f c) = b_mode c \<and> b_rated (f c) = b_rated c
      \<and> set (participant_ids c) \<subseteq> set (participant_ids (f c))"
      by (simp add: row_evolves_def)
  qed
  then have "runtimes_ok t (w_rows w') (w_runtime w') (w_jobs w')"
    using inv_parts(2)[OF inv] by (simp add: w' runtimes_ok_def)
  moreover have "rows_ok (w_rows w')"
    unfolding w'(1) by (rule rows_ok_update[OF inv_parts(1)[OF inv] b f(1,2,6)])
  moreover have "rows_evolve (w_rows w) (w_rows w')"
    unfolding w'(1) by (rule rows_evolve_update[OF b f(1,7)])
  ultimately show ?thesis by (simp add: good_def battle_inv_def w')
qed

definition left_row :: "int \<Rightarrow> ident \<Rightarrow> battle_row \<Rightarrow> battle_row" where
  "left_row now u b = b\<lparr>b_room := mark_left now u (b_room b)\<rparr>"

lemma left_row_fields [simp]:
  "b_id (left_row t u b) = b_id b" "b_roomId (left_row t u b) = b_roomId b"
  "b_status (left_row t u b) = b_status b" "b_mode (left_row t u b) = b_mode b"
  "b_rated (left_row t u b) = b_rated b" "participant_ids (left_row t u b) = participant_ids b"
  by (simp_all add: left_row_def participant_ids_def)

lemma length_filter_weaken: "(\<And>x. Q x \<Longrightarrow> P x) \<Longrightarrow> length (filter Q xs) \<le> length (filter P xs)"
  by (induction xs) (auto intro: le_SucI)

lemma active_left_row: "length (active_members (left_row t u b)) \<le> length (active_members b)"
  unfolding active_members_def left_row_def mark_left_def
  by (simp add: filter_map, rule length_filter_weaken) (simp split: if_splits)

lemma left_row_users [simp]:
  "map rp_userId (rm_participants (b_room (left_row t u b))) = map rp_userId (rm_participants (b_room b))"
  by (simp add: left_row_def mark_left_def)

lemma left_row_room [simp]:
  "rm_maxParticipants (b_room (left_row t u b)) = rm_maxParticipants (b_room b)"
  "rm_status (b_room (left_row t u b)) = rm_status (b_room b)"
  "rm_hostId (b_room (left_row t u b)) = rm_hostId (b_room b)"
  "b_winnerId (left_row t u b) = b_winnerId b" "b_startedAt (left_row t u b) = b_startedAt b"
  "b_endedAt (left_row t u b) = b_endedAt b" "b_problemId (left_row t u b) = b_problemId b"
  by (simp_all add: left_row_def mark_left_def)

lemma left_row_ok: "row_ok b \<Longrightarrow> row_ok (left_row t u b)"
  using active_left_row[of t u b] by (auto simp: row_ok_def)

lemma left_row_evolves: "row_evolves b (left_row t u b)"
  by (simp add: row_evolves_def)

lemma leave_good:
  assumes inv: "battle_inv now w"
  shows "good now w (snd (leave now i u w))"
proof (cases "\<exists>b. find_row i (w_rows w) = Some b \<and> isParticipant b u")
  case False
  then show ?thesis using good_same[OF inv] by (auto simp: leave_def op_simps split: option.splits)
next
  case True
  then obtain b where b: "find_row i (w_rows w) = Some b" "isParticipant b u" by blast
  note id = find_row_id[OF b(1)]
  let ?w0 = "w\<lparr>w_rows := update_row i (left_row now u) (w_rows w)\<rparr>"
  let ?w1 = "logged now b ''battle:leave'' (participant_event (nextSeq (kv_list now (w_events w) i)) now u ''left'') ?w0"
  have g1: "good now w ?w1"
    by (rule good_row_update[OF inv b(1), of "left_row now u"])
      (use left_row_ok[OF rows_ok_row[OF inv_parts(1)[OF inv] b(1)]] id in
        \<open>simp_all add: left_row_evolves logs_ok_append logs_okI[OF inv]\<close>)
  then have inv1: "battle_inv now ?w1" by (simp add: good_def)
  have row1: "find_row i (w_rows ?w1) = Some (left_row now u b)" using b(1) by (simp add: find_row_update)
  have rem: "removeParticipant now (b_roomId b) u w = (Inr (), ?w0)"
    using room_update_is_row_update[OF inv_parts(1)[OF inv] b(1), of "left_row now u"]
    unfolding removeParticipant_def op_defs left_row_def[abs_def] by simp
  have emit: "good now w (snd (emitToRoom room ev p ?w1))" for room ev p
    using g1 by (simp add: emitToRoom_def op_defs good_def battle_inv_def)
  have close: "good now w (snd (cancelInternal now b r CANCELLED reason ?w1))"
    if r: "kv_get now (w_runtime w) i = Some r" for r reason
  proof -
    have "\<not> terminal_status (b_status (left_row now u b))"
      using row_of_runtime(1,5)[OF inv r b(1)]
      by (cases "rb_state r") (simp_all add: terminal_status_def isTerminal_def)
    then have "good now ?w1 (cancelled now b CANCELLED reason ?w1)"
      using good_cancelled[OF inv_parts[OF inv1] logs_okI[OF inv1], of b "left_row now u b" ?w1] row1 id by simp
    then show ?thesis using good_after[OF g1] row1 id
      by (simp add: cancelInternal_result[of b ?w1 "left_row now u b"])
  qed
  show ?thesis using g1 close emit b id rem
    by (auto simp: leave_def op_simps split: option.splits sum.splits prod.splits dest: sndI)
qed

definition joined_row :: "int \<Rightarrow> ident \<Rightarrow> battle_row \<Rightarrow> battle_row" where
  "joined_row now u b = b\<lparr>b_room := upsert_room_participant now u (b_room b),
     b_participants := upsert_battle_participant u (b_participants b)\<rparr>"

lemma joined_row_fields [simp]:
  "b_id (joined_row t u b) = b_id b" "b_roomId (joined_row t u b) = b_roomId b"
  "b_status (joined_row t u b) = b_status b" "b_mode (joined_row t u b) = b_mode b"
  "b_rated (joined_row t u b) = b_rated b" "b_winnerId (joined_row t u b) = b_winnerId b"
  "b_startedAt (joined_row t u b) = b_startedAt b" "b_endedAt (joined_row t u b) = b_endedAt b"
  "b_problemId (joined_row t u b) = b_problemId b"
  "rm_maxParticipants (b_room (joined_row t u b)) = rm_maxParticipants (b_room b)"
  "rm_status (b_room (joined_row t u b)) = rm_status (b_room b)"
  "rm_hostId (b_room (joined_row t u b)) = rm_hostId (b_room b)"
  by (simp_all add: joined_row_def upsert_room_participant_def)

lemma isParticipant_ids: "isParticipant b u \<longleftrightarrow> u \<in> set (participant_ids b)"
  by (auto simp: isParticipant_def participant_ids_def)

lemma joined_row_new:
  assumes "row_ok b" and "\<not> isParticipant b u"
  shows "participant_ids (joined_row t u b) = participant_ids b @ [u]"
    and "rm_participants (b_room (joined_row t u b)) =
      rm_participants (b_room b) @ [\<lparr>rp_userId = u, rp_joinedAt = t, rp_leftAt = None\<rparr>]"
proof -
  have "u \<notin> set (participant_ids b)" using assms(2) by (simp add: isParticipant_ids)
  moreover from this assms(1) have "u \<notin> rp_userId ` set (rm_participants (b_room b))"
    by (simp add: row_ok_def flip: set_map)
  ultimately show "participant_ids (joined_row t u b) = participant_ids b @ [u]"
    and "rm_participants (b_room (joined_row t u b)) =
      rm_participants (b_room b) @ [\<lparr>rp_userId = u, rp_joinedAt = t, rp_leftAt = None\<rparr>]"
    by (auto simp: joined_row_def upsert_battle_participant_def upsert_room_participant_def participant_ids_def)
qed

lemma joined_row_ok:
  assumes "row_ok b" and "\<not> isParticipant b u" and "length (active_members b) < rm_maxParticipants (b_room b)"
  shows "row_ok (joined_row t u b)" and "row_evolves b (joined_row t u b)"
proof -
  have "length (active_members (joined_row t u b)) = Suc (length (active_members b))"
    by (simp add: active_members_def joined_row_new[OF assms(1,2)])
  with assms show "row_ok (joined_row t u b)"
    by (simp add: row_ok_def joined_row_new[OF assms(1,2)] isParticipant_ids)
  show "row_evolves b (joined_row t u b)"
    by (simp add: row_evolves_def joined_row_new[OF assms(1,2)] subset_insertI)
qed

lemma update_row_comp:
  "(\<And>c. b_id (g c) = b_id c) \<Longrightarrow> update_row i f (update_row i g rows) = update_row i (\<lambda>b. f (g b)) rows"
  by (simp add: update_row_def)

lemma addParticipant_eq:
  assumes "rows_ok (w_rows w)" and "find_row i (w_rows w) = Some b"
  shows "addParticipant now i (b_roomId b) u w = (Inr (), w\<lparr>w_rows := update_row i (joined_row now u) (w_rows w)\<rparr>)"
proof -
  have "update_row i (\<lambda>b. b\<lparr>b_participants := upsert_battle_participant u (b_participants b)\<rparr>)
      (map (\<lambda>c. if b_roomId c = b_roomId b then c\<lparr>b_room := upsert_room_participant now u (b_room c)\<rparr> else c) (w_rows w))
    = update_row i (joined_row now u) (w_rows w)"
    unfolding room_update_is_row_update[OF assms] by (subst update_row_comp) (simp_all add: joined_row_def[abs_def])
  then show ?thesis by (simp add: addParticipant_def op_defs)
qed

lemma join_locked_success:
  assumes inv: "battle_inv now w" and b: "find_row i (w_rows w) = Some b"
    and join: "\<not> isParticipant b u" "rm_status (b_room b) = RoomWaiting"
      "length (active_members b) < rm_maxParticipants (b_room b)"
  defines "r \<equiv> map_option (\<lambda>rt. rt\<lparr>rb_participantIds := js_set (rb_participantIds rt @ [u])\<rparr>) (kv_get now (w_runtime w) i)"
  shows "join_locked i u now w = (Inr (toBattleDto (joined_row now u b) r),
    logged now (joined_row now u b) ''battle:join''
      (participant_event (nextSeq (kv_list now (w_events w) i)) now u ''joined'')
      (let w0 = w\<lparr>w_rows := update_row i (joined_row now u) (w_rows w)\<rparr>
       in case r of None \<Rightarrow> w0 | Some rt \<Rightarrow> stored now i (rt\<lparr>rb_updatedAt := now\<rparr>) w0))"
proof -
  note id = find_row_id[OF b]
  note add = addParticipant_eq[OF inv_parts(1)[OF inv] b, of now u]
  have row: "find_row i (update_row i (joined_row now u) (w_rows w)) = Some (joined_row now u b)"
    using b by (simp add: find_row_update)
  show ?thesis
  proof (cases "kv_get now (w_runtime w) i")
    case None
    with b id join add row show ?thesis
      by (simp add: join_locked_def op_simps findById_def assertJoinable_def r_def Let_def)
  next
    case (Some rt)
    with row_of_runtime(6)[OF inv Some b] b id join add row show ?thesis
      by (simp add: join_locked_def op_simps findById_def assertJoinable_def r_def Let_def stored_def)
  qed
qed

lemma join_locked_good:
  assumes inv: "battle_inv now w"
  shows "good now w (snd (join_locked i u now w))"
proof (cases "\<exists>b. find_row i (w_rows w) = Some b \<and> \<not> isParticipant b u \<and> rm_status (b_room b) = RoomWaiting
      \<and> length (active_members b) < rm_maxParticipants (b_room b)")
  case False
  then show ?thesis using good_same[OF inv]
    by (auto simp: join_locked_def op_simps findById_def assertJoinable_def split: option.splits)
next
  case True
  then obtain b where b: "find_row i (w_rows w) = Some b" and join: "\<not> isParticipant b u"
      "rm_status (b_room b) = RoomWaiting" "length (active_members b) < rm_maxParticipants (b_room b)" by blast
  note eq = join_locked_success[OF inv b join] and id = find_row_id[OF b]
  note row = rows_ok_row[OF inv_parts(1)[OF inv] b]
  note jok = joined_row_ok[OF row join(1,3), of now] and jnew = joined_row_new[OF row join(1), of now]
  show ?thesis
  proof (cases "kv_get now (w_runtime w) i")
    case None
    then show ?thesis
      by (intro good_row_update[OF inv b, of "joined_row now u"])
        (use eq jok id in \<open>simp_all add: Let_def logs_ok_append logs_okI[OF inv]\<close>)
  next
    case (Some r)
    note rr = row_of_runtime[OF inv Some b]
    have parts: "set (rb_participantIds r) \<subseteq> insert u (set (participant_ids b))" using rr(3) by blast
    have jobs: "w_jobs w (timer_of (rb_state r), i) \<noteq> None" by (rule job_pending[OF inv Some])
    show ?thesis
      by (rule good_transition[where f = "joined_row now u" and
            r' = "r\<lparr>rb_participantIds := js_set (rb_participantIds r @ [u]), rb_updatedAt := now\<rparr>", OF inv Some _ b])
        (use eq jok jnew id Some rr parts jobs in \<open>simp_all add: Let_def logs_ok_append logs_okI[OF inv]\<close>)
  qed
qed

lemma join_good:
  assumes inv: "battle_inv now w" and free: "w_locks w = Map.empty"
  shows "good now w (snd (join now fr dto u w))"
proof -
  have "snd (join_target now dto w) = w"
    by (auto simp: join_target_def resolveInvite_def findById_def findByRoomCode_def op_simps
        split: option.splits)
  moreover have "good now w (snd (withLock now (fr_lockToken fr) j (join_locked j u) w))" for j
    using inv free by (intro withLock_good join_locked_good) simp_all
  ultimately show ?thesis using good_same[OF inv]
    by (cases "join_target now dto w") (auto simp: join_def op_simps split: sum.splits)
qed

section \<open>Creation\<close>

definition fresh_ok :: "fresh_values \<Rightarrow> battle_world \<Rightarrow> bool" where
  "fresh_ok fr w \<longleftrightarrow> fr_battleId fr \<notin> b_id ` set (w_rows w) \<and> fr_roomId fr \<notin> b_roomId ` set (w_rows w)"

lemma rows_ok_append:
  "rows_ok rows \<Longrightarrow> row_ok b \<Longrightarrow> b_id b \<notin> b_id ` set rows \<Longrightarrow> b_roomId b \<notin> b_roomId ` set rows
    \<Longrightarrow> rows_ok (rows @ [b])"
  by (auto simp: rows_ok_def)

lemma runtime_ok_append: "runtime_ok rows i r \<Longrightarrow> runtime_ok (rows @ [b]) i r"
  by (auto simp: runtime_ok_def find_row_append)

lemma good_new_battle:
  assumes inv: "battle_inv t w" and new: "b_id b \<notin> b_id ` set (w_rows w)" "b_roomId b \<notin> b_roomId ` set (w_rows w)"
    and ok: "row_ok b" and r: "runtime_ok (w_rows w @ [b]) (b_id b) r" "rb_state r = WAITING"
    and w': "w_rows w' = w_rows w @ [b]" "w_runtime w' = kv_put (w_runtime w) (b_id b) r x"
      "w_locks w' = w_locks w" "w_events w' = w_events w" "w_jobs w' (JobReadyTimeout, b_id b) \<noteq> None"
      "\<And>k. w_jobs w k \<noteq> None \<Longrightarrow> w_jobs w' k \<noteq> None"
  shows "good t w w'"
proof -
  have "w_runtime w (b_id b) = None"
  proof (rule ccontr)
    assume "w_runtime w (b_id b) \<noteq> None"
    then obtain s y where "w_runtime w (b_id b) = Some (s, y)" by auto
    with inv_parts(2)[OF inv] have "runtime_ok (w_rows w) (b_id b) s" by (auto simp: runtimes_ok_def)
    with new(1) find_row_None[of "b_id b" "w_rows w"] show False by (simp add: runtime_ok_def)
  qed
  then have none: "kv_get t (w_runtime w) (b_id b) = None" by (simp add: kv_get_def)
  have "runtimes_ok t (w_rows w') (w_runtime w') (w_jobs w')"
    unfolding runtimes_ok_def w'(1,2)
  proof (intro allI impI)
    fix j s y assume j: "kv_put (w_runtime w) (b_id b) r x j = Some (s, y)"
    show "runtime_ok (w_rows w @ [b]) j s \<and> (alive t y \<longrightarrow> w_jobs w' (timer_of (rb_state s), j) \<noteq> None)"
    proof (cases "j = b_id b")
      case True
      with j r w'(5) show ?thesis by (simp add: kv_put_def)
    next
      case False
      with j have "w_runtime w j = Some (s, y)" by (simp add: kv_put_def)
      with inv_parts(2)[OF inv] w'(6) show ?thesis by (auto simp: runtimes_ok_def intro: runtime_ok_append)
    qed
  qed
  moreover have "rows_ok (w_rows w')" unfolding w'(1) by (rule rows_ok_append[OF inv_parts(1)[OF inv] ok new])
  moreover have "rows_evolve (w_rows w) (w_rows w')" by (simp add: rows_evolve_def w'(1) find_row_append)
  moreover have "runtime_evolves t (w_runtime w) (w_runtime w')"
    using none r(2) by (simp add: runtime_evolves_def w'(2) kv_get_put state_evolves_def split: option.splits)
  ultimately show ?thesis using w'(3,4) logs_okI[OF inv] by (simp add: good_def battle_inv_def)
qed

definition new_row :: "int \<Rightarrow> fresh_values \<Rightarrow> create_battle_dto \<Rightarrow> ident \<Rightarrow> ident \<Rightarrow> battle_row" where
  "new_row now fr dto pid u = \<lparr>b_id = fr_battleId fr, b_roomId = fr_roomId fr, b_problemId = pid,
     b_mode = cd_mode dto, b_status = StScheduled, b_rated = (cd_rated dto \<and> cd_type dto \<noteq> TypePractice),
     b_startedAt = None, b_endedAt = None, b_winnerId = None, b_createdAt = now,
     b_room = \<lparr>rm_code = generateCode (fr_bytes fr), rm_name = cd_name dto, rm_type = room_type_of (cd_type dto),
       rm_status = RoomWaiting, rm_hostId = u, rm_maxParticipants = cd_capacity dto,
       rm_isPrivate = (cd_isPrivate dto \<or> cd_type dto = TypePrivate), rm_battleType = Some (cd_type dto),
       rm_participants = [\<lparr>rp_userId = u, rp_joinedAt = now, rp_leftAt = None\<rparr>]\<rparr>,
     b_participants = [\<lparr>bp_userId = u, bp_score = 0, bp_rank = None\<rparr>]\<rparr>"

definition new_runtime :: "int \<Rightarrow> fresh_values \<Rightarrow> create_battle_dto \<Rightarrow> ident \<Rightarrow> ident \<Rightarrow> runtime_battle" where
  "new_runtime now fr dto pid u = \<lparr>rb_battleId = fr_battleId fr, rb_roomId = fr_roomId fr, rb_hostId = u,
     rb_mode = cd_mode dto, rb_type = cd_type dto, rb_rated = (cd_rated dto \<and> cd_type dto \<noteq> TypePractice),
     rb_state = WAITING, rb_problemId = Some pid, rb_participantIds = [u], rb_startedAt = None,
     rb_durationMs = (case cd_durationMs dto of None \<Rightarrow> default_duration_ms | Some d \<Rightarrow> d),
     rb_pausedAt = None, rb_winnerId = None, rb_updatedAt = now\<rparr>"

definition code_taken :: "fresh_values \<Rightarrow> battle_world \<Rightarrow> bool" where
  "code_taken fr w \<longleftrightarrow> (\<exists>b \<in> set (w_rows w). rm_code (b_room b) = generateCode (fr_bytes fr))"

lemma create_success:
  assumes "cd_problemId dto = Some pid" and "pid \<noteq> []" and "\<not> code_taken fr w"
  shows "create now fr dto u w =
    (Inr (toBattleDto (new_row now fr dto pid u) (Some (new_runtime now fr dto pid u)), fr_inviteToken fr),
     timed JobReadyTimeout (now + ready_timeout_ms) (fr_battleId fr)
       ((stored now (fr_battleId fr) (new_runtime now fr dto pid u) (w\<lparr>w_rows := w_rows w @ [new_row now fr dto pid u]\<rparr>))
        \<lparr>w_invites := kv_put (w_invites w) (fr_inviteToken fr) (fr_battleId fr) (ttl_ms now invite_ttl_seconds)\<rparr>))"
  using assms
  by (simp add: create_def createRoomWithBattle_def op_simps Let_def new_row_def new_runtime_def
      createInvite_def scheduleReadyTimeout_def code_taken_def stored_def)

lemma create_good:
  assumes inv: "battle_inv now w" and fresh: "fresh_ok fr w" and cap: "1 \<le> cd_capacity dto"
  shows "good now w (snd (create now fr dto u w))"
proof (cases "\<exists>pid. cd_problemId dto = Some pid \<and> pid \<noteq> [] \<and> \<not> code_taken fr w")
  case False
  then show ?thesis using good_same[OF inv]
    by (auto simp: create_def createRoomWithBattle_def op_simps code_taken_def split: option.splits)
next
  case True
  then obtain pid where p: "cd_problemId dto = Some pid" "pid \<noteq> []" "\<not> code_taken fr w" by blast
  let ?b = "new_row now fr dto pid u" and ?r = "new_runtime now fr dto pid u"
  have id: "b_id ?b = fr_battleId fr" "b_roomId ?b = fr_roomId fr" by (simp_all add: new_row_def)
  have ok: "row_ok ?b" using cap by (simp add: new_row_def row_ok_def participant_ids_def active_members_def)
  have "find_row (fr_battleId fr) (w_rows w @ [?b]) = Some ?b"
    using fresh id by (simp add: find_row_append fresh_ok_def find_row_None[THEN iffD2] split: option.splits)
  then have r: "runtime_ok (w_rows w @ [?b]) (b_id ?b) ?r"
    by (simp add: runtime_ok_def id) (simp add: new_row_def new_runtime_def isTerminal_def participant_ids_def)
  show ?thesis
    by (rule good_new_battle[OF inv _ _ ok r])
      (use fresh id in \<open>auto simp: create_success[OF p] fresh_ok_def new_runtime_def\<close>)
qed

lemma rematch_good:
  assumes inv: "battle_inv now w" and fresh: "fresh_ok fr w"
  shows "good now w (snd (rematch now fr i u w))"
proof (cases "find_row i (w_rows w)")
  case None
  then show ?thesis using good_same[OF inv] by (simp add: rematch_def op_simps)
next
  case (Some b)
  have "1 \<le> rm_maxParticipants (b_room b)"
    using rows_ok_row[OF inv_parts(1)[OF inv] Some] by (simp add: row_ok_def)
  with Some show ?thesis using good_same[OF inv] create_good[OF inv fresh]
    by (simp add: rematch_def op_simps)
qed

end
