(* ===== verification/BattleSystem.thy ===== *)
theory BattleSystem
  imports BattleGood
begin

text \<open>
  The battle engine as a system: requests, verdicts and due jobs in any order, on a clock that
  does not run backwards. The invariant of the single operations holds in every reachable world,
  and the properties of the engine follow from it.
\<close>

section \<open>Steps\<close>

datatype battle_cmd =
  CmdCreate fresh_values create_battle_dto ident
| CmdJoin fresh_values join_dto ident
| CmdReady ident ident
| CmdStart ident ident
| CmdPause ident int ident
| CmdResume ident int ident
| CmdFinish fresh_values ident int "ident option" ident
| CmdCancel ident ident
| CmdLeave ident ident
| CmdRematch fresh_values ident ident
| CmdVerdict fresh_values verdict_msg

fun exec_cmd :: "int \<Rightarrow> battle_cmd \<Rightarrow> battle_world \<Rightarrow> battle_world" where
  "exec_cmd now (CmdCreate fr dto u) w = snd (create now fr dto u w)"
| "exec_cmd now (CmdJoin fr dto u) w = snd (join now fr dto u w)"
| "exec_cmd now (CmdReady i u) w = snd (markReady now i u w)"
| "exec_cmd now (CmdStart i u) w = snd (startCountdown now i u w)"
| "exec_cmd now (CmdPause i n u) w = snd (pause now i n u w)"
| "exec_cmd now (CmdResume i n u) w = snd (resume now i n u w)"
| "exec_cmd now (CmdFinish fr i n win u) w = snd (finish now fr i n win u w)"
| "exec_cmd now (CmdCancel i u) w = snd (cancel now i u w)"
| "exec_cmd now (CmdLeave i u) w = snd (leave now i u w)"
| "exec_cmd now (CmdRematch fr i u) w = snd (rematch now fr i u w)"
| "exec_cmd now (CmdVerdict fr v) w = snd (handle_verdict now fr v w)"

text \<open>Generated identifiers are new, and the request schema asks for at least two seats.\<close>

fun cmd_ok :: "battle_cmd \<Rightarrow> battle_world \<Rightarrow> bool" where
  "cmd_ok (CmdCreate fr dto u) w = (fresh_ok fr w \<and> default_capacity \<le> cd_capacity dto)"
| "cmd_ok (CmdRematch fr i u) w = fresh_ok fr w"
| "cmd_ok _ w = True"

definition job_done :: "job_kind \<Rightarrow> ident \<Rightarrow> battle_world \<Rightarrow> battle_world" where
  "job_done k i w = w\<lparr>w_jobs := (w_jobs w)((k, i) := None)\<rparr>"

definition fire :: "int \<Rightarrow> job_kind \<Rightarrow> ident \<Rightarrow> battle_world \<Rightarrow> battle_world" where
  "fire now k i w = job_done k i (snd (run_job now k i w))"

inductive battle_step :: "int \<times> battle_world \<Rightarrow> int \<times> battle_world \<Rightarrow> bool" where
  request: "t \<le> t' \<Longrightarrow> cmd_ok c w \<Longrightarrow> battle_step (t, w) (t', exec_cmd t' c w)"
| job: "t \<le> t' \<Longrightarrow> w_jobs w (k, i) = Some d \<Longrightarrow> d \<le> t' \<Longrightarrow> battle_step (t, w) (t', fire t' k i w)"

inductive_cases battle_stepE: "battle_step (t, w) (t', w')"

definition no_battles :: battle_world where
  "no_battles = \<lparr>w_rows = [], w_runtime = Map.empty, w_ready = Map.empty, w_invites = Map.empty,
     w_events = Map.empty, w_nonces = Map.empty, w_locks = Map.empty, w_jobs = (\<lambda>_. None),
     w_sent = [], w_ratingQueue = []\<rparr>"

inductive battle_reachable :: "int \<times> battle_world \<Rightarrow> bool" where
  start: "battle_reachable (t, no_battles)"
| step: "battle_reachable s \<Longrightarrow> battle_step s s' \<Longrightarrow> battle_reachable s'"

section \<open>The invariant\<close>

definition engine_ok :: "int \<Rightarrow> battle_world \<Rightarrow> bool" where
  "engine_ok t w \<longleftrightarrow> battle_inv t w \<and> w_locks w = Map.empty"

lemma engine_later: "engine_ok t w \<Longrightarrow> t \<le> t' \<Longrightarrow> engine_ok t' w"
  by (auto simp: engine_ok_def battle_inv_def intro: runtimes_ok_later)

lemma exec_cmd_good:
  assumes "engine_ok now w" and "cmd_ok c w"
  shows "good now w (exec_cmd now c w)"
  using assms
  by (cases c) (auto simp: engine_ok_def default_capacity_def handle_verdict_def intro: create_good join_good
      markReady_good startCountdown_good pause_good resume_good finish_good cancel_good leave_good
      rematch_good recordSubmission_good)

lemma run_job_good:
  assumes "engine_ok now w"
  shows "good now w (snd (run_job now k i w))"
  using assms by (cases k) (auto simp: engine_ok_def run_job_def intro: activate_good expire_good readyTimeout_good)

text \<open>A job that has run leaves its battle in a state that waits for another timer, or closed.\<close>

lemma activate_settles:
  assumes inv: "battle_inv now w" and after: "kv_get now (w_runtime (snd (activate now i w))) i = Some r"
  shows "rb_state r \<noteq> COUNTDOWN"
proof (cases "kv_get now (w_runtime w) i")
  case None
  with inv after show ?thesis by (auto simp: activate_eq[OF inv_parts(1)] split: option.splits)
next
  case (Some s)
  then obtain b where "find_row i (w_rows w) = Some b" using inv by (auto elim!: battle_invD)
  with Some inv after show ?thesis
    by (auto simp: activate_eq[OF inv_parts(1)] Let_def kv_get_put split: if_splits)
qed

lemma expire_settles: "battle_inv now w \<Longrightarrow> kv_get now (w_runtime (snd (expire now i w))) i = None"
  by (auto simp: expire_eq finalized_def cancelled_def Let_def kv_get_del elim!: battle_invD
      dest: find_row_id split: option.splits)

lemma readyTimeout_settles:
  assumes inv: "battle_inv now w" and after: "kv_get now (w_runtime (snd (readyTimeout now i w))) i = Some r"
  shows "rb_state r \<noteq> WAITING"
proof (cases "kv_get now (w_runtime w) i")
  case None
  with inv after show ?thesis by (simp add: readyTimeout_eq)
next
  case (Some s)
  then obtain b where b: "find_row i (w_rows w) = Some b" using inv by (auto elim!: battle_invD)
  with Some inv after find_row_id[OF b] show ?thesis
    by (auto simp: readyTimeout_eq cancelled_def Let_def kv_get_del split: if_splits)
qed

lemma run_job_settles:
  assumes "battle_inv now w" and "kv_get now (w_runtime (snd (run_job now k i w))) i = Some r"
  shows "timer_of (rb_state r) \<noteq> k"
  using assms activate_settles[of now w i r] expire_settles[of now w i] readyTimeout_settles[of now w i r]
  by (cases k; cases "rb_state r") (auto simp: run_job_def)

lemma fire_good:
  assumes ok: "engine_ok now w"
  shows "good now w (fire now k i w)"
proof -
  let ?w = "snd (run_job now k i w)"
  have g: "good now w ?w" by (rule run_job_good[OF ok])
  have "runtimes_ok now (w_rows ?w) (w_runtime ?w) ((w_jobs ?w)((k, i) := None))"
    unfolding runtimes_ok_def
  proof (intro allI impI)
    fix j r x assume j: "w_runtime ?w j = Some (r, x)"
    with g have ro: "runtime_ok (w_rows ?w) j r" "alive now x \<longrightarrow> w_jobs ?w (timer_of (rb_state r), j) \<noteq> None"
      by (auto simp: good_def battle_inv_def runtimes_ok_def)
    have "timer_of (rb_state r) \<noteq> k" if "alive now x" "j = i"
    proof -
      from that j have "kv_get now (w_runtime ?w) i = Some r" by (auto simp: kv_get_Some)
      from run_job_settles[OF _ this] ok show ?thesis by (simp add: engine_ok_def)
    qed
    with ro show "runtime_ok (w_rows ?w) j r \<and>
        (alive now x \<longrightarrow> ((w_jobs ?w)((k, i) := None)) (timer_of (rb_state r), j) \<noteq> None)"
      by auto
  qed
  with g show ?thesis by (simp add: good_def battle_inv_def fire_def job_done_def)
qed

lemma step_good:
  assumes "battle_step (t, w) (t', w')" and "engine_ok t w"
  shows "t \<le> t' \<and> good t' w w'"
  using assms by (auto elim!: battle_stepE intro: exec_cmd_good fire_good engine_later)

lemma step_ok: "battle_step (t, w) (t', w') \<Longrightarrow> engine_ok t w \<Longrightarrow> engine_ok t' w'"
  using step_good[of t w t' w'] by (auto simp: engine_ok_def good_def)

lemma engine_start: "engine_ok t no_battles"
  by (simp add: engine_ok_def battle_inv_def no_battles_def rows_ok_def runtimes_ok_def logs_ok_def)

lemma reachable_engine: "battle_reachable s \<Longrightarrow> engine_ok (fst s) (snd s)"
proof (induction rule: battle_reachable.induct)
  case (start t)
  show ?case by (simp add: engine_start)
next
  case (step s s')
  then show ?case using step_ok[of "fst s" "snd s" "fst s'" "snd s'"] by simp
qed

lemma reachable_inv: "battle_reachable (t, w) \<Longrightarrow> battle_inv t w"
  using reachable_engine[of "(t, w)"] by (simp add: engine_ok_def)

lemma steps_rows:
  assumes "battle_step\<^sup>*\<^sup>* s s'" and "engine_ok (fst s) (snd s)"
  shows "engine_ok (fst s') (snd s') \<and> rows_evolve (w_rows (snd s)) (w_rows (snd s'))"
  using assms
proof (induction rule: rtranclp_induct)
  case base
  then show ?case by simp
next
  case (step y z)
  then have ok: "engine_ok (fst y) (snd y)" and ev: "rows_evolve (w_rows (snd s)) (w_rows (snd y))" by auto
  from step(2) have st: "battle_step (fst y, snd y) (fst z, snd z)" by simp
  from step_good[OF st ok] step_ok[OF st ok] ev show ?case by (auto simp: good_def intro: rows_evolve_trans)
qed

end
