(* ===== verification/BattleDemo.thy ===== *)
theory BattleDemo
  imports BattleSystem
begin

text \<open>
  One concrete run of the engine: a battle is created, a guest joins, the host starts it, it is
  activated by its timer, paused and resumed. The worlds of this run witness the properties.
\<close>

definition demo_fr :: fresh_values where
  "demo_fr = \<lparr>fr_bytes = [0, 1, 2, 3, 4, 5], fr_inviteToken = ''tok'', fr_lockToken = ''lk'',
     fr_roomId = ''r1'', fr_battleId = ''b1''\<rparr>"

definition demo_dto :: create_battle_dto where
  "demo_dto = \<lparr>cd_type = TypeOneVsOne, cd_mode = ModeOneVsOne, cd_problemId = Some ''p1'',
     cd_rated = True, cd_isPrivate = False, cd_name = ''n'', cd_capacity = 2, cd_durationMs = Some 60000\<rparr>"

definition demo_join :: join_dto where
  "demo_join = \<lparr>jd_battleId = Some ''b1'', jd_code = None, jd_inviteToken = None\<rparr>"

definition demo_created :: battle_world where
  "demo_created = exec_cmd 1000 (CmdCreate demo_fr demo_dto ''h'') no_battles"

definition demo_joined :: battle_world where
  "demo_joined = exec_cmd 2000 (CmdJoin demo_fr demo_join ''g'') demo_created"

definition demo_counting :: battle_world where
  "demo_counting = exec_cmd 3000 (CmdStart ''b1'' ''h'') demo_joined"

definition demo_active :: battle_world where
  "demo_active = fire 8000 JobStartActive ''b1'' demo_counting"

definition demo_paused :: battle_world where
  "demo_paused = exec_cmd 9000 (CmdPause ''b1'' 1 ''h'') demo_active"

definition demo_resumed :: battle_world where
  "demo_resumed = exec_cmd 29000 (CmdResume ''b1'' 2 ''h'') demo_paused"

lemma reach_created: "battle_reachable (1000, demo_created)"
  unfolding demo_created_def
  by (rule battle_reachable.step[OF battle_reachable.start[of 0]], rule battle_step.request)
    (simp_all add: fresh_ok_def no_battles_def default_capacity_def demo_dto_def)

lemma reach_joined: "battle_reachable (2000, demo_joined)"
  unfolding demo_joined_def
  by (rule battle_reachable.step[OF reach_created], rule battle_step.request) simp_all

lemma reach_counting: "battle_reachable (3000, demo_counting)"
  unfolding demo_counting_def
  by (rule battle_reachable.step[OF reach_joined], rule battle_step.request) simp_all

lemma counting_job: "w_jobs demo_counting (JobStartActive, ''b1'') = Some 8000"
  by code_simp

lemma reach_active: "battle_reachable (8000, demo_active)"
  unfolding demo_active_def
  by (rule battle_reachable.step[OF reach_counting], rule battle_step.job[OF _ counting_job]) simp_all

lemma reach_paused: "battle_reachable (9000, demo_paused)"
  unfolding demo_paused_def
  by (rule battle_reachable.step[OF reach_active], rule battle_step.request) simp_all

lemma reach_resumed: "battle_reachable (29000, demo_resumed)"
  unfolding demo_resumed_def
  by (rule battle_reachable.step[OF reach_paused], rule battle_step.request) simp_all

section \<open>What the worlds of the run hold\<close>

definition demo_row :: battle_row where
  "demo_row = \<lparr>b_id = ''b1'', b_roomId = ''r1'', b_problemId = ''p1'', b_mode = ModeOneVsOne,
     b_status = StScheduled, b_rated = True, b_startedAt = None, b_endedAt = None, b_winnerId = None,
     b_createdAt = 1000,
     b_room = \<lparr>rm_code = ''ABCDEF'', rm_name = ''n'', rm_type = RtBattle, rm_status = RoomWaiting,
       rm_hostId = ''h'', rm_maxParticipants = 2, rm_isPrivate = False, rm_battleType = Some TypeOneVsOne,
       rm_participants = [\<lparr>rp_userId = ''h'', rp_joinedAt = 1000, rp_leftAt = None\<rparr>,
         \<lparr>rp_userId = ''g'', rp_joinedAt = 2000, rp_leftAt = None\<rparr>]\<rparr>,
     b_participants = [\<lparr>bp_userId = ''h'', bp_score = 0, bp_rank = None\<rparr>,
       \<lparr>bp_userId = ''g'', bp_score = 0, bp_rank = None\<rparr>]\<rparr>"

definition demo_runtime :: "runtime_state \<Rightarrow> int \<Rightarrow> runtime_battle" where
  "demo_runtime s t = \<lparr>rb_battleId = ''b1'', rb_roomId = ''r1'', rb_hostId = ''h'', rb_mode = ModeOneVsOne,
     rb_type = TypeOneVsOne, rb_rated = True, rb_state = s, rb_problemId = Some ''p1'',
     rb_participantIds = [''h'', ''g''], rb_startedAt = None, rb_durationMs = 60000, rb_pausedAt = None,
     rb_winnerId = None, rb_updatedAt = t\<rparr>"

lemma counting_facts:
  "w_rows demo_counting = [demo_row]"
  "w_runtime demo_counting ''b1'' = Some (demo_runtime COUNTDOWN 3000, Some 21603000)"
  "w_nonces demo_counting (''b1'', ''h'') = None"
  "w_jobs demo_counting (JobExpire, ''b1'') = None"
  by code_simp+

definition demo_row_active :: battle_row where
  "demo_row_active = demo_row\<lparr>b_status := StInProgress, b_startedAt := Some 8000\<rparr>"

definition demo_runtime_active :: runtime_battle where
  "demo_runtime_active = (demo_runtime ACTIVE 8000)\<lparr>rb_startedAt := Some 8000\<rparr>"

lemma find_demo_row [simp]: "find_row ''b1'' [demo_row_active] = Some demo_row_active"
  by (simp add: find_row_def demo_row_active_def demo_row_def)

lemma active_facts:
  "find_row ''b1'' (w_rows demo_active) = Some demo_row_active"
  "w_rows demo_active = [demo_row_active]"
  "t \<le> 21608000 \<Longrightarrow> kv_get t (w_runtime demo_active) ''b1'' = Some demo_runtime_active"
  "w_jobs demo_active (JobExpire, ''b1'') = Some 68000"
  "w_nonces demo_active (''b1'', ''h'') = None"
  "w_locks demo_active = Map.empty"
proof -
  have get: "kv_get 8000 (w_runtime demo_counting) ''b1'' = Some (demo_runtime COUNTDOWN 3000)"
    by (simp add: kv_get_def counting_facts)
  have row: "find_row ''b1'' (w_rows demo_counting) = Some demo_row"
    by (simp add: counting_facts find_row_def demo_row_def)
  have eq: "demo_active = job_done JobStartActive ''b1'' (timed JobExpire 68000 ''b1''
      (logged 8000 demo_row ''battle:start''
         (state_event (nextSeq (kv_list 8000 (w_events demo_counting) ''b1'')) 8000 ACTIVE (Some ''p1''))
         ((stored 8000 ''b1'' demo_runtime_active demo_counting)
           \<lparr>w_rows := update_row ''b1'' (\<lambda>b. b\<lparr>b_status := StInProgress, b_startedAt := Some 8000\<rparr>) (w_rows demo_counting)\<rparr>)))"
    unfolding demo_active_def fire_def run_job_def
    by (simp add: activate_eq[OF inv_parts(1)[OF reachable_inv[OF reach_counting]]] get row Let_def)
      (simp add: demo_runtime_def demo_runtime_active_def)
  show "find_row ''b1'' (w_rows demo_active) = Some demo_row_active" "w_rows demo_active = [demo_row_active]"
    "w_jobs demo_active (JobExpire, ''b1'') = Some 68000" "w_nonces demo_active (''b1'', ''h'') = None"
    unfolding eq by (simp_all add: job_done_def counting_facts update_row_def find_row_def)
      (simp_all add: demo_row_def demo_row_active_def)
  show "t \<le> 21608000 \<Longrightarrow> kv_get t (w_runtime demo_active) ''b1'' = Some demo_runtime_active"
    unfolding eq by (simp add: job_done_def kv_get_put ttl_ms_def runtime_state_ttl_seconds_def)
  show "w_locks demo_active = Map.empty"
    using reachable_engine[OF reach_active] by (simp add: engine_ok_def)
qed

end
