(* ===== verification/BattleProps.thy ===== *)
theory BattleProps
  imports BattleDemo
begin

text \<open>
  The properties of the battle engine, stated over reachable worlds or over single operations,
  each with a witness on the run of the previous theory.
\<close>

section \<open>Helpers\<close>

lemma reachable_runtime:
  assumes "battle_reachable (t, w)" and "kv_get t (w_runtime w) i = Some r"
  shows "runtime_ok (w_rows w) i r" and "w_jobs w (timer_of (rb_state r), i) \<noteq> None"
  using runtimes_okD[OF inv_parts(2)[OF reachable_inv[OF assms(1)]] assms(2)] .

lemma reachable_row:
  "battle_reachable (t, w) \<Longrightarrow> b \<in> set (w_rows w) \<Longrightarrow> row_ok b"
  using reachable_inv[of t w] by (auto simp: battle_inv_def rows_ok_def)

lemma reachable_later: "battle_reachable (t, w) \<Longrightarrow> t \<le> t' \<Longrightarrow> battle_inv t' w \<and> w_locks w = Map.empty"
  using engine_later[of t w t'] reachable_engine[of "(t, w)"] by (simp add: engine_ok_def)

lemma reachable_live:
  assumes "battle_reachable (t, w)" and "t \<le> t'" and "kv_get t' (w_runtime w) i = Some r"
  obtains b where "find_row i (w_rows w) = Some b" "b_id b = i" "b_status b = toPersistedStatus (rb_state r)"
    "rb_battleId r = i" "rb_winnerId r = None" "rb_mode r = b_mode b" "row_ok b"
proof -
  from reachable_later[OF assms(1,2)] have inv: "battle_inv t' w" by simp
  obtain b where b: "find_row i (w_rows w) = Some b" "b_id b = i" "b_status b = toPersistedStatus (rb_state r)"
    "rb_battleId r = i" "rb_winnerId r = None" "rb_mode r = b_mode b"
    using battle_invD[OF inv assms(3)] by metis
  from rows_ok_row[OF inv_parts(1)[OF inv] b(1)] b show ?thesis by (intro that)
qed

lemma readyTimeout_closes:
  assumes inv: "battle_inv t w" and r: "kv_get t (w_runtime w) i = Some r" and st: "rb_state r = WAITING"
  shows "kv_get t (w_runtime (snd (readyTimeout t i w))) i = None"
proof -
  from inv r obtain b where b: "find_row i (w_rows w) = Some b" by (auto elim!: battle_invD)
  with find_row_id[OF b] r st show ?thesis by (simp add: readyTimeout_eq[OF inv] cancelled_def Let_def kv_get_del)
qed

lemma find_row_finished:
  "find_row i (w_rows w) = Some b \<Longrightarrow>
     find_row i (w_rows (finalized t b r win reason w)) = Some (finish_row win t (computeRanks b win) b)"
  using find_row_id[of i "w_rows w" b] by (simp add: finalized_def Let_def find_row_update)

lemma finalized_gone [simp]:
  "b_id b = i \<Longrightarrow> kv_get t' (w_runtime (finalized t b r win reason w)) i = None"
  "b_id b = i \<Longrightarrow> kv_list t' (w_events (finalized t b r win reason w)) i = []"
  "b_id b = i \<Longrightarrow> w_jobs (finalized t b r win reason w) (k, i) = None"
  by (cases k; simp add: finalized_def Let_def kv_get_del kv_list_del)+

lemma cancelled_gone [simp]:
  "b_id b = i \<Longrightarrow> kv_get t' (w_runtime (cancelled t b to reason w)) i = None"
  "b_id b = i \<Longrightarrow> kv_list t' (w_events (cancelled t b to reason w)) i = []"
  by (simp_all add: cancelled_def Let_def kv_get_del kv_list_del)

section \<open>Lifecycle\<close>

text \<open>
  C1. In every reachable world a live runtime record belongs to a durable row: the row's status
  is the projection of the record's state, which is not terminal and has no winner yet; host,
  room, mode and rating agree, and the record lists only participants of the row.
\<close>

theorem live_battle_projects:
  assumes "battle_reachable (t, w)" and "kv_get t (w_runtime w) i = Some r"
  shows "\<exists>b. find_row i (w_rows w) = Some b \<and> b_status b = toPersistedStatus (rb_state r)
     \<and> \<not> isTerminal (rb_state r) \<and> rb_winnerId r = None \<and> b_winnerId b = None
     \<and> rm_hostId (b_room b) = rb_hostId r \<and> b_roomId b = rb_roomId r
     \<and> b_mode b = rb_mode r \<and> b_rated b = rb_rated r
     \<and> set (rb_participantIds r) \<subseteq> set (participant_ids b)"
proof -
  from reachable_runtime(1)[OF assms] obtain b where
    b: "find_row i (w_rows w) = Some b" "b_status b = toPersistedStatus (rb_state r)"
    and nt: "\<not> isTerminal (rb_state r)" and rest: "rb_winnerId r = None \<and> rm_hostId (b_room b) = rb_hostId r
      \<and> b_roomId b = rb_roomId r \<and> b_mode b = rb_mode r \<and> b_rated b = rb_rated r
      \<and> set (rb_participantIds r) \<subseteq> set (participant_ids b)"
    by (auto simp: runtime_ok_def)
  from b(1) have "row_ok b" using reachable_row[OF assms(1)] by (blast dest: find_row_Some)
  moreover have "b_status b \<noteq> StFinished" using b(2) nt by (cases "rb_state r") (auto simp: terminal_states)
  ultimately have "b_winnerId b = None" by (auto simp: row_ok_def)
  with b nt rest show ?thesis by blast
qed

lemma live_battle_projects_witness:
  "\<exists>b. find_row ''b1'' (w_rows demo_active) = Some b \<and> b_status b = StInProgress"
proof -
  have "kv_get 8000 (w_runtime demo_active) ''b1'' = Some demo_runtime_active" by (rule active_facts) simp
  from live_battle_projects[OF reach_active this] show ?thesis
    by (auto simp: demo_runtime_active_def demo_runtime_def)
qed

text \<open>
  C2. A closed battle stays closed: once its row is finished or aborted, no request and no job, in
  any order and number, changes its status, its winner or its end.
\<close>

theorem closed_battle_final:
  assumes "battle_reachable s" and "battle_step\<^sup>*\<^sup>* s s'" and "find_row i (w_rows (snd s)) = Some b"
    and "b_status b = StFinished \<or> b_status b = StAborted"
  shows "\<exists>b'. find_row i (w_rows (snd s')) = Some b' \<and> b_status b' = b_status b
     \<and> b_winnerId b' = b_winnerId b \<and> b_endedAt b' = b_endedAt b"
proof -
  from steps_rows[OF assms(2) reachable_engine[OF assms(1)]] assms(3)
  obtain b' where "find_row i (w_rows (snd s')) = Some b'" "row_evolves b b'"
    by (auto simp: rows_evolve_def)
  with assms(4) show ?thesis by (intro exI[of _ b']) (auto simp: row_evolves_def terminal_status_def)
qed

definition demo_cancelled :: battle_world where
  "demo_cancelled = exec_cmd 3000 (CmdCancel ''b1'' ''h'') demo_joined"

lemma reach_cancelled: "battle_reachable (3000, demo_cancelled)"
  unfolding demo_cancelled_def
  by (rule battle_reachable.step[OF reach_joined], rule battle_step.request) simp_all

lemma closed_battle_final_witness:
  "\<exists>b'. find_row ''b1'' (w_rows (exec_cmd 4000 (CmdStart ''b1'' ''h'') demo_cancelled)) = Some b'
     \<and> b_status b' = StAborted"
proof -
  have b: "map_option b_status (find_row ''b1'' (w_rows demo_cancelled)) = Some StAborted"
    by code_simp
  have st: "battle_step\<^sup>*\<^sup>* (3000, demo_cancelled) (4000, exec_cmd 4000 (CmdStart ''b1'' ''h'') demo_cancelled)"
    by (rule r_into_rtranclp, rule battle_step.request) simp_all
  from b obtain b where "find_row ''b1'' (w_rows (snd (3000::int, demo_cancelled))) = Some b" "b_status b = StAborted"
    by auto
  from closed_battle_final[OF reach_cancelled st this(1)] this(2) show ?thesis by auto
qed





section \<open>Verdicts\<close>

lemma claim_world:
  assumes live: "battle_reachable (t, w)" "t \<le> t'" and r: "kv_get t' (w_runtime w) (v_battleId v) = Some r"
    and st: "rb_state r = ACTIVE" "rb_mode r = ModeOneVsOne" "v_status v = ''ACCEPTED''"
    and b: "find_row (v_battleId v) (w_rows w) = Some b"
  shows "\<exists>w1. w_rows w1 = w_rows w \<and> w_ratingQueue w1 = w_ratingQueue w \<and>
     snd (handle_verdict t' fr v w) = release t' (v_battleId v) (fr_lockToken fr)
       (finalized t' b (r\<lparr>rb_winnerId := Some (v_userId v)\<rparr>) (Some (v_userId v)) ''first_accepted'' w1)"
proof -
  let ?i = "v_battleId v"
  from reachable_later[OF live] have inv: "battle_inv t' w" and free: "w_locks w = Map.empty" by auto
  have win: "\<not> truthy_str (rb_winnerId r)" and id: "rb_battleId r = ?i"
    using row_of_runtime(4,6)[OF inv r b] by simp_all
  let ?w1 = "logged t' b ''submission:update'' (submission_event_of (nextSeq (kv_list t' (w_events w) ?i)) t' v) w"
  let ?w2 = "?w1\<lparr>w_locks := kv_put (w_locks ?w1) ?i (fr_lockToken fr) (Some (t' + lock_lease_ms))\<rparr>"
  have "kv_get t' (w_locks ?w1) ?i = None" by (simp add: free)
  note withLock_free[OF this, of "fr_lockToken fr" "claim_win b v"]
  moreover have "claim_win b v t' ?w2 = (Inr (), finalized t' b (r\<lparr>rb_winnerId := Some (v_userId v)\<rparr>)
       (Some (v_userId v)) ''first_accepted'' (stored t' ?i (r\<lparr>rb_winnerId := Some (v_userId v), rb_updatedAt := t'\<rparr>) ?w2))"
    by (rule claim_win_wins) (use b r id win in simp_all)
  ultimately have "snd (handle_verdict t' fr v w) = release t' ?i (fr_lockToken fr)
       (finalized t' b (r\<lparr>rb_winnerId := Some (v_userId v)\<rparr>) (Some (v_userId v)) ''first_accepted''
         (stored t' ?i (r\<lparr>rb_winnerId := Some (v_userId v), rb_updatedAt := t'\<rparr>) ?w2))"
    using r st b win by (simp add: handle_verdict_def recordSubmission_eq Let_def)
  then show ?thesis by (intro exI[of _ "stored t' ?i (r\<lparr>rb_winnerId := Some (v_userId v), rb_updatedAt := t'\<rparr>) ?w2"]) simp
qed

lemma accepted_outcome:
  assumes live: "battle_reachable (t, w)" "t \<le> t'" "kv_get t' (w_runtime w) (v_battleId v) = Some r"
    and act: "rb_state r = ACTIVE" "rb_mode r = ModeOneVsOne" "v_status v = ''ACCEPTED''" "v_userId v \<noteq> []"
    and w'_def: "w' = snd (handle_verdict t' fr v w)"
  shows "\<exists>b'. find_row (v_battleId v) (w_rows w') = Some b' \<and> b_status b' = StFinished
       \<and> b_winnerId b' = Some (v_userId v) \<and> b_endedAt b' = Some t'"
    and "w_ratingQueue w' = w_ratingQueue w @ (if rb_rated r then [\<lparr>rr_battleId = v_battleId v,
       rr_winnerId = Some (v_userId v), rr_participantIds = rb_participantIds r, rr_rated = True\<rparr>] else [])"
    and "v_battleId v2 = v_battleId v \<Longrightarrow> handle_verdict t2 fr2 v2 w' = (Inr (), w')"
proof -
  let ?i = "v_battleId v" and ?r = "r\<lparr>rb_winnerId := Some (v_userId v)\<rparr>"
  from reachable_live[OF live] obtain b where b: "find_row ?i (w_rows w) = Some b" "b_id b = ?i" by metis
  from claim_world[OF live act(1-3) b(1)] obtain w1 where w1: "w_rows w1 = w_rows w" "w_ratingQueue w1 = w_ratingQueue w"
    and w': "w' = release t' ?i (fr_lockToken fr) (finalized t' b ?r (Some (v_userId v)) ''first_accepted'' w1)"
    unfolding w'_def by blast
  from b(1) w1 have "find_row ?i (w_rows w1) = Some b" by simp
  from find_row_finished[OF this, of t' ?r "Some (v_userId v)" "''first_accepted''"] act(4)
  show "\<exists>b'. find_row ?i (w_rows w') = Some b' \<and> b_status b' = StFinished
       \<and> b_winnerId b' = Some (v_userId v) \<and> b_endedAt b' = Some t'"
    by (simp add: w')
  show "w_ratingQueue w' = w_ratingQueue w @ (if rb_rated r then [\<lparr>rr_battleId = ?i,
       rr_winnerId = Some (v_userId v), rr_participantIds = rb_participantIds r, rr_rated = True\<rparr>] else [])"
    using w1 b(2) by (simp add: w' finalized_def Let_def)
  show "v_battleId v2 = ?i \<Longrightarrow> handle_verdict t2 fr2 v2 w' = (Inr (), w')"
    using b(2) by (simp add: handle_verdict_def recordSubmission_eq Let_def w')
qed

text \<open>
  C3. The first accepted verdict on a running one-versus-one battle wins it: the row is finished
  at that instant with the submitter as winner, a rated battle is published for rating exactly
  once with its participants, and every later verdict on the battle changes nothing at all.
\<close>

theorem first_accepted_wins:
  assumes "battle_reachable (t, w)" and "t \<le> t'" and "kv_get t' (w_runtime w) (v_battleId v) = Some r"
    and "rb_state r = ACTIVE" and "rb_mode r = ModeOneVsOne" and "v_status v = ''ACCEPTED''" and "v_userId v \<noteq> []"
  shows "\<exists>w' b'. handle_verdict t' fr v w = (Inr (), w')
     \<and> find_row (v_battleId v) (w_rows w') = Some b' \<and> b_status b' = StFinished
     \<and> b_winnerId b' = Some (v_userId v) \<and> b_endedAt b' = Some t'
     \<and> w_ratingQueue w' = w_ratingQueue w @ (if rb_rated r then [\<lparr>rr_battleId = v_battleId v,
          rr_winnerId = Some (v_userId v), rr_participantIds = rb_participantIds r, rr_rated = True\<rparr>] else [])
     \<and> (\<forall>t2 fr2 v2. v_battleId v2 = v_battleId v \<longrightarrow> handle_verdict t2 fr2 v2 w' = (Inr (), w'))"
proof -
  note out = accepted_outcome[where fr = fr, OF assms refl]
  from out(1) obtain b' where b': "find_row (v_battleId v) (w_rows (snd (handle_verdict t' fr v w))) = Some b'"
    "b_status b' = StFinished" "b_winnerId b' = Some (v_userId v)" "b_endedAt b' = Some t'" by blast
  have "handle_verdict t' fr v w = (Inr (), snd (handle_verdict t' fr v w))" by (simp add: handle_verdict_def)
  with b' out(2,3) show ?thesis by blast
qed

definition demo_verdict :: verdict_msg where
  "demo_verdict = \<lparr>v_battleId = ''b1'', v_userId = ''g'', v_submissionId = ''s1'', v_status = ''ACCEPTED'',
     v_passed = 3, v_total = 3, v_runtimeMs = Some 12, v_language = Some ''PYTHON'', v_isFinal = Some True\<rparr>"

lemma first_accepted_wins_witness:
  "\<exists>b'. find_row ''b1'' (w_rows (snd (handle_verdict 8500 demo_fr demo_verdict demo_active))) = Some b'
     \<and> b_winnerId b' = Some ''g''"
proof -
  have r: "kv_get 8500 (w_runtime demo_active) (v_battleId demo_verdict) = Some demo_runtime_active"
    by (simp add: active_facts(3) demo_verdict_def)
  show ?thesis
    using first_accepted_wins[OF reach_active _ r, of demo_fr]
    by (auto simp: demo_verdict_def demo_runtime_active_def demo_runtime_def)
qed

section \<open>The replay log\<close>

text \<open>
  The replay of any battle of a reachable world succeeds without touching the world, and
  numbers its events one, two, three and so on without a gap or a repetition.
\<close>

theorem replay_numbered:
  assumes "battle_reachable (t, w)" and "find_row i (w_rows w) = Some b"
  shows "\<exists>d. replay t' i w = (Inr d, w) \<and> rd_totalEvents d = length (rd_events d)
     \<and> map ev_seq (rd_events d) = [1..<Suc (rd_totalEvents d)]"
  using logs_ok_list[OF logs_okI[OF reachable_inv[OF assms(1)]], of t' i] assms(2)
  by (simp add: replay_def op_simps toReplayDto_def numbered_def)

lemma replay_numbered_witness:
  "\<exists>d. replay 8001 ''b1'' demo_active = (Inr d, demo_active) \<and> map ev_seq (rd_events d) = [1..<Suc (rd_totalEvents d)]"
  using replay_numbered[OF reach_active active_facts(1), of 8001] by blast

text \<open>
  Finishing a battle erases its replay: the log is deleted together with the ephemeral state,
  so the replay of a battle that its host finished is empty at every later instant.
\<close>

theorem finished_replay_empty:
  assumes "battle_reachable (t, w)" and "t \<le> t'" and "finish t' fr i n win u w = (Inr d, w')"
  shows "d_status d = StFinished \<and> replay t2 i w' = (Inr \<lparr>rd_battleId = i, rd_events = [], rd_totalEvents = 0\<rparr>, w')"
proof -
  let ?w1 = "bumped t' i u n w"
  let ?w2 = "?w1\<lparr>w_locks := kv_put (w_locks ?w1) i (fr_lockToken fr) (Some (t' + lock_lease_ms))\<rparr>"
  from reachable_later[OF assms(1,2)] have "kv_get t' (w_locks ?w1) i = None" by simp
  note lock = withLock_free[OF this, of "fr_lockToken fr" "finish_locked i win u"]
  from assms(3) lock have body: "fst (finish_locked i win u t' ?w2) = Inr d"
    "w' = release t' i (fr_lockToken fr) (snd (finish_locked i win u t' ?w2))"
    by (auto simp: finish_def op_simps split: if_splits prod.splits)
  from body(1) obtain b r where b: "find_row i (w_rows w) = Some b"
    and fin: "finish_locked i win u t' ?w2 = finalize t' b r (coalesce win (rb_winnerId r)) ''host_finish'' ?w2"
    by (auto simp: finish_locked_eq split: option.splits if_splits)
  from b have b2: "find_row i (w_rows ?w2) = Some b" by simp
  note id = find_row_id[OF b]
  from body fin b2 find_row_finished[OF b2] id show ?thesis
    by (auto simp: toBattleDto_def replay_def op_simps toReplayDto_def)
qed

lemma finish_locked_demo:
  "\<exists>d w'. finish 8500 demo_fr ''b1'' 1 (Some ''g'') ''h'' demo_active = (Inr d, w')"
proof -
  let ?w1 = "bumped 8500 ''b1'' ''h'' 1 demo_active"
  let ?w2 = "?w1\<lparr>w_locks := kv_put (w_locks ?w1) ''b1'' ''lk'' (Some (8500 + lock_lease_ms))\<rparr>"
  have free: "kv_get 8500 (w_locks ?w1) ''b1'' = None" by (simp add: active_facts)
  have b: "find_row ''b1'' (w_rows ?w2) = Some demo_row_active" by (simp add: active_facts)
  have "finish_locked ''b1'' (Some ''g'') ''h'' 8500 ?w2 =
      finalize 8500 demo_row_active demo_runtime_active (Some ''g'') ''host_finish'' ?w2"
    by (simp add: finish_locked_eq active_facts)
      (simp add: demo_row_active_def demo_row_def isHost_def demo_runtime_active_def demo_runtime_def)
  moreover have "nonce_of 8500 demo_active ''b1'' ''h'' < 1"
    by (simp add: nonce_of_def kv_get_def active_facts)
  ultimately show ?thesis using finalize_found[OF b]
    by (simp add: finish_def op_simps withLock_free[OF free] demo_fr_def)
qed

lemma finished_replay_empty_witness:
  "\<exists>w'. replay 9000 ''b1'' w' = (Inr \<lparr>rd_battleId = ''b1'', rd_events = [], rd_totalEvents = 0\<rparr>, w')
     \<and> w' = snd (finish 8500 demo_fr ''b1'' 1 (Some ''g'') ''h'' demo_active)"
proof -
  from finish_locked_demo obtain d w' where f: "finish 8500 demo_fr ''b1'' 1 (Some ''g'') ''h'' demo_active = (Inr d, w')"
    by blast
  from finished_replay_empty[OF reach_active _ this, of 9000] f show ?thesis by auto
qed

section \<open>Pausing\<close>

text \<open>
  Resuming a paused battle adds the pause to its duration, but its expiry job keeps the
  deadline set at activation: when that job runs the battle is finished, however much of the
  extended duration is left.
\<close>

theorem resume_keeps_old_deadline:
  assumes "battle_reachable (t, w)" and "t \<le> t'" and "resume t' i n u w = (Inr d, w')"
  shows "\<exists>r r' due. kv_get t' (w_runtime w) i = Some r \<and> rb_state r = PAUSED
     \<and> kv_get t' (w_runtime w') i = Some r' \<and> rb_state r' = ACTIVE
     \<and> rb_durationMs r' = rb_durationMs r + (if truthy_int (rb_pausedAt r) then t' - the (rb_pausedAt r) else 0)
     \<and> w_jobs w (JobExpire, i) = Some due \<and> w_jobs w' (JobExpire, i) = Some due
     \<and> (\<forall>t2\<ge>max t' due. kv_get t2 (w_runtime w') i \<noteq> None \<longrightarrow>
          (\<exists>b. find_row i (w_rows (fire t2 JobExpire i w')) = Some b \<and> b_status b = StFinished
             \<and> b_endedAt b = Some t2))"
proof -
  from reachable_later[OF assms(1,2)] have inv: "battle_inv t' w" and ok: "engine_ok t' w" by (auto simp: engine_ok_def)
  from assms(3) obtain b r where b: "find_row i (w_rows w) = Some b"
    and r: "kv_get t' (w_runtime w) i = Some r" "rb_state r = PAUSED"
    and w': "w' = logged t' b ''battle:resume''
        (state_event (nextSeq (kv_list t' (w_events (bumped t' i u n w)) i)) t' ACTIVE None)
        (stored t' i ((resume_mutate t' r)\<lparr>rb_updatedAt := t'\<rparr>) (bumped t' i u n w))"
    by (auto simp: resume_eq Let_def split: option.splits if_splits)
  from job_pending[OF inv r(1)] r(2) obtain due where due: "w_jobs w (JobExpire, i) = Some due" by auto
  let ?r' = "(resume_mutate t' r)\<lparr>rb_updatedAt := t'\<rparr>"
  have get: "kv_get t' (w_runtime w') i = Some ?r'"
    by (simp add: w' kv_get_put runtime_state_ttl_seconds_def)
  have "\<exists>b. find_row i (w_rows (fire t2 JobExpire i w')) = Some b \<and> b_status b = StFinished \<and> b_endedAt b = Some t2"
    if t2: "max t' due \<le> t2" and live: "kv_get t2 (w_runtime w') i \<noteq> None" for t2
  proof -
    from resume_good[OF inv, of i n u] assms(3) have "engine_ok t' w'"
      using ok by (auto simp: good_def engine_ok_def)
    with t2 have inv2: "battle_inv t2 w'" using engine_later[of t' w' t2] by (simp add: engine_ok_def)
    have r2: "kv_get t2 (w_runtime w') i = Some ?r'" using live
      by (auto simp: w' kv_get_put split: if_splits)
    have b': "find_row i (w_rows w') = Some b" using b by (simp add: w')
    from find_row_finished[OF b'] show ?thesis
      by (simp add: fire_def job_done_def run_job_def expire_eq[OF inv2] r2 b')
  qed
  moreover have "w_jobs w' (JobExpire, i) = Some due" using due by (simp add: w')
  ultimately show ?thesis using r get due
    by (intro exI[of _ r] exI[of _ ?r'] exI[of _ due]) (simp add: resume_mutate_def)
qed

definition demo_runtime_paused :: runtime_battle where
  "demo_runtime_paused = demo_runtime_active\<lparr>rb_state := PAUSED, rb_pausedAt := Some 9000, rb_updatedAt := 9000\<rparr>"

lemma paused_facts:
  "find_row ''b1'' (w_rows demo_paused) = Some demo_row_active"
  "t \<le> 21609000 \<Longrightarrow> kv_get t (w_runtime demo_paused) ''b1'' = Some demo_runtime_paused"
  "t \<le> 21609000 \<Longrightarrow> nonce_of t demo_paused ''b1'' ''h'' = 1"
proof -
  have n: "nonce_of 9000 demo_active ''b1'' ''h'' < 1"
    by (simp add: nonce_of_def kv_get_def active_facts)
  have h: "isHost demo_row_active ''h''" by (simp add: isHost_def demo_row_active_def demo_row_def)
  have st: "rb_state demo_runtime_active = ACTIVE" by (simp add: demo_runtime_active_def demo_runtime_def)
  have eq: "\<exists>e. demo_paused = logged 9000 demo_row_active ''battle:pause'' e
      (stored 9000 ''b1'' demo_runtime_paused (bumped 9000 ''b1'' ''h'' 1 demo_active))"
    using n by (auto simp: demo_paused_def pause_eq active_facts Let_def h st demo_runtime_paused_def)
  then obtain e where e: "demo_paused = logged 9000 demo_row_active ''battle:pause'' e
      (stored 9000 ''b1'' demo_runtime_paused (bumped 9000 ''b1'' ''h'' 1 demo_active))" ..
  show "find_row ''b1'' (w_rows demo_paused) = Some demo_row_active" by (simp add: e active_facts)
  show "t \<le> 21609000 \<Longrightarrow> kv_get t (w_runtime demo_paused) ''b1'' = Some demo_runtime_paused"
    by (simp add: e kv_get_put ttl_ms_def runtime_state_ttl_seconds_def)
  show "t \<le> 21609000 \<Longrightarrow> nonce_of t demo_paused ''b1'' ''h'' = 1"
    by (simp add: e nonce_of_def bumped_def kv_get_put ttl_ms_def runtime_state_ttl_seconds_def)
qed

lemma resume_keeps_old_deadline_witness:
  "\<exists>r' due. kv_get 29000 (w_runtime demo_resumed) ''b1'' = Some r' \<and> rb_durationMs r' = 80000
     \<and> w_jobs demo_resumed (JobExpire, ''b1'') = Some due"
proof -
  have h: "isHost demo_row_active ''h''" by (simp add: isHost_def demo_row_active_def demo_row_def)
  have st: "rb_state demo_runtime_paused = PAUSED" by (simp add: demo_runtime_paused_def)
  obtain d where d: "resume 29000 ''b1'' 2 ''h'' demo_paused = (Inr d, demo_resumed)"
    by (auto simp: demo_resumed_def resume_eq paused_facts Let_def h st)
  from resume_keeps_old_deadline[OF reach_paused _ d] show ?thesis
    by (auto simp: paused_facts demo_runtime_paused_def demo_runtime_active_def demo_runtime_def)
qed

section \<open>Concurrency and replay protection\<close>

fun interfered :: "ident \<Rightarrow> (nat \<Rightarrow> other_write list) \<Rightarrow> nat \<Rightarrow> battle_world \<Rightarrow> battle_world" where
  "interfered i others 0 w = w"
| "interfered i others (Suc k) w = fold (apply_other i) (others k) (interfered i others k w)"

lemma transition_loop_from:
  assumes "transition_loop (cas_attempts - j) others now i e m (interfered i others j w) = (Inr r, w')"
    and "j \<le> cas_attempts"
  shows "\<exists>n\<ge>j. n < cas_attempts \<and> (\<forall>k. j \<le> k \<and> k < n \<longrightarrow> others k \<noteq> []) \<and> others n = [] \<and>
     (\<exists>c. kv_get now (w_runtime (interfered i others n w)) i = Some c \<and> rb_state c = e
        \<and> r = (m c)\<lparr>rb_updatedAt := now\<rparr> \<and> w' = stored now i r (interfered i others n w))"
  using assms
proof (induction "cas_attempts - j" arbitrary: j)
  case 0
  then show ?case by simp
next
  case (Suc k)
  let ?w = "interfered i others j w"
  have j: "j < cas_attempts" "cas_attempts - Suc k = j" using Suc(2,4) by auto
  from Suc(3)[folded Suc(2)] j obtain c where c: "kv_get now (w_runtime ?w) i = Some c" "rb_state c = e"
    and rest: "if others j = [] then (Inr ((m c)\<lparr>rb_updatedAt := now\<rparr>), stored now i ((m c)\<lparr>rb_updatedAt := now\<rparr>) ?w) = (Inr r, w')
       else transition_loop k others now i e m (interfered i others (Suc j) w) = (Inr r, w')"
    by (auto simp: Let_def stored_def split: option.splits if_splits)
  show ?case
  proof (cases "others j = []")
    case True
    with rest c j show ?thesis by (intro exI[of _ j]) (auto simp: Let_def)
  next
    case False
    from Suc(2) have k: "k = cas_attempts - Suc j" by simp
    with False rest have "transition_loop (cas_attempts - Suc j) others now i e m (interfered i others (Suc j) w) = (Inr r, w')"
      by simp
    from Suc(1)[OF k this] j obtain n where n: "Suc j \<le> n" "n < cas_attempts" "\<forall>k. Suc j \<le> k \<and> k < n \<longrightarrow> others k \<noteq> []"
      "others n = []" "\<exists>c. kv_get now (w_runtime (interfered i others n w)) i = Some c \<and> rb_state c = e
        \<and> r = (m c)\<lparr>rb_updatedAt := now\<rparr> \<and> w' = stored now i r (interfered i others n w)" by auto
    with False have "\<forall>k. j \<le> k \<and> k < n \<longrightarrow> others k \<noteq> []" by (metis le_neq_implies_less Suc_leI)
    with n show ?thesis by (intro exI[of _ n]) simp
  qed
qed

text \<open>
  C6. The optimistic state change is atomic under interference: when it reports success, it took
  effect in one undisturbed attempt, on the record as the other clients' writes had left it, and
  that record was in the expected state. No write of another client is lost.
\<close>

theorem transition_linearizable:
  assumes "transition_loop cas_attempts others now i e m w = (Inr r, w')"
  shows "\<exists>n<cas_attempts. (\<forall>k<n. others k \<noteq> []) \<and> others n = [] \<and>
     (\<exists>c. kv_get now (w_runtime (interfered i others n w)) i = Some c \<and> rb_state c = e
        \<and> r = (m c)\<lparr>rb_updatedAt := now\<rparr> \<and> w' = stored now i r (interfered i others n w))"
  using transition_loop_from[of 0 others now i e m w r w'] assms by simp

lemma transition_linearizable_witness:
  "\<exists>n<cas_attempts. (\<lambda>k::nat. if k = 0 then [OtherPut (demo_runtime PAUSED 2) None] else []) n = []
     \<and> fst (transition_loop cas_attempts (\<lambda>k. if k = 0 then [OtherPut (demo_runtime PAUSED 2) None] else []) 3 ''b1'' PAUSED
         (\<lambda>r. r\<lparr>rb_state := ACTIVE\<rparr>) (stored 1 ''b1'' (demo_runtime PAUSED 1) no_battles)) = Inr (demo_runtime ACTIVE 3)"
proof -
  let ?os = "\<lambda>k::nat. if k = 0 then [OtherPut (demo_runtime PAUSED 2) None] else []"
  let ?w = "stored 1 ''b1'' (demo_runtime PAUSED 1) no_battles"
  have run: "fst (transition_loop cas_attempts ?os 3 ''b1'' PAUSED (\<lambda>r. r\<lparr>rb_state := ACTIVE\<rparr>) ?w) = Inr (demo_runtime ACTIVE 3)"
    by (simp add: cas_attempts_def numeral_eq_Suc kv_get_put ttl_ms_def runtime_state_ttl_seconds_def demo_runtime_def Let_def)
  then obtain w' where "transition_loop cas_attempts ?os 3 ''b1'' PAUSED (\<lambda>r. r\<lparr>rb_state := ACTIVE\<rparr>) ?w = (Inr (demo_runtime ACTIVE 3), w')"
    by (metis prod.collapse)
  from transition_linearizable[OF this] run show ?thesis by blast
qed

lemma nonce_after_pause:
  assumes "nonce_of t w i u < n" and "t2 \<le> t + 21600000"
  shows "nonce_of t2 (snd (pause t i n u w)) i u = n"
proof -
  have "w_nonces (snd (pause t i n u w)) = w_nonces (bumped t i u n w)"
    using assms(1) by (simp add: pause_eq Let_def split: option.splits)
  then show ?thesis using nonce_of_bumped[OF assms(2), of i u n w] by (simp add: nonce_of_def)
qed

text \<open>
  A replayed request is refused: after any pause request of a user was let through with nonce
  n, every pause, resume or finish request of that user on the battle with a nonce of at most n
  fails within the six hours the nonce is kept, and changes nothing.
\<close>

theorem replayed_nonce_refused:
  assumes "nonce_of t w i u < n" and "t2 \<le> t + 21600000" and "m \<le> n"
    and "w' = snd (pause t i n u w)"
  shows "pause t2 i m u w' = (Inl ReplayDetected, w') \<and> resume t2 i m u w' = (Inl ReplayDetected, w')
     \<and> (\<forall>fr win. finish t2 fr i m win u w' = (Inl ReplayDetected, w'))"
  using nonce_after_pause[OF assms(1,2)] assms(3)
  by (simp add: pause_eq resume_eq finish_def op_simps assms(4))

lemma replayed_nonce_refused_witness:
  "resume 9500 ''b1'' 1 ''h'' (snd (pause 9000 ''b1'' 1 ''h'' demo_active)) =
     (Inl ReplayDetected, snd (pause 9000 ''b1'' 1 ''h'' demo_active))"
proof -
  have "nonce_of 9000 demo_active ''b1'' ''h'' < 1"
    by (simp add: nonce_of_def kv_get_def active_facts)
  from replayed_nonce_refused[OF this, of 9500 1] show ?thesis by simp
qed

section \<open>Authorisation\<close>

lemma finish_locked_frame:
  assumes "find_row i (w_rows w) = Some b" and "\<not> isHost b u" and "w_rows v = w_rows w"
  shows "\<exists>l. snd (withLock t tok i (finish_locked i win u) v) = v\<lparr>w_locks := l\<rparr>"
proof (cases "acquire lock_attempts t i v")
  case None
  then show ?thesis by (intro exI[of _ "w_locks v"]) (simp add: withLock_def)
next
  case (Some t')
  let ?v = "v\<lparr>w_locks := kv_put (w_locks v) i tok (Some (t' + lock_lease_ms))\<rparr>"
  have "snd (finish_locked i win u t' ?v) = ?v" using assms by (simp add: finish_locked_eq)
  then have "snd (withLock t tok i (finish_locked i win u) v) = release t' i tok ?v"
    using Some by (cases "finish_locked i win u t' ?v") (simp add: withLock_def)
  moreover have "\<exists>l. release t' i tok ?v = v\<lparr>w_locks := l\<rparr>" by (cases "kv_get t' (w_locks ?v) i = Some tok") (auto simp: release_def)
  ultimately show ?thesis by simp
qed



section \<open>Membership\<close>

text \<open>
  No sequence of requests and jobs overfills a room or seats a user twice: in a reachable
  world the members present are at most the room's capacity and pairwise different, every member is
  a participant of the battle, and the room's status agrees with the battle's.
\<close>

theorem room_never_overfull:
  assumes "battle_reachable (t, w)" and "b \<in> set (w_rows w)"
  shows "length (active_members b) \<le> rm_maxParticipants (b_room b)
     \<and> distinct (map rp_userId (active_members b))
     \<and> set (map rp_userId (active_members b)) \<subseteq> set (participant_ids b)
     \<and> rm_status (b_room b) = room_status_for (b_status b)"
proof -
  from reachable_row[OF assms] have ok: "row_ok b" .
  then have ids: "map rp_userId (rm_participants (b_room b)) = participant_ids b" "distinct (participant_ids b)"
    by (simp_all add: row_ok_def)
  then have "distinct (map rp_userId (rm_participants (b_room b)))" by simp
  then have "distinct (map rp_userId (active_members b))" by (simp add: active_members_def distinct_map_filter)
  moreover have "set (map rp_userId (active_members b)) \<subseteq> set (map rp_userId (rm_participants (b_room b)))"
    by (auto simp: active_members_def)
  ultimately show ?thesis using ok ids(1) by (simp add: row_ok_def)
qed

lemma room_never_overfull_witness:
  "length (active_members demo_row_active) \<le> rm_maxParticipants (b_room demo_row_active)"
  using room_never_overfull[OF reach_active, of demo_row_active] by (simp add: active_facts)

text \<open>
  The room of a running battle still admits members: its status stays at waiting until the
  battle ends, so a new user with a free seat joins an active battle and becomes one of the
  participants whose result is rated.
\<close>

theorem active_battle_admits:
  assumes "battle_reachable (t, w)" and "t \<le> t'" and "kv_get t' (w_runtime w) i = Some r" and "rb_state r = ACTIVE"
    and "find_row i (w_rows w) = Some b" and "\<not> isParticipant b u" and "i \<noteq> []"
    and "length (active_members b) < rm_maxParticipants (b_room b)"
  shows "\<exists>d w' r'. join t' fr \<lparr>jd_battleId = Some i, jd_code = None, jd_inviteToken = None\<rparr> u w = (Inr d, w')
     \<and> kv_get t' (w_runtime w') i = Some r' \<and> rb_state r' = ACTIVE \<and> u \<in> set (rb_participantIds r')"
proof -
  from reachable_later[OF assms(1,2)] have inv: "battle_inv t' w" and free: "w_locks w = Map.empty" by auto
  note id = find_row_id[OF assms(5)]
  let ?w = "w\<lparr>w_locks := kv_put (w_locks w) i (fr_lockToken fr) (Some (t' + lock_lease_ms))\<rparr>"
  have status: "b_status b = StInProgress" using row_of_runtime(1)[OF inv assms(3,5)] assms(4) by simp
  have "row_ok b" using rows_ok_row[OF inv_parts(1)[OF inv] assms(5)] .
  then have "rm_status (b_room b) = RoomWaiting" using status by (simp add: row_ok_def)
  from join_locked_success[of t' ?w i b u, OF _ _ assms(6) this assms(8)] inv assms(3,5)
  have j: "\<exists>d e. join_locked i u t' ?w = (Inr d, logged t' (joined_row t' u b) ''battle:join'' e
      (stored t' i (r\<lparr>rb_participantIds := js_set (rb_participantIds r @ [u]), rb_updatedAt := t'\<rparr>)
        (?w\<lparr>w_rows := update_row i (joined_row t' u) (w_rows w)\<rparr>)))"
    by (auto simp: Let_def)
  have "kv_get t' (w_locks w) i = None" by (simp add: free)
  from withLock_free[OF this, of "fr_lockToken fr" "join_locked i u"] j assms(4,5,7) id show ?thesis
    by (auto simp: join_def join_target_def op_simps findById_def kv_get_put runtime_state_ttl_seconds_def)
qed

definition demo_dto3 :: create_battle_dto where
  "demo_dto3 = demo_dto\<lparr>cd_capacity := 3\<rparr>"

definition demo3_counting :: battle_world where
  "demo3_counting = exec_cmd 3000 (CmdStart ''b1'' ''h'')
     (exec_cmd 1000 (CmdCreate demo_fr demo_dto3 ''h'') no_battles)"

definition demo3_active :: battle_world where
  "demo3_active = fire 8000 JobStartActive ''b1'' demo3_counting"

lemma reach3_counting: "battle_reachable (3000, demo3_counting)"
proof -
  have "battle_reachable (1000, exec_cmd 1000 (CmdCreate demo_fr demo_dto3 ''h'') no_battles)"
    by (rule battle_reachable.step[OF battle_reachable.start[of 0]], rule battle_step.request)
      (simp_all add: fresh_ok_def no_battles_def default_capacity_def demo_dto_def demo_dto3_def)
  then show ?thesis unfolding demo3_counting_def
    by (rule battle_reachable.step, intro battle_step.request) simp_all
qed

lemma counting3_job: "w_jobs demo3_counting (JobStartActive, ''b1'') = Some 8000"
  by code_simp

lemma reach3_active: "battle_reachable (8000, demo3_active)"
  unfolding demo3_active_def
  by (rule battle_reachable.step[OF reach3_counting], rule battle_step.job[OF _ counting3_job]) simp_all

definition demo3_row :: battle_row where
  "demo3_row = demo_row\<lparr>b_room := (b_room demo_row)\<lparr>rm_maxParticipants := 3,
      rm_participants := [\<lparr>rp_userId = ''h'', rp_joinedAt = 1000, rp_leftAt = None\<rparr>]\<rparr>,
     b_participants := [\<lparr>bp_userId = ''h'', bp_score = 0, bp_rank = None\<rparr>]\<rparr>"

lemma counting3_facts:
  "w_rows demo3_counting = [demo3_row]"
  "w_runtime demo3_counting ''b1'' = Some ((demo_runtime COUNTDOWN 3000)\<lparr>rb_participantIds := [''h'']\<rparr>, Some 21603000)"
  by code_simp+

lemma active3_facts:
  "find_row ''b1'' (w_rows demo3_active) = Some (demo3_row\<lparr>b_status := StInProgress, b_startedAt := Some 8000\<rparr>)"
  "kv_get 8000 (w_runtime demo3_active) ''b1'' =
     Some ((demo_runtime ACTIVE 8000)\<lparr>rb_participantIds := [''h''], rb_startedAt := Some 8000\<rparr>)"
proof -
  have get: "kv_get 8000 (w_runtime demo3_counting) ''b1'' = Some ((demo_runtime COUNTDOWN 3000)\<lparr>rb_participantIds := [''h'']\<rparr>)"
    by (simp add: kv_get_def counting3_facts)
  have row: "find_row ''b1'' (w_rows demo3_counting) = Some demo3_row"
    by (simp add: counting3_facts find_row_def demo3_row_def demo_row_def)
  have id: "b_id demo3_row = ''b1''" by (simp add: demo3_row_def demo_row_def)
  note inv = reachable_inv[OF reach3_counting]
  show "find_row ''b1'' (w_rows demo3_active) = Some (demo3_row\<lparr>b_status := StInProgress, b_startedAt := Some 8000\<rparr>)"
    unfolding demo3_active_def fire_def run_job_def
    by (simp add: activate_eq[OF inv_parts(1)[OF inv]] get row Let_def job_done_def find_row_update)
      (simp add: demo_runtime_def find_row_update row)
  show "kv_get 8000 (w_runtime demo3_active) ''b1'' =
     Some ((demo_runtime ACTIVE 8000)\<lparr>rb_participantIds := [''h''], rb_startedAt := Some 8000\<rparr>)"
    unfolding demo3_active_def fire_def run_job_def
    by (simp add: activate_eq[OF inv_parts(1)[OF inv]] get row Let_def job_done_def kv_get_put)
      (simp add: demo_runtime_def kv_get_put runtime_state_ttl_seconds_def)
qed

lemma active_battle_admits_witness:
  "\<exists>d w' r'. join 8000 demo_fr \<lparr>jd_battleId = Some ''b1'', jd_code = None, jd_inviteToken = None\<rparr> ''g'' demo3_active = (Inr d, w')
     \<and> kv_get 8000 (w_runtime w') ''b1'' = Some r' \<and> rb_state r' = ACTIVE \<and> ''g'' \<in> set (rb_participantIds r')"
  by (rule active_battle_admits[OF reach3_active _ active3_facts(2) _ active3_facts(1)])
    (simp_all add: demo_runtime_def demo3_row_def demo_row_def isParticipant_def active_members_def)

text \<open>
  A host who leaves a running battle alone aborts it: the battle goes from active to
  cancelled, a step the transition table does not have.
\<close>

theorem leaving_host_aborts_active:
  assumes "battle_reachable (t, w)" and "t \<le> t'" and "kv_get t' (w_runtime w) i = Some r" and "rb_state r = ACTIVE"
    and "find_row i (w_rows w) = Some b" and "isHost b u" and "isParticipant b u" and "nextOwner b u = None"
  shows "\<not> canTransition ACTIVE CANCELLED \<and> (\<exists>w' b'. leave t' i u w = (Inr (), w')
     \<and> find_row i (w_rows w') = Some b' \<and> b_status b' = StAborted \<and> kv_get t' (w_runtime w') i = None)"
proof -
  from reachable_later[OF assms(1,2)] have inv: "battle_inv t' w" by simp
  note id = find_row_id[OF assms(5)]
  let ?w0 = "w\<lparr>w_rows := update_row i (left_row t' u) (w_rows w)\<rparr>"
  let ?w1 = "logged t' b ''battle:leave'' (participant_event (nextSeq (kv_list t' (w_events w) i)) t' u ''left'') ?w0"
  have rm: "removeParticipant t' (b_roomId b) u w = (Inr (), ?w0)"
    using room_update_is_row_update[OF inv_parts(1)[OF inv] assms(5), of "\<lambda>c. c\<lparr>b_room := mark_left t' u (b_room c)\<rparr>"]
    by (simp add: removeParticipant_def op_defs left_row_def[abs_def])
  have row: "find_row i (w_rows ?w1) = Some (left_row t' u b)" using assms(5) by (simp add: find_row_update)
  have "cancelInternal t' b r CANCELLED ''host_left_empty'' ?w1 =
     (Inr (toBattleDto (abort_row (left_row t' u b)) (Some (r\<lparr>rb_state := CANCELLED\<rparr>))), cancelled t' b CANCELLED ''host_left_empty'' ?w1)"
    by (rule cancelInternal_result) (use row id in simp)
  then have "leave t' i u w = (Inr (), cancelled t' b CANCELLED ''host_left_empty'' ?w1)"
    using assms(3,5-8) id by (simp add: leave_def op_simps rm)
  moreover have "find_row i (w_rows (cancelled t' b CANCELLED ''host_left_empty'' ?w1)) = Some (abort_row (left_row t' u b))"
    using assms(5) id by (simp add: cancelled_def Let_def find_row_update)
  ultimately show ?thesis using id by (simp add: canTransition_def)
qed

lemma leaving_host_aborts_active_witness:
  "\<exists>w' b'. leave 8000 ''b1'' ''h'' demo3_active = (Inr (), w') \<and> find_row ''b1'' (w_rows w') = Some b'
     \<and> b_status b' = StAborted"
proof -
  have "\<not> canTransition ACTIVE CANCELLED \<and> (\<exists>w' b'. leave 8000 ''b1'' ''h'' demo3_active = (Inr (), w')
     \<and> find_row ''b1'' (w_rows w') = Some b' \<and> b_status b' = StAborted \<and> kv_get 8000 (w_runtime w') ''b1'' = None)"
    by (rule leaving_host_aborts_active[OF reach3_active _ active3_facts(2) _ active3_facts(1)])
      (simp_all add: demo_runtime_def demo3_row_def demo_row_def isParticipant_def isHost_def nextOwner_def)
  then show ?thesis by blast
qed

section \<open>Room codes\<close>

lemma alphabet_byte: "k < 6 \<Longrightarrow> length bytes = 6 \<Longrightarrow> generateCode (bytes[k := x]) ! k = code_alphabet ! (x mod 32)"
  by (simp add: generateCode_def code_length_def code_alphabet_def)

lemma alphabet_facts: "length code_alphabet = 32" "distinct code_alphabet"
  by code_simp+

lemma residue_count: "j < 32 \<Longrightarrow> card {x::nat. x < 256 \<and> x mod 32 = j} = 8"
proof -
  assume j: "j < 32"
  have "{x::nat. x < 256 \<and> x mod 32 = j} = (\<lambda>q. j + 32 * q) ` {..<8}"
  proof (intro equalityI subsetI)
    fix x assume "x \<in> {x::nat. x < 256 \<and> x mod 32 = j}"
    then have "x = j + 32 * (x div 32)" "x div 32 < 8" by auto
    then show "x \<in> (\<lambda>q. j + 32 * q) ` {..<8}" by blast
  qed (use j in auto)
  then show ?thesis by (simp add: card_image inj_on_def)
qed

text \<open>
  Room codes carry no bias: whatever the other bytes, each of the 32 characters of the
  alphabet stands at a given place of the code for exactly 8 of the 256 values of its random byte,
  and no other character ever occurs.
\<close>

theorem room_codes_uniform:
  assumes "length bytes = 6" and "k < 6"
  shows "length (generateCode bytes) = 6 \<and> set (generateCode bytes) \<subseteq> set code_alphabet
     \<and> (\<forall>c \<in> set code_alphabet. card {x. x < 256 \<and> generateCode (bytes[k := x]) ! k = c} = 8)"
proof -
  have sub: "set (generateCode bytes) \<subseteq> set code_alphabet"
    using alphabet_facts(1) by (auto simp: generateCode_def)
  have "card {x. x < 256 \<and> generateCode (bytes[k := x]) ! k = c} = 8" if "c \<in> set code_alphabet" for c
  proof -
    from that obtain j where j: "j < 32" "c = code_alphabet ! j" by (auto simp: in_set_conv_nth alphabet_facts)
    have "{x. x < 256 \<and> generateCode (bytes[k := x]) ! k = c} = {x. x < 256 \<and> x mod 32 = j}"
      using alphabet_byte[OF assms(2,1)] j nth_eq_iff_index_eq[OF alphabet_facts(2)]
      by (simp add: alphabet_facts(1))
    with residue_count[OF j(1)] show ?thesis by simp
  qed
  with sub show ?thesis by (simp add: generateCode_def code_length_def)
qed

lemma room_codes_uniform_witness:
  "card {x. x < 256 \<and> generateCode ([0, 1, 2, 3, 4, 5][2 := x]) ! 2 = CHR ''Z''} = 8"
  using room_codes_uniform[of "[0, 1, 2, 3, 4, 5]" 2] by (simp add: code_alphabet_def)

end
