(* ===== verification/SortedSet.thy ===== *)
theory SortedSet
  imports Prelude Complex_Main "HOL-Library.Multiset" "HOL-Library.List_Lexorder" "HOL-Library.Char_ord" "HOL-Library.Product_Lexorder"
begin

text \<open>
  The Redis sorted set, the structure behind the matchmaking pools and the leaderboards: members
  with an integer score, kept in order of score and, for equal scores, of the member. Each command
  the source uses is a function on that list.
\<close>

section \<open>Commands\<close>

type_synonym zset = "(ident \<times> int) list"

definition zkey :: "ident \<times> int \<Rightarrow> int \<times> ident" where
  "zkey p = (snd p, fst p)"

definition zrem :: "ident \<Rightarrow> zset \<Rightarrow> zset" where
  "zrem m z = filter (\<lambda>p. fst p \<noteq> m) z"

definition zadd :: "int \<Rightarrow> ident \<Rightarrow> zset \<Rightarrow> zset" where
  "zadd s m z = insort_key zkey (m, s) (zrem m z)"

definition zscore :: "zset \<Rightarrow> ident \<Rightarrow> int option" where
  "zscore z m = map_of z m"

definition zcard :: "zset \<Rightarrow> nat" where
  "zcard z = length z"

definition zrange_all :: "zset \<Rightarrow> ident list" where
  "zrange_all z = map fst z"

definition zrangebyscore :: "rat \<Rightarrow> rat \<Rightarrow> zset \<Rightarrow> ident list" where
  "zrangebyscore lo hi z = map fst (filter (\<lambda>p. lo \<le> rat_of_int (snd p) \<and> rat_of_int (snd p) \<le> hi) z)"

definition zrevrank :: "zset \<Rightarrow> ident \<Rightarrow> nat option" where
  "zrevrank z m = (case zscore z m of None \<Rightarrow> None
     | Some _ \<Rightarrow> Some (length (takeWhile (\<lambda>p. fst p \<noteq> m) (rev z))))"

text \<open>A negative end counts from the last element, as documented for the command.\<close>

definition zrevrange :: "int \<Rightarrow> int \<Rightarrow> zset \<Rightarrow> (ident \<times> int) list" where
  "zrevrange from to z =
     (let n = int (length z);
          lo = max 0 (if from < 0 then from + n else from);
          hi = (if to < 0 then to + n else to)
      in take (nat (hi - lo + 1)) (drop (nat lo) (rev z)))"

section \<open>Invariant and laws\<close>

definition zset_ok :: "zset \<Rightarrow> bool" where
  "zset_ok z \<longleftrightarrow> distinct (map fst z) \<and> sorted (map zkey z)"

lemma zset_ok_Nil [simp]: "zset_ok []"
  by (simp add: zset_ok_def)

lemma set_zrem [simp]: "set (zrem m z) = {p \<in> set z. fst p \<noteq> m}"
  by (auto simp: zrem_def)

lemma zrem_ok [simp]: "zset_ok z \<Longrightarrow> zset_ok (zrem m z)"
  by (simp add: zset_ok_def zrem_def distinct_map_filter sorted_filter)

lemma set_zadd [simp]: "set (zadd s m z) = insert (m, s) {p \<in> set z. fst p \<noteq> m}"
  by (simp add: zadd_def set_insort_key)

lemma mset_map_insort: "mset (map f (insort_key k x xs)) = add_mset (f x) (mset (map f xs))"
  by (induction xs) auto

lemma zadd_ok [simp]: "zset_ok z \<Longrightarrow> zset_ok (zadd s m z)"
proof -
  assume ok: "zset_ok z"
  then have r: "zset_ok (zrem m z)" by simp
  have "mset (map fst (zadd s m z)) = mset (m # map fst (zrem m z))"
    by (simp add: zadd_def mset_map_insort del: mset_map)
  moreover have "distinct (m # map fst (zrem m z))" using r by (auto simp: zset_ok_def)
  ultimately have "distinct (map fst (zadd s m z))" by (metis mset_eq_imp_distinct_iff)
  moreover have "sorted (map zkey (zadd s m z))"
    using r by (simp add: zset_ok_def zadd_def sorted_insort_key)
  ultimately show ?thesis by (simp add: zset_ok_def)
qed

lemma zscore_mem: "zset_ok z \<Longrightarrow> zscore z m = Some s \<longleftrightarrow> (m, s) \<in> set z"
  by (simp add: zscore_def zset_ok_def)

lemma zscore_None: "zscore z m = None \<longleftrightarrow> m \<notin> fst ` set z"
  by (simp add: zscore_def map_of_eq_None_iff)

lemma zscore_zadd: "zset_ok z \<Longrightarrow> zscore (zadd s m z) m' = (if m' = m then Some s else zscore z m')"
proof (cases "m' = m")
  case True
  assume "zset_ok z"
  with True show ?thesis by (simp add: zscore_mem)
next
  case False
  assume ok: "zset_ok z"
  show ?thesis
  proof (cases "zscore z m'")
    case None
    then have "zscore (zadd s m z) m' = None" using False by (auto simp: zscore_None)
    with None False show ?thesis by simp
  next
    case (Some s')
    with ok False have "zscore (zadd s m z) m' = Some s'" by (simp add: zscore_mem)
    with Some False show ?thesis by simp
  qed
qed

lemma zscore_zrem: "zscore (zrem m z) m' = (if m' = m then None else zscore z m')"
  by (simp add: zscore_def zrem_def map_of_filter_in map_of_eq_None_iff) (induction z; auto)

lemma mem_zrangebyscore:
  "m \<in> set (zrangebyscore lo hi z) \<longleftrightarrow> (\<exists>s. (m, s) \<in> set z \<and> lo \<le> rat_of_int s \<and> rat_of_int s \<le> hi)"
  by (force simp: zrangebyscore_def)

lemma distinct_zrange: "zset_ok z \<Longrightarrow> distinct (zrange_all z)"
  by (simp add: zset_ok_def zrange_all_def)

lemma distinct_zrangebyscore: "zset_ok z \<Longrightarrow> distinct (zrangebyscore lo hi z)"
  by (simp add: zset_ok_def zrangebyscore_def distinct_map_filter)

text \<open>The rank counted from the top is the number of members strictly ahead.\<close>

lemma takeWhile_rev_rank:
  assumes "sorted (map k z)" "distinct (map k z)" "x \<in> set z"
  shows "length (takeWhile (\<lambda>p. k p \<noteq> k x) (rev z)) = length (filter (\<lambda>p. (k x::'a::linorder) < k p) z)"
  using assms
proof (induction z rule: rev_induct)
  case (snoc y ys)
  from snoc.prems have ys: "sorted (map k ys)" "distinct (map k ys)" and le: "\<forall>p \<in> set ys. k p \<le> k y"
    and ne: "\<forall>p \<in> set ys. k p \<noteq> k y"
    by (auto simp: sorted_append) (metis image_eqI)+
  show ?case
  proof (cases "k y = k x")
    case True
    have "filter (\<lambda>p. k x < k p) ys = []"
      using le True by (metis (no_types, lifting) filter_False leD)
    with True show ?thesis by simp
  next
    case False
    with snoc.prems(3) have x: "x \<in> set ys" by auto
    with le ne have "k x < k y" by (metis order.not_eq_order_implies_strict)
    with snoc.IH[OF ys x] False show ?thesis by simp
  qed
qed simp

lemma zrevrank_eq:
  assumes "zset_ok z" and "zscore z m = Some s"
  shows "zrevrank z m = Some (length (filter (\<lambda>p. (s, m) < zkey p) z))"
proof -
  from assms have m: "(m, s) \<in> set z" by (simp add: zscore_mem)
  have inj: "fst p = m \<longleftrightarrow> zkey p = zkey (m, s)" if "p \<in> set z" for p
  proof -
    have "fst p = fst (m, s) \<Longrightarrow> p = (m, s)"
      using distinct_map_eqD[of fst z p "(m, s)"] assms(1) that m by (simp add: zset_ok_def)
    then show ?thesis by (cases p) (auto simp: zkey_def)
  qed
  have "distinct (map zkey z)"
    using assms(1) by (auto simp: zset_ok_def distinct_map zkey_def inj_on_def)
  with takeWhile_rev_rank[of zkey z "(m, s)"] assms(1) m
  have "length (takeWhile (\<lambda>p. zkey p \<noteq> zkey (m, s)) (rev z)) = length (filter (\<lambda>p. zkey (m, s) < zkey p) z)"
    by (simp add: zset_ok_def)
  moreover have "takeWhile (\<lambda>p. fst p \<noteq> m) (rev z) = takeWhile (\<lambda>p. zkey p \<noteq> zkey (m, s)) (rev z)"
    using inj by (intro takeWhile_cong) auto
  ultimately show ?thesis using assms(2) by (simp add: zrevrank_def zkey_def)
qed

section \<open>The interface the pools and boards rely on\<close>

locale score_store =
  fixes inv :: "'s \<Rightarrow> bool"
    and upsert :: "int \<Rightarrow> 'm \<Rightarrow> 's \<Rightarrow> 's"
    and drop_member :: "'m \<Rightarrow> 's \<Rightarrow> 's"
    and score :: "'s \<Rightarrow> 'm \<Rightarrow> int option"
  assumes upsert_inv: "inv s \<Longrightarrow> inv (upsert x m s)"
    and drop_inv: "inv s \<Longrightarrow> inv (drop_member m s)"
    and score_upsert: "inv s \<Longrightarrow> score (upsert x m s) m' = (if m' = m then Some x else score s m')"
    and score_drop: "inv s \<Longrightarrow> score (drop_member m s) m' = (if m' = m then None else score s m')"
begin

lemma upserts_inv: "inv s \<Longrightarrow> inv (fold (\<lambda>(m, x). upsert x m) us s)"
  by (induction us arbitrary: s) (auto simp: upsert_inv)

text \<open>After a sequence of writes each member has the score of its last write.\<close>

lemma last_write_wins:
  "inv s \<Longrightarrow> score (fold (\<lambda>(m, x). upsert x m) us s) m' =
     (case map_of (rev us) m' of None \<Rightarrow> score s m' | Some x \<Rightarrow> Some x)"
proof (induction us arbitrary: s)
  case (Cons u us)
  obtain m x where u: "u = (m, x)" by (cases u)
  from Cons.IH[OF upsert_inv[OF Cons.prems]] show ?case
    using Cons.prems by (auto simp: u score_upsert map_add_def split: option.splits)
qed simp

lemma drops_score:
  "inv s \<Longrightarrow> score (fold drop_member ms s) m' = (if m' \<in> set ms then None else score s m')"
proof (induction ms arbitrary: s)
  case (Cons m ms)
  from Cons.IH[OF drop_inv[OF Cons.prems]] Cons.prems show ?case by (simp add: score_drop)
qed simp

end

interpretation zs: score_store zset_ok zadd zrem zscore
  by unfold_locales (simp_all add: zscore_zadd zscore_zrem)

end
