(* ===== verification/RateLimit.thy ===== *)
theory RateLimit
  imports Prelude
begin

text \<open>
  The two fixed-window rate limiters: the counter in Redis that the HTTP modules share the design
  of (a key that is incremented and given a time to live by the first hit), and the counter each
  socket carries. Both provide one interface, whose lemma bounds the requests let through.
\<close>

section \<open>The interface\<close>

locale fixed_window =
  fixes hit :: "int \<Rightarrow> 's \<Rightarrow> bool \<times> 's"
    and used :: "int \<Rightarrow> 's \<Rightarrow> int"
    and ends :: "'s \<Rightarrow> int"
    and limit :: int
  assumes allowed: "fst (hit t s) \<longleftrightarrow> used t s < limit"
    and hit_used: "t \<le> t' \<Longrightarrow> t' \<le> ends (snd (hit t s)) \<Longrightarrow> used t' (snd (hit t s)) = used t s + 1"
    and hit_ends: "0 < used t s \<Longrightarrow> ends (snd (hit t s)) = ends s"
    and used_nonneg: "0 \<le> used t s"
begin

fun accepted :: "'s \<Rightarrow> int list \<Rightarrow> int" where
  "accepted s [] = 0"
| "accepted s (t # ts) = (if fst (hit t s) then 1 else 0) + accepted (snd (hit t s)) ts"

lemma accepted_in_window:
  "sorted ts \<Longrightarrow> \<forall>t \<in> set ts. t \<le> ends s \<and> used t s = n \<Longrightarrow> 0 < n \<Longrightarrow> accepted s ts \<le> max 0 (limit - n)"
proof (induction ts arbitrary: s n)
  case (Cons t ts)
  let ?s = "snd (hit t s)"
  from Cons.prems have n: "used t s = n" "0 < n" by auto
  have "\<forall>u \<in> set ts. u \<le> ends ?s \<and> used u ?s = n + 1"
    using Cons.prems hit_used[of t _ s] hit_ends[of t s] n by auto
  with Cons.IH[of ?s "n + 1"] Cons.prems n have "accepted ?s ts \<le> max 0 (limit - (n + 1))" by simp
  with n allowed[of t s] show ?case by auto
qed simp

text \<open>A window that a hit opens lets at most \<open>limit\<close> hits through.\<close>

lemma window_bound:
  assumes "used t s = 0" and "sorted (t # ts)" and "\<forall>u \<in> set ts. u \<le> ends (snd (hit t s))" and "0 \<le> limit"
  shows "accepted s (t # ts) \<le> limit"
proof -
  let ?s = "snd (hit t s)"
  have "\<forall>u \<in> set ts. u \<le> ends ?s \<and> used u ?s = 1"
    using assms hit_used[of t _ s] by auto
  with accepted_in_window[of ts ?s 1] assms(2) have "accepted ?s ts \<le> max 0 (limit - 1)" by simp
  with assms(1,4) allowed[of t s] show ?thesis by auto
qed

end

section \<open>The counter in Redis\<close>

text \<open>
  A key holds its count and the instant its window ends: the first hit of a window sets the time
  to live at the instant it creates the key, and INCR keeps it on a live key.
\<close>

type_synonym 'k counters = "'k \<Rightarrow> (nat \<times> int) option"

definition live_count :: "int \<Rightarrow> 'k \<Rightarrow> 'k counters \<Rightarrow> nat" where
  "live_count now k m = (case m k of None \<Rightarrow> 0 | Some (c, x) \<Rightarrow> if now \<le> x then c else 0)"

definition window_end :: "'k \<Rightarrow> 'k counters \<Rightarrow> int" where
  "window_end k m = (case m k of None \<Rightarrow> 0 | Some (c, x) \<Rightarrow> x)"

definition rate_hit :: "int \<Rightarrow> nat \<Rightarrow> 'k \<Rightarrow> int \<Rightarrow> 'k counters \<Rightarrow> bool \<times> 'k counters" where
  "rate_hit windowMs mx k now m =
     (let count = live_count now k m + 1
      in (count \<le> mx, m(k := Some (count, if count = 1 then now + windowMs else window_end k m))))"

interpretation redis_window: fixed_window "rate_hit w mx k" "\<lambda>t m. int (live_count t k m)" "window_end k" "int mx"
  for w mx k
  by unfold_locales (auto simp: rate_hit_def live_count_def window_end_def Let_def split: option.splits if_splits)

section \<open>The counter of a socket\<close>

record rate_bucket =
  bk_windowStart :: int
  bk_count :: nat

definition bucket_hit :: "int \<Rightarrow> nat \<Rightarrow> int \<Rightarrow> rate_bucket \<Rightarrow> bool \<times> rate_bucket" where
  "bucket_hit windowMs mx now b =
     (let b1 = (if now - bk_windowStart b \<ge> windowMs then b\<lparr>bk_windowStart := now, bk_count := 0\<rparr> else b);
          b2 = b1\<lparr>bk_count := bk_count b1 + 1\<rparr>
      in (\<not> bk_count b2 > mx, b2))"

definition bucket_used :: "int \<Rightarrow> int \<Rightarrow> rate_bucket \<Rightarrow> nat" where
  "bucket_used windowMs t b = (if t - bk_windowStart b \<ge> windowMs then 0 else bk_count b)"

definition bucket_ends :: "int \<Rightarrow> rate_bucket \<Rightarrow> int" where
  "bucket_ends windowMs b = bk_windowStart b + windowMs - 1"

interpretation socket_window: fixed_window "bucket_hit w mx" "\<lambda>t b. int (bucket_used w t b)" "bucket_ends w" "int mx"
  for w mx
  by unfold_locales (auto simp: bucket_hit_def bucket_used_def bucket_ends_def Let_def split: if_splits)

section \<open>The bound\<close>

fun hits :: "int \<Rightarrow> nat \<Rightarrow> 'k \<Rightarrow> 'k counters \<Rightarrow> int list \<Rightarrow> bool list" where
  "hits w mx k m [] = []"
| "hits w mx k m (t # ts) = fst (rate_hit w mx k t m) # hits w mx k (snd (rate_hit w mx k t m)) ts"

lemma hits_accepted: "int (length (filter id (hits w mx k m ts))) = redis_window.accepted w mx k m ts"
  by (induction ts arbitrary: m) auto

text \<open>
  C14. A rate-limit key admits at most its maximum per window: of all hits from the one that opens a
  window until the window ends, in any number and at any instants, at most that many are let through,
  and every hit counts, refused ones included.
\<close>

theorem rate_limit_holds:
  assumes "live_count t k m = 0" and "sorted (t # ts)" and "\<forall>u \<in> set ts. u \<le> t + w"
  shows "length (filter id (hits w mx k m (t # ts))) \<le> mx"
proof -
  have "window_end k (snd (rate_hit w mx k t m)) = t + w"
    using assms(1) by (simp add: rate_hit_def window_end_def Let_def)
  with redis_window.window_bound[of t k m ts w mx] assms hits_accepted[of w mx k m "t # ts"]
  show ?thesis by simp
qed

lemma rate_limit_holds_witness:
  "length (filter id (hits 10000 5 ''u'' Map.empty [0, 1, 2, 3, 4, 5, 6])) \<le> 5
   \<and> hits 10000 5 ''u'' Map.empty [0, 1, 2, 3, 4, 5, 6, 10001] = [True, True, True, True, True, False, False, True]"
  using rate_limit_holds[of 0 "''u''" Map.empty "[1, 2, 3, 4, 5, 6]" 10000 5]
  by (simp add: live_count_def) (simp add: rate_hit_def live_count_def window_end_def)

end
