(* ===== verification/MatchQueue.thy ===== *)
theory MatchQueue
  imports SortedSet RateLimit
begin

text \<open>
  The matchmaking data of matchmaking/store: the rating pools (sorted sets), the tickets (hashes
  with a time to live), the set of queued users, the presence set and the reconnect lists, with
  the store operations over them. Each script or pipeline is one atomic step.
\<close>

section \<open>Types\<close>

datatype match_mode = MmOneVsOne | MmPractice | MmRanked
datatype region = RegGlobal | RegNa | RegEu | RegAsia
datatype skill_pref = SkillAny | SkillSimilar | SkillChallenge

record ticket =
  tk_userId :: ident
  tk_rating :: int
  tk_mode :: match_mode
  tk_region :: region
  tk_language :: string
  tk_skill :: skill_pref
  tk_friendId :: "ident option"
  tk_privateCode :: "string option"
  tk_enqueuedAt :: int

record match_info =
  mt_matchId :: ident
  mt_battleId :: ident
  mt_mode :: match_mode
  mt_region :: region
  mt_players :: "ident list"
  mt_createdAt :: int

datatype mm_push =
  PushJoined ident ticket
| PushLeft ident
| PushTimeout ident
| PushMatch ident match_info

type_synonym pool = "match_mode \<times> region"

record mm_world =
  q_pools :: "pool \<Rightarrow> zset"
  q_poolset :: "pool list"
  q_tickets :: "(ident, ticket) kv"
  q_queued :: "ident set"
  q_online :: "ident set"
  q_reconnect :: "(ident, match_info list) kv"
  q_rate :: "ident counters"
  q_sent :: "mm_push list"
  q_matches :: "match_info list"

definition queue_timeout_seconds :: int where "queue_timeout_seconds = 120"
definition reconnect_ttl_seconds :: int where "reconnect_ttl_seconds = 300"

definition pool_of :: "ticket \<Rightarrow> pool" where
  "pool_of t = (tk_mode t, tk_region t)"

section \<open>Pool names\<close>

text \<open>A pool is a key; the set of pools holds these keys and is read back by splitting them.\<close>

fun mode_name :: "match_mode \<Rightarrow> string" where
  "mode_name MmOneVsOne = ''ONE_VS_ONE''"
| "mode_name MmPractice = ''PRACTICE''"
| "mode_name MmRanked = ''RANKED''"

fun region_name :: "region \<Rightarrow> string" where
  "region_name RegGlobal = ''GLOBAL''"
| "region_name RegNa = ''NA''"
| "region_name RegEu = ''EU''"
| "region_name RegAsia = ''ASIA''"

definition pool_name :: "pool \<Rightarrow> string" where
  "pool_name p = ''mm:pool:'' @ mode_name (fst p) @ '':'' @ region_name (snd p)"

fun split_colon :: "string \<Rightarrow> string list" where
  "split_colon [] = [[]]"
| "split_colon (c # cs) = (if c = CHR '':'' then [] # split_colon cs
     else (case split_colon cs of [] \<Rightarrow> [[c]] | w # ws \<Rightarrow> (c # w) # ws))"

text \<open>The first occurrence of the prefix is removed, wherever it stands.\<close>

fun replace_first :: "string \<Rightarrow> string \<Rightarrow> string" where
  "replace_first pre [] = []"
| "replace_first pre (c # cs) = (if take (length pre) (c # cs) = pre then drop (length pre) (c # cs)
     else c # replace_first pre cs)"

definition parse_pools :: "string list \<Rightarrow> (string \<times> string) list" where
  "parse_pools keys = map (\<lambda>ps. (ps ! 0, ps ! 1))
     (filter (\<lambda>ps. length ps = 2) (map (\<lambda>k. split_colon (replace_first ''mm:pool:'' k)) keys))"

lemma parse_pool_name: "parse_pools [pool_name p] = [(mode_name (fst p), region_name (snd p))]"
  by (cases p; rename_tac m r; case_tac m; case_tac r)
    (simp_all add: parse_pools_def pool_name_def)

section \<open>The queue store\<close>

definition enqueue :: "int \<Rightarrow> ticket \<Rightarrow> mm_world \<Rightarrow> mm_world" where
  "enqueue now t w = w\<lparr>
     q_pools := (q_pools w)(pool_of t := zadd (tk_rating t) (tk_userId t) (q_pools w (pool_of t))),
     q_tickets := kv_put (q_tickets w) (tk_userId t) t (Some (now + queue_timeout_seconds * 1000)),
     q_queued := insert (tk_userId t) (q_queued w),
     q_poolset := List.insert (pool_of t) (q_poolset w)\<rparr>"

definition isQueued :: "ident \<Rightarrow> mm_world \<Rightarrow> bool" where
  "isQueued u w \<longleftrightarrow> u \<in> q_queued w"

definition getTicket :: "int \<Rightarrow> ident \<Rightarrow> mm_world \<Rightarrow> ticket option" where
  "getTicket now u w = kv_get now (q_tickets w) u"

definition remove_ticket :: "ident \<Rightarrow> ticket \<Rightarrow> mm_world \<Rightarrow> mm_world" where
  "remove_ticket u t w = w\<lparr>q_pools := (q_pools w)(pool_of t := zrem u (q_pools w (pool_of t))),
     q_tickets := kv_del (q_tickets w) u\<rparr>"

definition dequeue :: "int \<Rightarrow> ident \<Rightarrow> mm_world \<Rightarrow> bool \<times> mm_world" where
  "dequeue now u w = (case getTicket now u w of
       None \<Rightarrow> (False, w\<lparr>q_queued := q_queued w - {u}\<rparr>)
     | Some t \<Rightarrow> (True, (remove_ticket u t w)\<lparr>q_queued := q_queued w - {u}\<rparr>))"

definition hydrate :: "int \<Rightarrow> ident list \<Rightarrow> mm_world \<Rightarrow> ticket list" where
  "hydrate now ids w = List.map_filter (\<lambda>u. getTicket now u w) ids"

definition candidates :: "int \<Rightarrow> pool \<Rightarrow> int \<Rightarrow> rat \<Rightarrow> ident \<Rightarrow> mm_world \<Rightarrow> ticket list" where
  "candidates now p rating window excludeUserId w =
     (let ids = zrangebyscore (rat_of_int rating - window) (rat_of_int rating + window) (q_pools w p);
          tickets = hydrate now (filter (\<lambda>u. u \<noteq> excludeUserId) ids) w
      in sort_key (\<lambda>t. \<bar>tk_rating t - rating\<bar>) tickets)"

definition poolTickets :: "int \<Rightarrow> pool \<Rightarrow> mm_world \<Rightarrow> ticket list" where
  "poolTickets now p w = hydrate now (zrange_all (q_pools w p)) w"

text \<open>Both tickets are read before either is removed; the users differ.\<close>

definition claimPair :: "int \<Rightarrow> ident \<Rightarrow> ident \<Rightarrow> mm_world \<Rightarrow> bool \<times> mm_world" where
  "claimPair now a b w =
     (if a \<in> q_queued w \<and> b \<in> q_queued w
      then (let w1 = w\<lparr>q_queued := q_queued w - {a, b}\<rparr>;
                ta = getTicket now a w1; tb = getTicket now b w1;
                w2 = (case ta of None \<Rightarrow> w1 | Some t \<Rightarrow> remove_ticket a t w1)
            in (True, (case tb of None \<Rightarrow> w2 | Some t \<Rightarrow> remove_ticket b t w2)))
      else (False, w))"

section \<open>Presence and reconnection\<close>

definition markOnline :: "ident \<Rightarrow> mm_world \<Rightarrow> mm_world" where
  "markOnline u w = w\<lparr>q_online := insert u (q_online w)\<rparr>"

definition markOffline :: "ident \<Rightarrow> mm_world \<Rightarrow> mm_world" where
  "markOffline u w = w\<lparr>q_online := q_online w - {u}\<rparr>"

definition isOnline :: "ident \<Rightarrow> mm_world \<Rightarrow> bool" where
  "isOnline u w \<longleftrightarrow> u \<in> q_online w"

definition onlineCount :: "mm_world \<Rightarrow> nat" where
  "onlineCount w = card (q_online w)"

definition pushReconnect :: "int \<Rightarrow> ident \<Rightarrow> match_info \<Rightarrow> mm_world \<Rightarrow> mm_world" where
  "pushReconnect now u m w = w\<lparr>q_reconnect := kv_put (q_reconnect w) u
     (m # kv_list now (q_reconnect w) u) (Some (now + reconnect_ttl_seconds * 1000))\<rparr>"

definition drainReconnect :: "int \<Rightarrow> ident \<Rightarrow> mm_world \<Rightarrow> match_info list \<times> mm_world" where
  "drainReconnect now u w =
     (rev (kv_list now (q_reconnect w) u), w\<lparr>q_reconnect := kv_del (q_reconnect w) u\<rparr>)"

end
