(* ===== verification/MatchService.thy ===== *)
theory MatchService
  imports MatchQueue
begin

text \<open>
  matchmaking/services/matchmaking.service.ts: admission, cancellation, reconnection and the
  pairing sweep. The rating directory, the battle gateway and the generator of match identifiers
  are arguments; a request or a sweep runs at one instant.
\<close>

section \<open>Environment and errors\<close>

record mm_env =
  en_rating :: "ident \<Rightarrow> int"
  en_battle :: "ident list \<Rightarrow> match_mode \<Rightarrow> bool \<Rightarrow> ident"
  en_uuid :: "ident list \<Rightarrow> ident"

datatype mm_error = AlreadyQueued | NotQueued | RateLimited | InvalidQueue string

fun mm_error_code :: "mm_error \<Rightarrow> nat \<times> string" where
  "mm_error_code AlreadyQueued = (409, ''ALREADY_QUEUED'')"
| "mm_error_code NotQueued = (404, ''NOT_QUEUED'')"
| "mm_error_code RateLimited = (429, ''RATE_LIMITED'')"
| "mm_error_code (InvalidQueue _) = (422, ''INVALID_QUEUE'')"

type_synonym 'a mm_op = "(mm_world, mm_error, 'a) op"

record join_input =
  ji_userId :: ident
  ji_mode :: match_mode
  ji_region :: region
  ji_language :: string
  ji_skill :: skill_pref
  ji_friendId :: "ident option"
  ji_privateCode :: "string option"

definition join_window_ms :: int where "join_window_ms = 10000"
definition join_max :: nat where "join_max = 5"
definition base_window :: rat where "base_window = 50"
definition window_growth_per_sec :: rat where "window_growth_per_sec = 15"
definition max_window :: rat where "max_window = 600"

section \<open>Pairing\<close>

definition windowFor :: "int \<Rightarrow> ticket \<Rightarrow> rat" where
  "windowFor now t =
     (let waitedSec = rat_of_int (now - tk_enqueuedAt t) / 1000;
          grown = base_window + waitedSec * window_growth_per_sec;
          skillMultiplier = (if tk_skill t = SkillSimilar then 1 / 2 else 1)
      in min max_window (grown * skillMultiplier))"

definition compatible :: "ticket \<Rightarrow> ticket \<Rightarrow> bool" where
  "compatible a b \<longleftrightarrow>
     (if tk_mode a \<noteq> tk_mode b \<or> tk_region a \<noteq> tk_region b then False
      else if truthy_str (tk_friendId a) \<and> tk_friendId a \<noteq> Some (tk_userId b) then False
      else if truthy_str (tk_friendId b) \<and> tk_friendId b \<noteq> Some (tk_userId a) then False
      else if truthy_str (tk_privateCode a) \<or> truthy_str (tk_privateCode b)
      then tk_privateCode a = tk_privateCode b
      else True)"

definition emit_push :: "mm_push \<Rightarrow> mm_world \<Rightarrow> mm_world" where
  "emit_push p w = w\<lparr>q_sent := q_sent w @ [p]\<rparr>"

definition deliver :: "int \<Rightarrow> match_info \<Rightarrow> ident \<Rightarrow> mm_world \<Rightarrow> mm_world" where
  "deliver now m u w = (if isOnline u w then emit_push (PushMatch u m) w else pushReconnect now u m w)"

definition match_of :: "mm_env \<Rightarrow> int \<Rightarrow> ticket \<Rightarrow> ticket \<Rightarrow> match_info" where
  "match_of e now a b =
     \<lparr>mt_matchId = en_uuid e [tk_userId a, tk_userId b],
      mt_battleId = en_battle e [tk_userId a, tk_userId b] (tk_mode a) (tk_mode a \<noteq> MmPractice),
      mt_mode = tk_mode a, mt_region = tk_region a, mt_players = [tk_userId a, tk_userId b],
      mt_createdAt = now\<rparr>"

text \<open>The broadcast of the match is recorded in \<open>q_matches\<close>.\<close>

definition createMatch :: "mm_env \<Rightarrow> int \<Rightarrow> ticket \<Rightarrow> ticket \<Rightarrow> mm_world \<Rightarrow> mm_world" where
  "createMatch e now a b w =
     (let m = match_of e now a b; w1 = fold (deliver now m) (mt_players m) w
      in w1\<lparr>q_matches := q_matches w1 @ [m]\<rparr>)"

fun sweep_tickets ::
  "mm_env \<Rightarrow> int \<Rightarrow> pool \<Rightarrow> ticket list \<Rightarrow> ident list \<Rightarrow> nat \<Rightarrow> mm_world \<Rightarrow> nat \<times> mm_world" where
  "sweep_tickets e now p [] paired n w = (n, w)"
| "sweep_tickets e now p (t # ts) paired n w =
     (if List.member paired (tk_userId t) then sweep_tickets e now p ts paired n w
      else if now - tk_enqueuedAt t > queue_timeout_seconds * 1000
      then sweep_tickets e now p ts paired n
             (emit_push (PushTimeout (tk_userId t)) (snd (dequeue now (tk_userId t) w)))
      else (case List.find (\<lambda>c. \<not> List.member paired (tk_userId c) \<and> compatible t c)
                   (candidates now p (tk_rating t) (windowFor now t) (tk_userId t) w) of
          None \<Rightarrow> sweep_tickets e now p ts paired n w
        | Some opponent \<Rightarrow>
            (case claimPair now (tk_userId t) (tk_userId opponent) w of (claimed, w') \<Rightarrow>
               if \<not> claimed then sweep_tickets e now p ts paired n w'
               else sweep_tickets e now p ts (tk_userId opponent # tk_userId t # paired) (n + 1)
                      (createMatch e now t opponent w'))))"

definition sweepPool :: "mm_env \<Rightarrow> int \<Rightarrow> pool \<Rightarrow> mm_world \<Rightarrow> nat \<times> mm_world" where
  "sweepPool e now p w =
     sweep_tickets e now p (sort_key tk_enqueuedAt (poolTickets now p w)) [] 0 w"

fun sweep_pools :: "mm_env \<Rightarrow> int \<Rightarrow> pool list \<Rightarrow> nat \<Rightarrow> mm_world \<Rightarrow> nat \<times> mm_world" where
  "sweep_pools e now [] matched w = (matched, w)"
| "sweep_pools e now (p # ps) matched w =
     (case sweepPool e now p w of (n, w') \<Rightarrow> sweep_pools e now ps (matched + n) w')"

definition sweep :: "mm_env \<Rightarrow> int \<Rightarrow> mm_world \<Rightarrow> nat \<times> mm_world" where
  "sweep e now w = sweep_pools e now (q_poolset w) 0 w"

section \<open>Requests\<close>

definition tryFriendMatch :: "mm_env \<Rightarrow> int \<Rightarrow> ticket \<Rightarrow> ident \<Rightarrow> mm_world \<Rightarrow> mm_world" where
  "tryFriendMatch e now t friendId w = (case getTicket now friendId w of
       None \<Rightarrow> w
     | Some friend \<Rightarrow> if \<not> compatible t friend then w
         else (case claimPair now (tk_userId t) friendId w of (claimed, w') \<Rightarrow>
                 if claimed then createMatch e now t friend w' else w'))"

definition ticket_of :: "mm_env \<Rightarrow> int \<Rightarrow> join_input \<Rightarrow> ticket" where
  "ticket_of e now i =
     \<lparr>tk_userId = ji_userId i, tk_rating = en_rating e (ji_userId i), tk_mode = ji_mode i,
      tk_region = ji_region i, tk_language = ji_language i, tk_skill = ji_skill i,
      tk_friendId = ji_friendId i, tk_privateCode = ji_privateCode i, tk_enqueuedAt = now\<rparr>"

definition hit_join :: "int \<Rightarrow> ident \<Rightarrow> bool mm_op" where
  "hit_join now u w = (case rate_hit join_window_ms join_max u now (q_rate w) of
     (ok, m) \<Rightarrow> (Inr ok, w\<lparr>q_rate := m\<rparr>))"

definition join_queue :: "mm_env \<Rightarrow> int \<Rightarrow> join_input \<Rightarrow> ticket mm_op" where
  "join_queue e now i =
     bind_op (hit_join now (ji_userId i)) (\<lambda>ok.
     then_op (guard_op ok RateLimited)
     (bind_op (reads (isQueued (ji_userId i))) (\<lambda>queued.
      then_op (guard_op (\<not> queued) AlreadyQueued)
      (then_op (guard_op (\<not> (truthy_str (ji_friendId i) \<and> ji_friendId i = Some (ji_userId i)))
                 (InvalidQueue ''Cannot friend-match yourself''))
      (let t = ticket_of e now i in
       then_op (writes (enqueue now t))
       (then_op (writes (markOnline (ji_userId i)))
       (then_op (writes (emit_push (PushJoined (ji_userId i) t)))
       (then_op (if truthy_str (ji_friendId i)
                 then writes (tryFriendMatch e now t (the (ji_friendId i))) else ret ())
        (ret t)))))))))"

definition leave_queue :: "int \<Rightarrow> ident \<Rightarrow> unit mm_op" where
  "leave_queue now u w = (case dequeue now u w of (removed, w') \<Rightarrow>
     if \<not> removed then (Inl NotQueued, w') else (Inr (), emit_push (PushLeft u) w'))"

definition queue_status :: "int \<Rightarrow> ident \<Rightarrow> mm_world \<Rightarrow> bool \<times> ticket option" where
  "queue_status now u w = (let t = getTicket now u w in (t \<noteq> None, t))"

definition reconnect_queue :: "int \<Rightarrow> ident \<Rightarrow> mm_world \<Rightarrow> match_info list \<times> mm_world" where
  "reconnect_queue now u w =
     (case drainReconnect now u (markOnline u w) of (pending, w') \<Rightarrow>
        (pending, fold (\<lambda>m. emit_push (PushMatch u m)) pending w'))"

end
