(* ===== verification/MatchInv.thy ===== *)
theory MatchInv
  imports MatchService
begin

text \<open>
  The invariant that ties the three queue structures together, its preservation by every
  operation, and what one sweep does: it only takes users out of the queue, books nobody twice
  and leaves no compatible pair behind.
\<close>

section \<open>The invariant\<close>

definition ticket_ok :: "int \<Rightarrow> mm_world \<Rightarrow> ident \<Rightarrow> ticket \<Rightarrow> int option \<Rightarrow> bool" where
  "ticket_ok now w u t x \<longleftrightarrow> tk_userId t = u \<and> x = Some (tk_enqueuedAt t + 120000) \<and>
     (alive now x \<longrightarrow> u \<in> q_queued w \<and> zscore (q_pools w (pool_of t)) u = Some (tk_rating t))"

definition pools_ok :: "(pool \<Rightarrow> zset) \<Rightarrow> bool" where
  "pools_ok f \<longleftrightarrow> (\<forall>p. zset_ok (f p))"

lemma pools_ok_at: "pools_ok f \<Longrightarrow> zset_ok (f p)"
  by (cases p) (simp add: pools_ok_def)

lemma pools_ok_upd: "pools_ok f \<Longrightarrow> zset_ok z \<Longrightarrow> pools_ok (f(p := z))"
  by (cases p) (simp add: pools_ok_def)

definition queue_ok :: "int \<Rightarrow> mm_world \<Rightarrow> bool" where
  "queue_ok now w \<longleftrightarrow> pools_ok (q_pools w) \<and>
     (\<forall>u t x. q_tickets w u = Some (t, x) \<longrightarrow> ticket_ok now w u t x)"

definition shrinks :: "int \<Rightarrow> mm_world \<Rightarrow> mm_world \<Rightarrow> bool" where
  "shrinks now w w' \<longleftrightarrow> q_queued w' \<subseteq> q_queued w
     \<and> (\<forall>u t. getTicket now u w' = Some t \<longrightarrow> getTicket now u w = Some t)
     \<and> (\<forall>p u s. (u, s) \<in> set (q_pools w' p) \<longrightarrow> (u, s) \<in> set (q_pools w p))"

lemma shrinks_refl [simp]: "shrinks now w w"
  by (simp add: shrinks_def)

lemma shrinks_trans: "shrinks now a b \<Longrightarrow> shrinks now b c \<Longrightarrow> shrinks now a c"
  unfolding shrinks_def by blast

lemma shrinks_ticket: "shrinks now w w' \<Longrightarrow> getTicket now u w = None \<Longrightarrow> getTicket now u w' = None"
  by (cases "getTicket now u w'") (auto simp: shrinks_def)

lemma queue_ok_ticket:
  assumes "queue_ok now w" and "getTicket now u w = Some t"
  shows "tk_userId t = u" and "u \<in> q_queued w" and "zscore (q_pools w (pool_of t)) u = Some (tk_rating t)"
    and "now \<le> tk_enqueuedAt t + 120000"
proof -
  from assms(2) obtain x where x: "q_tickets w u = Some (t, x)" "alive now x"
    by (auto simp: getTicket_def kv_get_Some)
  with assms(1) have "ticket_ok now w u t x" unfolding queue_ok_def by blast
  with x(2) show "tk_userId t = u" "u \<in> q_queued w" "zscore (q_pools w (pool_of t)) u = Some (tk_rating t)"
    "now \<le> tk_enqueuedAt t + 120000"
    unfolding ticket_ok_def by auto
qed

lemma ticket_ok_later: "ticket_ok now w u t x \<Longrightarrow> now \<le> now' \<Longrightarrow> ticket_ok now' w u t x"
  by (auto simp: ticket_ok_def)

lemma queue_ok_later: "queue_ok now w \<Longrightarrow> now \<le> now' \<Longrightarrow> queue_ok now' w"
  unfolding queue_ok_def using ticket_ok_later by blast

lemma queue_ok_cong:
  assumes "queue_ok now w" and "q_pools w' = q_pools w" "q_tickets w' = q_tickets w" "q_queued w' = q_queued w"
  shows "queue_ok now w'"
  using assms by (simp add: queue_ok_def ticket_ok_def)

subsection \<open>Hydration\<close>

lemma set_hydrate: "t \<in> set (hydrate now ids w) \<longleftrightarrow> (\<exists>u \<in> set ids. getTicket now u w = Some t)"
  by (force simp: hydrate_def map_filter_def)

lemma mem_candidates: "c \<in> set (candidates now p r win x w) \<longleftrightarrow>
    (\<exists>u s. (u, s) \<in> set (q_pools w p) \<and> rat_of_int r - win \<le> rat_of_int s \<and> rat_of_int s \<le> rat_of_int r + win
       \<and> u \<noteq> x \<and> getTicket now u w = Some c)"
  by (auto simp: candidates_def Let_def set_hydrate mem_zrangebyscore)

lemma mem_poolTickets: "t \<in> set (poolTickets now p w) \<longleftrightarrow>
    (\<exists>u s. (u, s) \<in> set (q_pools w p) \<and> getTicket now u w = Some t)"
  by (force simp: poolTickets_def set_hydrate zrange_all_def)

lemma candidates_shrink:
  "shrinks now w w' \<Longrightarrow> c \<in> set (candidates now p r win x w') \<Longrightarrow> c \<in> set (candidates now p r win x w)"
  unfolding mem_candidates shrinks_def by blast

section \<open>Single operations\<close>

lemma remove_ticket_fields [simp]:
  "q_queued (remove_ticket u t w) = q_queued w" "q_matches (remove_ticket u t w) = q_matches w"
  "q_sent (remove_ticket u t w) = q_sent w" "q_online (remove_ticket u t w) = q_online w"
  "q_reconnect (remove_ticket u t w) = q_reconnect w"
  by (simp_all add: remove_ticket_def)

lemma remove_ticket_pools:
  "q_pools (remove_ticket u t w) p = (if p = pool_of t then zrem u (q_pools w p) else q_pools w p)"
  by (simp add: remove_ticket_def)

lemma getTicket_remove [simp]:
  "getTicket now v (remove_ticket u t w) = (if v = u then None else getTicket now v w)"
  by (simp add: getTicket_def remove_ticket_def kv_get_del)

lemma getTicket_queued [simp]: "getTicket now v (w\<lparr>q_queued := Q\<rparr>) = getTicket now v w"
  by (simp add: getTicket_def)

lemma remove_ticket_queued: "(remove_ticket u t (w\<lparr>q_queued := Q\<rparr>)) = (remove_ticket u t w)\<lparr>q_queued := Q\<rparr>"
  by (simp add: remove_ticket_def)

lemma remove_shrinks: "Q \<subseteq> q_queued w \<Longrightarrow> shrinks now w ((remove_ticket u t w)\<lparr>q_queued := Q\<rparr>)"
  by (auto simp: shrinks_def) (auto simp: remove_ticket_def split: if_splits)

text \<open>Taking a user out of the queue together with the ticket keeps the invariant.\<close>

lemma remove_queue_ok:
  assumes "queue_ok now w"
  shows "queue_ok now ((remove_ticket u t w)\<lparr>q_queued := q_queued w - {u}\<rparr>)"
proof -
  let ?w = "(remove_ticket u t w)\<lparr>q_queued := q_queued w - {u}\<rparr>"
  have "ticket_ok now ?w v t' x" if "q_tickets ?w v = Some (t', x)" for v t' x
  proof -
    from that have v: "v \<noteq> u" "q_tickets w v = Some (t', x)"
      by (auto simp: remove_ticket_def kv_del_def split: if_splits)
    with assms have "ticket_ok now w v t' x" unfolding queue_ok_def by blast
    with v(1) show ?thesis by (auto simp: ticket_ok_def remove_ticket_pools zscore_zrem)
  qed
  moreover have "pools_ok (q_pools ?w)"
    using assms by (simp add: remove_ticket_def queue_ok_def pools_ok_upd pools_ok_at)
  ultimately show ?thesis by (simp add: queue_ok_def)
qed

lemma absent_queue_ok:
  assumes "queue_ok now w" and "getTicket now u w = None"
  shows "queue_ok now (w\<lparr>q_queued := q_queued w - {u}\<rparr>)"
  using assms unfolding queue_ok_def ticket_ok_def getTicket_def kv_get_def
  by (auto split: if_splits option.splits)

lemma dequeue_ok:
  assumes "queue_ok now w"
  shows "queue_ok now (snd (dequeue now u w))" and "shrinks now w (snd (dequeue now u w))"
    and "getTicket now u (snd (dequeue now u w)) = None"
    and "u \<notin> q_queued (snd (dequeue now u w))"
  using remove_queue_ok[OF assms] absent_queue_ok[OF assms] remove_shrinks[of "q_queued w - {u}" w now u]
  by (auto simp: dequeue_def split: option.splits) (auto simp: shrinks_def)

definition drop_user :: "int \<Rightarrow> ident \<Rightarrow> mm_world \<Rightarrow> mm_world" where
  "drop_user now u w = snd (dequeue now u w)"

lemma drop_user_fields [simp]:
  "q_queued (drop_user now u w) = q_queued w - {u}" "q_matches (drop_user now u w) = q_matches w"
  "q_sent (drop_user now u w) = q_sent w"
  "getTicket now v (drop_user now u w) = (if v = u then None else getTicket now v w)"
  by (auto simp: drop_user_def dequeue_def split: option.splits)

text \<open>A successful claim takes both users out, one after the other.\<close>

lemma claimPair_eq:
  assumes "a \<noteq> b"
  shows "claimPair now a b w = (if a \<in> q_queued w \<and> b \<in> q_queued w
     then (True, drop_user now b (drop_user now a w)) else (False, w))"
proof -
  have d: "drop_user now u v = (case getTicket now u v of None \<Rightarrow> v\<lparr>q_queued := q_queued v - {u}\<rparr>
      | Some t \<Rightarrow> (remove_ticket u t v)\<lparr>q_queued := q_queued v - {u}\<rparr>)" for u v
    by (simp add: drop_user_def dequeue_def split: option.splits)
  have q: "q_queued w - {a, b} = q_queued w - {a} - {b}" by auto
  have c: "remove_ticket u t v\<lparr>q_queued := Q\<rparr> = remove_ticket u t (v\<lparr>q_queued := Q\<rparr>)" for u t v Q
    by (simp add: remove_ticket_queued)
  show ?thesis using assms unfolding claimPair_def d q
    by (cases "getTicket now a w"; cases "getTicket now b w") (simp_all add: Let_def c)
qed

lemma drop_user_ok:
  assumes "queue_ok now w"
  shows "queue_ok now (drop_user now u w)" and "shrinks now w (drop_user now u w)"
  using dequeue_ok[OF assms] by (simp_all add: drop_user_def)

lemma deliver_fields [simp]:
  "q_queued (deliver now m u w) = q_queued w" "q_matches (deliver now m u w) = q_matches w"
  "q_tickets (deliver now m u w) = q_tickets w" "q_pools (deliver now m u w) = q_pools w"
  by (simp_all add: deliver_def emit_push_def pushReconnect_def)

lemma createMatch_fields [simp]:
  "q_queued (createMatch e now a b w) = q_queued w" "q_tickets (createMatch e now a b w) = q_tickets w"
  "q_pools (createMatch e now a b w) = q_pools w"
  "q_matches (createMatch e now a b w) = q_matches w @ [match_of e now a b]"
  by (simp_all add: createMatch_def Let_def match_of_def)

lemma createMatch_ok:
  "queue_ok now (createMatch e now a b w) = queue_ok now w"
  "getTicket now u (createMatch e now a b w) = getTicket now u w"
  "shrinks now v (createMatch e now a b w) = shrinks now v w"
  by (simp_all add: queue_ok_def ticket_ok_def getTicket_def shrinks_def)

section \<open>One sweep\<close>

lemma emit_push_ok [simp]:
  "queue_ok now (emit_push p w) = queue_ok now w" "getTicket now u (emit_push p w) = getTicket now u w"
  "shrinks now v (emit_push p w) = shrinks now v w" "q_matches (emit_push p w) = q_matches w"
  "q_queued (emit_push p w) = q_queued w" "q_pools (emit_push p w) = q_pools w"
  by (simp_all add: queue_ok_def ticket_ok_def getTicket_def shrinks_def emit_push_def)

text \<open>The opponent a live ticket is offered, if any.\<close>

definition opponent_of :: "int \<Rightarrow> pool \<Rightarrow> ticket \<Rightarrow> ident list \<Rightarrow> mm_world \<Rightarrow> ticket option" where
  "opponent_of now p t paired w = List.find (\<lambda>c. \<not> List.member paired (tk_userId c) \<and> compatible t c)
     (candidates now p (tk_rating t) (windowFor now t) (tk_userId t) w)"

lemma opponent_Some:
  assumes "queue_ok now w" and "opponent_of now p t paired w = Some c"
  shows "c \<in> set (candidates now p (tk_rating t) (windowFor now t) (tk_userId t) w)"
    and "compatible t c" and "tk_userId c \<notin> set paired" and "tk_userId c \<noteq> tk_userId t"
    and "getTicket now (tk_userId c) w = Some c" and "tk_userId c \<in> q_queued w"
proof -
  from find_Some_set[OF assms(2)[unfolded opponent_of_def]]
  show c: "c \<in> set (candidates now p (tk_rating t) (windowFor now t) (tk_userId t) w)" "compatible t c"
    "tk_userId c \<notin> set paired" by auto
  from c(1) obtain u where "u \<noteq> tk_userId t" "getTicket now u w = Some c" by (auto simp: mem_candidates)
  with queue_ok_ticket[OF assms(1)] show "tk_userId c \<noteq> tk_userId t" "getTicket now (tk_userId c) w = Some c"
    "tk_userId c \<in> q_queued w" by auto
qed

lemma opponent_None:
  "opponent_of now p t paired w = None \<Longrightarrow> tk_userId c \<notin> set paired \<Longrightarrow>
    c \<in> set (candidates now p (tk_rating t) (windowFor now t) (tk_userId t) w) \<Longrightarrow> \<not> compatible t c"
  by (auto simp: opponent_of_def find_None_iff)

text \<open>One ticket of the sweep, as a case distinction over the world it finds.\<close>

lemma sweep_Cons:
  assumes ok: "queue_ok now w" and fresh: "now - tk_enqueuedAt t \<le> 120000"
  shows "sweep_tickets e now p (t # ts) paired n w =
    (if tk_userId t \<in> set paired then sweep_tickets e now p ts paired n w
     else (case opponent_of now p t paired w of None \<Rightarrow> sweep_tickets e now p ts paired n w
       | Some c \<Rightarrow> if tk_userId t \<notin> q_queued w then sweep_tickets e now p ts paired n w
           else sweep_tickets e now p ts (tk_userId c # tk_userId t # paired) (n + 1)
             (createMatch e now t c (drop_user now (tk_userId c) (drop_user now (tk_userId t) w)))))"
proof (cases "opponent_of now p t paired w")
  case None
  with fresh show ?thesis by (simp add: opponent_of_def queue_timeout_seconds_def)
next
  case (Some c)
  note c = opponent_Some[OF ok Some]
  have find: "List.find (\<lambda>c. tk_userId c \<notin> set paired \<and> compatible t c)
      (candidates now p (tk_rating t) (windowFor now t) (tk_userId t) w) = Some c"
    using Some by (simp add: opponent_of_def)
  show ?thesis using fresh c claimPair_eq[OF c(4)[symmetric], of now w] Some
    by (simp add: queue_timeout_seconds_def find)
qed

lemma pair_step:
  assumes "queue_ok now w" and w'_def: "w' = createMatch e now t c (drop_user now v (drop_user now u w))"
  shows "queue_ok now w'" and "shrinks now w w'" and "q_queued w' = q_queued w - {u, v}"
    and "q_matches w' = q_matches w @ [match_of e now t c]"
    and "getTicket now x w' = (if x = u \<or> x = v then None else getTicket now x w)"
  using drop_user_ok[OF assms(1), of u] drop_user_ok[of now "drop_user now u w" v]
  by (auto simp: w'_def createMatch_ok intro: shrinks_trans)

lemma sweep_tickets_ok:
  assumes "queue_ok now w" and "\<forall>t \<in> set ts. now - tk_enqueuedAt t \<le> 120000"
    and "sweep_tickets e now p ts paired n w = (k, w')"
  shows "queue_ok now w' \<and> shrinks now w w'"
  using assms
proof (induction ts arbitrary: paired n w)
  case (Cons t ts)
  then have fresh: "now - tk_enqueuedAt t \<le> 120000" "\<forall>t \<in> set ts. now - tk_enqueuedAt t \<le> 120000" by auto
  note eq = Cons.prems(3)[unfolded sweep_Cons[OF Cons.prems(1) fresh(1)]]
  show ?case
  proof (cases "tk_userId t \<in> set paired \<or> opponent_of now p t paired w = None \<or> tk_userId t \<notin> q_queued w")
    case True
    then have "sweep_tickets e now p ts paired n w = (k, w')" using eq by (auto split: option.splits if_splits)
    with Cons.IH Cons.prems(1) fresh show ?thesis by blast
  next
    case False
    then obtain c where "opponent_of now p t paired w = Some c" by auto
    with False eq have "sweep_tickets e now p ts (tk_userId c # tk_userId t # paired) (n + 1)
        (createMatch e now t c (drop_user now (tk_userId c) (drop_user now (tk_userId t) w))) = (k, w')" by simp
    from Cons.IH[OF pair_step(1)[OF Cons.prems(1) refl] fresh(2) this] pair_step(2)[OF Cons.prems(1) refl]
    show ?thesis by (blast intro: shrinks_trans)
  qed
qed simp

lemma sweep_case:
  assumes "queue_ok now w" and "now - tk_enqueuedAt t \<le> 120000"
    and run: "sweep_tickets e now p (t # ts) paired n w = (k, w')"
  obtains (skip) "sweep_tickets e now p ts paired n w = (k, w')"
      "tk_userId t \<in> set paired \<or> opponent_of now p t paired w = None \<or> tk_userId t \<notin> q_queued w"
  | (pair) c w1 where "opponent_of now p t paired w = Some c" "tk_userId t \<in> q_queued w" "tk_userId t \<notin> set paired"
      "w1 = createMatch e now t c (drop_user now (tk_userId c) (drop_user now (tk_userId t) w))"
      "sweep_tickets e now p ts (tk_userId c # tk_userId t # paired) (n + 1) w1 = (k, w')"
proof (cases "tk_userId t \<in> set paired \<or> opponent_of now p t paired w = None \<or> tk_userId t \<notin> q_queued w")
  case True
  then show ?thesis using run[unfolded sweep_Cons[OF assms(1,2)]] that(1) by (auto split: option.splits if_splits)
next
  case False
  then show ?thesis using run[unfolded sweep_Cons[OF assms(1,2)]] that(2) by auto
qed

text \<open>Every pair booked comes from the queue as it was, and no user is booked twice.\<close>

definition fair_pair :: "int \<Rightarrow> pool \<Rightarrow> mm_world \<Rightarrow> ticket \<Rightarrow> ticket \<Rightarrow> bool" where
  "fair_pair now p w a b \<longleftrightarrow> compatible a b \<and> getTicket now (tk_userId b) w = Some b
     \<and> b \<in> set (candidates now p (tk_rating a) (windowFor now a) (tk_userId a) w)"

lemma fair_pair_shrinks: "shrinks now w w' \<Longrightarrow> fair_pair now p w' a b \<Longrightarrow> fair_pair now p w a b"
  unfolding fair_pair_def by (auto simp: shrinks_def intro: candidates_shrink)

lemma sweep_tickets_sound:
  assumes "queue_ok now w" and "\<forall>t \<in> set ts. now - tk_enqueuedAt t \<le> 120000"
    and "sweep_tickets e now p ts paired n w = (k, w')"
  shows "\<exists>ms. q_matches w' = q_matches w @ ms \<and> k = n + length ms \<and> distinct (concat (map mt_players ms))
     \<and> set (concat (map mt_players ms)) \<subseteq> q_queued w - q_queued w'
     \<and> (\<forall>m \<in> set ms. \<exists>a b. a \<in> set ts \<and> m = match_of e now a b \<and> fair_pair now p w a b)"
  using assms
proof (induction ts arbitrary: paired n w)
  case Nil
  then show ?case by (intro exI[of _ "[]"]) simp
next
  case (Cons t ts)
  then have fresh: "now - tk_enqueuedAt t \<le> 120000" "\<forall>t \<in> set ts. now - tk_enqueuedAt t \<le> 120000" by auto
  from Cons.prems(1) fresh(1) Cons.prems(3) show ?case
  proof (cases rule: sweep_case)
    case skip
    from Cons.IH[OF Cons.prems(1) fresh(2) skip(1)] show ?thesis by (metis list.set_intros(2))
  next
    case (pair c w1)
    note c = opponent_Some[OF Cons.prems(1) pair(1)]
    note st = pair_step[OF Cons.prems(1) pair(4)]
    from Cons.IH[OF st(1) fresh(2) pair(5)] obtain ms where ms:
      "q_matches w' = q_matches w1 @ ms" "k = n + 1 + length ms" "distinct (concat (map mt_players ms))"
      "set (concat (map mt_players ms)) \<subseteq> q_queued w1 - q_queued w'"
      "\<forall>m \<in> set ms. \<exists>a b. a \<in> set ts \<and> m = match_of e now a b \<and> fair_pair now p w1 a b" by auto
    let ?m = "match_of e now t c"
    have pl: "mt_players ?m = [tk_userId t, tk_userId c]" by (simp add: match_of_def)
    have sub: "q_queued w' \<subseteq> q_queued w1"
      using sweep_tickets_ok[OF st(1) fresh(2) pair(5)] by (simp add: shrinks_def)
    have "fair_pair now p w t c" using c by (simp add: fair_pair_def)
    then have "\<exists>a b. a \<in> set (t # ts) \<and> ?m = match_of e now a b \<and> fair_pair now p w a b" by auto
    moreover have "\<exists>a b. a \<in> set (t # ts) \<and> m = match_of e now a b \<and> fair_pair now p w a b" if "m \<in> set ms" for m
    proof -
      from ms(5) that obtain a b where "a \<in> set ts" "m = match_of e now a b" "fair_pair now p w1 a b" by blast
      with fair_pair_shrinks[OF st(2), of p a b] show ?thesis by (intro exI[of _ a] exI[of _ b]) auto
    qed
    ultimately have "\<forall>m \<in> set (?m # ms). \<exists>a b. a \<in> set (t # ts) \<and> m = match_of e now a b \<and> fair_pair now p w a b"
      by (simp only: list.set ball_simps) blast
    moreover have "distinct (concat (map mt_players (?m # ms)))"
      using ms(3,4) c(4) by (auto simp: pl st(3))
    moreover have "set (concat (map mt_players (?m # ms))) \<subseteq> q_queued w - q_queued w'"
      using ms(4) c(6) pair(2) sub by (auto simp: pl st(3))
    moreover have "q_matches w' = q_matches w @ (?m # ms)" "k = n + length (?m # ms)"
      using ms(1,2) st(4) by simp_all
    ultimately show ?thesis by (intro exI[of _ "?m # ms"] conjI)
  qed
qed

text \<open>
  After the sweep no ticket it visited has a compatible candidate left. Users paired before have no
  ticket any more.
\<close>

lemma sweep_tickets_maximal:
  assumes "queue_ok now w" and "\<forall>t \<in> set ts. now - tk_enqueuedAt t \<le> 120000"
    and "sweep_tickets e now p ts paired n w = (k, w')"
    and "\<forall>u \<in> set paired. getTicket now u w = None"
    and "a \<in> set ts" and "getTicket now (tk_userId a) w' = Some a"
    and "b \<in> set (candidates now p (tk_rating a) (windowFor now a) (tk_userId a) w')"
  shows "\<not> compatible a b"
  using assms
proof (induction ts arbitrary: paired n w)
  case (Cons t ts)
  then have fresh: "now - tk_enqueuedAt t \<le> 120000" "\<forall>t \<in> set ts. now - tk_enqueuedAt t \<le> 120000" by auto
  have sh: "shrinks now w w'" using sweep_tickets_ok[OF Cons.prems(1-3)] by simp
  from Cons.prems(1) fresh(1) Cons.prems(3) show ?case
  proof (cases rule: sweep_case)
    case skip
    show ?thesis
    proof (cases "a \<in> set ts")
      case True
      from Cons.IH[OF Cons.prems(1) fresh(2) skip(1) Cons.prems(4) True Cons.prems(6,7)] show ?thesis .
    next
      case False
      with Cons.prems(5) have a: "a = t" by simp
      from sh Cons.prems(6) have live: "getTicket now (tk_userId a) w = Some a" by (auto simp: shrinks_def)
      with Cons.prems(4) have "tk_userId a \<notin> set paired" by auto
      with skip(2) a queue_ok_ticket(2)[OF Cons.prems(1) live] have none: "opponent_of now p a paired w = None" by auto
      from candidates_shrink[OF sh Cons.prems(7)]
      have b: "b \<in> set (candidates now p (tk_rating a) (windowFor now a) (tk_userId a) w)" .
      then obtain u where "getTicket now u w = Some b" by (auto simp: mem_candidates)
      with queue_ok_ticket(1)[OF Cons.prems(1) this] Cons.prems(4) have "tk_userId b \<notin> set paired" by auto
      from opponent_None[OF none this b] show ?thesis .
    qed
  next
    case (pair c w1)
    note st = pair_step[OF Cons.prems(1) pair(4)]
    have gone: "\<forall>u \<in> set (tk_userId c # tk_userId t # paired). getTicket now u w1 = None"
      using Cons.prems(4) by (auto simp: st(5))
    have "a \<noteq> t"
    proof
      assume "a = t"
      with gone have "getTicket now (tk_userId a) w1 = None" by simp
      with sweep_tickets_ok[OF st(1) fresh(2) pair(5)] Cons.prems(6) show False
        by (auto dest: shrinks_ticket)
    qed
    with Cons.prems(5) have "a \<in> set ts" by simp
    from Cons.IH[OF st(1) fresh(2) pair(5) gone this Cons.prems(6,7)] show ?thesis .
  qed
qed simp

end
