(* ===== verification/MatchProps.thy ===== *)
theory MatchProps
  imports MatchInv
begin

text \<open>
  The matchmaking engine as a system of requests and sweeps, and its properties.
\<close>

section \<open>Whole sweeps\<close>

definition matches_only :: "mm_world \<Rightarrow> mm_world \<Rightarrow> bool" where
  "matches_only w w' \<longleftrightarrow> (\<exists>ps. q_sent w' = q_sent w @ ps \<and> (\<forall>p \<in> set ps. \<exists>u m. p = PushMatch u m))"

lemma matches_only_refl [simp]: "matches_only w w"
  by (simp add: matches_only_def)

lemma matches_only_trans: "matches_only a b \<Longrightarrow> matches_only b c \<Longrightarrow> matches_only a c"
proof -
  assume "matches_only a b" "matches_only b c"
  then obtain ps qs where "q_sent b = q_sent a @ ps" "\<forall>p \<in> set ps. \<exists>u m. p = PushMatch u m"
    "q_sent c = q_sent b @ qs" "\<forall>p \<in> set qs. \<exists>u m. p = PushMatch u m" unfolding matches_only_def by blast
  then show ?thesis unfolding matches_only_def by (intro exI[of _ "ps @ qs"]) auto
qed

lemma matches_only_deliver: "matches_only w (deliver now m u w)"
  by (simp add: matches_only_def deliver_def emit_push_def pushReconnect_def)

lemma matches_only_create: "matches_only w (createMatch e now a b w)"
proof -
  let ?m = "match_of e now a b"
  let ?w1 = "deliver now ?m (tk_userId a) w"
  have eq: "q_sent (createMatch e now a b w) = q_sent (deliver now ?m (tk_userId b) ?w1)"
    by (simp add: createMatch_def Let_def match_of_def)
  have "matches_only w (deliver now ?m (tk_userId b) ?w1)"
    by (rule matches_only_trans[OF matches_only_deliver matches_only_deliver])
  with eq show ?thesis by (simp add: matches_only_def)
qed

lemma sweep_tickets_sends:
  assumes "queue_ok now w" and "\<forall>t \<in> set ts. now - tk_enqueuedAt t \<le> 120000"
    and "sweep_tickets e now p ts paired n w = (k, w')"
  shows "matches_only w w'"
  using assms
proof (induction ts arbitrary: paired n w)
  case (Cons t ts)
  then have fresh: "now - tk_enqueuedAt t \<le> 120000" "\<forall>t \<in> set ts. now - tk_enqueuedAt t \<le> 120000" by auto
  from Cons.prems(1) fresh(1) Cons.prems(3) show ?case
  proof (cases rule: sweep_case)
    case skip
    from Cons.IH[OF Cons.prems(1) fresh(2) skip(1)] show ?thesis .
  next
    case (pair c w1)
    let ?v = "drop_user now (tk_userId c) (drop_user now (tk_userId t) w)"
    have "matches_only w w1" using matches_only_create[of ?v e now t c] pair(4) by (simp add: matches_only_def)
    with Cons.IH[OF pair_step(1)[OF Cons.prems(1) pair(4)] fresh(2) pair(5)] show ?thesis
      by (blast intro: matches_only_trans)
  qed
qed simp

lemma pool_tickets_fresh:
  "queue_ok now w \<Longrightarrow> \<forall>t \<in> set (sort_key tk_enqueuedAt (poolTickets now p w)). now - tk_enqueuedAt t \<le> 120000"
  using queue_ok_ticket(4) by (fastforce simp: mem_poolTickets)

lemma sweepPool_ok:
  assumes "queue_ok now w" and "sweepPool e now p w = (k, w')"
  shows "queue_ok now w'" and "shrinks now w w'" and "matches_only w w'"
  using sweep_tickets_ok[OF assms(1) pool_tickets_fresh[OF assms(1)] assms(2)[unfolded sweepPool_def]]
    sweep_tickets_sends[OF assms(1) pool_tickets_fresh[OF assms(1)] assms(2)[unfolded sweepPool_def]]
  by simp_all

lemma live_pair_gap:
  assumes ok: "queue_ok now w" and f: "fair_pair now p w a b" and p: "p = pool_of a"
  shows "rat_of_int \<bar>tk_rating a - tk_rating b\<bar> \<le> windowFor now a"
proof -
  from f obtain u s where us: "(u, s) \<in> set (q_pools w p)" "rat_of_int (tk_rating a) - windowFor now a \<le> rat_of_int s"
      "rat_of_int s \<le> rat_of_int (tk_rating a) + windowFor now a" "getTicket now u w = Some b"
    by (auto simp: fair_pair_def mem_candidates)
  have "compatible a b" using f by (simp add: fair_pair_def)
  then have "pool_of b = p" using p by (auto simp: compatible_def pool_of_def split: if_splits)
  with queue_ok_ticket(3)[OF ok us(4)] have "zscore (q_pools w p) u = Some (tk_rating b)" by simp
  moreover have "zset_ok (q_pools w p)" using ok by (simp add: queue_ok_def pools_ok_at)
  ultimately have "s = tk_rating b" using us(1) by (simp flip: zscore_mem)
  with us show ?thesis by (simp add: abs_le_iff)
qed

lemma sweepPool_sound:
  assumes "queue_ok now w" and "sweepPool e now p w = (k, w')"
  shows "\<exists>ms. q_matches w' = q_matches w @ ms \<and> k = length ms \<and> distinct (concat (map mt_players ms))
     \<and> set (concat (map mt_players ms)) \<subseteq> q_queued w - q_queued w'
     \<and> (\<forall>m \<in> set ms. \<exists>a b. m = match_of e now a b \<and> getTicket now (tk_userId a) w = Some a
          \<and> fair_pair now p w a b)"
proof -
  from sweep_tickets_sound[OF assms(1) pool_tickets_fresh[OF assms(1)] assms(2)[unfolded sweepPool_def]]
  obtain ms where ms: "q_matches w' = q_matches w @ ms" "k = length ms" "distinct (concat (map mt_players ms))"
    "set (concat (map mt_players ms)) \<subseteq> q_queued w - q_queued w'"
    "\<forall>m \<in> set ms. \<exists>a b. a \<in> set (poolTickets now p w) \<and> m = match_of e now a b \<and> fair_pair now p w a b" by auto
  have "\<exists>a b. m = match_of e now a b \<and> getTicket now (tk_userId a) w = Some a \<and> fair_pair now p w a b"
    if m: "m \<in> set ms" for m
  proof -
    from ms(5) m obtain a b where ab: "a \<in> set (poolTickets now p w)" "m = match_of e now a b" "fair_pair now p w a b"
      by blast
    from ab(1) obtain u where u: "getTicket now u w = Some a" by (auto simp: mem_poolTickets)
    with queue_ok_ticket(1)[OF assms(1) u] ab show ?thesis by blast
  qed
  with ms show ?thesis by blast
qed

lemma sweep_pools_sound:
  assumes "queue_ok now w" and "sweep_pools e now ps n w = (k, w')"
  shows "queue_ok now w' \<and> shrinks now w w' \<and> matches_only w w' \<and>
     (\<exists>ms. q_matches w' = q_matches w @ ms \<and> k = n + length ms \<and> distinct (concat (map mt_players ms))
     \<and> set (concat (map mt_players ms)) \<subseteq> q_queued w - q_queued w'
     \<and> (\<forall>m \<in> set ms. \<exists>a b. m = match_of e now a b \<and> compatible a b
          \<and> getTicket now (tk_userId a) w = Some a \<and> getTicket now (tk_userId b) w = Some b))"
  using assms
proof (induction ps arbitrary: n w)
  case Nil
  then show ?case by simp
next
  case (Cons p ps)
  obtain j w1 where s: "sweepPool e now p w = (j, w1)" by (metis prod.collapse)
  with Cons.prems(2) have rest: "sweep_pools e now ps (n + j) w1 = (k, w')" by simp
  note ok = sweepPool_ok[OF Cons.prems(1) s]
  from sweepPool_sound[OF Cons.prems(1) s] obtain ms where ms: "q_matches w1 = q_matches w @ ms" "j = length ms"
    "distinct (concat (map mt_players ms))" "set (concat (map mt_players ms)) \<subseteq> q_queued w - q_queued w1"
    "\<forall>m \<in> set ms. \<exists>a b. m = match_of e now a b \<and> compatible a b
          \<and> getTicket now (tk_userId a) w = Some a \<and> getTicket now (tk_userId b) w = Some b"
    unfolding fair_pair_def by blast
  from Cons.IH[OF ok(1) rest] obtain ns where ns: "queue_ok now w'" "shrinks now w1 w'" "matches_only w1 w'"
    "q_matches w' = q_matches w1 @ ns" "k = n + j + length ns" "distinct (concat (map mt_players ns))"
    "set (concat (map mt_players ns)) \<subseteq> q_queued w1 - q_queued w'"
    "\<forall>m \<in> set ns. \<exists>a b. m = match_of e now a b \<and> compatible a b
          \<and> getTicket now (tk_userId a) w1 = Some a \<and> getTicket now (tk_userId b) w1 = Some b" by blast
  have sub: "q_queued w1 \<subseteq> q_queued w" "q_queued w' \<subseteq> q_queued w1"
    using ok(2) ns(2) by (auto simp: shrinks_def)
  have before: "getTicket now u w1 = Some t \<Longrightarrow> getTicket now u w = Some t" for u t
    using ok(2) by (auto simp: shrinks_def)
  have "distinct (concat (map mt_players (ms @ ns)))" using ms(3,4) ns(6,7) by auto
  moreover have "set (concat (map mt_players (ms @ ns))) \<subseteq> q_queued w - q_queued w'"
    using ms(4) ns(7) sub by auto
  moreover have "\<forall>m \<in> set (ms @ ns). \<exists>a b. m = match_of e now a b \<and> compatible a b
          \<and> getTicket now (tk_userId a) w = Some a \<and> getTicket now (tk_userId b) w = Some b"
  proof
    fix m assume "m \<in> set (ms @ ns)"
    then consider "m \<in> set ms" | "m \<in> set ns" by auto
    then show "\<exists>a b. m = match_of e now a b \<and> compatible a b
          \<and> getTicket now (tk_userId a) w = Some a \<and> getTicket now (tk_userId b) w = Some b"
    proof cases
      case 2
      with ns(8) obtain a b where "m = match_of e now a b" "compatible a b"
        "getTicket now (tk_userId a) w1 = Some a" "getTicket now (tk_userId b) w1 = Some b" by blast
      with before show ?thesis by blast
    qed (use ms(5) in blast)
  qed
  moreover have "shrinks now w w'" "matches_only w w'"
    using shrinks_trans[OF ok(2) ns(2)] matches_only_trans[OF ok(3) ns(3)] .
  ultimately show ?case using ns(1,4,5) ms(1,2) by (intro conjI exI[of _ "ms @ ns"]) simp_all
qed

section \<open>The system\<close>

datatype mm_cmd =
  MmJoin join_input
| MmLeave ident
| MmReconnect ident
| MmOffline ident
| MmSweep

fun exec_mm :: "mm_env \<Rightarrow> int \<Rightarrow> mm_cmd \<Rightarrow> mm_world \<Rightarrow> mm_world" where
  "exec_mm e now (MmJoin i) w = snd (join_queue e now i w)"
| "exec_mm e now (MmLeave u) w = snd (leave_queue now u w)"
| "exec_mm e now (MmReconnect u) w = snd (reconnect_queue now u w)"
| "exec_mm e now (MmOffline u) w = markOffline u w"
| "exec_mm e now MmSweep w = snd (sweep e now w)"

definition no_queue :: mm_world where
  "no_queue = \<lparr>q_pools = (\<lambda>_. []), q_poolset = [], q_tickets = Map.empty, q_queued = {}, q_online = {},
     q_reconnect = Map.empty, q_rate = Map.empty, q_sent = [], q_matches = []\<rparr>"

inductive mm_reachable :: "mm_env \<Rightarrow> int \<times> mm_world \<Rightarrow> bool" for e where
  mm_start: "mm_reachable e (t, no_queue)"
| mm_step: "mm_reachable e (t, w) \<Longrightarrow> t \<le> t' \<Longrightarrow> mm_reachable e (t', exec_mm e t' c w)"

lemma enqueue_ok:
  assumes ok: "queue_ok now w" and new: "tk_userId t \<notin> q_queued w" and at: "tk_enqueuedAt t = now"
  shows "queue_ok now (enqueue now t w)"
proof -
  let ?w = "enqueue now t w"
  have pools: "q_pools ?w p = (if p = pool_of t then zadd (tk_rating t) (tk_userId t) (q_pools w p) else q_pools w p)" for p
    by (simp add: enqueue_def)
  have zok: "zset_ok (q_pools w p)" for p using ok by (simp add: queue_ok_def pools_ok_at)
  have "ticket_ok now ?w u t' x" if "q_tickets ?w u = Some (t', x)" for u t' x
  proof (cases "u = tk_userId t")
    case True
    with that have "t' = t" "x = Some (now + 120000)"
      by (auto simp: enqueue_def kv_put_def queue_timeout_seconds_def)
    with True at show ?thesis by (simp add: ticket_ok_def pools zscore_zadd zok) (simp add: enqueue_def)
  next
    case False
    with that have "q_tickets w u = Some (t', x)" by (simp add: enqueue_def kv_put_def)
    with ok have "ticket_ok now w u t' x" unfolding queue_ok_def by blast
    with False show ?thesis by (auto simp: ticket_ok_def pools zscore_zadd zok) (auto simp: enqueue_def)
  qed
  moreover have "pools_ok (q_pools ?w)"
    using ok by (simp add: enqueue_def queue_ok_def pools_ok_upd pools_ok_at)
  ultimately show ?thesis by (simp add: queue_ok_def)
qed

lemma tryFriendMatch_ok:
  assumes "queue_ok now w" and "tk_userId t \<noteq> u"
  shows "queue_ok now (tryFriendMatch e now t u w)"
proof (cases "getTicket now u w")
  case None
  with assms show ?thesis by (simp add: tryFriendMatch_def)
next
  case (Some c)
  then show ?thesis using assms claimPair_eq[OF assms(2), of now w]
      pair_step(1)[OF assms(1) refl, of e t c u "tk_userId t"]
    by (auto simp: tryFriendMatch_def)
qed

lemma queue_ok_rate [simp]: "queue_ok now (w\<lparr>q_rate := m\<rparr>) = queue_ok now w"
  by (simp add: queue_ok_def ticket_ok_def)

lemma queue_ok_presence [simp]:
  "queue_ok now (markOnline u w) = queue_ok now w" "queue_ok now (markOffline u w) = queue_ok now w"
  "queue_ok now (w\<lparr>q_reconnect := r\<rparr>) = queue_ok now w"
  by (simp_all add: queue_ok_def ticket_ok_def markOnline_def markOffline_def)

lemma join_ok:
  assumes "queue_ok now w"
  shows "queue_ok now (snd (join_queue e now i w))"
proof -
  obtain ok m where hit: "rate_hit join_window_ms join_max (ji_userId i) now (q_rate w) = (ok, m)" by force
  let ?w = "w\<lparr>q_rate := m\<rparr>" and ?t = "ticket_of e now i"
  have "queue_ok now (enqueue now ?t ?w)" if "\<not> isQueued (ji_userId i) ?w"
    using that assms by (intro enqueue_ok) (simp_all add: isQueued_def ticket_of_def)
  then show ?thesis using assms tryFriendMatch_ok[of now _ ?t]
    by (auto simp: join_queue_def hit_join_def hit op_simps Let_def truthy_str_def ticket_of_def
        split: option.splits)
qed

lemma reconnect_fold_ok: "queue_ok now (fold (\<lambda>m. emit_push (PushMatch u m)) ms w) = queue_ok now w"
  by (induction ms arbitrary: w) simp_all

lemma exec_mm_ok:
  assumes "queue_ok now w"
  shows "queue_ok now (exec_mm e now c w)"
proof (cases c)
  case (MmLeave u)
  with dequeue_ok(1)[OF assms, of u] show ?thesis
    by (cases "dequeue now u w") (simp add: leave_queue_def)
next
  case MmSweep
  obtain k w' where "sweep e now w = (k, w')" by force
  with sweep_pools_sound[OF assms, of e "q_poolset w" 0 k w'] MmSweep show ?thesis by (simp add: sweep_def)
next
  case (MmReconnect u)
  then show ?thesis using assms by (simp add: reconnect_queue_def drainReconnect_def reconnect_fold_ok)
qed (use assms join_ok in simp_all)

lemma mm_reachable_ok: "mm_reachable e s \<Longrightarrow> queue_ok (fst s) (snd s)"
proof (induction rule: mm_reachable.induct)
  case (mm_start t)
  show ?case by (simp add: queue_ok_def no_queue_def pools_ok_def)
next
  case (mm_step t w t' c)
  then show ?case using exec_mm_ok[OF queue_ok_later[of t w t']] by simp
qed

lemma mm_reachable_later: "mm_reachable e (t, w) \<Longrightarrow> t \<le> now \<Longrightarrow> queue_ok now w"
  using mm_reachable_ok[of e "(t, w)"] queue_ok_later by auto

section \<open>A run\<close>

definition demo_env :: mm_env where
  "demo_env = \<lparr>en_rating = (\<lambda>u. if u = ''a'' then 1200 else 1230), en_battle = (\<lambda>_ _ _. ''b''),
     en_uuid = concat\<rparr>"

definition demo_ji :: "ident \<Rightarrow> join_input" where
  "demo_ji u = \<lparr>ji_userId = u, ji_mode = MmRanked, ji_region = RegEu, ji_language = ''PYTHON'',
     ji_skill = SkillAny, ji_friendId = None, ji_privateCode = None\<rparr>"

definition demo_q1 :: mm_world where "demo_q1 = exec_mm demo_env 1000 (MmJoin (demo_ji ''a'')) no_queue"
definition demo_q2 :: mm_world where "demo_q2 = exec_mm demo_env 2000 (MmJoin (demo_ji ''b'')) demo_q1"

lemma demo_q1_reachable: "mm_reachable demo_env (1000, demo_q1)"
  unfolding demo_q1_def by (rule mm_step[OF mm_start[of _ 0]]) simp

lemma demo_q2_reachable: "mm_reachable demo_env (2000, demo_q2)"
  unfolding demo_q2_def by (rule mm_step[OF demo_q1_reachable]) simp

lemma demo_sweep:
  "fst (sweep demo_env 3000 demo_q2) = 1"
  "map mt_players (q_matches (snd (sweep demo_env 3000 demo_q2))) = [[''a'', ''b'']]"
  "q_queued demo_q2 = {''a'', ''b''}"
  by code_simp+

section \<open>Properties\<close>

text \<open>
  C9. A sweep over all pools books nobody twice: the players of all matches it creates are pairwise
  different, were queued before and are out of the queue after, and each match joins two users with
  live, compatible tickets; the count it reports is the number of matches.
\<close>

theorem sweep_books_once:
  assumes "mm_reachable e (t, w)" and "t \<le> now" and "sweep e now w = (k, w')"
  shows "\<exists>ms. q_matches w' = q_matches w @ ms \<and> k = length ms \<and> distinct (concat (map mt_players ms))
     \<and> set (concat (map mt_players ms)) \<subseteq> q_queued w - q_queued w'
     \<and> (\<forall>m \<in> set ms. \<exists>a b. m = match_of e now a b \<and> compatible a b
          \<and> getTicket now (tk_userId a) w = Some a \<and> getTicket now (tk_userId b) w = Some b)"
proof -
  from sweep_pools_sound[OF mm_reachable_later[OF assms(1,2)] assms(3)[unfolded sweep_def]]
  show ?thesis by simp
qed

lemma sweep_books_once_witness:
  "\<exists>ms. q_matches (snd (sweep demo_env 3000 demo_q2)) = q_matches demo_q2 @ ms \<and> length ms = 1
     \<and> distinct (concat (map mt_players ms))"
proof -
  from sweep_books_once[OF demo_q2_reachable _ prod.collapse[symmetric], of 3000]
  obtain ms where "q_matches (snd (sweep demo_env 3000 demo_q2)) = q_matches demo_q2 @ ms"
    "fst (sweep demo_env 3000 demo_q2) = length ms" "distinct (concat (map mt_players ms))" by auto
  with demo_sweep(1) show ?thesis by auto
qed


lemma demo_pool_sweep:
  "map mt_players (drop (length (q_matches demo_q2))
     (q_matches (snd (sweepPool demo_env 3000 (MmRanked, RegEu) demo_q2)))) = [[''a'', ''b'']]"
  by code_simp


text \<open>
  C11. The sweep is complete: after a pool has been swept, no ticket still in it has a compatible
  candidate left within its rating window.
\<close>

theorem sweep_leaves_no_pair:
  assumes "mm_reachable e (t, w)" and "t \<le> now" and "sweepPool e now p w = (k, w')"
    and "a \<in> set (poolTickets now p w')"
    and "b \<in> set (candidates now p (tk_rating a) (windowFor now a) (tk_userId a) w')"
  shows "\<not> compatible a b"
proof -
  note ok = mm_reachable_later[OF assms(1,2)]
  note sw = sweepPool_ok[OF ok assms(3)]
  from assms(4) obtain u s where u: "(u, s) \<in> set (q_pools w' p)" "getTicket now u w' = Some a"
    by (auto simp: mem_poolTickets)
  then have live: "getTicket now (tk_userId a) w' = Some a" using queue_ok_ticket(1)[OF sw(1)] by auto
  from u sw(2) have "a \<in> set (poolTickets now p w)" unfolding mem_poolTickets shrinks_def by blast
  then have "a \<in> set (sort_key tk_enqueuedAt (poolTickets now p w))" by simp
  from sweep_tickets_maximal[OF ok pool_tickets_fresh[OF ok] assms(3)[unfolded sweepPool_def] _ this live assms(5)]
  show ?thesis by simp
qed

definition demo_friend :: join_input where
  "demo_friend = (demo_ji ''b'')\<lparr>ji_friendId := Some ''c''\<rparr>"

definition demo_q3 :: mm_world where "demo_q3 = exec_mm demo_env 2000 (MmJoin demo_friend) demo_q1"

lemma demo_q3_reachable: "mm_reachable demo_env (2000, demo_q3)"
  unfolding demo_q3_def by (rule mm_step[OF demo_q1_reachable]) simp

definition demo_ta :: ticket where
  "demo_ta = ticket_of demo_env 1000 (demo_ji ''a'')"

definition demo_tb :: ticket where
  "demo_tb = ticket_of demo_env 2000 demo_friend"

lemma demo_q3_left:
  "poolTickets 3000 (MmRanked, RegEu) (snd (sweepPool demo_env 3000 (MmRanked, RegEu) demo_q3)) = [demo_ta, demo_tb]"
  "candidates 3000 (MmRanked, RegEu) (tk_rating demo_ta) (windowFor 3000 demo_ta) (tk_userId demo_ta)
     (snd (sweepPool demo_env 3000 (MmRanked, RegEu) demo_q3)) = [demo_tb]"
  by code_simp+

lemma sweep_leaves_no_pair_witness: "\<not> compatible demo_ta demo_tb"
  by (rule sweep_leaves_no_pair[where p = "(MmRanked, RegEu)" and now = 3000, OF demo_q3_reachable _ prod.collapse[symmetric]])
    (simp_all add: demo_q3_left)

text \<open>
  No sweep ever reports a queue timeout: tickets expire from the store at the very age at which
  the sweep would evict them, so the sweep only ever sees younger ones and pushes nothing but matches.
\<close>

theorem sweep_never_times_out:
  assumes "mm_reachable e (t, w)" and "t \<le> now" and "sweep e now w = (k, w')"
  shows "\<exists>ps. q_sent w' = q_sent w @ ps \<and> (\<forall>u. PushTimeout u \<notin> set ps)"
proof -
  from sweep_pools_sound[OF mm_reachable_later[OF assms(1,2)] assms(3)[unfolded sweep_def]]
  obtain ps where "q_sent w' = q_sent w @ ps" "\<forall>p \<in> set ps. \<exists>u m. p = PushMatch u m"
    by (auto simp: matches_only_def)
  then show ?thesis by (intro exI[of _ ps]) auto
qed

lemma sweep_never_times_out_witness:
  "\<exists>ps. q_sent (snd (sweep demo_env 500000 demo_q2)) = q_sent demo_q2 @ ps \<and> PushTimeout ''a'' \<notin> set ps"
  using sweep_never_times_out[OF demo_q2_reachable, of 500000, OF _ prod.collapse[symmetric]] by auto

lemma expired_ticket:
  assumes "queue_ok t w" and "getTicket t u w = Some tk" and "tk_enqueuedAt tk + 120000 < now"
  shows "getTicket now u w = None \<and> u \<in> q_queued w"
proof -
  from assms(2) obtain x where x: "q_tickets w u = Some (tk, x)" by (auto simp: getTicket_def kv_get_Some)
  with assms(1) have "ticket_ok t w u tk x" unfolding queue_ok_def by blast
  with x assms(3) queue_ok_ticket(2)[OF assms(1,2)] show ?thesis
    by (simp add: ticket_ok_def getTicket_def kv_get_def)
qed

text \<open>
  A user whose ticket expired is locked out: two minutes after joining, with no match and no
  other request of the user, the status says not queued, joining again is refused as already queued,
  and leaving fails as not queued; only that failed request frees the user.
\<close>

theorem expired_ticket_locks_out:
  assumes "mm_reachable e (t, w)" and "getTicket t u w = Some tk" and "tk_enqueuedAt tk + 120000 < now"
    and "ji_userId i = u"
  shows "queue_status now u w = (False, None)
     \<and> (\<exists>w'. join_queue e now i w = (Inl AlreadyQueued, w') \<or> join_queue e now i w = (Inl RateLimited, w'))
     \<and> (\<exists>w'. leave_queue now u w = (Inl NotQueued, w') \<and> \<not> isQueued u w')"
proof -
  have ok: "queue_ok t w" using mm_reachable_ok[OF assms(1)] by simp
  from expired_ticket[OF ok assms(2,3)] have e: "getTicket now u w = None" "u \<in> q_queued w" by auto
  have "queue_status now u w = (False, None)" using e by (simp add: queue_status_def Let_def)
  moreover have "\<exists>w'. join_queue e now i w = (Inl AlreadyQueued, w') \<or> join_queue e now i w = (Inl RateLimited, w')"
    using e(2) assms(4)
    by (cases "rate_hit join_window_ms join_max u now (q_rate w)")
      (simp add: join_queue_def hit_join_def op_simps isQueued_def)
  moreover have "\<exists>w'. leave_queue now u w = (Inl NotQueued, w') \<and> \<not> isQueued u w'"
    using e by (simp add: leave_queue_def dequeue_def isQueued_def)
  ultimately show ?thesis by blast
qed

lemma expired_ticket_locks_out_witness:
  "queue_status 121001 ''a'' demo_q1 = (False, None)"
proof -
  have "getTicket 1000 ''a'' demo_q1 = Some demo_ta" by code_simp
  from expired_ticket_locks_out[OF demo_q1_reachable this, of 121001 "demo_ji ''a''"] show ?thesis
    by (simp add: demo_ta_def ticket_of_def demo_ji_def)
qed

lemma pushReconnect_list:
  "kv_list t (q_reconnect (pushReconnect s u x w)) u =
     (if t \<le> s + 300000 then x # kv_list s (q_reconnect w) u else [])"
  by (simp add: pushReconnect_def kv_list_put reconnect_ttl_seconds_def)

lemma reconnect_backlog:
  assumes "kv_get now (q_reconnect w) u = None" and "\<forall>m \<in> set ms. now \<le> fst m \<and> fst m \<le> now + 300000"
    and "now \<le> t" and "t \<le> now + 300000"
  shows "kv_list t (q_reconnect (fold (\<lambda>(t, m). pushReconnect t u m) ms w)) u = rev (map snd ms)"
  using assms
proof (induction ms arbitrary: t rule: rev_induct)
  case Nil
  then show ?case by (auto simp: kv_list_def kv_get_def alive_def split: option.splits if_splits)
next
  case (snoc m ms)
  obtain s x where m: "m = (s, x)" by (cases m)
  with snoc.prems have s: "now \<le> s" "s \<le> now + 300000" by auto
  from snoc.IH[OF snoc.prems(1) _ s] snoc.prems(2)
  have "kv_list s (q_reconnect (fold (\<lambda>(t, m). pushReconnect t u m) ms w)) u = rev (map snd ms)" by simp
  with snoc.prems(4) s show ?case
    by (simp add: m pushReconnect_list)
qed

text \<open>
  C12. A match found while a user was away is not lost: the matches queued for the user within the
  grace period are handed over on reconnection, in the order they were found, and only once.
\<close>

theorem reconnect_delivers_in_order:
  assumes "kv_get now (q_reconnect w) u = None" and "\<forall>m \<in> set ms. now \<le> fst m \<and> fst m \<le> later"
    and "now \<le> later" and "later \<le> now + 300000"
  shows "\<exists>w'. reconnect_queue later u (fold (\<lambda>(t, m). pushReconnect t u m) ms w) = (map snd ms, w')
     \<and> fst (reconnect_queue later u w') = []"
proof -
  let ?w = "fold (\<lambda>(t, m). pushReconnect t u m) ms w"
  have "kv_list later (q_reconnect ?w) u = rev (map snd ms)"
    using assms by (intro reconnect_backlog[of now]) auto
  then have drain: "drainReconnect later u (markOnline u ?w) =
      (map snd ms, (markOnline u ?w)\<lparr>q_reconnect := kv_del (q_reconnect ?w) u\<rparr>)"
    by (simp add: drainReconnect_def markOnline_def)
  have rc: "q_reconnect (fold (\<lambda>m. emit_push (PushMatch u m)) xs v) = q_reconnect v" for xs v
    by (induction xs arbitrary: v) (simp_all add: emit_push_def)
  show ?thesis
    by (simp add: reconnect_queue_def drain) (simp add: drainReconnect_def markOnline_def rc kv_list_del)
qed

lemma reconnect_delivers_in_order_witness:
  "\<exists>w'. reconnect_queue 4000 ''a'' (fold (\<lambda>(t, m). pushReconnect t ''a'' m)
     [(2000, match_of demo_env 2000 demo_ta demo_tb), (3000, match_of demo_env 3000 demo_tb demo_ta)] no_queue)
     = ([match_of demo_env 2000 demo_ta demo_tb, match_of demo_env 3000 demo_tb demo_ta], w')"
proof -
  have "kv_get 1000 (q_reconnect no_queue) ''a'' = None" by (simp add: no_queue_def)
  from reconnect_delivers_in_order[OF this, of
      "[(2000, match_of demo_env 2000 demo_ta demo_tb), (3000, match_of demo_env 3000 demo_tb demo_ta)]" 4000]
  show ?thesis by auto
qed

end
