(* ===== verification/Elo.thy ===== *)
theory Elo
  imports Complex_Main
begin

text \<open>
  The rating arithmetic of matchmaking/elo/elo.ts over the real numbers: the expected score, the
  K factor, the rounding of the source's language and the pair update. The floating-point
  evaluation of the power is idealised to its exact value.
\<close>

section \<open>Definitions\<close>

definition rating_default :: int where "rating_default = 1200"
definition k_provisional :: int where "k_provisional = 40"
definition k_standard :: int where "k_standard = 20"
definition k_elite :: int where "k_elite = 10"
definition provisional_games :: int where "provisional_games = 30"
definition elite_threshold :: int where "elite_threshold = 2400"
definition rating_floor :: int where "rating_floor = 100"

datatype match_outcome = WIN | LOSS | DRAW

record player =
  pl_games :: int
  pl_current :: int

definition expectedScore :: "int \<Rightarrow> int \<Rightarrow> real" where
  "expectedScore self opponent = 1 / (1 + 10 powr (real_of_int (opponent - self) / 400))"

definition kFactor :: "player \<Rightarrow> int" where
  "kFactor p = (if pl_games p < provisional_games then k_provisional
     else if pl_current p \<ge> elite_threshold then k_elite
     else k_standard)"

fun scoreOf :: "match_outcome \<Rightarrow> real" where
  "scoreOf WIN = 1"
| "scoreOf DRAW = 1 / 2"
| "scoreOf LOSS = 0"

text \<open>\<open>Math.round\<close> rounds to the nearest integer, a tie upwards.\<close>

definition js_round :: "real \<Rightarrow> int" where
  "js_round x = \<lfloor>x + 1 / 2\<rfloor>"

definition nextRating :: "player \<Rightarrow> int \<Rightarrow> match_outcome \<Rightarrow> int" where
  "nextRating p opponentRating outcome =
     (let expected = expectedScore (pl_current p) opponentRating;
          k = kFactor p;
          delta = js_round (of_int k * (scoreOf outcome - expected))
      in max rating_floor (pl_current p + delta))"

fun flip_outcome :: "match_outcome \<Rightarrow> match_outcome" where
  "flip_outcome WIN = LOSS"
| "flip_outcome LOSS = WIN"
| "flip_outcome DRAW = DRAW"

definition computePair :: "player \<Rightarrow> player \<Rightarrow> match_outcome \<Rightarrow> int \<times> int" where
  "computePair a b aOutcome =
     (nextRating a (pl_current b) aOutcome, nextRating b (pl_current a) (flip_outcome aOutcome))"

section \<open>Facts\<close>

lemma expected_bounds: "0 < expectedScore a b" "expectedScore a b < 1"
  by (simp_all add: expectedScore_def add_pos_pos)

lemma inverse_sum: "0 < (x::real) \<Longrightarrow> 1 / (1 + x) + 1 / (1 + 1 / x) = 1"
  by (simp add: field_simps)

lemma expected_sum: "expectedScore a b + expectedScore b a = 1"
proof -
  let ?x = "10 powr (real_of_int (b - a) / 400)"
  have "real_of_int (a - b) / 400 = - (real_of_int (b - a) / 400)" by (simp add: field_simps)
  then have "10 powr (real_of_int (a - b) / 400) = 10 powr (- (real_of_int (b - a) / 400))" by (simp only:)
  also have "\<dots> = 1 / ?x" by (simp add: powr_minus_divide)
  finally have y: "10 powr (real_of_int (a - b) / 400) = 1 / ?x" .
  have "0 < ?x" by simp
  from inverse_sum[OF this] show ?thesis unfolding expectedScore_def y .
qed

lemma expected_mono: "b' \<le> b \<Longrightarrow> expectedScore a b \<le> expectedScore a b'"
proof -
  assume "b' \<le> b"
  then have "10 powr (real_of_int (b' - a) / 400) \<le> 10 powr (real_of_int (b - a) / 400)" by simp
  then show ?thesis unfolding expectedScore_def by (intro divide_left_mono) (simp_all add: add_pos_pos)
qed

lemma expected_even [simp]: "expectedScore a a = 1 / 2"
  by (simp add: expectedScore_def)

lemma score_flip: "scoreOf (flip_outcome r) = 1 - scoreOf r"
  by (cases r) simp_all

lemma js_round_mono: "x \<le> y \<Longrightarrow> js_round x \<le> js_round y"
  by (simp add: js_round_def floor_mono)

lemma js_round_int [simp]: "js_round (of_int k) = k"
  by (simp add: js_round_def floor_unique)

lemma js_round_pair: "js_round x + js_round (- x) \<in> {0, 1}"
proof -
  have "js_round x + js_round (- x) < 2 \<and> - 1 < js_round x + js_round (- x)"
    unfolding js_round_def by linarith
  then show ?thesis by auto
qed

lemma k_bounds: "k_elite \<le> kFactor p" "kFactor p \<le> k_provisional" "0 < kFactor p"
  by (simp_all add: kFactor_def k_elite_def k_provisional_def k_standard_def)

definition rating_delta :: "player \<Rightarrow> int \<Rightarrow> match_outcome \<Rightarrow> int" where
  "rating_delta p opp r = js_round (of_int (kFactor p) * (scoreOf r - expectedScore (pl_current p) opp))"

lemma nextRating_delta: "nextRating p opp r = max rating_floor (pl_current p + rating_delta p opp r)"
  by (simp add: nextRating_def rating_delta_def Let_def)

lemma delta_bounds: "\<bar>rating_delta p opp r\<bar> \<le> kFactor p"
proof -
  let ?k = "real_of_int (kFactor p)" and ?e = "expectedScore (pl_current p) opp"
  have k: "0 < ?k" using k_bounds(3) by simp
  have d: "- 1 \<le> scoreOf r - ?e" "scoreOf r - ?e \<le> 1"
    using expected_bounds[of "pl_current p" opp] by (cases r; simp)+
  have "- ?k \<le> ?k * (scoreOf r - ?e)" using mult_left_mono[OF d(1), of ?k] k by simp
  then have "- kFactor p \<le> rating_delta p opp r"
    using js_round_mono[of "- ?k"] js_round_int[of "- kFactor p"] by (simp add: rating_delta_def)
  moreover have "?k * (scoreOf r - ?e) \<le> ?k" using mult_left_mono[OF d(2), of ?k] k by simp
  then have "rating_delta p opp r \<le> kFactor p"
    using js_round_mono[of _ "of_int (kFactor p)"] by (simp add: rating_delta_def)
  ultimately show ?thesis by simp
qed

lemma delta_win: "0 \<le> rating_delta p opp WIN"
proof -
  have "0 \<le> real_of_int (kFactor p) * (1 - expectedScore (pl_current p) opp)"
    using k_bounds(3)[of p] expected_bounds(2)[of "pl_current p" opp] by simp
  then show ?thesis using js_round_mono[of 0] js_round_int[of 0] by (fastforce simp: rating_delta_def)
qed

lemma delta_loss: "rating_delta p opp LOSS \<le> 0"
proof -
  have "real_of_int (kFactor p) * (0 - expectedScore (pl_current p) opp) \<le> 0"
    using k_bounds(3)[of p] expected_bounds(1)[of "pl_current p" opp] by (simp add: mult_nonneg_nonpos)
  then show ?thesis using js_round_mono[of _ 0] js_round_int[of 0] by (fastforce simp: rating_delta_def)
qed

lemma delta_balance:
  assumes "kFactor a = kFactor b"
  shows "rating_delta a (pl_current b) r + rating_delta b (pl_current a) (flip_outcome r) \<in> {0, 1}"
proof -
  let ?x = "real_of_int (kFactor a) * (scoreOf r - expectedScore (pl_current a) (pl_current b))"
  have "expectedScore (pl_current b) (pl_current a) = 1 - expectedScore (pl_current a) (pl_current b)"
    using expected_sum[of "pl_current a" "pl_current b"] by simp
  then have "real_of_int (kFactor b) * (scoreOf (flip_outcome r) - expectedScore (pl_current b) (pl_current a)) = - ?x"
    using assms by (simp only: score_flip) (simp add: algebra_simps)
  then show ?thesis using js_round_pair[of ?x] by (simp add: rating_delta_def)
qed

lemma delta_antitone: "opp \<le> opp' \<Longrightarrow> rating_delta p opp r \<le> rating_delta p opp' r"
proof -
  assume "opp \<le> opp'"
  from expected_mono[OF this, of "pl_current p"] show ?thesis
    unfolding rating_delta_def using k_bounds(3)[of p] by (intro js_round_mono mult_left_mono) auto
qed

section \<open>Properties\<close>

text \<open>
  A rated game is fair to both ratings: no rating falls below the floor or moves by more than
  the player's K factor, the winner never loses points and the loser never gains any.
\<close>

theorem rating_update_bounded:
  assumes "rating_floor \<le> pl_current a" and "rating_floor \<le> pl_current b" and "computePair a b r = (aNew, bNew)"
  shows "rating_floor \<le> aNew \<and> rating_floor \<le> bNew
     \<and> \<bar>aNew - pl_current a\<bar> \<le> kFactor a \<and> \<bar>bNew - pl_current b\<bar> \<le> kFactor b
     \<and> (r = WIN \<longrightarrow> pl_current a \<le> aNew \<and> bNew \<le> pl_current b)
     \<and> (r = LOSS \<longrightarrow> aNew \<le> pl_current a \<and> pl_current b \<le> bNew)"
proof -
  from assms(3) have n: "aNew = max rating_floor (pl_current a + rating_delta a (pl_current b) r)"
    "bNew = max rating_floor (pl_current b + rating_delta b (pl_current a) (flip_outcome r))"
    by (auto simp: computePair_def nextRating_delta)
  have d: "\<bar>rating_delta a (pl_current b) r\<bar> \<le> kFactor a"
    "\<bar>rating_delta b (pl_current a) (flip_outcome r)\<bar> \<le> kFactor b"
    by (rule delta_bounds)+
  show ?thesis using n d assms(1,2) delta_win[of a "pl_current b"] delta_win[of b "pl_current a"]
      delta_loss[of a "pl_current b"] delta_loss[of b "pl_current a"]
    by (cases r) (auto simp: max_def)
qed

lemma rating_update_bounded_witness:
  "100 \<le> fst (computePair \<lparr>pl_games = 0, pl_current = 105\<rparr> \<lparr>pl_games = 40, pl_current = 1200\<rparr> LOSS)"
  using rating_update_bounded[of "\<lparr>pl_games = 0, pl_current = 105\<rparr>" "\<lparr>pl_games = 40, pl_current = 1200\<rparr>" LOSS,
      OF _ _ prod.collapse[symmetric]]
  by (simp add: rating_floor_def)

text \<open>
  Between players with the same K factor and away from the floor the update neither creates
  nor destroys points, up to the one point that rounding a tie upwards on both sides can add.
\<close>

theorem rating_update_balanced:
  assumes "kFactor a = kFactor b" and "rating_floor + kFactor a \<le> pl_current a" and "rating_floor + kFactor b \<le> pl_current b"
    and "computePair a b r = (aNew, bNew)"
  shows "aNew + bNew = pl_current a + pl_current b \<or> aNew + bNew = pl_current a + pl_current b + 1"
proof -
  have "\<bar>rating_delta a (pl_current b) r\<bar> \<le> kFactor a"
    "\<bar>rating_delta b (pl_current a) (flip_outcome r)\<bar> \<le> kFactor b"
    by (rule delta_bounds)+
  with assms(2-4) have "aNew = pl_current a + rating_delta a (pl_current b) r"
    "bNew = pl_current b + rating_delta b (pl_current a) (flip_outcome r)"
    by (auto simp: computePair_def nextRating_delta max_def)
  with delta_balance[OF assms(1), of r] show ?thesis by auto
qed

lemma rating_update_balanced_witness:
  "\<exists>x y. computePair \<lparr>pl_games = 3, pl_current = 1500\<rparr> \<lparr>pl_games = 7, pl_current = 1300\<rparr> WIN = (x, y)
     \<and> (x + y = 2800 \<or> x + y = 2801)"
proof -
  obtain x y where xy: "computePair \<lparr>pl_games = 3, pl_current = 1500\<rparr> \<lparr>pl_games = 7, pl_current = 1300\<rparr> WIN = (x, y)"
    by (metis prod.collapse)
  from rating_update_balanced[OF _ _ _ this] xy show ?thesis
    by (auto simp: kFactor_def provisional_games_def k_provisional_def rating_floor_def)
qed

end
