(* ===== verification/Period.thy ===== *)
theory Period
  imports Prelude
begin

text \<open>
  The leaderboard periods of matchmaking/services/period.util.ts. The calendar functions of the
  language (the UTC day, year, month and weekday of a time value) are defined on day numbers since
  the epoch as the language specifies them, for instants from 1970 on.
\<close>

section \<open>Calendar\<close>

definition day_from_year :: "int \<Rightarrow> int" where
  "day_from_year y = 365 * (y - 1970) + (y - 1969) div 4 - (y - 1901) div 100 + (y - 1601) div 400"

definition leap :: "int \<Rightarrow> bool" where
  "leap y \<longleftrightarrow> y mod 4 = 0 \<and> (y mod 100 \<noteq> 0 \<or> y mod 400 = 0)"

lemma succ_div: "1 < k \<Longrightarrow> ((m::int) + 1) div k = m div k + (if (m + 1) mod k = 0 then 1 else 0)"
proof -
  assume k: "1 < k"
  have "(m + 1) div k = m div k + (m mod k + 1) div k"
    using div_add1_eq[of m 1 k] k by simp
  moreover have "(m + 1) mod k = (m mod k + 1) mod k" by (simp add: mod_add_left_eq)
  moreover have "0 \<le> m mod k" "m mod k < k" using k by simp_all
  moreover from this have "m mod k + 1 \<noteq> 0" by linarith
  ultimately show ?thesis
    using k by (cases "m mod k + 1 = k") (simp_all add: mod_pos_pos_trivial)
qed

lemma year_sum:
  fixes a b c y :: int
  assumes "a' = a + (if p then 1 else 0)" "b' = b + (if q then 1 else 0)" "c' = c + (if r then 1 else 0)"
    and "r \<longrightarrow> q" "q \<longrightarrow> p"
  shows "y + 365 + a' - b' + c' = y + a - b + c + (if p \<and> (\<not> q \<or> r) then 366 else 365)"
  using assms by (cases p; cases q; cases r) simp_all

lemma next_div:
  fixes y c k :: int
  assumes "1 < k" and "(c - 1) mod k = 0"
  shows "(y + 1 - c) div k = (y - c) div k + (if y mod k = 0 then 1 else 0)"
proof -
  have s: "y + 1 - c = (y - c) + 1" and t: "(y - c) + 1 = y - (c - 1)" by simp_all
  have "(y - (c - 1)) mod k = (y mod k - (c - 1) mod k) mod k" by (rule mod_diff_eq [symmetric])
  with assms(2) have "(y - (c - 1)) mod k = y mod k" by simp
  with succ_div[OF assms(1), of "y - c"] show ?thesis unfolding s t by simp
qed

lemma year_length: "day_from_year (y + 1) = day_from_year y + (if leap y then 366 else 365)"
proof -
  have d4: "(y + 1 - 1969) div 4 = (y - 1969) div 4 + (if y mod 4 = 0 then 1 else 0)" by (rule next_div) simp_all
  have d100: "(y + 1 - 1901) div 100 = (y - 1901) div 100 + (if y mod 100 = 0 then 1 else 0)" by (rule next_div) simp_all
  have d400: "(y + 1 - 1601) div 400 = (y - 1601) div 400 + (if y mod 400 = 0 then 1 else 0)" by (rule next_div) simp_all
  have i: "y mod 400 = 0 \<longrightarrow> y mod 100 = 0" "y mod 100 = 0 \<longrightarrow> y mod 4 = 0"
    using mod_mod_cancel[of 100 400 y] mod_mod_cancel[of 4 100 y] by auto
  have s: "365 * (y + 1 - 1970) = 365 * (y - 1970) + 365" by simp
  have "day_from_year (y + 1)
      = 365 * (y - 1970) + 365 + (y + 1 - 1969) div 4 - (y + 1 - 1901) div 100 + (y + 1 - 1601) div 400"
    unfolding day_from_year_def s by (rule refl)
  also have "\<dots> = day_from_year y + (if leap y then 366 else 365)"
    unfolding day_from_year_def leap_def by (rule year_sum[OF d4 d100 d400 i])
  finally show ?thesis .
qed

lemma year_longer: "day_from_year y + 365 \<le> day_from_year (y + 1)"
  by (simp add: year_length)

text \<open>The year of a day is the last year that starts on or before it.\<close>

function year_from :: "int \<Rightarrow> int \<Rightarrow> int" where
  "year_from y n = (if day_from_year (y + 1) \<le> n then year_from (y + 1) n else y)"
  by auto
termination
proof (relation "measure (\<lambda>(y, n). nat (n - day_from_year y))")
  fix y n :: int
  assume "day_from_year (y + 1) \<le> n"
  then show "((y + 1, n), (y, n)) \<in> measure (\<lambda>(y, n). nat (n - day_from_year y))"
    using year_longer[of y] by simp
qed simp

declare year_from.simps [simp del]

definition year_of_day :: "int \<Rightarrow> int" where
  "year_of_day n = year_from 1970 n"

definition month_lengths :: "int \<Rightarrow> int list" where
  "month_lengths y = [31, if leap y then 29 else 28, 31, 30, 31, 30, 31, 31, 30, 31, 30, 31]"

fun month_from :: "int \<Rightarrow> int list \<Rightarrow> int" where
  "month_from d [] = 0"
| "month_from d (l # ls) = (if d < l then 0 else 1 + month_from (d - l) ls)"

text \<open>Months count from zero and weekdays from Sunday, as in the language.\<close>

definition month_of_day :: "int \<Rightarrow> int" where
  "month_of_day n = month_from (n - day_from_year (year_of_day n)) (month_lengths (year_of_day n))"

definition weekday :: "int \<Rightarrow> int" where
  "weekday n = (n + 4) mod 7"

section \<open>Period keys\<close>

fun digits :: "nat \<Rightarrow> string" where
  "digits n = (if n < 10 then [char_of (48 + n)] else digits (n div 10) @ [char_of (48 + n mod 10)])"

declare digits.simps [simp del]

definition int_str :: "int \<Rightarrow> string" where
  "int_str n = (if n < 0 then ''-'' @ digits (nat (- n)) else digits (nat n))"

definition padStart2 :: "string \<Rightarrow> string" where
  "padStart2 s = replicate (2 - length s) (CHR ''0'') @ s"

definition week_thursday :: "int \<Rightarrow> int" where
  "week_thursday n = (let dayNum = (if weekday n = 0 then 7 else weekday n) in n + 4 - dayNum)"

text \<open>\<open>Math.ceil\<close> of a quotient of integers.\<close>

definition ceil_div :: "int \<Rightarrow> int \<Rightarrow> int" where
  "ceil_div a b = - ((- a) div b)"

definition week_number :: "int \<Rightarrow> int" where
  "week_number n = (let d = week_thursday n; yearStart = day_from_year (year_of_day d)
     in ceil_div (d - yearStart + 1) 7)"

definition isoWeek :: "int \<Rightarrow> string" where
  "isoWeek n = padStart2 (int_str (week_number n))"

record periods =
  pd_weekly :: string
  pd_monthly :: string

definition day_of_ms :: "int \<Rightarrow> int" where
  "day_of_ms now = now div 86400000"

definition currentPeriods :: "int \<Rightarrow> periods" where
  "currentPeriods now = (let n = day_of_ms now; year = year_of_day n
     in \<lparr>pd_weekly = int_str year @ ''-W'' @ isoWeek n,
         pd_monthly = int_str year @ ''-'' @ padStart2 (int_str (month_of_day n + 1))\<rparr>)"

section \<open>Correctness of the calendar\<close>

lemma year_from_bounds:
  "day_from_year y \<le> n \<Longrightarrow> day_from_year (year_from y n) \<le> n \<and> n < day_from_year (year_from y n + 1)"
proof (induction y n rule: year_from.induct)
  case (1 y n)
  show ?case
  proof (cases "day_from_year (y + 1) \<le> n")
    case True
    with 1(1)[OF True] show ?thesis by (simp add: year_from.simps[of y n])
  next
    case False
    with 1(2) show ?thesis by (simp add: year_from.simps[of y n])
  qed
qed

lemma year_of_day_bounds:
  "0 \<le> n \<Longrightarrow> day_from_year (year_of_day n) \<le> n \<and> n < day_from_year (year_of_day n + 1)"
  unfolding year_of_day_def by (rule year_from_bounds) (simp add: day_from_year_def)

lemma day_from_year_less: "y < y' \<Longrightarrow> day_from_year y < day_from_year y'"
proof (induction "nat (y' - y)" arbitrary: y)
  case (Suc k)
  show ?case
  proof (cases "y + 1 = y'")
    case True
    with year_longer[of y] show ?thesis by simp
  next
    case False
    with Suc have "day_from_year (y + 1) < day_from_year y'" by (intro Suc(1)) auto
    with year_longer[of y] show ?thesis by simp
  qed
qed simp

lemma year_of_day_unique:
  assumes "0 \<le> n" and "day_from_year y \<le> n" and "n < day_from_year (y + 1)"
  shows "year_of_day n = y"
proof (rule ccontr)
  let ?z = "year_of_day n"
  assume "?z \<noteq> y"
  then consider "?z + 1 \<le> y" | "y + 1 \<le> ?z" by linarith
  then show False
  proof cases
    case 1
    then have "day_from_year (?z + 1) \<le> day_from_year y"
      using day_from_year_less[of "?z + 1" y] by (cases "?z + 1 = y") auto
    with year_of_day_bounds[OF assms(1)] assms(2) show False by simp
  next
    case 2
    then have "day_from_year (y + 1) \<le> day_from_year ?z"
      using day_from_year_less[of "y + 1" ?z] by (cases "y + 1 = ?z") auto
    with year_of_day_bounds[OF assms(1)] assms(3) show False by simp
  qed
qed

lemma thursday_eq: "week_thursday n = 7 * ((n + 3) div 7)"
proof -
  define q r where "q = (n + 3) div 7" and "r = (n + 3) mod 7"
  have n: "n = 7 * q + r - 3" and r: "0 \<le> r" "r < 7" by (simp_all add: q_def r_def)
  have "weekday n = (if r = 6 then 0 else r + 1)"
  proof -
    have "n + 4 = (r + 1) + 7 * q" using n by simp
    then have "weekday n = (r + 1) mod 7" unfolding weekday_def by (simp only: mod_mult_self2)
    with r show ?thesis by (auto simp: mod_pos_pos_trivial)
  qed
  with n r show ?thesis by (simp add: week_thursday_def Let_def q_def [symmetric] split: if_splits)
qed

text \<open>Two days are in the same week, Monday to Sunday, iff their weeks have the same Thursday.\<close>

lemma same_thursday: "week_thursday n = week_thursday m \<longleftrightarrow> (n + 3) div 7 = (m + 3) div 7"
  by (simp add: thursday_eq)

lemma ceil_week:
  assumes "0 \<le> x" and "x \<le> 365"
  shows "1 \<le> ceil_div (x + 1) 7 \<and> ceil_div (x + 1) 7 \<le> 53"
proof -
  define q r where "q = (- (x + 1)) div 7" and "r = (- (x + 1)) mod 7"
  have "- (x + 1) = 7 * q + r" "0 \<le> r" "r < 7" by (simp_all add: q_def r_def)
  with assms have "- 53 \<le> q" "q \<le> - 1" by linarith+
  then show ?thesis by (simp add: ceil_div_def q_def)
qed

lemma week_number_bounds:
  assumes "0 \<le> n"
  shows "1 \<le> week_number n \<and> week_number n \<le> 53"
proof -
  let ?d = "week_thursday n"
  have d: "0 \<le> ?d" using assms by (simp add: thursday_eq)
  from year_of_day_bounds[OF d] year_length[of "year_of_day ?d"]
  have "0 \<le> ?d - day_from_year (year_of_day ?d)" "?d - day_from_year (year_of_day ?d) \<le> 365"
    by (auto split: if_splits)
  moreover have "week_number n = ceil_div (?d - day_from_year (year_of_day ?d) + 1) 7"
    by (simp add: week_number_def Let_def)
  ultimately show ?thesis using ceil_week[of "?d - day_from_year (year_of_day ?d)"] by simp
qed

text \<open>The year of the Thursday together with the week number identifies the week.\<close>

lemma week_number_inj:
  assumes "year_of_day (week_thursday n) = year_of_day (week_thursday m)" and "week_number n = week_number m"
  shows "week_thursday n = week_thursday m"
proof -
  have shift: "(- (7 * a - c + 1)) div 7 = (c - 1) div 7 - a" for a c :: int
  proof -
    have "- (7 * a - c + 1) = (c - 1) + 7 * (- a)" by simp
    then show ?thesis by (simp only: div_mult_self2)
  qed
  let ?y = "day_from_year (year_of_day (week_thursday m))"
  from assms have "(- (week_thursday n - ?y + 1)) div 7 = (- (week_thursday m - ?y + 1)) div 7"
    by (simp add: week_number_def ceil_div_def Let_def)
  then show ?thesis unfolding thursday_eq[of n] thursday_eq[of m] shift by simp
qed

section \<open>Keys\<close>

lemma digits_nonempty: "digits n \<noteq> []"
  by (subst digits.simps) simp

lemma digit_char_inj: "a < 10 \<Longrightarrow> b < 10 \<Longrightarrow> (char_of (48 + a) :: char) = char_of (48 + b) \<longleftrightarrow> a = (b::nat)"
  by (simp add: char_of_eq_iff take_bit_nat_eq_self)

lemma char_zero [simp]: "(char_of (48::nat) :: char) = CHR ''0''"
  by code_simp

lemma digits_inj: "digits n = digits m \<Longrightarrow> n = m"
proof (induction n arbitrary: m rule: digits.induct)
  case (1 n)
  consider "n < 10" "m < 10" | "\<not> n < 10" "\<not> m < 10" | "n < 10 \<longleftrightarrow> \<not> m < 10" by blast
  then show ?case
  proof cases
    case 1
    with "1.prems" show ?thesis by (simp add: digits.simps[of n] digits.simps[of m] digit_char_inj)
  next
    case 2
    with "1.prems" have d: "digits (n div 10) = digits (m div 10)" "n mod 10 = m mod 10"
      by (simp_all add: digits.simps[of n] digits.simps[of m] digit_char_inj)
    from "1.IH"[OF 2(1) d(1)] d(2) show ?thesis by (metis div_mult_mod_eq)
  next
    case 3
    with "1.prems" show ?thesis
      by (auto simp: digits.simps[of n] digits.simps[of m] digits_nonempty append_eq_Cons_conv
          split: if_splits) (metis digits_nonempty append_eq_Cons_conv append_is_Nil_conv)+
  qed
qed

lemma digits_two: "n < 100 \<Longrightarrow> length (digits n) \<le> 2"
  by (subst digits.simps, simp, subst digits.simps) auto

lemma week_str_length: "0 \<le> n \<Longrightarrow> length (isoWeek n) = 2"
proof -
  assume "0 \<le> n"
  from week_number_bounds[OF this] have "length (int_str (week_number n)) \<le> 2"
    by (auto simp: int_str_def intro!: digits_two)
  then show ?thesis by (simp add: isoWeek_def padStart2_def)
qed

lemma padStart2_digits_inj:
  assumes "a < 100" and "b < 100" and "padStart2 (digits a) = padStart2 (digits b)"
  shows "a = b"
proof -
  have pad: "padStart2 (digits c) = [char_of (48 + c div 10), char_of (48 + c mod 10)]" if "c < 100" for c
    using that digits_nonempty[of c]
    by (auto simp: padStart2_def digits.simps[of c] digits.simps[of "c div 10"])
  from assms have "a div 10 = b div 10" "a mod 10 = b mod 10"
    by (simp_all add: pad digit_char_inj)
  then show ?thesis by (metis div_mult_mod_eq)
qed

lemma week_str_inj:
  assumes "0 \<le> n" and "0 \<le> m" and "isoWeek n = isoWeek m"
  shows "week_number n = week_number m"
proof -
  note b = week_number_bounds[OF assms(1)] week_number_bounds[OF assms(2)]
  then have "nat (week_number n) < 100" "nat (week_number m) < 100" by linarith+
  from padStart2_digits_inj[OF this] assms(3) b have "nat (week_number n) = nat (week_number m)"
    by (simp add: isoWeek_def int_str_def)
  with b show ?thesis by linarith
qed

lemma year_str_inj: "0 \<le> y \<Longrightarrow> 0 \<le> y' \<Longrightarrow> int_str y = int_str y' \<Longrightarrow> y = y'"
  using digits_inj[of "nat y" "nat y'"] by (simp add: int_str_def)

lemma year_of_day_1970: "0 \<le> n \<Longrightarrow> 1970 \<le> year_of_day n"
proof (rule ccontr)
  assume n: "0 \<le> n" and "\<not> 1970 \<le> year_of_day n"
  then have "day_from_year (year_of_day n + 1) \<le> day_from_year 1970"
    using day_from_year_less[of "year_of_day n + 1" 1970] by (cases "year_of_day n + 1 = 1970") auto
  with year_of_day_bounds[OF n] n show False by (simp add: day_from_year_def)
qed

lemma year_values:
  "year_of_day 20087 = 2024" "year_of_day 19723 = 2024" "year_of_day 20089 = 2025" "year_of_day 20090 = 2025"
  "year_of_day 19726 = 2024" "year_of_day 19884 = 2024" "year_of_day 19885 = 2024" "year_of_day 19887 = 2024"
  by (rule year_of_day_unique; simp add: day_from_year_def)+

text \<open>
  The weekly board is per week, for instants whose week belongs to their calendar year: two
  such instants get the same weekly key exactly when they fall in the same Monday-to-Sunday week.
\<close>

theorem weekly_keys_exact:
  assumes "0 \<le> t" and "0 \<le> u"
    and "year_of_day (day_of_ms t) = year_of_day (week_thursday (day_of_ms t))"
    and "year_of_day (day_of_ms u) = year_of_day (week_thursday (day_of_ms u))"
  shows "pd_weekly (currentPeriods t) = pd_weekly (currentPeriods u)
     \<longleftrightarrow> (day_of_ms t + 3) div 7 = (day_of_ms u + 3) div 7"
proof -
  let ?n = "day_of_ms t" and ?m = "day_of_ms u"
  have n: "0 \<le> ?n" "0 \<le> ?m" using assms(1,2) by (simp_all add: day_of_ms_def)
  have "pd_weekly (currentPeriods t) = pd_weekly (currentPeriods u) \<longleftrightarrow>
      int_str (year_of_day ?n) = int_str (year_of_day ?m) \<and> isoWeek ?n = isoWeek ?m"
    using week_str_length[OF n(1)] week_str_length[OF n(2)]
    by (auto simp: currentPeriods_def Let_def append_eq_append_conv simp flip: append_assoc append_Cons)
  also have "\<dots> \<longleftrightarrow> year_of_day ?n = year_of_day ?m \<and> week_number ?n = week_number ?m"
    using year_str_inj[of "year_of_day ?n" "year_of_day ?m"] year_of_day_1970[OF n(1)] year_of_day_1970[OF n(2)]
      week_str_inj[OF n] by (auto simp: isoWeek_def)
  also have "\<dots> \<longleftrightarrow> week_thursday ?n = week_thursday ?m"
    using week_number_inj[of ?n ?m] assms(3,4) by (auto simp: week_number_def)
  finally show ?thesis by (simp add: same_thursday)
qed

lemma weekly_keys_exact_witness:
  "pd_weekly (currentPeriods 1718000000000) = pd_weekly (currentPeriods 1718100000000)"
proof -
  have "year_of_day (day_of_ms 1718000000000) = year_of_day (week_thursday (day_of_ms 1718000000000))"
    "year_of_day (day_of_ms 1718100000000) = year_of_day (week_thursday (day_of_ms 1718100000000))"
    by (simp_all add: day_of_ms_def thursday_eq year_values)
  from weekly_keys_exact[OF _ _ this] show ?thesis by (simp add: day_of_ms_def)
qed

lemma week_values: "week_number 20087 = 1" "week_number 19723 = 1" "week_number 20089 = 1"
  by (simp_all add: week_number_def thursday_eq ceil_div_def year_values day_from_year_def Let_def)

lemma int_str_values: "int_str 2024 = ''2024''" "int_str 2025 = ''2025''" "int_str 1 = ''1''" "int_str 12 = ''12''"
  by code_simp+

lemma month_values: "month_of_day 20087 = 11" "month_of_day 19723 = 0"
  by (simp_all add: month_of_day_def year_values month_lengths_def leap_def day_from_year_def)

text \<open>
  Around the turn of the year the weekly key is wrong, because it pairs the calendar year with
  the number of a week that belongs to the other year: Monday 30 December 2024 writes on the board
  of the first week of January 2024, and not on the board of Wednesday 1 January 2025, which is in
  the same week.
\<close>

theorem weekly_key_turn_of_year:
  "pd_weekly (currentPeriods (20087 * 86400000)) = pd_weekly (currentPeriods (19723 * 86400000))
   \<and> pd_weekly (currentPeriods (20087 * 86400000)) = ''2024-W01''
   \<and> pd_monthly (currentPeriods (20087 * 86400000)) = ''2024-12''
   \<and> pd_monthly (currentPeriods (19723 * 86400000)) = ''2024-01''
   \<and> (20087 + 3) div 7 = (20089 + 3) div (7::int)
   \<and> pd_weekly (currentPeriods (20087 * 86400000)) \<noteq> pd_weekly (currentPeriods (20089 * 86400000))"
  by (simp add: currentPeriods_def Let_def day_of_ms_def year_values week_values int_str_values month_values
      isoWeek_def padStart2_def)

end
