(* ===== verification/Rating.thy ===== *)
theory Rating
  imports SortedSet Elo Period
begin

text \<open>
  The rating side of matchmaking: the live statistics and the change stream (store/redis-rating.store.ts),
  the leaderboards (store/redis-leaderboard.store.ts), the user directory (adapters) and the two
  services that write and read them. The approximate trimming of the stream is not modelled: the
  stream keeps every entry.
\<close>

section \<open>State\<close>

record rating_stats =
  st_current :: int
  st_peak :: int
  st_games :: int
  st_wins :: int
  st_losses :: int
  st_winStreak :: int
  st_lossStreak :: int

record rating_change =
  ch_userId :: ident
  ch_old :: int
  ch_new :: int
  ch_change :: int
  ch_reason :: string
  ch_battleId :: ident
  ch_at :: int

datatype board_scope = ScopeGlobal | ScopeCountry | ScopeCollege | ScopeFriends
datatype board_period = PerWeekly | PerMonthly | PerAllTime

type_synonym board = "board_scope \<times> string \<times> board_period"

record friend_request =
  fq_sender :: ident
  fq_receiver :: ident
  fq_accepted :: bool

record rating_world =
  rs_stats :: "ident \<Rightarrow> rating_stats option"
  rs_stream :: "rating_change list"
  rs_history :: "rating_change list"
  rs_userRating :: "ident \<Rightarrow> int option"
  rs_country :: "ident \<Rightarrow> string option"
  rs_requests :: "friend_request list"
  rs_boards :: "board \<Rightarrow> zset"

section \<open>User directory\<close>

definition getRating :: "ident \<Rightarrow> rating_world \<Rightarrow> int" where
  "getRating u w = (case rs_userRating w u of None \<Rightarrow> rating_default | Some r \<Rightarrow> r)"

definition getCountry :: "ident \<Rightarrow> rating_world \<Rightarrow> string option" where
  "getCountry u w = rs_country w u"

definition getCollege :: "ident \<Rightarrow> rating_world \<Rightarrow> string option" where
  "getCollege u w = None"

definition getFriendIds :: "ident \<Rightarrow> rating_world \<Rightarrow> ident list" where
  "getFriendIds u w = map (\<lambda>r. if fq_sender r = u then fq_receiver r else fq_sender r)
     (filter (\<lambda>r. fq_accepted r \<and> (fq_sender r = u \<or> fq_receiver r = u)) (rs_requests w))"

text \<open>The transaction fails when the user has no row; the failure is logged and dropped.\<close>

definition persistRatingHistory :: "rating_change \<Rightarrow> rating_world \<Rightarrow> rating_world" where
  "persistRatingHistory c w = (if rs_userRating w (ch_userId c) = None then w
     else w\<lparr>rs_history := rs_history w @ [c],
            rs_userRating := (rs_userRating w)(ch_userId c \<mapsto> ch_new c)\<rparr>)"

section \<open>Rating store\<close>

definition default_stats :: rating_stats where
  "default_stats = \<lparr>st_current = rating_default, st_peak = rating_default, st_games = 0, st_wins = 0,
     st_losses = 0, st_winStreak = 0, st_lossStreak = 0\<rparr>"

definition getStats :: "ident \<Rightarrow> rating_world \<Rightarrow> rating_stats" where
  "getStats u w = (case rs_stats w u of None \<Rightarrow> default_stats | Some s \<Rightarrow> s)"

definition next_stats :: "rating_stats \<Rightarrow> int \<Rightarrow> bool \<Rightarrow> bool \<Rightarrow> rating_stats" where
  "next_stats current newRating won draw =
     \<lparr>st_current = newRating, st_peak = max (st_peak current) newRating,
      st_games = st_games current + 1,
      st_wins = st_wins current + (if won then 1 else 0),
      st_losses = st_losses current + (if \<not> won \<and> \<not> draw then 1 else 0),
      st_winStreak = (if won then st_winStreak current + 1 else 0),
      st_lossStreak = (if \<not> won \<and> \<not> draw then st_lossStreak current + 1 else 0)\<rparr>"

definition applyResult :: "ident \<Rightarrow> int \<Rightarrow> bool \<Rightarrow> bool \<Rightarrow> rating_world \<Rightarrow> rating_world" where
  "applyResult u newRating won draw w =
     w\<lparr>rs_stats := (rs_stats w)(u \<mapsto> next_stats (getStats u w) newRating won draw)\<rparr>"

definition appendHistory :: "rating_change \<Rightarrow> rating_world \<Rightarrow> rating_world" where
  "appendHistory c w = w\<lparr>rs_stream := rs_stream w @ [c]\<rparr>"

text \<open>Newest first, over the last \<open>5 * limit\<close> entries of all users.\<close>

definition historyStream :: "ident \<Rightarrow> nat \<Rightarrow> rating_world \<Rightarrow> rating_change list" where
  "historyStream u limit w = take (max 1 limit)
     (filter (\<lambda>c. ch_userId c = u) (take (limit * 5) (rev (rs_stream w))))"

section \<open>Leaderboard store\<close>

record board_entry =
  be_userId :: ident
  be_rank :: int
  be_score :: int

definition upsertScore :: "board \<Rightarrow> ident \<Rightarrow> int \<Rightarrow> rating_world \<Rightarrow> rating_world" where
  "upsertScore b u s w = w\<lparr>rs_boards := (rs_boards w)(b := zadd s u (rs_boards w b))\<rparr>"

definition number_from :: "int \<Rightarrow> (ident \<times> int) list \<Rightarrow> board_entry list" where
  "number_from offset xs = map (\<lambda>(i, u, s). \<lparr>be_userId = u, be_rank = offset + int i + 1, be_score = s\<rparr>)
     (zip [0..<length xs] xs)"

definition board_page :: "board \<Rightarrow> int \<Rightarrow> int \<Rightarrow> rating_world \<Rightarrow> board_entry list" where
  "board_page b offset limit w = number_from offset (zrevrange offset (offset + limit - 1) (rs_boards w b))"

definition board_rankOf :: "board \<Rightarrow> ident \<Rightarrow> rating_world \<Rightarrow> (int \<times> int) option" where
  "board_rankOf b u w = (case (zrevrank (rs_boards w b) u, zscore (rs_boards w b) u) of
     (Some r, Some s) \<Rightarrow> Some (int r + 1, s) | _ \<Rightarrow> None)"

definition board_count :: "board \<Rightarrow> rating_world \<Rightarrow> nat" where
  "board_count b w = zcard (rs_boards w b)"

text \<open>A user without a score counts as zero; the sort is stable.\<close>

definition subsetPage :: "board \<Rightarrow> ident list \<Rightarrow> int \<Rightarrow> int \<Rightarrow> rating_world \<Rightarrow> board_entry list" where
  "subsetPage b ids offset limit w =
     (let scored = map (\<lambda>u. (u, case zscore (rs_boards w b) u of None \<Rightarrow> 0 | Some s \<Rightarrow> s)) ids
      in number_from offset (take (nat limit) (drop (nat offset) (sort_key (\<lambda>p. - snd p) scored))))"

section \<open>Rating service\<close>

definition period_group :: "int \<Rightarrow> board_period \<Rightarrow> string" where
  "period_group now p = (case p of PerWeekly \<Rightarrow> pd_weekly (currentPeriods now)
     | PerMonthly \<Rightarrow> pd_monthly (currentPeriods now) | PerAllTime \<Rightarrow> ''all'')"

definition all_periods :: "board_period list" where
  "all_periods = [PerWeekly, PerMonthly, PerAllTime]"

definition refresh_period :: "int \<Rightarrow> ident \<Rightarrow> int \<Rightarrow> board_period \<Rightarrow> rating_world \<Rightarrow> rating_world" where
  "refresh_period now u r p w =
     (let g = period_group now p;
          w1 = upsertScore (ScopeGlobal, g, p) u r w;
          w2 = (if truthy_str (getCountry u w)
                then upsertScore (ScopeCountry, the (getCountry u w) @ '':'' @ g, p) u r w1 else w1)
      in if truthy_str (getCollege u w)
         then upsertScore (ScopeCollege, the (getCollege u w) @ '':'' @ g, p) u r w2 else w2)"

definition refreshLeaderboards :: "int \<Rightarrow> ident \<Rightarrow> int \<Rightarrow> rating_world \<Rightarrow> rating_world" where
  "refreshLeaderboards now u r w = fold (refresh_period now u r) all_periods w"

definition commit :: "int \<Rightarrow> ident \<Rightarrow> ident \<Rightarrow> rating_stats \<Rightarrow> int \<Rightarrow> match_outcome \<Rightarrow> rating_world
    \<Rightarrow> rating_change \<times> rating_world" where
  "commit now battleId u stats newRating outcome w =
     (let w1 = applyResult u newRating (outcome = WIN) (outcome = DRAW) w;
          change = \<lparr>ch_userId = u, ch_old = st_current stats, ch_new = newRating,
             ch_change = newRating - st_current stats, ch_reason = ''battle'', ch_battleId = battleId,
             ch_at = now\<rparr>
      in (change, refreshLeaderboards now u newRating (persistRatingHistory change (appendHistory change w1))))"

definition player_of :: "rating_stats \<Rightarrow> player" where
  "player_of s = \<lparr>pl_games = st_games s, pl_current = st_current s\<rparr>"

definition applyBattleResult ::
  "int \<Rightarrow> ident \<Rightarrow> ident \<Rightarrow> ident \<Rightarrow> ident option \<Rightarrow> bool \<Rightarrow> rating_world
     \<Rightarrow> (rating_change \<times> rating_change) option \<times> rating_world" where
  "applyBattleResult now battleId playerA playerB winnerId rated w =
     (if \<not> rated then (None, w)
      else (let statsA = getStats playerA w; statsB = getStats playerB w;
                aOutcome = (case winnerId of None \<Rightarrow> DRAW | Some x \<Rightarrow> if x = playerA then WIN else LOSS);
                (aNew, bNew) = computePair (player_of statsA) (player_of statsB) aOutcome;
                (a, w1) = commit now battleId playerA statsA aNew aOutcome w;
                (b, w2) = commit now battleId playerB statsB bNew (flip_outcome aOutcome) w1
            in (Some (a, b), w2)))"

section \<open>Leaderboard service\<close>

definition page_max :: int where "page_max = 100"

definition groupKey :: "int \<Rightarrow> board_period \<Rightarrow> string option \<Rightarrow> string" where
  "groupKey now p discriminator =
     (let suffix = period_group now p
      in if truthy_str discriminator then the discriminator @ '':'' @ suffix else suffix)"

record leaderboard_page =
  lp_scope :: board_scope
  lp_period :: board_period
  lp_group :: string
  lp_entries :: "board_entry list"
  lp_total :: nat
  lp_page :: int
  lp_pageSize :: int

definition friendsBoard :: "int \<Rightarrow> ident \<Rightarrow> board_period \<Rightarrow> int \<Rightarrow> int \<Rightarrow> int \<Rightarrow> rating_world \<Rightarrow> leaderboard_page" where
  "friendsBoard now u p offset pageSize page w =
     (let ids = js_set (u # getFriendIds u w); g = groupKey now p None
      in \<lparr>lp_scope = ScopeFriends, lp_period = p, lp_group = g,
          lp_entries = subsetPage (ScopeGlobal, g, p) ids offset pageSize w,
          lp_total = length ids, lp_page = page, lp_pageSize = pageSize\<rparr>)"

definition getBoard ::
  "int \<Rightarrow> board_scope \<Rightarrow> board_period \<Rightarrow> ident \<Rightarrow> string option \<Rightarrow> string option \<Rightarrow> int \<Rightarrow> int \<Rightarrow> rating_world \<Rightarrow> leaderboard_page" where
  "getBoard now scope p u country college page reqPageSize w =
     (let pageSize = min reqPageSize page_max; offset = (page - 1) * pageSize
      in if scope = ScopeFriends then friendsBoard now u p offset pageSize page w
         else (let g = groupKey now p (case scope of
                  ScopeCountry \<Rightarrow> coalesce country (coalesce (getCountry u w) (Some ''XX''))
                | ScopeCollege \<Rightarrow> coalesce college (coalesce (getCollege u w) (Some ''unknown''))
                | _ \<Rightarrow> None)
               in \<lparr>lp_scope = scope, lp_period = p, lp_group = g,
                   lp_entries = board_page (scope, g, p) offset pageSize w,
                   lp_total = board_count (scope, g, p) w, lp_page = page, lp_pageSize = pageSize\<rparr>))"

definition board_service_rankOf ::
  "int \<Rightarrow> board_scope \<Rightarrow> board_period \<Rightarrow> ident \<Rightarrow> string option \<Rightarrow> rating_world \<Rightarrow> (int \<times> int) option" where
  "board_service_rankOf now scope p u discriminator w = board_rankOf (scope, groupKey now p discriminator, p) u w"

end
