(* ===== verification/RatingProps.thy ===== *)
theory RatingProps
  imports Rating
begin

text \<open>
  The books the rating service keeps: the statistics of a player, the stream of changes and the
  leaderboards agree after any sequence of rated battles; ranks and pages of a board are right.
\<close>

section \<open>One commit\<close>

definition all_time_board :: board where
  "all_time_board = (ScopeGlobal, ''all'', PerAllTime)"

definition boards_ok :: "(board \<Rightarrow> zset) \<Rightarrow> bool" where
  "boards_ok f \<longleftrightarrow> (\<forall>s g p. zset_ok (f (s, g, p)))"

lemma boards_ok_at: "boards_ok f \<Longrightarrow> zset_ok (f b)"
  by (cases b) (simp add: boards_ok_def)

lemma boards_ok_upd: "boards_ok f \<Longrightarrow> zset_ok z \<Longrightarrow> boards_ok (f(b := z))"
  by (cases b) (simp add: boards_ok_def)

lemma upsertScore_fields [simp]:
  "rs_stats (upsertScore b u s w) = rs_stats w" "rs_stream (upsertScore b u s w) = rs_stream w"
  "rs_country (upsertScore b u s w) = rs_country w" "rs_userRating (upsertScore b u s w) = rs_userRating w"
  by (simp_all add: upsertScore_def)

lemma upsertScore_ok: "boards_ok (rs_boards w) \<Longrightarrow> boards_ok (rs_boards (upsertScore b u s w))"
  by (simp add: upsertScore_def boards_ok_upd boards_ok_at)

lemma upsertScore_score: "boards_ok (rs_boards w) \<Longrightarrow>
    zscore (rs_boards (upsertScore b u s w) c) v = (if c = b \<and> v = u then Some s else zscore (rs_boards w c) v)"
  using zs.score_upsert[OF boards_ok_at[of "rs_boards w" b], of s u v] by (auto simp: upsertScore_def)

lemma refresh_period_eq: "refresh_period now u r p w =
    (let g = period_group now p; w1 = upsertScore (ScopeGlobal, g, p) u r w
     in if truthy_str (rs_country w u)
        then upsertScore (ScopeCountry, the (rs_country w u) @ '':'' @ g, p) u r w1 else w1)"
  by (simp add: refresh_period_def getCollege_def getCountry_def Let_def)

lemma refresh_period_fields [simp]:
  "rs_stats (refresh_period now u r p w) = rs_stats w" "rs_stream (refresh_period now u r p w) = rs_stream w"
  "rs_country (refresh_period now u r p w) = rs_country w"
  by (simp_all add: refresh_period_eq Let_def)

lemma refresh_period_ok: "boards_ok (rs_boards w) \<Longrightarrow> boards_ok (rs_boards (refresh_period now u r p w))"
  by (simp add: refresh_period_eq Let_def upsertScore_ok)

lemma refresh_period_global: "boards_ok (rs_boards w) \<Longrightarrow>
    zscore (rs_boards (refresh_period now u r p w) (ScopeGlobal, g, q)) v =
      (if q = p \<and> g = period_group now p \<and> v = u then Some r else zscore (rs_boards w (ScopeGlobal, g, q)) v)"
  by (simp add: refresh_period_eq Let_def upsertScore_score upsertScore_ok)

lemma refresh_fields [simp]:
  "rs_stats (refreshLeaderboards now u r w) = rs_stats w" "rs_stream (refreshLeaderboards now u r w) = rs_stream w"
  by (simp_all add: refreshLeaderboards_def all_periods_def)

lemma refresh_ok: "boards_ok (rs_boards w) \<Longrightarrow> boards_ok (rs_boards (refreshLeaderboards now u r w))"
  by (simp add: refreshLeaderboards_def all_periods_def refresh_period_ok)

lemma refresh_all_time: "boards_ok (rs_boards w) \<Longrightarrow>
    zscore (rs_boards (refreshLeaderboards now u r w) all_time_board) v =
      (if v = u then Some r else zscore (rs_boards w all_time_board) v)"
  by (simp add: refreshLeaderboards_def all_periods_def all_time_board_def refresh_period_ok
      refresh_period_global period_group_def)

lemma persist_fields [simp]:
  "rs_stats (persistRatingHistory c w) = rs_stats w" "rs_stream (persistRatingHistory c w) = rs_stream w"
  "rs_boards (persistRatingHistory c w) = rs_boards w"
  by (simp_all add: persistRatingHistory_def)

lemma commit_effect:
  assumes "commit now bid u s r oc w = (c, w')" and "boards_ok (rs_boards w)"
  shows "c = \<lparr>ch_userId = u, ch_old = st_current s, ch_new = r, ch_change = r - st_current s,
      ch_reason = ''battle'', ch_battleId = bid, ch_at = now\<rparr>"
    and "rs_stats w' = (rs_stats w)(u \<mapsto> next_stats (getStats u w) r (oc = WIN) (oc = DRAW))"
    and "rs_stream w' = rs_stream w @ [c]"
    and "boards_ok (rs_boards w')"
    and "zscore (rs_boards w' all_time_board) v = (if v = u then Some r else zscore (rs_boards w all_time_board) v)"
  using assms by (auto simp: commit_def Let_def applyResult_def appendHistory_def refresh_ok refresh_all_time)

section \<open>The invariant of the books\<close>

definition stats_ok :: "rating_stats \<Rightarrow> bool" where
  "stats_ok s \<longleftrightarrow> rating_floor \<le> st_current s \<and> st_current s \<le> st_peak s \<and> 0 \<le> st_winStreak s
     \<and> st_winStreak s \<le> st_wins s \<and> 0 \<le> st_lossStreak s \<and> st_lossStreak s \<le> st_losses s
     \<and> st_wins s + st_losses s \<le> st_games s \<and> (st_winStreak s = 0 \<or> st_lossStreak s = 0)"

text \<open>The changes of one user, in order, lead from the default rating to \<open>r\<close>.\<close>

fun leads :: "int \<Rightarrow> rating_change list \<Rightarrow> int \<Rightarrow> bool" where
  "leads a [] r \<longleftrightarrow> a = r"
| "leads a (c # cs) r \<longleftrightarrow> ch_old c = a \<and> ch_change c = ch_new c - ch_old c \<and> leads (ch_new c) cs r"

definition changes_of :: "ident \<Rightarrow> rating_world \<Rightarrow> rating_change list" where
  "changes_of u w = filter (\<lambda>c. ch_userId c = u) (rs_stream w)"

definition books_ok :: "rating_world \<Rightarrow> bool" where
  "books_ok w \<longleftrightarrow> boards_ok (rs_boards w) \<and> (\<forall>u. stats_ok (getStats u w)
     \<and> leads rating_default (changes_of u w) (st_current (getStats u w))
     \<and> int (length (changes_of u w)) = st_games (getStats u w)
     \<and> zscore (rs_boards w all_time_board) u = map_option st_current (rs_stats w u))"

lemma leads_snoc: "leads a (cs @ [c]) r \<longleftrightarrow> leads a cs (ch_old c) \<and> ch_change c = ch_new c - ch_old c \<and> ch_new c = r"
  by (induction cs arbitrary: a) auto

lemma next_stats_ok:
  "stats_ok s \<Longrightarrow> rating_floor \<le> r \<Longrightarrow> \<not> (won \<and> draw) \<Longrightarrow> stats_ok (next_stats s r won draw)"
  by (auto simp: stats_ok_def next_stats_def)

lemma commit_books:
  assumes ok: "books_ok w" and c: "commit now bid u s r oc w = (c, w')" and s: "s = getStats u w"
    and r: "rating_floor \<le> r"
  shows "books_ok w'" and "v \<noteq> u \<Longrightarrow> getStats v w' = getStats v w"
proof -
  from ok have b: "boards_ok (rs_boards w)" by (simp add: books_ok_def)
  note eff = commit_effect[OF c b]
  have st: "getStats v w' = (if v = u then next_stats s r (oc = WIN) (oc = DRAW) else getStats v w)" for v
    by (simp add: getStats_def eff(2) s)
  have ch: "changes_of v w' = changes_of v w @ (if v = u then [c] else [])" for v
    by (simp add: changes_of_def eff(3)) (simp add: eff(1))
  have new: "ch_old c = st_current s" "ch_new c = r" "ch_change c = r - st_current s" by (simp_all add: eff(1))
  have "stats_ok (getStats v w') \<and> leads rating_default (changes_of v w') (st_current (getStats v w'))
     \<and> int (length (changes_of v w')) = st_games (getStats v w')
     \<and> zscore (rs_boards w' all_time_board) v = map_option st_current (rs_stats w' v)" for v
  proof (cases "v = u")
    case True
    have "stats_ok s" "leads rating_default (changes_of u w) (st_current s)"
      "int (length (changes_of u w)) = st_games s"
      using ok s by (auto simp: books_ok_def)
    moreover from this(1) r have "stats_ok (next_stats s r (oc = WIN) (oc = DRAW))" by (intro next_stats_ok) auto
    ultimately show ?thesis using True new
      by (simp add: st ch leads_snoc eff(5)) (simp add: next_stats_def eff(2) s)
  next
    case False
    with ok show ?thesis by (simp add: books_ok_def st ch eff(2,5))
  qed
  with eff(4) show "books_ok w'" by (simp add: books_ok_def)
  show "v \<noteq> u \<Longrightarrow> getStats v w' = getStats v w" by (simp add: st)
qed

lemma applyBattleResult_books:
  assumes ok: "books_ok w" and ab: "a \<noteq> b"
  shows "books_ok (snd (applyBattleResult now bid a b win rated w))"
proof (cases rated)
  case True
  let ?oc = "case win of None \<Rightarrow> DRAW | Some x \<Rightarrow> if x = a then WIN else LOSS"
  obtain aN bN where p: "computePair (player_of (getStats a w)) (player_of (getStats b w)) ?oc = (aN, bN)" by force
  obtain ca w1 where c1: "commit now bid a (getStats a w) aN ?oc w = (ca, w1)" by force
  obtain cb w2 where c2: "commit now bid b (getStats b w) bN (flip_outcome ?oc) w1 = (cb, w2)" by force
  have fl: "rating_floor \<le> aN" "rating_floor \<le> bN"
    using p by (auto simp: computePair_def nextRating_delta)
  note s1 = commit_books[OF ok c1 refl fl(1)]
  have "getStats b w = getStats b w1" using s1(2)[of b] ab by simp
  from commit_books(1)[OF s1(1) c2 this fl(2)] have "books_ok w2" .
  then show ?thesis using True by (simp add: applyBattleResult_def Let_def p c1 c2)
qed (simp add: applyBattleResult_def ok)

inductive rating_reachable :: "rating_world \<Rightarrow> bool" where
  rt_start: "rs_stats w = Map.empty \<Longrightarrow> rs_stream w = [] \<Longrightarrow> rs_boards w = (\<lambda>_. []) \<Longrightarrow> rating_reachable w"
| rt_step: "rating_reachable w \<Longrightarrow> a \<noteq> b \<Longrightarrow>
     rating_reachable (snd (applyBattleResult now bid a b win rated w))"

lemma reachable_books: "rating_reachable w \<Longrightarrow> books_ok w"
proof (induction rule: rating_reachable.induct)
  case (rt_start w)
  then show ?case
    by (simp add: books_ok_def boards_ok_def getStats_def changes_of_def stats_ok_def default_stats_def
        rating_floor_def rating_default_def zscore_def)
next
  case (rt_step w a b now bid win rated)
  then show ?case by (intro applyBattleResult_books)
qed

section \<open>Properties\<close>

definition demo_rw :: rating_world where
  "demo_rw = \<lparr>rs_stats = Map.empty, rs_stream = [], rs_history = [], rs_userRating = (\<lambda>_. Some 1200),
     rs_country = (\<lambda>_. Some ''US''), rs_requests = [], rs_boards = (\<lambda>_. [])\<rparr>"

lemma demo_rw_reachable: "rating_reachable demo_rw"
  by (rule rt_start) (simp_all add: demo_rw_def)

definition demo_rated :: rating_world where
  "demo_rated = snd (applyBattleResult 1718000000000 ''b1'' ''x'' ''y'' (Some ''x'') True demo_rw)"

lemma demo_rated_reachable: "rating_reachable demo_rated"
  unfolding demo_rated_def by (rule rt_step[OF demo_rw_reachable]) simp



text \<open>
  The rank of a player on any board is one more than the number of members ahead, by score and
  then by name, and the score shown is the one last written.
\<close>

theorem rank_counts_members_ahead:
  assumes "rating_reachable w" and "board_rankOf b u w = Some (r, s)"
  shows "zscore (rs_boards w b) u = Some s
     \<and> r = 1 + int (length (filter (\<lambda>p. (s, u) < (snd p, fst p)) (rs_boards w b)))
     \<and> 1 \<le> r \<and> r \<le> int (board_count b w)"
proof -
  from reachable_books[OF assms(1)] have z: "zset_ok (rs_boards w b)" by (simp add: books_ok_def boards_ok_at)
  from assms(2) have sc: "zscore (rs_boards w b) u = Some s"
    by (auto simp: board_rankOf_def split: option.splits)
  let ?f = "filter (\<lambda>p. (s, u) < zkey p) (rs_boards w b)"
  from zrevrank_eq[OF z sc] assms(2) sc have r: "r = 1 + int (length ?f)"
    by (simp add: board_rankOf_def)
  have "(u, s) \<in> set (rs_boards w b)" using sc zscore_mem[OF z] by simp
  then have "length ?f < length (rs_boards w b)" by (intro length_filter_less) (auto simp: zkey_def)
  with r sc show ?thesis by (simp add: board_count_def zcard_def zkey_def)
qed

lemma demo_board: "\<exists>s. zscore (rs_boards demo_rated all_time_board) ''x'' = Some s"
proof -
  have "zscore (rs_boards demo_rated all_time_board) ''x'' = map_option st_current (rs_stats demo_rated ''x'')"
    using reachable_books[OF demo_rated_reachable] by (simp add: books_ok_def)
  moreover have "rs_stats demo_rated ''x'' \<noteq> None"
    by (auto simp: demo_rated_def applyBattleResult_def commit_def applyResult_def appendHistory_def Let_def
        split: prod.splits)
  ultimately show ?thesis by auto
qed

lemma rank_counts_members_ahead_witness:
  "\<exists>r s. board_rankOf all_time_board ''x'' demo_rated = Some (r, s) \<and> 1 \<le> r"
proof -
  from demo_board obtain s where "zscore (rs_boards demo_rated all_time_board) ''x'' = Some s" by auto
  then obtain r s where "board_rankOf all_time_board ''x'' demo_rated = Some (r, s)"
    by (auto simp: board_rankOf_def zrevrank_def)
  from rank_counts_members_ahead[OF demo_rated_reachable this] this show ?thesis by auto
qed

lemma takeWhile_distinct_nth:
  "distinct xs \<Longrightarrow> i < length xs \<Longrightarrow> length (takeWhile (\<lambda>x. x \<noteq> xs ! i) xs) = i"
proof (induction xs arbitrary: i)
  case (Cons x xs)
  then show ?case by (cases i) auto
qed simp

lemma rank_of_position:
  assumes "zset_ok z" and "i < length z"
  shows "zrevrank z (fst (rev z ! i)) = Some i" and "zscore z (fst (rev z ! i)) = Some (snd (rev z ! i))"
proof -
  have d: "distinct (map fst (rev z))" using assms(1) by (simp add: zset_ok_def rev_map[symmetric])
  have mem: "(fst (rev z ! i), snd (rev z ! i)) \<in> set z"
    using nth_mem[of i "rev z"] assms(2) by (simp del: nth_mem)
  then show sc: "zscore z (fst (rev z ! i)) = Some (snd (rev z ! i))" by (simp add: zscore_mem[OF assms(1)])
  have "length (takeWhile (\<lambda>x. x \<noteq> map fst (rev z) ! i) (map fst (rev z))) = i"
    using takeWhile_distinct_nth[OF d] assms(2) by simp
  then have "length (takeWhile (\<lambda>p. fst p \<noteq> fst (rev z ! i)) (rev z)) = i"
    using assms(2) by (simp add: takeWhile_map comp_def)
  with sc show "zrevrank z (fst (rev z ! i)) = Some i" by (simp add: zrevrank_def)
qed

lemma number_from_mem:
  "e \<in> set (number_from k xs) \<Longrightarrow>
     \<exists>i < length xs. be_userId e = fst (xs ! i) \<and> be_score e = snd (xs ! i) \<and> be_rank e = k + int i + 1"
  by (auto simp: number_from_def set_zip) (metis fst_conv snd_conv)+

lemma zrevrange_page:
  "0 \<le> k \<Longrightarrow> 1 \<le> n \<Longrightarrow> zrevrange k (k + n - 1) z = take (nat n) (drop (nat k) (rev z))"
  by (simp add: zrevrange_def Let_def)

text \<open>
  Board pages and ranks agree: every entry of every page of a global, country or college board
  carries the rank and the score that the rank query gives for that user, and page n of size k shows
  ranks (n - 1) k + 1 to n k only, with k capped at 100.
\<close>

theorem pages_agree_with_ranks:
  assumes "rating_reachable w" and "1 \<le> page" and "1 \<le> sz" and "scope \<noteq> ScopeFriends"
    and "lp = getBoard now scope p u country college page sz w" and "e \<in> set (lp_entries lp)"
  shows "board_rankOf (scope, lp_group lp, p) (be_userId e) w = Some (be_rank e, be_score e)
     \<and> (page - 1) * min sz 100 < be_rank e \<and> be_rank e \<le> page * min sz 100"
proof -
  let ?k = "min sz 100" and ?b = "(scope, lp_group lp, p)"
  let ?o = "(page - 1) * ?k" and ?z = "rs_boards w ?b"
  have o: "0 \<le> ?o" "1 \<le> ?k" using assms(2,3) by simp_all
  have z: "zset_ok ?z" using reachable_books[OF assms(1)] by (simp add: books_ok_def boards_ok_at)
  have "lp_entries lp = number_from ?o (take (nat ?k) (drop (nat ?o) (rev ?z)))"
    using assms(4,5) zrevrange_page[OF o, of ?z]
    by (simp add: getBoard_def Let_def board_page_def page_max_def)
  with assms(6) obtain i where i: "i < length (take (nat ?k) (drop (nat ?o) (rev ?z)))"
    "be_userId e = fst (take (nat ?k) (drop (nat ?o) (rev ?z)) ! i)"
    "be_score e = snd (take (nat ?k) (drop (nat ?o) (rev ?z)) ! i)" "be_rank e = ?o + int i + 1"
    by (auto dest: number_from_mem)
  let ?j = "nat ?o + i"
  from i(1) have j: "?j < length ?z" "i < nat ?k" by auto
  with i(2,3) have e: "be_userId e = fst (rev ?z ! ?j)" "be_score e = snd (rev ?z ! ?j)" by simp_all
  have "int ?j + 1 = be_rank e" using i(4) o(1) by simp
  with rank_of_position[OF z j(1)] e have "board_rankOf ?b (be_userId e) w = Some (be_rank e, be_score e)"
    by (simp add: board_rankOf_def)
  moreover have "int i < ?k" using j(2) o(2) by linarith
  moreover have "page * ?k = ?o + ?k" by (simp add: algebra_simps)
  ultimately show ?thesis using i(4) by linarith
qed

lemma pages_agree_with_ranks_witness:
  "\<exists>e. e \<in> set (lp_entries (getBoard 0 ScopeGlobal PerAllTime ''x'' None None 1 10 demo_rated))
     \<and> 0 < be_rank e \<and> be_rank e \<le> 10"
proof -
  let ?lp = "getBoard 0 ScopeGlobal PerAllTime ''x'' None None 1 10 demo_rated"
  have g: "lp_group ?lp = ''all''" "lp_entries ?lp = board_page all_time_board 0 10 demo_rated"
    by (simp_all add: getBoard_def Let_def groupKey_def period_group_def page_max_def all_time_board_def)
  have "rs_boards demo_rated all_time_board \<noteq> []"
    using demo_board by (auto simp: zscore_def)
  then have "lp_entries ?lp \<noteq> []"
    unfolding g by (simp add: board_page_def zrevrange_def number_from_def Let_def)
  then obtain e where "e \<in> set (lp_entries ?lp)" by (cases "lp_entries ?lp") auto
  from pages_agree_with_ranks[OF demo_rated_reachable _ _ _ refl this] this show ?thesis by auto
qed

text \<open>
  The service credits the second player with a win that neither player had: a result that names
  somebody outside the pair as winner, which finishing a battle by its host allows, counts as a loss of
  the first player and a win of the second, who gains points.
\<close>

theorem outsider_winner_credits_second:
  assumes "a \<noteq> b" and "x \<noteq> a" and "x \<noteq> b" and "rating_reachable w"
    and "applyBattleResult now bid a b (Some x) True w = (r, w')"
  shows "st_wins (getStats b w') = st_wins (getStats b w) + 1
     \<and> st_losses (getStats a w') = st_losses (getStats a w) + 1
     \<and> st_current (getStats b w) \<le> st_current (getStats b w')"
proof -
  obtain aN bN where p: "computePair (player_of (getStats a w)) (player_of (getStats b w)) LOSS = (aN, bN)" by force
  obtain ca w1 where c1: "commit now bid a (getStats a w) aN LOSS w = (ca, w1)" by force
  obtain cb w2 where c2: "commit now bid b (getStats b w) bN WIN w1 = (cb, w2)" by force
  from assms(2,5) p c1 c2 have w': "w' = w2" by (simp add: applyBattleResult_def Let_def)
  have bo: "boards_ok (rs_boards w)" using reachable_books[OF assms(4)] by (simp add: books_ok_def)
  note e1 = commit_effect[OF c1 bo] and e2 = commit_effect[OF c2 commit_effect(4)[OF c1 bo]]
  have "bN = max rating_floor (st_current (getStats b w) + rating_delta (player_of (getStats b w)) (st_current (getStats a w)) WIN)"
    using p by (auto simp: computePair_def nextRating_delta player_of_def)
  then have "st_current (getStats b w) \<le> bN"
    using delta_win[of "player_of (getStats b w)" "st_current (getStats a w)"] by simp
  then show ?thesis using assms(1) by (simp add: w' getStats_def e1(2) e2(2) next_stats_def)
qed

lemma outsider_winner_credits_second_witness:
  "st_wins (getStats ''y'' (snd (applyBattleResult 0 ''b1'' ''x'' ''y'' (Some ''z'') True demo_rw))) = 1"
  using outsider_winner_credits_second[OF _ _ _ demo_rw_reachable prod.collapse[symmetric], of "''x''" "''y''" "''z''" 0 "''b1''"]
  by (simp add: getStats_def demo_rw_def default_stats_def)

end
