(* ===== verification/JudgeCompare.thy ===== *)
theory JudgeCompare
  imports Prelude Complex_Main
begin

text \<open>
  judge/comparators/output-comparator.ts: the output comparison of the judge. Program output is text
  of code units up to 255; the whitespace of the source's regular expressions is the part of the
  language's whitespace in that range. A number token is read to its exact rational value, with the
  overflow to infinity and the not-a-number cases of the language; rounding to a double is idealised.
\<close>

section \<open>Text\<close>

definition is_ws :: "char \<Rightarrow> bool" where
  "is_ws c \<longleftrightarrow> (of_char c :: nat) \<in> {9, 10, 11, 12, 13, 32, 160}"

definition lf :: char where "lf = char_of (10::nat)"
definition cr :: char where "cr = char_of (13::nat)"

fun crlf_to_lf :: "string \<Rightarrow> string" where
  "crlf_to_lf [] = []"
| "crlf_to_lf [c] = [c]"
| "crlf_to_lf (c # d # cs) = (if c = cr \<and> d = lf then lf # crlf_to_lf cs else c # crlf_to_lf (d # cs))"

definition strip_final_lf :: "string \<Rightarrow> string" where
  "strip_final_lf s = (if s \<noteq> [] \<and> last s = lf then butlast s else s)"

definition strip_trailing_ws :: "string \<Rightarrow> string" where
  "strip_trailing_ws s = rev (dropWhile is_ws (rev s))"

definition trim :: "string \<Rightarrow> string" where
  "trim s = strip_trailing_ws (dropWhile is_ws s)"

text \<open>Splitting at maximal runs of whitespace.\<close>

function split_ws :: "string \<Rightarrow> string list" where
  "split_ws s = (let r = dropWhile (\<lambda>c. \<not> is_ws c) s in
     if r = [] then [s] else takeWhile (\<lambda>c. \<not> is_ws c) s # split_ws (dropWhile is_ws r))"
  by auto
termination
proof (relation "measure length")
  fix s r assume r: "r = dropWhile (\<lambda>c. \<not> is_ws c) s" and ne: "r \<noteq> []"
  from ne r have "is_ws (hd r)" using hd_dropWhile[of "\<lambda>c. \<not> is_ws c" s] by simp
  with ne have "length (dropWhile is_ws r) < length r"
    by (cases r) (auto simp: le_imp_less_Suc length_dropWhile_le)
  also have "length r \<le> length s" by (simp add: r length_dropWhile_le)
  finally show "(dropWhile is_ws r, s) \<in> measure length" by simp
qed simp

declare split_ws.simps [simp del]

definition tokenize :: "string \<Rightarrow> string list" where
  "tokenize s = filter (\<lambda>t. t \<noteq> []) (split_ws (trim s))"

section \<open>Numbers\<close>

datatype js_num = JNaN | PosInf | NegInf | Fin rat

definition digit_val :: "char \<Rightarrow> nat option" where
  "digit_val c = (let n = (of_char c :: nat) in if 48 \<le> n \<and> n \<le> 57 then Some (n - 48) else None)"

definition hex_val :: "char \<Rightarrow> nat option" where
  "hex_val c = (let n = (of_char c :: nat) in if 48 \<le> n \<and> n \<le> 57 then Some (n - 48)
     else if 97 \<le> n \<and> n \<le> 102 then Some (n - 87) else if 65 \<le> n \<and> n \<le> 70 then Some (n - 55) else None)"

fun radix_from :: "nat \<Rightarrow> nat \<Rightarrow> string \<Rightarrow> nat option" where
  "radix_from b acc [] = Some acc"
| "radix_from b acc (c # cs) = (case hex_val c of None \<Rightarrow> None
     | Some d \<Rightarrow> if d < b then radix_from b (acc * b + d) cs else None)"

definition is_digit :: "char \<Rightarrow> bool" where
  "is_digit c \<longleftrightarrow> digit_val c \<noteq> None"

definition decimal :: "string \<Rightarrow> nat" where
  "decimal ds = foldl (\<lambda>a c. a * 10 + (case digit_val c of None \<Rightarrow> 0 | Some d \<Rightarrow> d)) 0 ds"

definition pow10 :: "int \<Rightarrow> rat" where
  "pow10 e = (if 0 \<le> e then 10 ^ nat e else 1 / 10 ^ nat (- e))"

text \<open>The exponent part: empty, or e with an optional sign and digits.\<close>

definition parse_exponent :: "string \<Rightarrow> int option" where
  "parse_exponent s = (case s of [] \<Rightarrow> Some 0
     | c # cs \<Rightarrow> if c \<noteq> CHR ''e'' \<and> c \<noteq> CHR ''E'' then None
         else (let (sg, ds) = (case cs of d # ds \<Rightarrow> if d = CHR ''-'' then (-1, ds)
                  else if d = CHR ''+'' then (1, ds) else (1, cs) | [] \<Rightarrow> (1, [])) in
               if ds = [] \<or> \<not> list_all is_digit ds then None else Some (sg * int (decimal ds))))"

definition unsigned_decimal :: "string \<Rightarrow> rat option" where
  "unsigned_decimal s =
     (let ip = takeWhile is_digit s; r1 = dropWhile is_digit s;
          (fp, r2) = (case r1 of c # cs \<Rightarrow> if c = CHR ''.'' then (takeWhile is_digit cs, dropWhile is_digit cs)
             else ([], r1) | [] \<Rightarrow> ([], []))
      in if ip = [] \<and> fp = [] then None
         else (case parse_exponent r2 of None \<Rightarrow> None
           | Some e \<Rightarrow> Some (rat_of_nat (decimal (ip @ fp)) * pow10 (e - int (length fp)))))"

text \<open>A magnitude at or beyond the overflow threshold of a double reads as infinity.\<close>

definition overflow :: rat where
  "overflow = 2 ^ 1024 - 2 ^ 970"

definition to_num :: "rat \<Rightarrow> js_num" where
  "to_num q = (if overflow \<le> q then PosInf else if q \<le> - overflow then NegInf else Fin q)"

definition radix_num :: "nat \<Rightarrow> string \<Rightarrow> js_num" where
  "radix_num b ds = (if ds = [] then JNaN else (case radix_from b 0 ds of None \<Rightarrow> JNaN
     | Some n \<Rightarrow> to_num (rat_of_nat n)))"

definition unsigned_num :: "string \<Rightarrow> js_num" where
  "unsigned_num s = (if s = ''Infinity'' then PosInf
     else (case unsigned_decimal s of None \<Rightarrow> JNaN | Some q \<Rightarrow> to_num q))"

fun num_neg :: "js_num \<Rightarrow> js_num" where
  "num_neg JNaN = JNaN"
| "num_neg PosInf = NegInf"
| "num_neg NegInf = PosInf"
| "num_neg (Fin q) = Fin (- q)"

text \<open>\<open>Number\<close> of a token, which has no whitespace and is not empty.\<close>

definition js_Number :: "string \<Rightarrow> js_num" where
  "js_Number s = (case s of
       [] \<Rightarrow> Fin 0
     | c # cs \<Rightarrow>
         if c = CHR ''0'' \<and> cs \<noteq> [] \<and> (hd cs = CHR ''x'' \<or> hd cs = CHR ''X'') then radix_num 16 (tl cs)
         else if c = CHR ''0'' \<and> cs \<noteq> [] \<and> (hd cs = CHR ''o'' \<or> hd cs = CHR ''O'') then radix_num 8 (tl cs)
         else if c = CHR ''0'' \<and> cs \<noteq> [] \<and> (hd cs = CHR ''b'' \<or> hd cs = CHR ''B'') then radix_num 2 (tl cs)
         else if c = CHR ''-'' then num_neg (unsigned_num cs)
         else if c = CHR ''+'' then unsigned_num cs
         else unsigned_num s)"

fun num_sub :: "js_num \<Rightarrow> js_num \<Rightarrow> js_num" where
  "num_sub (Fin a) (Fin b) = to_num (a - b)"
| "num_sub PosInf (Fin b) = PosInf"
| "num_sub NegInf (Fin b) = NegInf"
| "num_sub (Fin a) PosInf = NegInf"
| "num_sub (Fin a) NegInf = PosInf"
| "num_sub PosInf NegInf = PosInf"
| "num_sub NegInf PosInf = NegInf"
| "num_sub _ _ = JNaN"

fun num_abs :: "js_num \<Rightarrow> js_num" where
  "num_abs JNaN = JNaN"
| "num_abs PosInf = PosInf"
| "num_abs NegInf = PosInf"
| "num_abs (Fin q) = Fin \<bar>q\<bar>"

fun num_max :: "rat \<Rightarrow> js_num \<Rightarrow> js_num" where
  "num_max a JNaN = JNaN"
| "num_max a PosInf = PosInf"
| "num_max a NegInf = Fin a"
| "num_max a (Fin q) = Fin (max a q)"

text \<open>Division by a divisor that is at least one, as in the source.\<close>

fun num_div :: "js_num \<Rightarrow> js_num \<Rightarrow> js_num" where
  "num_div (Fin a) (Fin b) = Fin (a / b)"
| "num_div (Fin a) PosInf = Fin 0"
| "num_div PosInf (Fin b) = PosInf"
| "num_div _ _ = JNaN"

fun num_gt :: "js_num \<Rightarrow> rat \<Rightarrow> bool" where
  "num_gt (Fin a) b = (b < a)"
| "num_gt PosInf b = True"
| "num_gt _ b = False"

section \<open>The comparator\<close>

datatype comparator_kind = CkToken | CkExact | CkFloat | CkCustom

record compare_result =
  cr_match :: bool
  cr_presentationError :: bool

definition compare_exact :: "string \<Rightarrow> string \<Rightarrow> compare_result" where
  "compare_exact expected actual =
     \<lparr>cr_match = (strip_final_lf (crlf_to_lf expected) = strip_final_lf (crlf_to_lf actual)),
      cr_presentationError = False\<rparr>"

definition compare_token :: "string \<Rightarrow> string \<Rightarrow> compare_result" where
  "compare_token expected actual =
     (let te = tokenize expected; ta = tokenize actual
      in if \<not> (length te = length ta \<and> list_all2 (=) te ta)
         then \<lparr>cr_match = False, cr_presentationError = False\<rparr>
         else (let exactMatch = (strip_trailing_ws (crlf_to_lf expected) = strip_trailing_ws (crlf_to_lf actual))
               in \<lparr>cr_match = True, cr_presentationError = (\<not> exactMatch)\<rparr>))"

definition float_epsilon :: rat where "float_epsilon = 1 / 1000000"

definition float_token_ok :: "string \<Rightarrow> string \<Rightarrow> bool" where
  "float_token_ok e a =
     (let en = js_Number e; an = js_Number a in
      if en = JNaN \<or> an = JNaN then e = a
      else (let diff = num_abs (num_sub en an); rel = num_div diff (num_max 1 (num_abs en))
            in \<not> (num_gt diff float_epsilon \<and> num_gt rel float_epsilon)))"

definition compare_float :: "string \<Rightarrow> string \<Rightarrow> compare_result" where
  "compare_float expected actual =
     (let te = tokenize expected; ta = tokenize actual
      in \<lparr>cr_match = (length te = length ta \<and> list_all2 float_token_ok te ta), cr_presentationError = False\<rparr>)"

fun compare_output :: "comparator_kind \<Rightarrow> string \<Rightarrow> string \<Rightarrow> compare_result" where
  "compare_output CkExact expected actual = compare_exact expected actual"
| "compare_output CkFloat expected actual = compare_float expected actual"
| "compare_output CkToken expected actual = compare_token expected actual"
| "compare_output CkCustom expected actual = compare_token expected actual"

section \<open>Words\<close>

text \<open>What tokenising promises: the maximal runs of non-whitespace characters, in order.\<close>

fun glue :: "char \<Rightarrow> string list \<Rightarrow> string list" where
  "glue c [] = [[c]]"
| "glue c (w # ws) = (c # w) # ws"

fun words :: "string \<Rightarrow> string list" where
  "words [] = []"
| "words (c # cs) = (if is_ws c then words cs
     else if cs = [] \<or> is_ws (hd cs) then [c] # words cs else glue c (words cs))"

lemma words_dropWhile [simp]: "words (dropWhile is_ws s) = words s"
  by (induction s) auto

lemma split_ws_simps:
  "split_ws [] = [[]]"
  "split_ws (c # cs) = (if is_ws c then [] # split_ws (dropWhile is_ws cs) else glue c (split_ws cs))"
  by (subst split_ws.simps, simp) (subst split_ws.simps, subst (2) split_ws.simps, auto simp: Let_def)

lemma split_ws_head: "split_ws s \<noteq> [] \<and> (hd (split_ws s) = [] \<longleftrightarrow> s = [] \<or> is_ws (hd s))"
proof (cases s)
  case (Cons c cs)
  then show ?thesis by (cases "split_ws cs") (auto simp: split_ws_simps)
qed (simp add: split_ws_simps)

lemma filter_split_ws: "filter (\<lambda>t. t \<noteq> []) (split_ws s) = words s"
proof (induction s rule: length_induct)
  case (1 s)
  show ?case
  proof (cases s)
    case (Cons c cs)
    have d: "filter (\<lambda>t. t \<noteq> []) (split_ws (dropWhile is_ws cs)) = words cs"
      using 1 Cons length_dropWhile_le[of is_ws cs] by (metis le_imp_less_Suc length_Cons words_dropWhile)
    from 1 Cons have r: "filter (\<lambda>t. t \<noteq> []) (split_ws cs) = words cs" by simp
    obtain w ws where w: "split_ws cs = w # ws" using split_ws_head[of cs] by (cases "split_ws cs") auto
    from r w have r': "words cs = filter (\<lambda>t. t \<noteq> []) (w # ws)" by simp
    have h: "w = [] \<longleftrightarrow> cs = [] \<or> is_ws (hd cs)" using split_ws_head[of cs] w by simp
    show ?thesis
      by (cases "w = []") (use h d in \<open>auto simp: split_ws_simps Cons w r' simp del: words_dropWhile\<close>)
  qed (simp add: split_ws_simps)
qed

lemma glue_append: "xs \<noteq> [] \<Longrightarrow> glue c (xs @ ys) = glue c xs @ ys"
  by (cases xs) auto

lemma words_nonempty: "cs \<noteq> [] \<Longrightarrow> \<not> is_ws (hd cs) \<Longrightarrow> words cs \<noteq> []"
proof (cases cs)
  case (Cons c ds)
  assume "\<not> is_ws (hd cs)"
  with Cons show ?thesis by (cases "words ds") auto
qed simp

lemma words_snoc_ws: "is_ws c \<Longrightarrow> words (s @ [c]) = words s"
proof (induction s)
  case (Cons d s)
  have "hd (s @ [c]) = (if s = [] then c else hd s)" by simp
  with Cons show ?case by (simp del: hd_append2)
qed simp

lemma words_rstrip: "words (strip_trailing_ws s) = words s"
proof (induction s rule: rev_induct)
  case (snoc c s)
  then show ?case by (cases "is_ws c") (simp_all add: strip_trailing_ws_def words_snoc_ws)
qed (simp add: strip_trailing_ws_def)

lemma tokenize_words: "tokenize s = words s"
  by (simp add: tokenize_def filter_split_ws trim_def words_rstrip)

lemma ws_lines [simp]: "is_ws lf" "is_ws cr"
  by code_simp+

lemma crlf_head: "s \<noteq> [] \<Longrightarrow> crlf_to_lf s \<noteq> [] \<and> is_ws (hd (crlf_to_lf s)) = is_ws (hd s)"
  by (induction s rule: crlf_to_lf.induct) auto

lemma words_crlf: "words (crlf_to_lf s) = words s"
proof (induction s rule: crlf_to_lf.induct)
  case (3 c d cs)
  show ?case
  proof (cases "c = cr \<and> d = lf")
    case True
    with 3(1)[OF True] show ?thesis by simp
  next
    case False
    then have "crlf_to_lf (c # d # cs) = c # crlf_to_lf (d # cs)" by auto
    moreover have "words (c # crlf_to_lf (d # cs)) = words (c # d # cs)"
      using 3(2)[OF False] crlf_head[of "d # cs"] by (simp only: words.simps(2)[of c]) simp
    ultimately show ?thesis by simp
  qed
qed simp_all

lemma words_final: "words (strip_final_lf s) = words s"
proof (cases "s \<noteq> [] \<and> last s = lf")
  case True
  then have "s = butlast s @ [lf]" by (metis append_butlast_last_id)
  then have "words s = words (butlast s)" by (metis words_snoc_ws ws_lines(1))
  with True show ?thesis by (simp add: strip_final_lf_def)
qed (auto simp: strip_final_lf_def)

lemma rstrip_final: "strip_trailing_ws (strip_final_lf s) = strip_trailing_ws s"
proof (cases "s \<noteq> [] \<and> last s = lf")
  case True
  then have s: "s = butlast s @ [lf]" by (metis append_butlast_last_id)
  have "strip_trailing_ws (t @ [lf]) = strip_trailing_ws t" for t
    by (simp add: strip_trailing_ws_def)
  with s have "strip_trailing_ws s = strip_trailing_ws (butlast s)" by metis
  with True show ?thesis by (simp add: strip_final_lf_def)
qed (auto simp: strip_final_lf_def)

lemma list_all2_eq_iff: "length xs = length ys \<and> list_all2 (=) xs ys \<longleftrightarrow> xs = ys"
  by (metis list.rel_eq)

lemma compare_token_eq: "compare_token e a = (if words e = words a
    then \<lparr>cr_match = True, cr_presentationError = (strip_trailing_ws (crlf_to_lf e) \<noteq> strip_trailing_ws (crlf_to_lf a))\<rparr>
    else \<lparr>cr_match = False, cr_presentationError = False\<rparr>)"
  unfolding compare_token_def Let_def tokenize_words list_all2_eq_iff by simp

lemma exact_token: "cr_match (compare_exact e a) \<Longrightarrow> compare_token e a = \<lparr>cr_match = True, cr_presentationError = False\<rparr>"
proof -
  assume "cr_match (compare_exact e a)"
  then have eq: "strip_final_lf (crlf_to_lf e) = strip_final_lf (crlf_to_lf a)" by (simp add: compare_exact_def)
  have "words e = words a" by (metis eq words_final words_crlf)
  moreover have "strip_trailing_ws (crlf_to_lf e) = strip_trailing_ws (crlf_to_lf a)" by (metis eq rstrip_final)
  ultimately show ?thesis by (simp add: compare_token_eq)
qed

lemma to_num_zero: "to_num 0 = Fin 0"
  by (simp add: to_num_def overflow_def)

lemma float_token_refl: "float_token_ok t t"
  by (cases "js_Number t") (simp_all add: float_token_ok_def Let_def to_num_zero float_epsilon_def)

lemma token_float: "cr_match (compare_token e a) \<Longrightarrow> cr_match (compare_float e a)"
  by (auto simp: compare_token_eq compare_float_def Let_def tokenize_words list_all2_same float_token_refl
      split: if_splits)

lemma float_word: "words e = [e] \<Longrightarrow> words a = [a] \<Longrightarrow> cr_match (compare_output CkFloat e a) = float_token_ok e a"
  by (simp add: compare_float_def tokenize_words)

lemmas number_simps = js_Number_def unsigned_num_def unsigned_decimal_def is_digit_def digit_val_def
  decimal_def parse_exponent_def pow10_def to_num_def overflow_def

section \<open>Properties\<close>

text \<open>
  C15. The comparators are ordered: output the exact comparator accepts is accepted by the token
  comparator without a presentation error, and output the token comparator accepts is accepted by the
  float comparator; the token comparator accepts exactly when both texts have the same words.
\<close>

theorem comparators_ordered:
  "(cr_match (compare_output CkExact e a) \<longrightarrow>
      compare_output CkToken e a = \<lparr>cr_match = True, cr_presentationError = False\<rparr>)
   \<and> (cr_match (compare_output CkToken e a) \<longrightarrow> cr_match (compare_output CkFloat e a))
   \<and> (cr_match (compare_output CkToken e a) \<longleftrightarrow> words e = words a)"
  using exact_token[of e a] token_float[of e a] by (simp add: compare_token_eq)

lemma comparators_ordered_witness:
  "compare_output CkToken ''1 2'' (''1 2'' @ [lf]) = \<lparr>cr_match = True, cr_presentationError = False\<rparr>"
proof -
  have "cr_match (compare_output CkExact ''1 2'' (''1 2'' @ [lf]))" by code_simp
  with comparators_ordered show ?thesis by blast
qed

text \<open>
  On finite numbers the float comparator is an absolute-or-relative tolerance: it accepts an
  actual number exactly when it is within one millionth of the expected one, scaled by the magnitude
  of the expected number where that exceeds one.
\<close>

theorem float_tolerance:
  assumes "words e = [e]" and "words a = [a]" and "js_Number e = Fin x" and "js_Number a = Fin y"
    and "\<bar>x - y\<bar> < overflow"
  shows "cr_match (compare_output CkFloat e a) \<longleftrightarrow> \<bar>x - y\<bar> \<le> float_epsilon * max 1 \<bar>x\<bar>"
proof -
  have num: "to_num (x - y) = Fin (x - y)" using assms(5) by (auto simp: to_num_def)
  have m: "0 < max 1 \<bar>x\<bar>" "float_epsilon \<le> float_epsilon * max 1 \<bar>x\<bar>" by (auto simp: float_epsilon_def)
  have "cr_match (compare_output CkFloat e a) \<longleftrightarrow>
      \<not> (float_epsilon < \<bar>x - y\<bar> \<and> float_epsilon < \<bar>x - y\<bar> / max 1 \<bar>x\<bar>)"
    using assms(1-4) num by (simp add: compare_float_def tokenize_words float_token_ok_def)
  also have "float_epsilon < \<bar>x - y\<bar> / max 1 \<bar>x\<bar> \<longleftrightarrow> float_epsilon * max 1 \<bar>x\<bar> < \<bar>x - y\<bar>"
    using m(1) by (simp add: less_divide_eq)
  finally show ?thesis using m(2) by auto
qed

lemma float_tolerance_witness:
  "cr_match (compare_output CkFloat ''100.0'' ''100.00005'')"
proof -
  have w: "words ''100.0'' = [''100.0'']" "words ''100.00005'' = [''100.00005'']" by code_simp+
  have n: "js_Number ''100.0'' = Fin 100" "js_Number ''100.00005'' = Fin (10000005 / 100000)"
    by (simp_all add: number_simps)
  have small: "\<bar>100 - 10000005 / 100000 :: rat\<bar> < overflow" by (simp add: overflow_def)
  have near: "\<bar>100 - 10000005 / 100000 :: rat\<bar> \<le> float_epsilon * max 1 \<bar>100\<bar>" by (simp add: float_epsilon_def)
  from float_tolerance[OF w n small] near show ?thesis by (simp only:)
qed

text \<open>
  The float comparator accepts any number where infinity is expected: the relative error of a
  finite answer is infinity over infinity, which is not a number, and no comparison with it holds.
\<close>

theorem infinity_accepts_any_number:
  assumes "words a = [a]" and "js_Number a \<noteq> JNaN"
  shows "cr_match (compare_output CkFloat ''Infinity'' a)"
proof -
  have w: "words ''Infinity'' = [''Infinity'']" by code_simp
  have n: "js_Number ''Infinity'' = PosInf" by code_simp
  have "float_token_ok ''Infinity'' a" using assms(2)
    by (cases "js_Number a") (simp_all only: float_token_ok_def n Let_def, simp_all add: float_epsilon_def)
  with float_word[OF w assms(1)] show ?thesis by simp
qed

lemma infinity_accepts_any_number_witness: "cr_match (compare_output CkFloat ''Infinity'' ''42'')"
proof -
  have "words ''42'' = [''42'']" by code_simp
  moreover have "js_Number ''42'' \<noteq> JNaN" by (simp add: number_simps)
  ultimately show ?thesis by (rule infinity_accepts_any_number)
qed

end
