(* ===== verification/JudgeScore.thy ===== *)
theory JudgeScore
  imports JudgeCompare "HOL-Library.Multiset"
begin

text \<open>
  judge/types, judge/verdict/verdict-mapper.ts and judge/scoring/scoring-engine.ts: one run becomes a
  verdict, the verdicts of a submission become its overall verdict and score. Characters are code
  units below 256, so those above 127 take two bytes of UTF-8. Durations and memory sizes are
  rationals, as the execution engine reports them.
\<close>

section \<open>Data\<close>

datatype verdict = Vd_PENDING | Vd_QUEUED | Vd_RUNNING | Vd_ACCEPTED | Vd_WRONG_ANSWER | Vd_TIME_LIMIT_EXCEEDED
  | Vd_MEMORY_LIMIT_EXCEEDED | Vd_RUNTIME_ERROR | Vd_COMPILATION_ERROR | Vd_OUTPUT_LIMIT_EXCEEDED
  | Vd_PRESENTATION_ERROR | Vd_SKIPPED | Vd_INTERNAL_ERROR

record judge_case =
  jc_id :: ident
  jc_input :: string
  jc_expectedOutput :: string
  jc_isHidden :: bool
  jc_weight :: int
  jc_order :: int

record judge_problem =
  jp_problemId :: ident
  jp_timeLimitMs :: int
  jp_memoryLimitMb :: int
  jp_comparator :: comparator_kind
  jp_testCases :: "judge_case list"

record case_result =
  cs_testCaseId :: ident
  cs_verdict :: verdict
  cs_runtimeMs :: int
  cs_memoryKb :: int
  cs_stderr :: "string option"
  cs_score :: int
  cs_maxScore :: int
  cs_skipped :: bool

record judge_result =
  jr_submissionId :: ident
  jr_verdict :: verdict
  jr_totalScore :: int
  jr_maxScore :: int
  jr_percentage :: int
  jr_passed :: nat
  jr_total :: nat
  jr_runtimeMs :: int
  jr_peakMemoryKb :: int
  jr_compileTimeMs :: int
  jr_executionTimeMs :: int
  jr_results :: "case_result list"

record outcome =
  oc_stdout :: string
  oc_stderr :: string
  oc_exitCode :: "int option"
  oc_durationMs :: rat
  oc_memoryUsedMb :: rat
  oc_oomKilled :: bool
  oc_timedOut :: bool
  oc_truncated :: bool
  oc_compileError :: "string option"

section \<open>The verdict of one run\<close>

definition output_limit_bytes :: int where "output_limit_bytes = 256 * 1024"

definition byteLength :: "string \<Rightarrow> int" where
  "byteLength s = sum_list (map (\<lambda>c. if (of_char c :: nat) < 128 then 1 else 2) s)"

definition exceedsOutputLimit :: "string \<Rightarrow> bool" where
  "exceedsOutputLimit stdout \<longleftrightarrow> byteLength stdout > output_limit_bytes"

definition map_verdict :: "outcome \<Rightarrow> judge_case \<Rightarrow> comparator_kind \<Rightarrow> verdict" where
  "map_verdict oc tc comparator =
     (if truthy_str (oc_compileError oc) then Vd_COMPILATION_ERROR
      else if oc_timedOut oc then Vd_TIME_LIMIT_EXCEEDED
      else if oc_oomKilled oc then Vd_MEMORY_LIMIT_EXCEEDED
      else if oc_truncated oc then Vd_OUTPUT_LIMIT_EXCEEDED
      else if oc_exitCode oc \<noteq> Some 0 \<and> oc_exitCode oc \<noteq> None then Vd_RUNTIME_ERROR
      else if oc_exitCode oc = None then Vd_RUNTIME_ERROR
      else (let cmp = compare_output comparator (jc_expectedOutput tc) (oc_stdout oc) in
            if cr_match cmp then (if cr_presentationError cmp then Vd_PRESENTATION_ERROR else Vd_ACCEPTED)
            else Vd_WRONG_ANSWER))"

section \<open>Scoring\<close>

definition is_pass :: "verdict \<Rightarrow> bool" where
  "is_pass v \<longleftrightarrow> v = Vd_ACCEPTED \<or> v = Vd_PRESENTATION_ERROR"

definition round_half :: "rat \<Rightarrow> int" where
  "round_half x = \<lfloor>x + 1 / 2\<rfloor>"

definition overall_verdict :: "case_result list \<Rightarrow> verdict" where
  "overall_verdict results =
     (case List.find (\<lambda>r. \<not> is_pass (cs_verdict r) \<and> \<not> cs_skipped r) results of
        Some r \<Rightarrow> cs_verdict r
      | None \<Rightarrow> if list_ex (\<lambda>r. cs_verdict r = Vd_PRESENTATION_ERROR) results
                then Vd_PRESENTATION_ERROR else Vd_ACCEPTED)"

definition aggregate :: "ident \<Rightarrow> case_result list \<Rightarrow> bool \<Rightarrow> int \<Rightarrow> int \<Rightarrow> judge_result" where
  "aggregate submissionId results partialScoring compileTimeMs executionTimeMs =
     (let totalScore = foldl (\<lambda>s r. s + cs_score r) 0 results;
          maxScore = foldl (\<lambda>s r. s + cs_maxScore r) 0 results;
          overall = overall_verdict results
      in \<lparr>jr_submissionId = submissionId, jr_verdict = overall,
          jr_totalScore = (if partialScoring then totalScore else if overall = Vd_ACCEPTED then maxScore else 0),
          jr_maxScore = maxScore,
          jr_percentage = (if maxScore = 0 then 0
             else round_half (rat_of_int totalScore / rat_of_int maxScore * 100)),
          jr_passed = length (filter (\<lambda>r. is_pass (cs_verdict r)) results),
          jr_total = length results,
          jr_runtimeMs = foldl (\<lambda>m r. max m (cs_runtimeMs r)) 0 results,
          jr_peakMemoryKb = foldl (\<lambda>m r. max m (cs_memoryKb r)) 0 results,
          jr_compileTimeMs = compileTimeMs, jr_executionTimeMs = executionTimeMs,
          jr_results = results\<rparr>)"

definition scoreCase :: "verdict \<Rightarrow> int \<Rightarrow> bool \<Rightarrow> int \<times> int" where
  "scoreCase v weight skipped = (if skipped then 0 else if is_pass v then weight else 0, weight)"

section \<open>Lemmas\<close>

lemma foldl_sum: "foldl (\<lambda>s r. s + f r) (a::int) rs = a + sum_list (map f rs)"
  by (induction rs arbitrary: a) auto

text \<open>The results a judging run can produce: a case scores as its verdict says.\<close>

definition case_ok :: "case_result \<Rightarrow> bool" where
  "case_ok r \<longleftrightarrow> 0 \<le> cs_maxScore r
     \<and> cs_score r = (if is_pass (cs_verdict r) then cs_maxScore r else 0)
     \<and> (cs_skipped r \<longleftrightarrow> cs_verdict r = Vd_SKIPPED)"

lemma case_ok_bounds: "list_all case_ok rs \<Longrightarrow>
    0 \<le> sum_list (map cs_score rs) \<and> sum_list (map cs_score rs) \<le> sum_list (map cs_maxScore rs)"
  by (induction rs) (auto simp: case_ok_def)

lemma overall_pass:
  assumes "list_all case_ok rs" and "list_all (\<lambda>r. \<not> cs_skipped r) rs"
  shows "is_pass (overall_verdict rs) \<longleftrightarrow> list_all (\<lambda>r. is_pass (cs_verdict r)) rs"
proof (cases "List.find (\<lambda>r. \<not> is_pass (cs_verdict r) \<and> \<not> cs_skipped r) rs")
  case None
  with assms(2) have "list_all (\<lambda>r. is_pass (cs_verdict r)) rs" by (auto simp: find_None_iff list_all_iff)
  with None show ?thesis by (auto simp: overall_verdict_def is_pass_def)
next
  case (Some r)
  from find_Some_set[OF this] Some show ?thesis by (auto simp: overall_verdict_def list_all_iff)
qed

lemma full_score:
  "list_all case_ok rs \<Longrightarrow> list_all (\<lambda>r. is_pass (cs_verdict r)) rs \<Longrightarrow>
    sum_list (map cs_score rs) = sum_list (map cs_maxScore rs)"
  by (induction rs) (auto simp: case_ok_def)

lemma round_half_bounds: "0 \<le> x \<Longrightarrow> x \<le> 100 \<Longrightarrow> 0 \<le> round_half x \<and> round_half x \<le> 100"
proof -
  assume "0 \<le> x" "x \<le> 100"
  then have "of_int 0 \<le> x + 1 / 2" "x + 1 / 2 < of_int 101" by simp_all
  then show ?thesis unfolding round_half_def by linarith
qed

lemma aggregate_simps:
  "jr_verdict (aggregate i rs ps c t) = overall_verdict rs"
  "jr_maxScore (aggregate i rs ps c t) = sum_list (map cs_maxScore rs)"
  "jr_totalScore (aggregate i rs ps c t) = (if ps then sum_list (map cs_score rs)
     else if overall_verdict rs = Vd_ACCEPTED then sum_list (map cs_maxScore rs) else 0)"
  "jr_percentage (aggregate i rs ps c t) = (if sum_list (map cs_maxScore rs) = 0 then 0
     else round_half (rat_of_int (sum_list (map cs_score rs)) / rat_of_int (sum_list (map cs_maxScore rs)) * 100))"
  "jr_passed (aggregate i rs ps c t) = length (filter (\<lambda>r. is_pass (cs_verdict r)) rs)"
  "jr_total (aggregate i rs ps c t) = length rs"
  "jr_submissionId (aggregate i rs ps c t) = i"
  "jr_results (aggregate i rs ps c t) = rs"
  by (simp_all add: aggregate_def foldl_sum Let_def)

lemma percentage_bounds:
  assumes "list_all case_ok rs"
  shows "0 \<le> jr_percentage (aggregate i rs ps c t) \<and> jr_percentage (aggregate i rs ps c t) \<le> 100"
proof -
  let ?s = "sum_list (map cs_score rs)" and ?m = "sum_list (map cs_maxScore rs)"
  have "0 \<le> rat_of_int ?s / rat_of_int ?m * 100 \<and> rat_of_int ?s / rat_of_int ?m * 100 \<le> 100" if "?m \<noteq> 0"
    using case_ok_bounds[OF assms] that by (simp add: divide_le_eq)
  with round_half_bounds show ?thesis by (auto simp: aggregate_simps)
qed

lemma all_passed: "length (filter P rs) = length rs \<longleftrightarrow> list_all P rs"
  by (metis (no_types, lifting) filter_True length_filter_less list_all_iff nat_less_le)

section \<open>Properties\<close>

text \<open>
  The verdict of a run follows the documented precedence: a compilation error, then the time,
  memory and output limits, then a crash or a missing exit code, and the output is compared only for
  a run that finished cleanly; so a run is wrong, accepted or misformatted exactly when it finished
  cleanly, and no run is ever skipped, queued or an internal error.
\<close>

theorem verdict_precedence:
  "(map_verdict oc tc cmp = Vd_COMPILATION_ERROR \<longleftrightarrow> truthy_str (oc_compileError oc))
   \<and> (map_verdict oc tc cmp = Vd_TIME_LIMIT_EXCEEDED \<longleftrightarrow>
        \<not> truthy_str (oc_compileError oc) \<and> oc_timedOut oc)
   \<and> (map_verdict oc tc cmp = Vd_MEMORY_LIMIT_EXCEEDED \<longleftrightarrow>
        \<not> truthy_str (oc_compileError oc) \<and> \<not> oc_timedOut oc \<and> oc_oomKilled oc)
   \<and> (map_verdict oc tc cmp \<in> {Vd_WRONG_ANSWER, Vd_ACCEPTED, Vd_PRESENTATION_ERROR} \<longleftrightarrow>
        \<not> truthy_str (oc_compileError oc) \<and> \<not> oc_timedOut oc \<and> \<not> oc_oomKilled oc
        \<and> \<not> oc_truncated oc \<and> oc_exitCode oc = Some 0)
   \<and> (is_pass (map_verdict oc tc cmp) \<longleftrightarrow>
        \<not> truthy_str (oc_compileError oc) \<and> \<not> oc_timedOut oc \<and> \<not> oc_oomKilled oc
        \<and> \<not> oc_truncated oc \<and> oc_exitCode oc = Some 0
        \<and> cr_match (compare_output cmp (jc_expectedOutput tc) (oc_stdout oc)))
   \<and> map_verdict oc tc cmp \<notin> {Vd_PENDING, Vd_QUEUED, Vd_RUNNING, Vd_SKIPPED, Vd_INTERNAL_ERROR}"
  by (auto simp: map_verdict_def is_pass_def Let_def)



end
