(* ===== verification/JudgeService.thy ===== *)
theory JudgeService
  imports JudgeScore RateLimit "HOL-Library.Product_Lexorder"
begin

text \<open>
  judge/services, judge/repositories, judge/events and judge/queue: admission of a submission, the
  judging run over the test cases, the worker that drains the queue and the reads. The execution
  engine is an argument that answers the n-th call the judge makes (absent when the call fails), so
  equal inputs may get different answers. Rows live in Postgres; counters, guards and timelines in
  Redis. Row updates and inserts can fail only as the database's keys make them fail.
\<close>

section \<open>State\<close>

datatype language = LJavascript | LTypescript | LPython | LCpp | LJava

record run_input =
  rn_language :: language
  rn_code :: string
  rn_stdin :: string
  rn_timeLimitMs :: int
  rn_memoryLimitMb :: int

record sub_job =
  sj_submissionId :: ident
  sj_userId :: ident
  sj_problemId :: ident
  sj_battleId :: "ident option"
  sj_language :: language
  sj_code :: string
  sj_stopOnFirstFail :: bool
  sj_partialScoring :: bool

record verdict_payload =
  vp_submissionId :: ident
  vp_userId :: ident
  vp_problemId :: ident
  vp_battleId :: "ident option"
  vp_verdict :: verdict
  vp_passed :: nat
  vp_total :: nat
  vp_score :: int
  vp_maxScore :: int
  vp_runtimeMs :: int

datatype judge_error = JRateLimited | JNotJudgeable ident | JDuplicate | JNotFound ident
  | JExecutionUnavailable | JRecordMissing ident | JKeyTaken ident

fun judge_error_code :: "judge_error \<Rightarrow> nat \<times> string" where
  "judge_error_code JRateLimited = (429, ''RATE_LIMIT_EXCEEDED'')"
| "judge_error_code (JNotJudgeable _) = (422, ''PROBLEM_NOT_JUDGEABLE'')"
| "judge_error_code JDuplicate = (409, ''DUPLICATE_SUBMISSION'')"
| "judge_error_code (JNotFound _) = (404, ''SUBMISSION_NOT_FOUND'')"
| "judge_error_code JExecutionUnavailable = (503, ''EXECUTION_UNAVAILABLE'')"
| "judge_error_code _ = (500, ''INTERNAL_ERROR'')"

datatype judge_event = EvCreated ident ident ident | EvStarted ident | EvRunning ident nat nat
  | EvCompleted ident verdict nat nat | EvFailed ident judge_error | EvVerdict verdict_payload

record sub_row =
  sr_userId :: ident
  sr_problemId :: ident
  sr_battleId :: "ident option"
  sr_language :: language
  sr_code :: string
  sr_status :: verdict
  sr_runtimeMs :: "int option"
  sr_memoryKb :: "int option"
  sr_createdAt :: int

record case_row =
  cw_status :: verdict
  cw_runtimeMs :: int
  cw_memoryKb :: int
  cw_stderr :: "string option"

record judged_problem =
  pw_timeLimitMs :: int
  pw_memoryLimitMb :: int
  pw_testCases :: "judge_case list"

record timeline_entry =
  te_stage :: string
  te_at :: int
  te_detail :: "(verdict \<times> int) option"

text \<open>A queued job as the queue library keeps it: its data, its priority, its creation instant and attempts.\<close>

record bull_job =
  bj_data :: sub_job
  bj_priority :: nat
  bj_timestamp :: int
  bj_attemptsMade :: nat

record judge_world =
  jw_rows :: "ident \<Rightarrow> sub_row option"
  jw_results :: "ident \<times> ident \<Rightarrow> case_row option"
  jw_problems :: "ident \<Rightarrow> judged_problem option"
  jw_rate :: "ident counters"
  jw_dedupe :: "(ident \<times> ident \<times> string, unit) kv"
  jw_timeline :: "(ident, timeline_entry list) kv"
  jw_jobs :: "bull_job list"
  jw_dlq :: "(ident \<times> judge_error \<times> int) list"
  jw_events :: "judge_event list"
  jw_forwarded :: "verdict_payload list"
  jw_calls :: nat

type_synonym 'a judge_op = "(judge_world, judge_error, 'a) op"

text \<open>What a request or a run uses of its surroundings: the clock at its start and end, the engine, the hash.\<close>

record judge_env =
  jv_now :: int
  jv_finished :: int
  jv_run :: "nat \<Rightarrow> run_input \<Rightarrow> outcome option"
  jv_hash :: "string \<Rightarrow> string"

definition testcase_concurrency :: nat where "testcase_concurrency = 4"
definition judge_attempts :: nat where "judge_attempts = 3"
definition job_ttl_ms :: int where "job_ttl_ms = 5 * 60000"
definition submit_window_ms :: int where "submit_window_ms = 60000"
definition submit_max :: nat where "submit_max = 20"
definition duplicate_window_ms :: int where "duplicate_window_ms = 10000"
definition priority_battle :: nat where "priority_battle = 1"
definition priority_practice :: nat where "priority_practice = 5"

section \<open>Repositories\<close>

definition has_decimal_point :: "string \<Rightarrow> bool" where
  "has_decimal_point tok =
     (let t = (case tok of c # cs \<Rightarrow> if c = CHR ''-'' then cs else tok | [] \<Rightarrow> []);
          ip = takeWhile is_digit t; r = dropWhile is_digit t
      in ip \<noteq> [] \<and> (case r of c # fp \<Rightarrow> c = CHR ''.'' \<and> fp \<noteq> [] \<and> list_all is_digit fp | [] \<Rightarrow> False))"

definition deriveComparator :: "string list \<Rightarrow> comparator_kind" where
  "deriveComparator outs =
     (if outs = [] then CkToken
      else if list_ex (\<lambda>out. list_ex has_decimal_point (split_ws (trim out))) outs then CkFloat else CkToken)"

definition getJudgeProblem :: "ident \<Rightarrow> judge_world \<Rightarrow> judge_problem option" where
  "getJudgeProblem i w = (case jw_problems w i of None \<Rightarrow> None
     | Some p \<Rightarrow> (let cases = sort_key jc_order (pw_testCases p) in
         Some \<lparr>jp_problemId = i, jp_timeLimitMs = pw_timeLimitMs p, jp_memoryLimitMb = pw_memoryLimitMb p,
               jp_comparator = deriveComparator (map jc_expectedOutput cases), jp_testCases = cases\<rparr>))"

definition create_row :: "int \<Rightarrow> ident \<Rightarrow> sub_job \<Rightarrow> unit judge_op" where
  "create_row now i j w =
     (if jw_rows w i \<noteq> None then (Inl (JKeyTaken i), w)
      else (Inr (), w\<lparr>jw_rows := (jw_rows w)(i := Some
        \<lparr>sr_userId = sj_userId j, sr_problemId = sj_problemId j, sr_battleId = sj_battleId j,
         sr_language = sj_language j, sr_code = sj_code j, sr_status = Vd_PENDING,
         sr_runtimeMs = None, sr_memoryKb = None, sr_createdAt = now\<rparr>)\<rparr>))"

definition update_submission :: "ident \<Rightarrow> (sub_row \<Rightarrow> sub_row) \<Rightarrow> unit judge_op" where
  "update_submission i f w = (case jw_rows w i of None \<Rightarrow> (Inl (JRecordMissing i), w)
     | Some r \<Rightarrow> (Inr (), w\<lparr>jw_rows := (jw_rows w)(i := Some (f r))\<rparr>))"

definition markStatus :: "ident \<Rightarrow> verdict \<Rightarrow> unit judge_op" where
  "markStatus i v = update_submission i (\<lambda>r. r\<lparr>sr_status := v\<rparr>)"

definition finalize_row :: "judge_result \<Rightarrow> unit judge_op" where
  "finalize_row res = update_submission (jr_submissionId res) (\<lambda>r. r\<lparr>sr_status := jr_verdict res,
     sr_runtimeMs := Some (jr_runtimeMs res), sr_memoryKb := Some (jr_peakMemoryKb res)\<rparr>)"

definition saveResult :: "ident \<Rightarrow> case_result \<Rightarrow> judge_world \<Rightarrow> judge_world" where
  "saveResult i r w = w\<lparr>jw_results := (jw_results w)((i, cs_testCaseId r) := Some
     \<lparr>cw_status = cs_verdict r, cw_runtimeMs = cs_runtimeMs r, cw_memoryKb = cs_memoryKb r,
      cw_stderr = cs_stderr r\<rparr>)\<rparr>"

definition getSubmission :: "ident \<Rightarrow> sub_row judge_op" where
  "getSubmission i = bind_op (reads (\<lambda>w. jw_rows w i)) (of_option (JNotFound i))"

definition checkAndSet :: "int \<Rightarrow> ident \<Rightarrow> ident \<Rightarrow> string \<Rightarrow> bool judge_op" where
  "checkAndSet now u p h w =
     (if kv_get now (jw_dedupe w) (u, p, h) = None
      then (Inr True, w\<lparr>jw_dedupe := kv_put (jw_dedupe w) (u, p, h) () (Some (now + duplicate_window_ms))\<rparr>)
      else (Inr False, w))"

definition last_n :: "nat \<Rightarrow> 'a list \<Rightarrow> 'a list" where
  "last_n n xs = drop (length xs - n) xs"

definition record_stage :: "int \<Rightarrow> ident \<Rightarrow> string \<Rightarrow> (verdict \<times> int) option \<Rightarrow> judge_world \<Rightarrow> judge_world" where
  "record_stage now i stage detail w = w\<lparr>jw_timeline := kv_put (jw_timeline w) i
     (last_n 100 (kv_list now (jw_timeline w) i @ [\<lparr>te_stage = stage, te_at = now, te_detail = detail\<rparr>]))
     (Some (now + 24 * 3600 * 1000))\<rparr>"

text \<open>The publisher of the composition root: the Redis channel first, then verdicts of battles to the battle engine.\<close>

definition publish :: "judge_event \<Rightarrow> judge_world \<Rightarrow> judge_world" where
  "publish ev w = (let w1 = w\<lparr>jw_events := jw_events w @ [ev]\<rparr> in
     (case ev of EvVerdict p \<Rightarrow>
        if truthy_str (vp_battleId p) then w1\<lparr>jw_forwarded := jw_forwarded w1 @ [p]\<rparr> else w1
      | _ \<Rightarrow> w1))"

text \<open>Adding a job whose id the queue already has does nothing, as the queue library documents.\<close>

definition enqueue_job :: "int \<Rightarrow> sub_job \<Rightarrow> nat \<Rightarrow> judge_world \<Rightarrow> judge_world" where
  "enqueue_job now j priority w =
     (if list_ex (\<lambda>b. sj_submissionId (bj_data b) = sj_submissionId j) (jw_jobs w) then w
      else w\<lparr>jw_jobs := jw_jobs w @ [\<lparr>bj_data = j, bj_priority = priority, bj_timestamp = now, bj_attemptsMade = 0\<rparr>]\<rparr>)"

section \<open>The judging run\<close>

text \<open>Concurrent operations all run to their end; the first error rejects the whole.\<close>

fun promise_all :: "('s, 'e, 'a) op list \<Rightarrow> ('s, 'e, 'a list) op" where
  "promise_all [] s = (Inr [], s)"
| "promise_all (m # ms) s =
     (case m s of (r, s1) \<Rightarrow> case promise_all ms s1 of (rs, s2) \<Rightarrow>
        (case r of Inl e \<Rightarrow> (Inl e, s2)
         | Inr a \<Rightarrow> (case rs of Inl e \<Rightarrow> (Inl e, s2) | Inr as \<Rightarrow> (Inr (a # as), s2))))"

definition engine_call :: "judge_env \<Rightarrow> run_input \<Rightarrow> outcome judge_op" where
  "engine_call e i w = (case jv_run e (jw_calls w) i of
       None \<Rightarrow> (Inl JExecutionUnavailable, w\<lparr>jw_calls := jw_calls w + 1\<rparr>)
     | Some oc \<Rightarrow> (Inr oc, w\<lparr>jw_calls := jw_calls w + 1\<rparr>))"

definition run_input_of :: "sub_job \<Rightarrow> judge_problem \<Rightarrow> judge_case \<Rightarrow> run_input" where
  "run_input_of job problem tc = \<lparr>rn_language = sj_language job, rn_code = sj_code job, rn_stdin = jc_input tc,
     rn_timeLimitMs = jp_timeLimitMs problem, rn_memoryLimitMb = jp_memoryLimitMb problem\<rparr>"

definition result_of :: "judge_problem \<Rightarrow> judge_case \<Rightarrow> outcome \<Rightarrow> case_result" where
  "result_of problem tc oc0 =
     (let oc = (if \<not> oc_truncated oc0 \<and> exceedsOutputLimit (oc_stdout oc0)
                then oc0\<lparr>oc_truncated := True\<rparr> else oc0);
          v = map_verdict oc tc (jp_comparator problem);
          sc = scoreCase v (jc_weight tc) False
      in \<lparr>cs_testCaseId = jc_id tc, cs_verdict = v, cs_runtimeMs = round_half (oc_durationMs oc),
          cs_memoryKb = round_half (oc_memoryUsedMb oc * 1024),
          cs_stderr = (if oc_stderr oc \<noteq> [] then Some (take 2000 (oc_stderr oc)) else None),
          cs_score = fst sc, cs_maxScore = snd sc, cs_skipped = False\<rparr>)"

definition runOne :: "judge_env \<Rightarrow> sub_job \<Rightarrow> judge_problem \<Rightarrow> judge_case \<Rightarrow> case_result judge_op" where
  "runOne e job problem tc =
     bind_op (engine_call e (run_input_of job problem tc)) (\<lambda>oc.
     let r = result_of problem tc oc in
     then_op (writes (saveResult (sj_submissionId job) r)) (ret r))"

definition skippedResult :: "judge_case \<Rightarrow> case_result" where
  "skippedResult tc = \<lparr>cs_testCaseId = jc_id tc, cs_verdict = Vd_SKIPPED, cs_runtimeMs = 0, cs_memoryKb = 0,
     cs_stderr = None, cs_score = 0, cs_maxScore = jc_weight tc, cs_skipped = True\<rparr>"

definition ordered_cases :: "judge_problem \<Rightarrow> judge_case list" where
  "ordered_cases problem = sort_key (\<lambda>tc. (jc_isHidden tc, jc_order tc)) (jp_testCases problem)"

function run_batches :: "judge_env \<Rightarrow> sub_job \<Rightarrow> judge_problem \<Rightarrow> nat \<Rightarrow> judge_case list \<Rightarrow> case_result list \<Rightarrow>
    bool \<Rightarrow> case_result list judge_op" where
  "run_batches e job problem totalCases rest results failedEarly =
     (if rest = [] then ret results
      else if failedEarly \<and> sj_stopOnFirstFail job then ret (results @ map skippedResult rest)
      else bind_op (promise_all (map (runOne e job problem) (take testcase_concurrency rest))) (\<lambda>batchResults.
        then_op (writes (publish (EvRunning (sj_submissionId job) (length (results @ batchResults)) totalCases)))
        (run_batches e job problem totalCases (drop testcase_concurrency rest) (results @ batchResults)
          (failedEarly \<or> list_ex (\<lambda>r. cs_verdict r \<noteq> Vd_ACCEPTED \<and> cs_verdict r \<noteq> Vd_PRESENTATION_ERROR) batchResults))))"
  by pat_completeness auto
termination
  by (relation "measure (\<lambda>(e, job, problem, n, rest, results, f). length rest)")
    (auto simp: testcase_concurrency_def)

declare run_batches.simps [simp del]

definition runAllCases :: "judge_env \<Rightarrow> sub_job \<Rightarrow> judge_problem \<Rightarrow> case_result list judge_op" where
  "runAllCases e job problem =
     run_batches e job problem (length (ordered_cases problem)) (ordered_cases problem) [] False"

text \<open>A try block whose handler runs and rethrows.\<close>

definition on_error :: "('s, 'e, 'a) op \<Rightarrow> ('e \<Rightarrow> ('s, 'e, unit) op) \<Rightarrow> ('s, 'e, 'a) op" where
  "on_error m h s = (case m s of (Inr a, s') \<Rightarrow> (Inr a, s')
     | (Inl e, s') \<Rightarrow> then_op (h e) (throw e) s')"

definition verdict_of :: "sub_job \<Rightarrow> judge_result \<Rightarrow> verdict_payload" where
  "verdict_of job r =
     \<lparr>vp_submissionId = sj_submissionId job, vp_userId = sj_userId job, vp_problemId = sj_problemId job,
      vp_battleId = sj_battleId job, vp_verdict = jr_verdict r, vp_passed = jr_passed r, vp_total = jr_total r,
      vp_score = jr_totalScore r, vp_maxScore = jr_maxScore r, vp_runtimeMs = jr_runtimeMs r\<rparr>"

definition judge :: "judge_env \<Rightarrow> sub_job \<Rightarrow> judge_result judge_op" where
  "judge e job =
     (let i = sj_submissionId job in
      then_op (markStatus i Vd_RUNNING)
     (then_op (writes (record_stage (jv_now e) i ''started'' None))
     (then_op (writes (publish (EvStarted i)))
     (bind_op (reads (getJudgeProblem (sj_problemId job))) (\<lambda>p.
      case p of
        None \<Rightarrow> then_op (markStatus i Vd_INTERNAL_ERROR) (throw (JNotJudgeable (sj_problemId job)))
      | Some problem \<Rightarrow>
          if length (jp_testCases problem) = 0
          then then_op (markStatus i Vd_INTERNAL_ERROR) (throw (JNotJudgeable (sj_problemId job)))
          else bind_op (on_error (runAllCases e job problem)
                 (\<lambda>err. then_op (markStatus i Vd_INTERNAL_ERROR) (writes (publish (EvFailed i err))))) (\<lambda>results.
            let r = aggregate i results (sj_partialScoring job) 0 (jv_finished e - jv_now e) in
            then_op (finalize_row r)
           (then_op (writes (record_stage (jv_finished e) i ''completed'' (Some (jr_verdict r, jr_totalScore r))))
           (then_op (writes (publish (EvCompleted i (jr_verdict r) (jr_passed r) (jr_total r))))
           (then_op (writes (publish (EvVerdict (verdict_of job r))))
            (ret r))))))))))"

section \<open>Admission\<close>

record submit_input =
  su_userId :: ident
  su_problemId :: ident
  su_battleId :: "ident option"
  su_language :: language
  su_code :: string

definition hit_submit :: "int \<Rightarrow> ident \<Rightarrow> bool judge_op" where
  "hit_submit now u w = (case rate_hit submit_window_ms submit_max u now (jw_rate w) of
     (ok, m) \<Rightarrow> (Inr ok, w\<lparr>jw_rate := m\<rparr>))"

definition job_of :: "ident \<Rightarrow> submit_input \<Rightarrow> sub_job" where
  "job_of i inp = \<lparr>sj_submissionId = i, sj_userId = su_userId inp, sj_problemId = su_problemId inp,
     sj_battleId = su_battleId inp, sj_language = su_language inp, sj_code = su_code inp,
     sj_stopOnFirstFail = (su_battleId inp \<noteq> None), sj_partialScoring = (su_battleId inp \<noteq> None)\<rparr>"

text \<open>The id of the new row is the database's; a taken id is refused by its primary key.\<close>

definition submit :: "judge_env \<Rightarrow> ident \<Rightarrow> submit_input \<Rightarrow> ident judge_op" where
  "submit e i inp =
     bind_op (hit_submit (jv_now e) (su_userId inp)) (\<lambda>allowed.
     then_op (guard_op allowed JRateLimited)
    (bind_op (reads (getJudgeProblem (su_problemId inp))) (\<lambda>p.
     then_op (guard_op (\<not> (p = None \<or> length (jp_testCases (the p)) = 0)) (JNotJudgeable (su_problemId inp)))
    (bind_op (checkAndSet (jv_now e) (su_userId inp) (su_problemId inp) (take 16 (jv_hash e (su_code inp)))) (\<lambda>fresh.
     then_op (guard_op fresh JDuplicate)
    (then_op (create_row (jv_now e) i (job_of i inp))
    (then_op (markStatus i Vd_QUEUED)
    (then_op (writes (enqueue_job (jv_now e) (job_of i inp)
                (if truthy_str (su_battleId inp) then priority_battle else priority_practice)))
    (then_op (writes (publish (EvCreated i (su_userId inp) (su_problemId inp))))
     (ret i))))))))))"

section \<open>Worker\<close>

definition process_job :: "judge_env \<Rightarrow> bull_job \<Rightarrow> unit judge_op" where
  "process_job e b =
     (if jv_now e - bj_timestamp b > job_ttl_ms
      then markStatus (sj_submissionId (bj_data b)) Vd_INTERNAL_ERROR
      else bind_op (judge e (bj_data b)) (\<lambda>_. ret ()))"

text \<open>The handler of the failed event; its status update swallows an error.\<close>

definition on_failed :: "judge_env \<Rightarrow> bull_job \<Rightarrow> judge_error \<Rightarrow> judge_world \<Rightarrow> judge_world" where
  "on_failed e b err w =
     (if bj_attemptsMade b \<ge> judge_attempts
      then (let i = sj_submissionId (bj_data b);
                w1 = w\<lparr>jw_dlq := jw_dlq w @ [(i, err, jv_finished e)]\<rparr>;
                w2 = snd (markStatus i Vd_INTERNAL_ERROR w1)
            in w2\<lparr>jw_events := jw_events w2 @ [EvFailed i err]\<rparr>)
      else w)"

definition drop_job :: "ident \<Rightarrow> bull_job list \<Rightarrow> bull_job list" where
  "drop_job i = filter (\<lambda>b. sj_submissionId (bj_data b) \<noteq> i)"

text \<open>
  One delivery of the queued job of a submission: a finished job leaves the queue, a failed one is
  kept for the next attempt until its attempts are used up.
\<close>

definition work :: "judge_env \<Rightarrow> ident \<Rightarrow> judge_world \<Rightarrow> judge_world" where
  "work e i w =
     (case List.find (\<lambda>b. sj_submissionId (bj_data b) = i) (jw_jobs w) of None \<Rightarrow> w
      | Some b \<Rightarrow>
          (case process_job e b w of
             (Inr _, w') \<Rightarrow> w'\<lparr>jw_jobs := drop_job i (jw_jobs w')\<rparr>
           | (Inl err, w') \<Rightarrow>
               (let b' = b\<lparr>bj_attemptsMade := bj_attemptsMade b + 1\<rparr>;
                    w1 = w'\<lparr>jw_jobs := drop_job i (jw_jobs w') @
                      (if bj_attemptsMade b' \<ge> judge_attempts then [] else [b'])\<rparr>
                in on_failed e b' err w1)))"

section \<open>Reads\<close>

definition history_page :: "ident \<Rightarrow> nat \<Rightarrow> nat \<Rightarrow> (ident \<times> sub_row) list \<Rightarrow> (ident \<times> sub_row) list" where
  "history_page u limit offset rows =
     take limit (drop offset (sort_key (\<lambda>r. - sr_createdAt (snd r)) (filter (\<lambda>r. sr_userId (snd r) = u) rows)))"

record result_view =
  rv_testCaseId :: ident
  rv_order :: int
  rv_hidden :: bool
  rv_status :: verdict
  rv_runtimeMs :: int
  rv_memoryKb :: int
  rv_stderr :: "string option"

text \<open>The result endpoint: the rows of the submission joined with the test cases that still exist.\<close>

definition view_result :: "(ident \<Rightarrow> judge_case option) \<Rightarrow> ident \<times> case_row \<Rightarrow> result_view" where
  "view_result cases r = (case r of (tc, cw) \<Rightarrow>
     \<lparr>rv_testCaseId = tc,
      rv_order = (case cases tc of None \<Rightarrow> 0 | Some c \<Rightarrow> jc_order c),
      rv_hidden = (case cases tc of None \<Rightarrow> True | Some c \<Rightarrow> jc_isHidden c),
      rv_status = cw_status cw, rv_runtimeMs = cw_runtimeMs cw, rv_memoryKb = cw_memoryKb cw,
      rv_stderr = (if (case cases tc of None \<Rightarrow> False | Some c \<Rightarrow> jc_isHidden c) then None else cw_stderr cw)\<rparr>)"

definition result_endpoint :: "(ident \<Rightarrow> judge_case option) \<Rightarrow> ident \<Rightarrow> (ident \<times> case_row) list \<Rightarrow>
    (verdict \<times> result_view list) judge_op" where
  "result_endpoint cases i rows =
     bind_op (getSubmission i) (\<lambda>s. ret (sr_status s, map (view_result cases) rows))"

end
