(* ===== verification/JudgeRun.thy ===== *)
theory JudgeRun
  imports JudgeService
begin

text \<open>
  What one judging run does: the runs line up with the ordered cases, their results are the ones
  saved, and outside results and progress events the run leaves the state alone.
\<close>

section \<open>Runs of a batch\<close>

definition ran_as :: "judge_env \<Rightarrow> sub_job \<Rightarrow> judge_problem \<Rightarrow> judge_case \<Rightarrow> case_result \<Rightarrow> bool" where
  "ran_as e job p tc r \<longleftrightarrow> (\<exists>n oc. jv_run e n (run_input_of job p tc) = Some oc \<and> r = result_of p tc oc)"

text \<open>The state a run may leave: other results, more calls, more progress events of the submission.\<close>

definition run_frame :: "ident \<Rightarrow> judge_world \<Rightarrow> judge_world \<Rightarrow> bool" where
  "run_frame i w w' \<longleftrightarrow> (\<exists>f n evs. w' = w\<lparr>jw_results := f, jw_calls := n, jw_events := jw_events w @ evs\<rparr>
     \<and> (\<forall>ev \<in> set evs. \<exists>c t. ev = EvRunning i c t))"

lemma run_frame_refl: "run_frame i w w"
  unfolding run_frame_def by (rule exI[of _ "jw_results w"], rule exI[of _ "jw_calls w"], rule exI[of _ "[]"]) simp

lemma run_frame_trans:
  assumes "run_frame i w w1" and "run_frame i w1 w2"
  shows "run_frame i w w2"
proof -
  from assms(1) obtain f n evs where 1: "w1 = w\<lparr>jw_results := f, jw_calls := n, jw_events := jw_events w @ evs\<rparr>"
      "\<forall>ev \<in> set evs. \<exists>c t. ev = EvRunning i c t" unfolding run_frame_def by blast
  from assms(2) obtain g m evs' where 2: "w2 = w1\<lparr>jw_results := g, jw_calls := m, jw_events := jw_events w1 @ evs'\<rparr>"
      "\<forall>ev \<in> set evs'. \<exists>c t. ev = EvRunning i c t" unfolding run_frame_def by blast
  have "w2 = w\<lparr>jw_results := g, jw_calls := m, jw_events := jw_events w @ evs @ evs'\<rparr>"
    by (simp add: 1(1) 2(1))
  moreover have "\<forall>ev \<in> set (evs @ evs'). \<exists>c t. ev = EvRunning i c t" using 1(2) 2(2) by auto
  ultimately show ?thesis unfolding run_frame_def by blast
qed

lemma runOne_frame: "run_frame (sj_submissionId job) w (snd (runOne e job p tc w))"
proof -
  have "\<exists>f. snd (runOne e job p tc w) = w\<lparr>jw_results := f, jw_calls := jw_calls w + 1\<rparr>"
  proof (cases "jv_run e (jw_calls w) (run_input_of job p tc)")
    case None
    then have "snd (runOne e job p tc w) = w\<lparr>jw_results := jw_results w, jw_calls := jw_calls w + 1\<rparr>"
      by (simp add: runOne_def engine_call_def op_simps)
    then show ?thesis by (rule exI[of _ "jw_results w"])
  next
    case (Some oc)
    then show ?thesis
      by (simp add: runOne_def engine_call_def op_simps Let_def)
        (rule exI[of _ "jw_results (saveResult (sj_submissionId job) (result_of p tc oc) w)"], simp add: saveResult_def)
  qed
  then obtain f where "snd (runOne e job p tc w) = w\<lparr>jw_results := f, jw_calls := jw_calls w + 1\<rparr>" ..
  then show ?thesis unfolding run_frame_def
    by (intro exI[of _ f] exI[of _ "jw_calls w + 1"] exI[of _ "[]"]) simp
qed

lemma runOne_result: "runOne e job p tc w = (Inr r, w') \<Longrightarrow>
    ran_as e job p tc r \<and> jw_results w' = jw_results (saveResult (sj_submissionId job) r w)"
  by (auto simp: runOne_def engine_call_def op_simps ran_as_def Let_def saveResult_def split: option.splits)

lemma runOne_error: "runOne e job p tc w = (Inl err, w') \<Longrightarrow> err = JExecutionUnavailable"
  by (auto simp: runOne_def engine_call_def op_simps Let_def split: option.splits)

lemma batch_frame: "run_frame (sj_submissionId job) w (snd (promise_all (map (runOne e job p) tcs) w))"
proof (induction tcs arbitrary: w)
  case (Cons tc tcs)
  obtain r w1 where r: "runOne e job p tc w = (r, w1)" by (cases "runOne e job p tc w")
  obtain rs w2 where rs: "promise_all (map (runOne e job p) tcs) w1 = (rs, w2)"
    by (cases "promise_all (map (runOne e job p) tcs) w1")
  from runOne_frame[of job w e p tc] r Cons[of w1] rs have "run_frame (sj_submissionId job) w w2"
    by (auto intro: run_frame_trans)
  with r rs show ?case by (auto split: sum.splits)
qed (simp add: run_frame_refl)

lemma save_results_cong: "jw_results w = jw_results w' \<Longrightarrow>
    jw_results (fold (saveResult i) rs w) = jw_results (fold (saveResult i) rs w')"
  by (induction rs arbitrary: w w') (auto simp: saveResult_def)

lemma batch_result: "promise_all (map (runOne e job p) tcs) w = (Inr rs, w') \<Longrightarrow>
    list_all2 (ran_as e job p) tcs rs \<and> jw_results w' = jw_results (fold (saveResult (sj_submissionId job)) rs w)"
proof (induction tcs arbitrary: w rs)
  case (Cons tc tcs)
  obtain x w1 where r: "runOne e job p tc w = (x, w1)" by (cases "runOne e job p tc w")
  from Cons.prems r obtain r rs' where x: "x = Inr r" "rs = r # rs'"
      "promise_all (map (runOne e job p) tcs) w1 = (Inr rs', w')"
    by (auto split: prod.splits sum.splits)
  from Cons.IH[OF x(3)] runOne_result[OF r[unfolded x]] x(2) show ?case
    by (simp add: save_results_cong[of w1 "saveResult (sj_submissionId job) r w"])
qed simp

lemma batch_error: "promise_all (map (runOne e job p) tcs) w = (Inl err, w') \<Longrightarrow> err = JExecutionUnavailable"
proof (induction tcs arbitrary: w)
  case (Cons tc tcs)
  obtain x w1 where r: "runOne e job p tc w = (x, w1)" by (cases "runOne e job p tc w")
  with Cons show ?case by (cases x) (auto split: prod.splits sum.splits dest: runOne_error)
qed simp

section \<open>All batches\<close>

lemma run_batches_step:
  "rest \<noteq> [] \<Longrightarrow> \<not> (fe \<and> sj_stopOnFirstFail job) \<Longrightarrow>
   run_batches e job p n rest results fe w =
     (case promise_all (map (runOne e job p) (take testcase_concurrency rest)) w of
        (Inl err, w1) \<Rightarrow> (Inl err, w1)
      | (Inr br, w1) \<Rightarrow> run_batches e job p n (drop testcase_concurrency rest) (results @ br)
          (fe \<or> list_ex (\<lambda>r. \<not> is_pass (cs_verdict r)) br)
          (publish (EvRunning (sj_submissionId job) (length (results @ br)) n) w1))"
  by (subst run_batches.simps) (auto simp: op_simps is_pass_def split: prod.splits sum.splits)

lemma run_batches_end: "run_batches e job p n [] results fe w = (Inr results, w)"
  by (subst run_batches.simps) (simp add: op_simps)

lemma run_batches_stop: "rest \<noteq> [] \<Longrightarrow> fe \<Longrightarrow> sj_stopOnFirstFail job \<Longrightarrow>
    run_batches e job p n rest results fe w = (Inr (results @ map skippedResult rest), w)"
  by (subst run_batches.simps) (simp add: op_simps)

lemma publish_running_frame: "run_frame i w (publish (EvRunning i c n) w)"
  unfolding run_frame_def publish_def Let_def
  by (rule exI[of _ "jw_results w"], rule exI[of _ "jw_calls w"], rule exI[of _ "[EvRunning i c n]"]) simp

lemma run_batches_frame: "run_frame (sj_submissionId job) w (snd (run_batches e job p n rest results fe w))"
proof (induction e job p n rest results fe arbitrary: w rule: run_batches.induct)
  case (1 e job p n rest results fe)
  consider "rest = []" | "rest \<noteq> []" "fe" "sj_stopOnFirstFail job" | "rest \<noteq> []" "\<not> (fe \<and> sj_stopOnFirstFail job)"
    by auto
  then show ?case
  proof cases
    case 3
    obtain x w1 where b: "promise_all (map (runOne e job p) (take testcase_concurrency rest)) w = (x, w1)"
      by (cases "promise_all (map (runOne e job p) (take testcase_concurrency rest)) w")
    with batch_frame[of job w e p "take testcase_concurrency rest"]
    have f: "run_frame (sj_submissionId job) w w1" by simp
    show ?thesis
    proof (cases x)
      case (Inr br)
      note f' = run_frame_trans[OF run_frame_trans[OF f publish_running_frame]]
      show ?thesis unfolding run_batches_step[OF 3] b Inr
        by (simp add: is_pass_def) (rule f'[OF 1[OF 3]])
    qed (simp add: run_batches_step[OF 3] b f)
  qed (simp_all add: run_batches_end run_batches_stop run_frame_refl)
qed

text \<open>The cases that done_rs are a prefix; the others are skipped, and only after a failing batch.\<close>

definition runs_line_up ::
  "judge_env \<Rightarrow> sub_job \<Rightarrow> judge_problem \<Rightarrow> bool \<Rightarrow> judge_case list \<Rightarrow> case_result list \<Rightarrow> bool" where
  "runs_line_up e job p fe rest done_rs \<longleftrightarrow> length done_rs \<le> length rest
     \<and> list_all2 (ran_as e job p) (take (length done_rs) rest) done_rs
     \<and> (length done_rs < length rest \<longrightarrow> sj_stopOnFirstFail job \<and> (fe \<or> list_ex (\<lambda>r. \<not> is_pass (cs_verdict r)) done_rs))"

lemma runs_line_up_Cons:
  assumes "list_all2 (ran_as e job p) (take k rest) br" and "runs_line_up e job p fe' (drop k rest) done_rs"
    and "fe' = (fe \<or> list_ex (\<lambda>r. \<not> is_pass (cs_verdict r)) br)"
  shows "runs_line_up e job p fe rest (br @ done_rs)"
proof -
  from assms(1) have l: "length br = min (length rest) k" by (auto dest: list_all2_lengthD)
  show ?thesis
  proof (cases "k \<le> length rest")
    case True
    with l have "length br = k" by simp
    with assms True show ?thesis
      by (auto simp: runs_line_up_def take_add list_all2_append)
  next
    case False
    with l assms show ?thesis by (auto simp: runs_line_up_def)
  qed
qed

lemma run_batches_result:
  assumes "run_batches e job p n rest results fe w = (Inr rs, w')"
  shows "\<exists>done_rs. rs = results @ done_rs @ map skippedResult (drop (length done_rs) rest)
      \<and> runs_line_up e job p fe rest done_rs
      \<and> jw_results w' = jw_results (fold (saveResult (sj_submissionId job)) done_rs w)"
  using assms
proof (induction e job p n rest results fe arbitrary: w rule: run_batches.induct)
  case (1 e job p n rest results fe)
  consider "rest = []" | "rest \<noteq> []" "fe" "sj_stopOnFirstFail job" | "rest \<noteq> []" "\<not> (fe \<and> sj_stopOnFirstFail job)"
    by auto
  then show ?case
  proof cases
    case 1
    with "1.prems" show ?thesis by (auto simp: run_batches_end runs_line_up_def)
  next
    case 2
    with "1.prems" show ?thesis by (intro exI[of _ "[]"]) (auto simp: run_batches_stop runs_line_up_def)
  next
    case 3
    obtain x w1 where b: "promise_all (map (runOne e job p) (take testcase_concurrency rest)) w = (x, w1)"
      by (cases "promise_all (map (runOne e job p) (take testcase_concurrency rest)) w")
    with "1.prems" obtain br where x: "x = Inr br" by (cases x) (auto simp: run_batches_step[OF 3])
    let ?fe = "fe \<or> list_ex (\<lambda>r. \<not> is_pass (cs_verdict r)) br"
    let ?w2 = "publish (EvRunning (sj_submissionId job) (length (results @ br)) n) w1"
    have "run_batches e job p n (drop testcase_concurrency rest) (results @ br) ?fe ?w2 = (Inr rs, w')"
      using "1.prems" by (simp add: run_batches_step[OF 3] b x)
    then have "run_batches e job p n (drop testcase_concurrency rest) (results @ br)
        (fe \<or> list_ex (\<lambda>r. cs_verdict r \<noteq> Vd_ACCEPTED \<and> cs_verdict r \<noteq> Vd_PRESENTATION_ERROR) br) ?w2 = (Inr rs, w')"
      by (simp add: is_pass_def)
    from "1.IH"[OF 3 this] obtain done_rs where done_rs:
        "rs = (results @ br) @ done_rs @ map skippedResult (drop (length done_rs) (drop testcase_concurrency rest))"
        "runs_line_up e job p ?fe (drop testcase_concurrency rest) done_rs"
        "jw_results w' = jw_results (fold (saveResult (sj_submissionId job)) done_rs ?w2)"
      by (auto simp: is_pass_def)
    from batch_result[OF b[unfolded x]] have br: "list_all2 (ran_as e job p) (take testcase_concurrency rest) br"
        "jw_results w1 = jw_results (fold (saveResult (sj_submissionId job)) br w)" by auto
    have d: "drop (length done_rs) (drop testcase_concurrency rest) = drop (length (br @ done_rs)) rest"
    proof (cases "testcase_concurrency \<le> length rest")
      case True
      with br(1) have "length br = testcase_concurrency" by (auto dest: list_all2_lengthD)
      then show ?thesis by (simp add: add.commute)
    next
      case False
      with br(1) have "length br = length rest" by (auto dest: list_all2_lengthD)
      with False show ?thesis by simp
    qed
    have w2: "jw_results ?w2 = jw_results (fold (saveResult (sj_submissionId job)) br w)"
      using br(2) by (simp add: publish_def Let_def)
    have "jw_results w' = jw_results (fold (saveResult (sj_submissionId job)) (br @ done_rs) w)"
      by (simp only: done_rs(3) fold_append comp_apply save_results_cong[OF w2])
    moreover have "rs = results @ (br @ done_rs) @ map skippedResult (drop (length (br @ done_rs)) rest)"
      using done_rs(1) by (simp only: d append_assoc)
    ultimately show ?thesis using runs_line_up_Cons[OF br(1) done_rs(2) refl] by blast
  qed
qed

lemma run_batches_error: "run_batches e job p n rest results fe w = (Inl err, w') \<Longrightarrow> err = JExecutionUnavailable"
proof (induction e job p n rest results fe arbitrary: w rule: run_batches.induct)
  case (1 e job p n rest results fe)
  consider "rest = []" | "rest \<noteq> []" "fe" "sj_stopOnFirstFail job" | "rest \<noteq> []" "\<not> (fe \<and> sj_stopOnFirstFail job)"
    by auto
  then show ?case
  proof cases
    case 3
    obtain x w1 where b: "promise_all (map (runOne e job p) (take testcase_concurrency rest)) w = (x, w1)"
      by (cases "promise_all (map (runOne e job p) (take testcase_concurrency rest)) w")
    show ?thesis
    proof (cases x)
      case Inl
      with b "1.prems" batch_error[of e job p _ w] show ?thesis by (auto simp: run_batches_step[OF 3])
    next
      case (Inr br)
      with "1.prems" "1.IH"[OF 3, of br] show ?thesis by (auto simp: run_batches_step[OF 3] b is_pass_def)
    qed
  qed (use "1.prems" in \<open>auto simp: run_batches_end run_batches_stop\<close>)
qed

text \<open>Results saved under different case ids do not overwrite each other.\<close>

lemma fold_save_other: "k \<notin> (\<lambda>r. (i, cs_testCaseId r)) ` set rs \<Longrightarrow>
    jw_results (fold (saveResult i) rs w) k = jw_results w k"
  by (induction rs arbitrary: w) (auto simp: saveResult_def)

lemma fold_save: "distinct (map cs_testCaseId rs) \<Longrightarrow> r \<in> set rs \<Longrightarrow>
    map_option cw_status (jw_results (fold (saveResult i) rs w) (i, cs_testCaseId r)) = Some (cs_verdict r)"
proof (induction rs arbitrary: w)
  case (Cons a rs)
  show ?case
  proof (cases "r = a")
    case True
    with Cons.prems have "(i, cs_testCaseId r) \<notin> (\<lambda>r. (i, cs_testCaseId r)) ` set rs" by auto
    from fold_save_other[OF this, of "saveResult i a w"] True
    have "jw_results (fold (saveResult i) rs (saveResult i a w)) (i, cs_testCaseId r)
        = jw_results (saveResult i a w) (i, cs_testCaseId a)" by simp
    with True show ?thesis by (simp add: saveResult_def[of i a w])
  qed (use Cons in auto)
qed simp

end
