(* ===== verification/JudgeInv.thy ===== *)
theory JudgeInv
  imports JudgeRun
begin

text \<open>
  The effect of each operation of the judge on the submission rows, the queue and the announced
  verdicts, and the invariant of the pipeline over every sequence of submissions, deliveries and
  problem edits.
\<close>

section \<open>Effect of a judging run\<close>

definition set_row :: "ident \<Rightarrow> (sub_row \<Rightarrow> sub_row) \<Rightarrow> judge_world \<Rightarrow> judge_world" where
  "set_row i f w = w\<lparr>jw_rows := (jw_rows w)(i := map_option f (jw_rows w i))\<rparr>"

definition verdicts :: "judge_world \<Rightarrow> verdict_payload list" where
  "verdicts w = List.map_filter (\<lambda>ev. case ev of EvVerdict p \<Rightarrow> Some p | _ \<Rightarrow> None) (jw_events w)"

lemma update_row_some: "jw_rows w i \<noteq> None \<Longrightarrow> update_submission i f w = (Inr (), set_row i f w)"
  by (auto simp: update_submission_def set_row_def)

lemma update_row_none: "jw_rows w i = None \<Longrightarrow> update_submission i f w = (Inl (JRecordMissing i), w)"
  by (simp add: update_submission_def)

lemma set_row_sel [simp]:
  "jw_rows (set_row i f w) = (jw_rows w)(i := map_option f (jw_rows w i))"
  "jw_results (set_row i f w) = jw_results w" "jw_problems (set_row i f w) = jw_problems w"
  "jw_jobs (set_row i f w) = jw_jobs w" "jw_events (set_row i f w) = jw_events w"
  "jw_forwarded (set_row i f w) = jw_forwarded w"
  by (simp_all add: set_row_def)

lemma record_sel [simp]:
  "jw_rows (record_stage n i s d w) = jw_rows w" "jw_results (record_stage n i s d w) = jw_results w"
  "jw_problems (record_stage n i s d w) = jw_problems w" "jw_jobs (record_stage n i s d w) = jw_jobs w"
  "jw_events (record_stage n i s d w) = jw_events w" "jw_forwarded (record_stage n i s d w) = jw_forwarded w"
  by (simp_all add: record_stage_def)

lemma publish_sel [simp]:
  "jw_rows (publish ev w) = jw_rows w" "jw_results (publish ev w) = jw_results w"
  "jw_problems (publish ev w) = jw_problems w" "jw_jobs (publish ev w) = jw_jobs w"
  "jw_events (publish ev w) = jw_events w @ [ev]"
  "jw_forwarded (publish ev w) = jw_forwarded w @
     (case ev of EvVerdict p \<Rightarrow> if truthy_str (vp_battleId p) then [p] else [] | _ \<Rightarrow> [])"
  by (auto simp: publish_def Let_def split: judge_event.splits)

lemma run_frame_sel:
  assumes "run_frame i w w'"
  shows "jw_rows w' = jw_rows w \<and> jw_jobs w' = jw_jobs w \<and> jw_problems w' = jw_problems w
     \<and> jw_forwarded w' = jw_forwarded w \<and> verdicts w' = verdicts w"
proof -
  from assms obtain f n evs where w': "w' = w\<lparr>jw_results := f, jw_calls := n, jw_events := jw_events w @ evs\<rparr>"
      and evs: "\<forall>ev \<in> set evs. \<exists>c t. ev = EvRunning i c t" unfolding run_frame_def by blast
  from evs have "List.map_filter (\<lambda>ev. case ev of EvVerdict p \<Rightarrow> Some p | _ \<Rightarrow> None) evs = []"
    by (induction evs) (auto simp: List.map_filter_def)
  with w' show ?thesis by (simp add: verdicts_def List.map_filter_def)
qed

lemma getJudgeProblem_cong: "jw_problems w = jw_problems w' \<Longrightarrow> getJudgeProblem i w = getJudgeProblem i w'"
  by (simp add: getJudgeProblem_def)

lemma verdicts_events: "verdicts (w\<lparr>jw_events := es\<rparr>) = List.map_filter (\<lambda>ev. case ev of EvVerdict p \<Rightarrow> Some p | _ \<Rightarrow> None) es"
  by (simp add: verdicts_def)

definition started :: "judge_env \<Rightarrow> ident \<Rightarrow> judge_world \<Rightarrow> judge_world" where
  "started e i w = publish (EvStarted i) (record_stage (jv_now e) i ''started'' None
     (set_row i (\<lambda>r. r\<lparr>sr_status := Vd_RUNNING\<rparr>) w))"

definition failed_row :: "ident \<Rightarrow> judge_world \<Rightarrow> judge_world" where
  "failed_row i = set_row i (\<lambda>r. r\<lparr>sr_status := Vd_INTERNAL_ERROR\<rparr>)"

definition completed :: "judge_env \<Rightarrow> sub_job \<Rightarrow> judge_result \<Rightarrow> judge_world \<Rightarrow> judge_world" where
  "completed e job r w = publish (EvVerdict (verdict_of job r))
     (publish (EvCompleted (sj_submissionId job) (jr_verdict r) (jr_passed r) (jr_total r))
     (record_stage (jv_finished e) (sj_submissionId job) ''completed'' (Some (jr_verdict r, jr_totalScore r))
     (set_row (jr_submissionId r) (\<lambda>x. x\<lparr>sr_status := jr_verdict r, sr_runtimeMs := Some (jr_runtimeMs r),
        sr_memoryKb := Some (jr_peakMemoryKb r)\<rparr>) w)))"

definition result_for :: "judge_env \<Rightarrow> sub_job \<Rightarrow> case_result list \<Rightarrow> judge_result" where
  "result_for e job rs = aggregate (sj_submissionId job) rs (sj_partialScoring job) 0 (jv_finished e - jv_now e)"

lemma judge_unfold:
  assumes row: "jw_rows w (sj_submissionId job) \<noteq> None"
  shows "judge e job w = (case getJudgeProblem (sj_problemId job) w of
      None \<Rightarrow> (Inl (JNotJudgeable (sj_problemId job)), failed_row (sj_submissionId job) (started e (sj_submissionId job) w))
    | Some p \<Rightarrow> if jp_testCases p = []
        then (Inl (JNotJudgeable (sj_problemId job)), failed_row (sj_submissionId job) (started e (sj_submissionId job) w))
        else (case runAllCases e job p (started e (sj_submissionId job) w) of
            (Inl err, w2) \<Rightarrow> (Inl err, publish (EvFailed (sj_submissionId job) err) (failed_row (sj_submissionId job) w2))
          | (Inr rs, w2) \<Rightarrow> (Inr (result_for e job rs), completed e job (result_for e job rs) w2)))"
proof -
  let ?i = "sj_submissionId job" and ?s = "started e (sj_submissionId job) w"
  from row have s: "jw_rows ?s ?i \<noteq> None" by (simp add: started_def)
  have g: "getJudgeProblem (sj_problemId job) ?s = getJudgeProblem (sj_problemId job) w"
    by (rule getJudgeProblem_cong) (simp add: started_def)
  have pre: "then_op (markStatus ?i Vd_RUNNING) (then_op (writes (record_stage (jv_now e) ?i ''started'' None))
      (then_op (writes (publish (EvStarted ?i))) m)) w = m ?s" for m :: "judge_result judge_op"
    by (simp add: op_simps markStatus_def update_row_some[OF row] started_def)
  have fail: "markStatus ?i Vd_INTERNAL_ERROR x = (Inr (), failed_row ?i x)" if "jw_rows x ?i \<noteq> None" for x
    using that by (simp add: markStatus_def update_row_some failed_row_def)
  have run: "jw_rows (snd (runAllCases e job p ?s)) ?i \<noteq> None" for p
    using run_frame_sel[OF run_batches_frame[of job ?s e p "length (ordered_cases p)" "ordered_cases p" "[]" False]] s
    by (simp add: runAllCases_def)
  show ?thesis
  proof (cases "getJudgeProblem (sj_problemId job) w")
    case None
    then show ?thesis unfolding judge_def Let_def pre using fail[OF s] g by (simp add: op_simps)
  next
    case (Some p)
    obtain x w2 where x: "runAllCases e job p ?s = (x, w2)" by (cases "runAllCases e job p ?s")
    with run[of p] have r2: "jw_rows w2 ?i \<noteq> None" by simp
    show ?thesis
    proof (cases "jp_testCases p = []")
      case True
      then show ?thesis unfolding judge_def Let_def pre using fail[OF s] g Some by (simp add: op_simps)
    next
      case False
      show ?thesis
      proof (cases x)
        case (Inl err)
        with False Some x g fail[OF r2] show ?thesis unfolding judge_def Let_def pre
          by (simp add: op_simps on_error_def)
      next
        case (Inr rs)
        have "finalize_row (result_for e job rs) w2 = (Inr (), set_row ?i (\<lambda>r. r\<lparr>sr_status := jr_verdict (result_for e job rs),
            sr_runtimeMs := Some (jr_runtimeMs (result_for e job rs)),
            sr_memoryKb := Some (jr_peakMemoryKb (result_for e job rs))\<rparr>) w2)"
          using r2 by (simp add: finalize_row_def update_row_some result_for_def aggregate_simps)
        with Inr False Some x g show ?thesis unfolding judge_def Let_def pre
          by (simp add: op_simps on_error_def completed_def result_for_def aggregate_simps)
      qed
    qed
  qed
qed

section \<open>Verdicts of a run\<close>

definition settled :: "verdict \<Rightarrow> bool" where
  "settled v \<longleftrightarrow> v \<noteq> Vd_PENDING \<and> v \<noteq> Vd_QUEUED \<and> v \<noteq> Vd_RUNNING"

lemma map_verdict_judged: "settled (map_verdict oc tc c) \<and> map_verdict oc tc c \<noteq> Vd_SKIPPED"
  by (auto simp: map_verdict_def settled_def Let_def)

lemma ran_case: "ran_as e job p tc r \<Longrightarrow> cs_testCaseId r = jc_id tc \<and> \<not> cs_skipped r \<and> cs_maxScore r = jc_weight tc
    \<and> settled (cs_verdict r) \<and> cs_verdict r \<noteq> Vd_SKIPPED
    \<and> cs_score r = (if is_pass (cs_verdict r) then jc_weight tc else 0)"
  using map_verdict_judged by (auto simp: ran_as_def result_of_def Let_def scoreCase_def)

lemma ran_cases: "list_all2 (ran_as e job p) tcs rs \<Longrightarrow>
    map cs_testCaseId rs = map jc_id tcs \<and> list_all (\<lambda>r. \<not> cs_skipped r \<and> settled (cs_verdict r)) rs"
  by (induction rule: list_all2_induct) (auto dest: ran_case)

lemma skipped_case [simp]: "cs_testCaseId (skippedResult tc) = jc_id tc" "cs_skipped (skippedResult tc)"
    "cs_verdict (skippedResult tc) = Vd_SKIPPED" "cs_maxScore (skippedResult tc) = jc_weight tc" "cs_score (skippedResult tc) = 0"
  by (simp_all add: skippedResult_def)

lemma overall_settled: "list_all (\<lambda>r. cs_skipped r \<or> settled (cs_verdict r)) rs \<Longrightarrow> settled (overall_verdict rs)"
  by (auto simp: overall_verdict_def settled_def list_all_iff dest: find_Some_set split: option.splits)

text \<open>Skipping never hides a pass: cases are skipped only behind a failing one.\<close>

lemma overall_accepted:
  assumes "runs_line_up e job p False rest done_rs"
  shows "is_pass (overall_verdict (done_rs @ map skippedResult (drop (length done_rs) rest))) \<longleftrightarrow>
      length done_rs = length rest \<and> list_all (\<lambda>r. is_pass (cs_verdict r)) done_rs"
proof (cases "list_all (\<lambda>r. is_pass (cs_verdict r)) done_rs")
  case True
  with assms have "length done_rs = length rest"
    by (auto simp: runs_line_up_def list_ex_iff list_all_iff)
  with True show ?thesis by (auto simp: overall_verdict_def is_pass_def find_None_iff list_all_iff
      dest: find_Some_set split: option.splits)
next
  case False
  have n: "list_all (\<lambda>r. \<not> cs_skipped r) done_rs"
    using assms ran_cases[of e job p "take (length done_rs) rest" done_rs] by (auto simp: runs_line_up_def list_all_iff)
  from False n obtain r where "r \<in> set done_rs" "\<not> is_pass (cs_verdict r)" "\<not> cs_skipped r" by (auto simp: list_all_iff)
  then obtain x where "List.find (\<lambda>r. \<not> is_pass (cs_verdict r) \<and> \<not> cs_skipped r)
      (done_rs @ map skippedResult (drop (length done_rs) rest)) = Some x"
    by (metis (mono_tags, lifting) Un_iff find_None_iff not_Some_eq set_append)
  with find_Some_set[OF this] False show ?thesis by (simp add: overall_verdict_def)
qed

lemma runAllCases_result:
  assumes "runAllCases e job p w = (Inr rs, w')"
  shows "\<exists>done_rs. rs = done_rs @ map skippedResult (drop (length done_rs) (ordered_cases p))
      \<and> runs_line_up e job p False (ordered_cases p) done_rs
      \<and> jw_results w' = jw_results (fold (saveResult (sj_submissionId job)) done_rs w)"
  using run_batches_result[of e job p "length (ordered_cases p)" "ordered_cases p" "[]" False w rs w'] assms
  by (simp add: runAllCases_def)

lemma runAllCases_frame: "runAllCases e job p w = (x, w') \<Longrightarrow> run_frame (sj_submissionId job) w w'"
  using run_batches_frame[of job w e p "length (ordered_cases p)" "ordered_cases p" "[]" False]
  by (simp add: runAllCases_def)

lemma run_settled: "runAllCases e job p w = (Inr rs, w') \<Longrightarrow> settled (overall_verdict rs)"
proof -
  assume "runAllCases e job p w = (Inr rs, w')"
  from runAllCases_result[OF this] obtain done_rs where
      "rs = done_rs @ map skippedResult (drop (length done_rs) (ordered_cases p))"
      "list_all2 (ran_as e job p) (take (length done_rs) (ordered_cases p)) done_rs" by (auto simp: runs_line_up_def)
  with ran_cases[OF this(2)] show ?thesis by (intro overall_settled) (auto simp: list_all_iff)
qed

section \<open>Effect on rows, queue and verdicts\<close>

text \<open>What the pipeline's invariant reads of a state.\<close>

definition status_of :: "judge_world \<Rightarrow> ident \<Rightarrow> verdict option" where
  "status_of w i = map_option sr_status (jw_rows w i)"

lemma verdicts_publish: "verdicts (publish ev w) = verdicts w @ (case ev of EvVerdict p \<Rightarrow> [p] | _ \<Rightarrow> [])"
  by (simp add: verdicts_def List.map_filter_def split: judge_event.splits)

lemma verdicts_keep [simp]: "verdicts (set_row i f w) = verdicts w" "verdicts (record_stage n i s d w) = verdicts w"
  by (simp_all add: verdicts_def)

lemma status_keep [simp]:
  "status_of (set_row i f w) j = (if j = i then map_option (sr_status \<circ> f) (jw_rows w i) else status_of w j)"
  "status_of (record_stage n i s d w) j = status_of w j" "status_of (publish ev w) j = status_of w j"
  by (simp_all add: status_of_def option.map_comp)

lemma judge_result_effect:
  assumes "judge e job w = (Inr r, w')" and "jw_rows w (sj_submissionId job) \<noteq> None"
  shows "jw_jobs w' = jw_jobs w \<and> verdicts w' = verdicts w @ [verdict_of job r]
    \<and> jw_forwarded w' = jw_forwarded w @ (if truthy_str (sj_battleId job) then [verdict_of job r] else [])
    \<and> (\<forall>j. status_of w' j = (if j = sj_submissionId job then Some (jr_verdict r) else status_of w j))
    \<and> settled (jr_verdict r)"
proof -
  let ?i = "sj_submissionId job" and ?s = "started e (sj_submissionId job) w"
  from assms obtain p rs w2 where x: "runAllCases e job p ?s = (Inr rs, w2)" "r = result_for e job rs"
      "w' = completed e job r w2"
    by (auto simp: judge_unfold split: option.splits if_splits prod.splits sum.splits)
  from run_frame_sel[OF runAllCases_frame[OF x(1)]] have f: "jw_rows w2 = jw_rows ?s" "jw_jobs w2 = jw_jobs w"
      "jw_forwarded w2 = jw_forwarded w" "verdicts w2 = verdicts w"
    by (simp_all add: started_def verdicts_publish)
  have st: "status_of w2 j = (if j = ?i then Some Vd_RUNNING else status_of w j)" for j
    using f(1) assms(2) by (auto simp: status_of_def started_def)
  have "settled (jr_verdict r)" using run_settled[OF x(1)] x(2) by (simp add: result_for_def aggregate_simps)
  moreover have "jr_submissionId r = ?i" by (simp add: x(2) result_for_def aggregate_simps)
  moreover have "jw_rows w2 ?i \<noteq> None" using f(1) assms(2) by (simp add: started_def)
  ultimately show ?thesis using f st by (auto simp: x(3) completed_def verdicts_publish verdict_of_def comp_def)
qed

lemma judge_error_effect:
  assumes "judge e job w = (Inl err, w')" and "jw_rows w (sj_submissionId job) \<noteq> None"
  shows "jw_jobs w' = jw_jobs w \<and> verdicts w' = verdicts w \<and> jw_forwarded w' = jw_forwarded w
    \<and> (\<forall>j. status_of w' j = (if j = sj_submissionId job then Some Vd_INTERNAL_ERROR else status_of w j))"
proof -
  let ?i = "sj_submissionId job" and ?s = "started e (sj_submissionId job) w"
  have s: "jw_jobs ?s = jw_jobs w \<and> verdicts ?s = verdicts w \<and> jw_forwarded ?s = jw_forwarded w \<and> jw_rows ?s ?i \<noteq> None
      \<and> (\<forall>j. j \<noteq> ?i \<longrightarrow> status_of ?s j = status_of w j)"
    using assms(2) by (simp add: started_def verdicts_publish)
  from assms consider "w' = failed_row ?i ?s"
    | p w2 where "runAllCases e job p ?s = (Inl err, w2)" "w' = publish (EvFailed ?i err) (failed_row ?i w2)"
    by (auto simp: judge_unfold split: option.splits if_splits prod.splits sum.splits)
  then show ?thesis
  proof cases
    case 1
    with s show ?thesis by (auto simp: failed_row_def comp_def)
  next
    case (2 p w2)
    from run_frame_sel[OF runAllCases_frame[OF 2(1)]] s
    have f: "jw_rows w2 = jw_rows ?s" "jw_jobs w2 = jw_jobs w" "jw_forwarded w2 = jw_forwarded w" "verdicts w2 = verdicts w"
      by simp_all
    then have "status_of w2 j = status_of ?s j" for j by (simp add: status_of_def)
    with f s show ?thesis by (auto simp: 2(2) failed_row_def verdicts_publish comp_def)
  qed
qed

end
