(* ===== verification/JudgeProps.thy ===== *)
theory JudgeProps
  imports JudgeInv
begin

text \<open>
  The judge as a system: submissions, deliveries of queued jobs and edits of problems in any order.
  Its invariant, and the properties of the pipeline.
\<close>

section \<open>The system\<close>

datatype judge_cmd = JSubmit judge_env ident submit_input | JWork judge_env ident
  | JSetProblem ident "judged_problem option"

fun exec_judge :: "judge_cmd \<Rightarrow> judge_world \<Rightarrow> judge_world" where
  "exec_judge (JSubmit e i inp) w = snd (submit e i inp w)"
| "exec_judge (JWork e i) w = work e i w"
| "exec_judge (JSetProblem i p) w = w\<lparr>jw_problems := (jw_problems w)(i := p)\<rparr>"

definition no_submissions :: judge_world where
  "no_submissions = \<lparr>jw_rows = Map.empty, jw_results = Map.empty, jw_problems = Map.empty, jw_rate = Map.empty,
     jw_dedupe = Map.empty, jw_timeline = Map.empty, jw_jobs = [], jw_dlq = [], jw_events = [],
     jw_forwarded = [], jw_calls = 0\<rparr>"

inductive judge_reachable :: "judge_world \<Rightarrow> bool" where
  judge_start: "judge_reachable no_submissions"
| judge_step: "judge_reachable w \<Longrightarrow> judge_reachable (exec_judge c w)"

inductive_cases judge_reachableE: "judge_reachable w"

section \<open>The invariant\<close>

definition job_id :: "bull_job \<Rightarrow> ident" where
  "job_id b = sj_submissionId (bj_data b)"

definition job_ok :: "judge_world \<Rightarrow> bull_job \<Rightarrow> bool" where
  "job_ok w b \<longleftrightarrow> bj_attemptsMade b < judge_attempts \<and> status_of w (job_id b) \<in> {Some Vd_QUEUED, Some Vd_INTERNAL_ERROR}
     \<and> job_id b \<notin> vp_submissionId ` set (verdicts w)"

definition judge_inv :: "judge_world \<Rightarrow> bool" where
  "judge_inv w \<longleftrightarrow> list_all (job_ok w) (jw_jobs w) \<and> distinct (map job_id (jw_jobs w))
     \<and> (\<forall>i v. status_of w i = Some v \<longrightarrow> settled v \<or> i \<in> job_id ` set (jw_jobs w))
     \<and> distinct (map vp_submissionId (verdicts w))
     \<and> (\<forall>p \<in> set (verdicts w). status_of w (vp_submissionId p) = Some (vp_verdict p) \<and> settled (vp_verdict p))
     \<and> jw_forwarded w = filter (\<lambda>p. truthy_str (vp_battleId p)) (verdicts w)"

lemma judge_inv_cong:
  assumes "jw_jobs w' = jw_jobs w" "verdicts w' = verdicts w" "jw_forwarded w' = jw_forwarded w"
    "\<And>i. status_of w' i = status_of w i"
  shows "judge_inv w' = judge_inv w"
proof -
  have "job_ok w' = job_ok w" by (simp add: fun_eq_iff job_ok_def assms)
  then show ?thesis by (simp add: judge_inv_def assms)
qed

lemma judge_inv_start: "judge_inv no_submissions"
  by (simp add: judge_inv_def no_submissions_def status_of_def verdicts_def List.map_filter_def)

text \<open>Submission: every failure leaves the state as the invariant sees it; success adds a queued job.\<close>

lemma submit_effect:
  "(case submit e i inp w of
      (Inl err, w') \<Rightarrow> jw_jobs w' = jw_jobs w \<and> verdicts w' = verdicts w \<and> jw_forwarded w' = jw_forwarded w
         \<and> jw_rows w' = jw_rows w
    | (Inr j, w') \<Rightarrow> j = i \<and> jw_rows w i = None \<and> verdicts w' = verdicts w \<and> jw_forwarded w' = jw_forwarded w
         \<and> (\<forall>k. status_of w' k = (if k = i then Some Vd_QUEUED else status_of w k))
         \<and> (list_ex (\<lambda>b. job_id b = i) (jw_jobs w) \<or>
            (\<exists>b. jw_jobs w' = jw_jobs w @ [b] \<and> job_id b = i \<and> bj_attemptsMade b = 0)))"
proof -
  have hit: "\<exists>ok m. hit_submit (jv_now e) (su_userId inp) w = (Inr ok, w\<lparr>jw_rate := m\<rparr>)"
    by (simp add: hit_submit_def rate_hit_def Let_def) blast
  then obtain ok m where h: "hit_submit (jv_now e) (su_userId inp) w = (Inr ok, w\<lparr>jw_rate := m\<rparr>)" by blast
  show ?thesis
    by (auto simp: submit_def op_simps h checkAndSet_def create_row_def markStatus_def update_submission_def
        enqueue_job_def publish_def Let_def job_of_def verdicts_def status_of_def job_id_def List.map_filter_def list_ex_iff
        split: option.splits)
qed

lemma submit_inv:
  assumes "judge_inv w"
  shows "judge_inv (snd (submit e i inp w))"
proof (cases "submit e i inp w")
  case (Pair x w')
  show ?thesis
  proof (cases x)
    case (Inl err)
    with submit_effect[where e = e and i = i and inp = inp and w = w] Pair have "jw_jobs w' = jw_jobs w" "verdicts w' = verdicts w"
        "jw_forwarded w' = jw_forwarded w" "jw_rows w' = jw_rows w" by simp_all
    with assms Pair show ?thesis by (simp add: judge_inv_cong[of w' w] status_of_def)
  next
    case (Inr j)
    with submit_effect[where e = e and i = i and inp = inp and w = w] Pair have s: "jw_rows w i = None" "verdicts w' = verdicts w"
        "jw_forwarded w' = jw_forwarded w" "\<And>k. status_of w' k = (if k = i then Some Vd_QUEUED else status_of w k)"
        "list_ex (\<lambda>b. job_id b = i) (jw_jobs w) \<or>
            (\<exists>b. jw_jobs w' = jw_jobs w @ [b] \<and> job_id b = i \<and> bj_attemptsMade b = 0)" by simp_all
    from s(1) have none: "status_of w i = None" by (simp add: status_of_def)
    with assms have new: "i \<notin> job_id ` set (jw_jobs w)" "i \<notin> vp_submissionId ` set (verdicts w)"
      by (force simp: judge_inv_def job_ok_def list_all_iff)+
    with s(5) obtain b where b: "jw_jobs w' = jw_jobs w @ [b]" "job_id b = i" "bj_attemptsMade b = 0"
      by (auto simp: list_ex_iff)
    have old: "job_ok w' b'" if "b' \<in> set (jw_jobs w)" for b'
      using assms that new(1) by (auto simp: judge_inv_def list_all_iff job_ok_def s(2,4))
    show ?thesis using assms new old unfolding judge_inv_def
      by (auto simp: Pair b s(2,3,4) list_all_iff job_ok_def judge_attempts_def)
  qed
qed

text \<open>Delivery of a job: one lemma per outcome of the run.\<close>

lemma find_job: "List.find (\<lambda>b. sj_submissionId (bj_data b) = i) bs = Some b \<Longrightarrow> b \<in> set bs \<and> job_id b = i"
  by (auto simp: job_id_def dest: find_Some_set)

lemma drop_job_set [simp]: "set (drop_job i bs) = {b \<in> set bs. job_id b \<noteq> i}"
  by (auto simp: drop_job_def job_id_def)

lemma drop_job_distinct: "distinct (map job_id bs) \<Longrightarrow> distinct (map job_id (drop_job i bs))"
  by (simp add: drop_job_def distinct_map_filter)

text \<open>A finished delivery: the status is settled, at most one verdict is announced, and it agrees.\<close>

definition delivered :: "judge_world \<Rightarrow> ident \<Rightarrow> verdict \<Rightarrow> verdict_payload list \<Rightarrow> judge_world \<Rightarrow> bool" where
  "delivered w i v ps w' \<longleftrightarrow> jw_jobs w' = jw_jobs w \<and> verdicts w' = verdicts w @ ps
     \<and> jw_forwarded w' = jw_forwarded w @ filter (\<lambda>p. truthy_str (vp_battleId p)) ps
     \<and> (\<forall>j. status_of w' j = (if j = i then Some v else status_of w j)) \<and> settled v
     \<and> (ps = [] \<or> (\<exists>p. ps = [p] \<and> vp_submissionId p = i \<and> vp_verdict p = v))"

lemma process_job_effect:
  assumes "process_job e b w = (x, w')" and "jw_rows w (job_id b) \<noteq> None"
  shows "case x of Inl err \<Rightarrow> delivered w (job_id b) Vd_INTERNAL_ERROR [] w'
     | Inr _ \<Rightarrow> (\<exists>v ps. delivered w (job_id b) v ps w')"
proof (cases "jv_now e - bj_timestamp b > job_ttl_ms")
  case True
  with assms have "x = Inr ()" "w' = failed_row (job_id b) w"
    by (simp_all add: process_job_def markStatus_def job_id_def update_row_some failed_row_def)
  then have "delivered w (job_id b) Vd_INTERNAL_ERROR [] w'" using assms(2)
    by (auto simp: delivered_def failed_row_def settled_def comp_def)
  with \<open>x = Inr ()\<close> show ?thesis by auto
next
  case False
  obtain y where y: "judge e (bj_data b) w = (y, w')" "case y of Inl err \<Rightarrow> x = Inl err | Inr _ \<Rightarrow> x = Inr ()"
    using assms(1) False by (auto simp: process_job_def op_simps split: prod.splits sum.splits)
  show ?thesis
  proof (cases y)
    case (Inl err)
    with y judge_error_effect[of e "bj_data b" w err w'] assms(2) show ?thesis
      by (simp add: delivered_def job_id_def settled_def)
  next
    case (Inr r)
    with y judge_result_effect[of e "bj_data b" w r w'] assms(2)
    have "delivered w (job_id b) (jr_verdict r) [verdict_of (bj_data b) r] w'"
      by (simp add: delivered_def job_id_def verdict_of_def)
    with Inr y(2) show ?thesis by auto
  qed
qed

text \<open>What a delivery makes of the queue.\<close>

lemma work_effect:
  assumes "judge_inv w"
  shows "work e i w = w \<and> i \<notin> job_id ` set (jw_jobs w) \<or> (\<exists>b v ps bs. b \<in> set (jw_jobs w) \<and> job_id b = i
      \<and> delivered (w\<lparr>jw_jobs := jw_jobs (work e i w)\<rparr>) i v ps (work e i w)
      \<and> jw_jobs (work e i w) = drop_job i (jw_jobs w) @ bs
      \<and> (bs = [] \<or> v = Vd_INTERNAL_ERROR \<and> ps = [] \<and>
           bs = [b\<lparr>bj_attemptsMade := bj_attemptsMade b + 1\<rparr>] \<and> bj_attemptsMade b + 1 < judge_attempts))"
proof (cases "List.find (\<lambda>b. sj_submissionId (bj_data b) = i) (jw_jobs w)")
  case None
  then have "work e i w = w" by (simp add: work_def)
  moreover have "i \<notin> job_id ` set (jw_jobs w)" using None by (auto simp: find_None_iff job_id_def)
  ultimately show ?thesis by simp
next
  case (Some b)
  from find_job[OF Some] have b: "b \<in> set (jw_jobs w)" "job_id b = i" by auto
  with assms have row: "jw_rows w (job_id b) \<noteq> None" by (force simp: judge_inv_def list_all_iff job_ok_def status_of_def)
  obtain x w' where p: "process_job e b w = (x, w')" by (cases "process_job e b w")
  note eff = process_job_effect[OF p row]
  show ?thesis
  proof (cases x)
    case (Inr u)
    with eff b obtain v ps where d: "delivered w i v ps w'" by auto
    let ?w = "w'\<lparr>jw_jobs := drop_job i (jw_jobs w')\<rparr>"
    have wk: "work e i w = ?w" using Some p Inr by (simp add: work_def)
    have "delivered (w\<lparr>jw_jobs := jw_jobs ?w\<rparr>) i v ps ?w" "jw_jobs ?w = drop_job i (jw_jobs w)"
      using d by (simp_all add: delivered_def verdicts_def status_of_def)
    with wk b show ?thesis by auto
  next
    case (Inl err)
    with eff b have d: "delivered w i Vd_INTERNAL_ERROR [] w'" by simp
    let ?b = "b\<lparr>bj_attemptsMade := bj_attemptsMade b + 1\<rparr>"
    let ?bs = "if bj_attemptsMade ?b \<ge> judge_attempts then [] else [?b]"
    let ?w1 = "w'\<lparr>jw_jobs := drop_job i (jw_jobs w') @ ?bs\<rparr>"
    have wk: "work e i w = on_failed e ?b err ?w1" using Some p Inl by (simp add: work_def Let_def)
    have jobs: "jw_jobs w' = jw_jobs w" using d by (simp add: delivered_def)
    have "status_of w' i = Some Vd_INTERNAL_ERROR" using d by (simp add: delivered_def)
    then have row': "jw_rows w' i \<noteq> None" by (auto simp: status_of_def)
    have "delivered (w\<lparr>jw_jobs := jw_jobs ?w1\<rparr>) i Vd_INTERNAL_ERROR [] (on_failed e ?b err ?w1)
        \<and> jw_jobs (on_failed e ?b err ?w1) = jw_jobs ?w1"
      using d row' b(2) by (auto simp: on_failed_def delivered_def verdicts_def status_of_def Let_def markStatus_def
          update_submission_def job_id_def List.map_filter_def)
    with wk b jobs show ?thesis
      by (intro disjI2 exI[of _ b] exI[of _ Vd_INTERNAL_ERROR] exI[of _ "[]"] exI[of _ ?bs]) (auto split: if_splits)
  qed
qed

lemma delivered_inv:
  assumes "judge_inv w" and "b \<in> set (jw_jobs w)" and "job_id b = i"
    and d: "delivered (w\<lparr>jw_jobs := jw_jobs w'\<rparr>) i v ps w'" and jobs: "jw_jobs w' = drop_job i (jw_jobs w) @ bs"
    and bs: "bs = [] \<or> v = Vd_INTERNAL_ERROR \<and> ps = [] \<and>
           bs = [b\<lparr>bj_attemptsMade := bj_attemptsMade b + 1\<rparr>] \<and> bj_attemptsMade b + 1 < judge_attempts"
  shows "judge_inv w'"
proof -
  have eff: "verdicts w' = verdicts w @ ps" "jw_forwarded w' = jw_forwarded w @ filter (\<lambda>p. truthy_str (vp_battleId p)) ps"
      "settled v" "ps = [] \<or> (\<exists>p. ps = [p] \<and> vp_submissionId p = i \<and> vp_verdict p = v)"
    using d by (simp_all add: delivered_def verdicts_def)
  have st: "status_of w' j = (if j = i then Some v else status_of w j)" for j
    using d by (simp add: delivered_def status_of_def)
  have new: "i \<notin> vp_submissionId ` set (verdicts w)"
    using assms(1-3) by (auto simp: judge_inv_def list_all_iff job_ok_def)
  have old: "job_ok w' c" if "c \<in> set (drop_job i (jw_jobs w))" for c
    using that assms(1) eff(4) by (auto simp: judge_inv_def list_all_iff job_ok_def st eff(1))
  have again: "job_ok w' c \<and> job_id c = i" if "c \<in> set bs" for c
    using that bs new assms(3) by (auto simp: job_ok_def st eff(1) job_id_def)
  have "list_all (job_ok w') (jw_jobs w')" using old again by (auto simp: jobs list_all_iff)
  moreover have "distinct (map job_id (jw_jobs w'))"
    using assms(1) bs assms(3) drop_job_distinct[of "jw_jobs w" i]
    by (auto simp: jobs judge_inv_def job_id_def)
  moreover have "settled u \<or> j \<in> job_id ` set (jw_jobs w')" if "status_of w' j = Some u" for j u
    using that eff(3) assms(1) by (cases "j = i") (auto simp: st jobs judge_inv_def)
  moreover have "distinct (map vp_submissionId (verdicts w'))"
  proof -
    have "\<forall>p \<in> set (verdicts w). vp_submissionId p \<noteq> i" using new by blast
    with eff(1,4) assms(1) show ?thesis by (auto simp: judge_inv_def)
  qed
  moreover have "\<forall>p \<in> set (verdicts w'). status_of w' (vp_submissionId p) = Some (vp_verdict p) \<and> settled (vp_verdict p)"
  proof -
    have "\<forall>p \<in> set (verdicts w). vp_submissionId p \<noteq> i" using new by blast
    with eff assms(1) show ?thesis by (auto simp: judge_inv_def st)
  qed
  moreover have "jw_forwarded w' = filter (\<lambda>p. truthy_str (vp_battleId p)) (verdicts w')"
    using eff(1,2) assms(1) by (simp add: judge_inv_def)
  ultimately show ?thesis unfolding judge_inv_def by blast
qed

lemma work_inv:
  assumes "judge_inv w"
  shows "judge_inv (work e i w)"
  using work_effect[OF assms, of e i]
proof (elim disjE exE conjE[where Q = "i \<notin> _"])
  fix b v ps bs
  assume "b \<in> set (jw_jobs w) \<and> job_id b = i \<and> delivered (w\<lparr>jw_jobs := jw_jobs (work e i w)\<rparr>) i v ps (work e i w)
      \<and> jw_jobs (work e i w) = drop_job i (jw_jobs w) @ bs \<and> (bs = [] \<or> v = Vd_INTERNAL_ERROR \<and> ps = [] \<and>
           bs = [b\<lparr>bj_attemptsMade := bj_attemptsMade b + 1\<rparr>] \<and> bj_attemptsMade b + 1 < judge_attempts)"
  then show ?thesis using delivered_inv[OF assms] by blast
qed (simp add: assms)

lemma exec_judge_inv: "judge_inv w \<Longrightarrow> judge_inv (exec_judge c w)"
proof (cases c)
  case (JSetProblem i p)
  assume "judge_inv w"
  moreover have "judge_inv (exec_judge c w) = judge_inv w"
    by (rule judge_inv_cong) (simp_all add: JSetProblem verdicts_def status_of_def)
  ultimately show ?thesis by simp
qed (simp_all add: submit_inv work_inv)

lemma judge_reachable_inv: "judge_reachable w \<Longrightarrow> judge_inv w"
  by (induction rule: judge_reachable.induct) (simp_all add: judge_inv_start exec_judge_inv)

lemma judge_reachable_fold: "judge_reachable w \<Longrightarrow> judge_reachable (fold exec_judge cs w)"
  by (induction cs arbitrary: w) (simp_all add: judge_step)

lemma work_attempts:
  assumes "judge_inv w" and "\<forall>b \<in> set (jw_jobs w). job_id b = i \<longrightarrow> n \<le> bj_attemptsMade b"
  shows "\<forall>b \<in> set (jw_jobs (work e i w)). job_id b = i \<longrightarrow> Suc n \<le> bj_attemptsMade b"
  using work_effect[OF assms(1), of e i]
proof (elim disjE exE)
  fix b v ps bs
  assume d: "b \<in> set (jw_jobs w) \<and> job_id b = i
      \<and> delivered (w\<lparr>jw_jobs := jw_jobs (work e i w)\<rparr>) i v ps (work e i w)
      \<and> jw_jobs (work e i w) = drop_job i (jw_jobs w) @ bs
      \<and> (bs = [] \<or> v = Vd_INTERNAL_ERROR \<and> ps = [] \<and>
           bs = [b\<lparr>bj_attemptsMade := bj_attemptsMade b + 1\<rparr>] \<and> bj_attemptsMade b + 1 < judge_attempts)"
  from d have m: "b \<in> set (jw_jobs w)" "job_id b = i" by simp_all
  then have "n \<le> bj_attemptsMade b" using assms(2) by blast
  moreover from d have "jw_jobs (work e i w) = drop_job i (jw_jobs w) @ bs"
      "bs = [] \<or> bs = [b\<lparr>bj_attemptsMade := bj_attemptsMade b + 1\<rparr>]" by (elim conjE, simp, elim conjE disjE, simp_all)
  ultimately show ?thesis by auto
qed auto

lemma three_attempts:
  assumes "judge_inv w"
  shows "\<forall>b \<in> set (jw_jobs (work e3 i (work e2 i (work e1 i w)))). job_id b \<noteq> i"
proof -
  let ?w1 = "work e1 i w" let ?w2 = "work e2 i ?w1" let ?w3 = "work e3 i ?w2"
  have inv: "judge_inv ?w1" "judge_inv ?w2" "judge_inv ?w3" using assms by (simp_all add: work_inv)
  from work_attempts[OF inv(2) work_attempts[OF inv(1) work_attempts[OF assms, where n = 0]]]
  have "\<forall>b \<in> set (jw_jobs ?w3). job_id b = i \<longrightarrow> 3 \<le> bj_attemptsMade b" by (simp add: numeral_3_eq_3)
  with inv(3) show ?thesis by (fastforce simp: judge_inv_def list_all_iff job_ok_def judge_attempts_def)
qed

lemma judge_exec_verdicts: "judge_inv w \<Longrightarrow> \<exists>more. verdicts (exec_judge c w) = verdicts w @ more"
proof (cases c)
  case (JSubmit e i inp)
  then show ?thesis using submit_effect[where e = e and i = i and inp = inp and w = w]
    by (auto split: prod.splits sum.splits)
next
  case (JWork e i)
  assume "judge_inv w"
  from work_effect[OF this, of e i] JWork show ?thesis by (auto simp: delivered_def verdicts_def)
next
  case (JSetProblem i p)
  then show ?thesis by (simp add: verdicts_def)
qed

lemma judge_fold_verdicts: "judge_inv w \<Longrightarrow> set (verdicts w) \<subseteq> set (verdicts (fold exec_judge cs w))"
proof (induction cs arbitrary: w)
  case (Cons c cs)
  from judge_exec_verdicts[OF Cons.prems, of c] Cons.IH[OF exec_judge_inv[OF Cons.prems], of c] show ?case by auto
qed simp

section \<open>A concrete run\<close>

definition ok_outcome :: "string \<Rightarrow> outcome" where
  "ok_outcome out = \<lparr>oc_stdout = out, oc_stderr = [], oc_exitCode = Some 0, oc_durationMs = 5, oc_memoryUsedMb = 1,
     oc_oomKilled = False, oc_timedOut = False, oc_truncated = False, oc_compileError = None\<rparr>"

text \<open>An engine that echoes the input, except that the second call fails.\<close>

definition echo_engine :: "nat \<Rightarrow> run_input \<Rightarrow> outcome option" where
  "echo_engine n i = (if n = 1 then None else Some (ok_outcome (rn_stdin i)))"

definition judge_at :: "int \<Rightarrow> judge_env" where
  "judge_at t = \<lparr>jv_now = t, jv_finished = t + 7, jv_run = echo_engine, jv_hash = (\<lambda>c. c)\<rparr>"

definition echo_problem :: judged_problem where
  "echo_problem = \<lparr>pw_timeLimitMs = 1000, pw_memoryLimitMb = 64, pw_testCases =
     [\<lparr>jc_id = ''t1'', jc_input = ''h'', jc_expectedOutput = ''h'', jc_isHidden = True, jc_weight = 2, jc_order = 0\<rparr>,
      \<lparr>jc_id = ''t2'', jc_input = ''a'', jc_expectedOutput = ''a'', jc_isHidden = False, jc_weight = 1, jc_order = 1\<rparr>]\<rparr>"

definition echo_submission :: submit_input where
  "echo_submission = \<lparr>su_userId = ''u'', su_problemId = ''p'', su_battleId = Some ''b'', su_language = LPython, su_code = ''c''\<rparr>"

definition demo_submitted :: judge_world where
  "demo_submitted = fold exec_judge [JSetProblem ''p'' (Some echo_problem), JSubmit (judge_at 0) ''s'' echo_submission] no_submissions"

definition demo_judged :: judge_world where
  "demo_judged = work (judge_at 20) ''s'' (work (judge_at 10) ''s'' demo_submitted)"

lemma demo_submitted_reachable: "judge_reachable demo_submitted"
  unfolding demo_submitted_def by (rule judge_reachable_fold[OF judge_start])

lemma demo_judged_reachable: "judge_reachable demo_judged"
  using judge_reachable_fold[OF demo_submitted_reachable, of "[JWork (judge_at 10) ''s'', JWork (judge_at 20) ''s'']"]
  by (simp add: demo_judged_def)

lemma demo_judged_verdict: "status_of demo_submitted ''s'' = Some Vd_QUEUED
    \<and> map vp_verdict (verdicts demo_judged) = [Vd_ACCEPTED] \<and> map vp_submissionId (verdicts demo_judged) = [''s'']"
  by code_simp

section \<open>Properties\<close>

text \<open>
  C17. No submission is ever stuck: in every reachable state a submission that is pending, queued or
  running has a job waiting with attempts left, and whatever the engine does and however the problem
  is edited, after at most three deliveries of its job the job is gone and the status is a final one.
\<close>

theorem no_submission_stuck:
  assumes "judge_reachable w"
  shows "(\<forall>i v. status_of w i = Some v \<longrightarrow> settled v \<or> (\<exists>b \<in> set (jw_jobs w). job_id b = i \<and> bj_attemptsMade b < judge_attempts))
    \<and> (\<forall>b \<in> set (jw_jobs (work e3 i (work e2 i (work e1 i w)))). job_id b \<noteq> i)
    \<and> (\<forall>v. status_of (work e3 i (work e2 i (work e1 i w))) i = Some v \<longrightarrow> settled v)"
proof -
  note inv = judge_reachable_inv[OF assms]
  let ?w = "work e3 i (work e2 i (work e1 i w))"
  have gone: "\<forall>b \<in> set (jw_jobs ?w). job_id b \<noteq> i" by (rule three_attempts[OF inv])
  have "judge_inv ?w" using inv by (simp add: work_inv)
  with gone have "\<forall>v. status_of ?w i = Some v \<longrightarrow> settled v" unfolding judge_inv_def by blast
  moreover have "\<forall>i v. status_of w i = Some v \<longrightarrow> settled v \<or>
      (\<exists>b \<in> set (jw_jobs w). job_id b = i \<and> bj_attemptsMade b < judge_attempts)"
    using inv unfolding judge_inv_def by (force simp: list_all_iff job_ok_def)
  ultimately show ?thesis using gone by blast
qed

lemma no_submission_stuck_witness:
  "\<exists>b \<in> set (jw_jobs demo_submitted). job_id b = ''s'' \<and> bj_attemptsMade b < judge_attempts"
proof -
  from no_submission_stuck[OF demo_submitted_reachable, THEN conjunct1] demo_judged_verdict
  have "settled Vd_QUEUED \<or> (\<exists>b \<in> set (jw_jobs demo_submitted). job_id b = ''s'' \<and> bj_attemptsMade b < judge_attempts)"
    by blast
  then show ?thesis by (simp add: settled_def)
qed

text \<open>
  C18. A verdict is announced at most once per submission and is final: in every reachable state the
  announced verdicts belong to different submissions, each is the stored status of its submission now
  and after any further submissions, deliveries and edits, and the verdicts handed to the battle
  engine are exactly the announced ones that name a battle, in order.
\<close>

theorem verdicts_final:
  assumes "judge_reachable w"
  shows "distinct (map vp_submissionId (verdicts w))
    \<and> jw_forwarded w = filter (\<lambda>p. truthy_str (vp_battleId p)) (verdicts w)
    \<and> (\<forall>cs. \<forall>p \<in> set (verdicts w). settled (vp_verdict p)
          \<and> status_of (fold exec_judge cs w) (vp_submissionId p) = Some (vp_verdict p))"
proof -
  have "judge_inv (fold exec_judge cs w)" for cs by (rule judge_reachable_inv[OF judge_reachable_fold[OF assms]])
  with judge_fold_verdicts[OF judge_reachable_inv[OF assms]] judge_reachable_inv[OF assms]
  show ?thesis unfolding judge_inv_def by (meson subsetD)
qed

lemma verdicts_final_witness:
  "status_of (work (judge_at 30) ''s'' demo_judged) ''s'' = Some Vd_ACCEPTED"
proof -
  obtain p where p: "verdicts demo_judged = [p]" "vp_verdict p = Vd_ACCEPTED" "vp_submissionId p = ''s''"
    using demo_judged_verdict by auto
  from verdicts_final[OF demo_judged_reachable] have "\<forall>cs. \<forall>p \<in> set (verdicts demo_judged). settled (vp_verdict p)
      \<and> status_of (fold exec_judge cs demo_judged) (vp_submissionId p) = Some (vp_verdict p)" by blast
  then have "status_of (fold exec_judge [JWork (judge_at 30) ''s''] demo_judged) (vp_submissionId p) = Some (vp_verdict p)"
    using p(1) by (metis list.set_intros(1))
  with p show ?thesis by simp
qed

text \<open>
  C19. The results of a judged submission line up with its problem: the cases are taken public first and
  then by their order, a prefix of them ran, each on its own input and with the verdict of its own
  outcome, the others are skipped, which happens only in contest mode behind a failing case; the
  submission is accepted or misformatted exactly when every case ran and passed, and every result that
  ran is the one saved when the cases have different ids.
\<close>

theorem results_line_up:
  assumes "judge e job w = (Inr r, w')" and "getJudgeProblem (sj_problemId job) w = Some p"
    and "jw_rows w (sj_submissionId job) \<noteq> None" and "distinct (map jc_id (jp_testCases p))"
  shows "mset (ordered_cases p) = mset (jp_testCases p)
    \<and> sorted (map (\<lambda>tc. (jc_isHidden tc, jc_order tc)) (ordered_cases p))
    \<and> (\<exists>done_rs. jr_results r = done_rs @ map skippedResult (drop (length done_rs) (ordered_cases p))
        \<and> list_all2 (\<lambda>tc c. \<exists>n oc. jv_run e n (run_input_of job p tc) = Some oc \<and> c = result_of p tc oc)
             (take (length done_rs) (ordered_cases p)) done_rs
        \<and> (length done_rs < length (ordered_cases p) \<longrightarrow>
             sj_stopOnFirstFail job \<and> list_ex (\<lambda>c. \<not> is_pass (cs_verdict c)) done_rs)
        \<and> (is_pass (jr_verdict r) \<longleftrightarrow>
             length done_rs = length (ordered_cases p) \<and> list_all (\<lambda>c. is_pass (cs_verdict c)) done_rs)
        \<and> (\<forall>c \<in> set done_rs. map_option cw_status (jw_results w' (sj_submissionId job, cs_testCaseId c)) = Some (cs_verdict c)))"
proof -
  let ?s = "started e (sj_submissionId job) w"
  from assms(1,2) obtain rs w2 where x: "runAllCases e job p ?s = (Inr rs, w2)" "r = result_for e job rs"
      "w' = completed e job r w2"
    by (auto simp: judge_unfold[OF assms(3)] split: option.splits if_splits prod.splits sum.splits)
  from runAllCases_result[OF x(1)] obtain done_rs where d:
      "rs = done_rs @ map skippedResult (drop (length done_rs) (ordered_cases p))"
      "runs_line_up e job p False (ordered_cases p) done_rs"
      "jw_results w2 = jw_results (fold (saveResult (sj_submissionId job)) done_rs ?s)" by blast
  have ms: "mset (ordered_cases p) = mset (jp_testCases p)" by (simp add: ordered_cases_def)
  have "distinct (map jc_id (ordered_cases p))"
    using assms(4) ms by (metis mset_eq_imp_distinct_iff mset_map)
  then have "distinct (map cs_testCaseId done_rs)"
    using ran_cases[of e job p "take (length done_rs) (ordered_cases p)" done_rs] d(2)
    by (simp add: runs_line_up_def distinct_take flip: take_map)
  from fold_save[OF this] d(3) have saved: "\<forall>c \<in> set done_rs.
      map_option cw_status (jw_results w' (sj_submissionId job, cs_testCaseId c)) = Some (cs_verdict c)"
    by (simp add: x(3) completed_def)
  have "list_all2 (\<lambda>tc c. \<exists>n oc. jv_run e n (run_input_of job p tc) = Some oc \<and> c = result_of p tc oc)
      (take (length done_rs) (ordered_cases p)) done_rs"
    using d(2) by (simp add: runs_line_up_def ran_as_def[abs_def])
  moreover have "jr_results r = done_rs @ map skippedResult (drop (length done_rs) (ordered_cases p))"
    by (simp add: x(2) result_for_def aggregate_simps d(1))
  moreover have "is_pass (jr_verdict r) \<longleftrightarrow>
      length done_rs = length (ordered_cases p) \<and> list_all (\<lambda>c. is_pass (cs_verdict c)) done_rs"
    using overall_accepted[OF d(2)] by (simp add: x(2) result_for_def aggregate_simps d(1))
  moreover have "sorted (map (\<lambda>tc. (jc_isHidden tc, jc_order tc)) (ordered_cases p))" by (simp add: ordered_cases_def)
  moreover have "length done_rs < length (ordered_cases p) \<longrightarrow>
      sj_stopOnFirstFail job \<and> list_ex (\<lambda>c. \<not> is_pass (cs_verdict c)) done_rs"
    using d(2) by (simp add: runs_line_up_def)
  ultimately show ?thesis using ms saved by (intro conjI exI[of _ done_rs]) simp_all
qed

definition demo_running :: judge_world where
  "demo_running = work (judge_at 10) ''s'' demo_submitted"

lemma results_line_up_witness:
  "\<exists>r w'. judge (judge_at 20) (job_of ''s'' echo_submission) demo_running = (Inr r, w') \<and> length (jr_results r) = 2"
proof -
  let ?j = "job_of ''s'' echo_submission"
  obtain x w' where x: "judge (judge_at 20) ?j demo_running = (x, w')" by (cases "judge (judge_at 20) ?j demo_running")
  have "\<not> isl (fst (judge (judge_at 20) ?j demo_running))" by code_simp
  with x obtain r where r: "x = Inr r" by (cases x) auto
  have "map_option (\<lambda>p. map jc_id (jp_testCases p)) (getJudgeProblem ''p'' demo_running) = Some [''t1'', ''t2'']" by code_simp
  then obtain p where p: "getJudgeProblem (sj_problemId ?j) demo_running = Some p" "map jc_id (jp_testCases p) = [''t1'', ''t2'']"
    by (auto simp: job_of_def echo_submission_def)
  have "status_of demo_running ''s'' = Some Vd_INTERNAL_ERROR" by code_simp
  then have row: "jw_rows demo_running (sj_submissionId ?j) \<noteq> None" by (auto simp: status_of_def job_of_def)
  have dist: "distinct (map jc_id (jp_testCases p))" by (simp add: p(2))
  from results_line_up[OF x[unfolded r] p(1) row dist] obtain done_rs where d:
      "mset (ordered_cases p) = mset (jp_testCases p)"
      "jr_results r = done_rs @ map skippedResult (drop (length done_rs) (ordered_cases p))"
      "list_all2 (\<lambda>tc c. \<exists>n oc. jv_run (judge_at 20) n (run_input_of ?j p tc) = Some oc \<and> c = result_of p tc oc)
             (take (length done_rs) (ordered_cases p)) done_rs" by blast
  have "length (ordered_cases p) = 2"
    using mset_eq_length[OF d(1)] arg_cong[OF p(2), of length] by simp
  with d(2) list_all2_lengthD[OF d(3)] have "length (jr_results r) = 2" by simp
  with x r show ?thesis by blast
qed

text \<open>
  An outage is never the user's fault: when the judging of an existing submission fails, the
  failure is that the problem cannot be judged or that the engine was unavailable, the submission is
  marked an internal error, and no verdict is announced or handed to a battle.
\<close>

theorem outage_not_blamed:
  assumes "judge e job w = (Inl err, w')" and "jw_rows w (sj_submissionId job) \<noteq> None"
  shows "err \<in> {JNotJudgeable (sj_problemId job), JExecutionUnavailable}
    \<and> status_of w' (sj_submissionId job) = Some Vd_INTERNAL_ERROR
    \<and> verdicts w' = verdicts w \<and> jw_forwarded w' = jw_forwarded w
    \<and> (err = JExecutionUnavailable \<longrightarrow> EvFailed (sj_submissionId job) err \<in> set (jw_events w'))"
proof -
  have "err \<in> {JNotJudgeable (sj_problemId job), JExecutionUnavailable}
      \<and> (err = JExecutionUnavailable \<longrightarrow> EvFailed (sj_submissionId job) err \<in> set (jw_events w'))"
    using assms(1) by (auto simp: judge_unfold[OF assms(2)] runAllCases_def
        split: option.splits if_splits prod.splits sum.splits dest: run_batches_error)
  with judge_error_effect[OF assms] show ?thesis by simp
qed

lemma outage_not_blamed_witness: "status_of (snd (judge (judge_at 10) (job_of ''s'' echo_submission) demo_submitted)) ''s'' = Some Vd_INTERNAL_ERROR"
proof -
  let ?j = "job_of ''s'' echo_submission"
  have "isl (fst (judge (judge_at 10) ?j demo_submitted))" by code_simp
  then obtain err w' where x: "judge (judge_at 10) ?j demo_submitted = (Inl err, w')"
    by (cases "judge (judge_at 10) ?j demo_submitted") (auto simp: isl_def)
  have row: "jw_rows demo_submitted (sj_submissionId ?j) \<noteq> None"
    using demo_judged_verdict by (auto simp: status_of_def job_of_def)
  from outage_not_blamed[OF x row] x show ?thesis by (simp add: job_of_def)
qed

end
