(* ===== verification/Json.thy ===== *)
theory Json
  imports JudgeCompare
begin

text \<open>
  JSON values and the readings of them the services share: optional chaining into a field, the
  nullish default, and the number coercion of the request validators.
\<close>

datatype json = JNull | JBool bool | JNum rat | JStr string | JArr "json list" | JObj "(string \<times> json) list"

text \<open>A field of an object; \<open>None\<close> is undefined. Reading a field of null throws, so it is kept apart.\<close>

fun jfield :: "string \<Rightarrow> json \<Rightarrow> json option" where
  "jfield k (JObj fs) = map_of fs k"
| "jfield k _ = None"

fun as_str :: "json option \<Rightarrow> string option" where
  "as_str (Some (JStr s)) = Some s"
| "as_str _ = None"

fun as_num :: "json option \<Rightarrow> rat option" where
  "as_num (Some (JNum q)) = Some q"
| "as_num _ = None"

fun as_bool :: "json option \<Rightarrow> bool option" where
  "as_bool (Some (JBool b)) = Some b"
| "as_bool _ = None"

definition or_default :: "'a option \<Rightarrow> 'a \<Rightarrow> 'a" where
  "or_default x d = (case x of None \<Rightarrow> d | Some a \<Rightarrow> a)"

text \<open>A number in a message.\<close>

fun dec_digits :: "nat \<Rightarrow> string" where
  "dec_digits n = (if n < 10 then [char_of (48 + n)] else dec_digits (n div 10) @ [char_of (48 + n mod 10)])"

text \<open>The number a validator that coerces reads from a value; an array goes through its comma-separated text.\<close>

fun coerce_number :: "json \<Rightarrow> js_num" where
  "coerce_number JNull = Fin 0"
| "coerce_number (JBool b) = Fin (if b then 1 else 0)"
| "coerce_number (JNum q) = Fin q"
| "coerce_number (JStr s) = js_Number (dropWhile is_ws (strip_trailing_ws s))"
| "coerce_number (JArr []) = Fin 0"
| "coerce_number (JArr [v]) = (case v of JBool b \<Rightarrow> JNaN | _ \<Rightarrow> coerce_number v)"
| "coerce_number (JArr (v # v' # vs)) = JNaN"
| "coerce_number (JObj fs) = JNaN"

text \<open>A coerced integer within bounds; anything else is refused.\<close>

definition int_between :: "int \<Rightarrow> int \<Rightarrow> json \<Rightarrow> int option" where
  "int_between lo hi v = (case coerce_number v of
       Fin q \<Rightarrow> if q = of_int \<lfloor>q\<rfloor> \<and> lo \<le> \<lfloor>q\<rfloor> \<and> \<lfloor>q\<rfloor> \<le> hi then Some \<lfloor>q\<rfloor> else None
     | _ \<Rightarrow> None)"

text \<open>An optional field: absent is fine, present must be valid.\<close>

definition optional_field :: "(json \<Rightarrow> 'a option) \<Rightarrow> json option \<Rightarrow> 'a option option" where
  "optional_field f x = (case x of None \<Rightarrow> Some None | Some v \<Rightarrow> map_option Some (f v))"

lemma int_between_bounds: "int_between lo hi v = Some n \<Longrightarrow> lo \<le> n \<and> n \<le> hi"
  by (auto simp: int_between_def split: js_num.splits if_splits)

lemma optional_field_bounds:
  "optional_field (int_between lo hi) x = Some (Some n) \<Longrightarrow> lo \<le> n \<and> n \<le> hi"
  by (auto simp: optional_field_def int_between_bounds split: option.splits)

end
