(* ===== verification/ExecEngine.thy ===== *)
theory ExecEngine
  imports Json
begin

text \<open>
  services/execution-engine: the request validator and the clamping of limits, the Docker sandbox, the
  execution service with its workspace, the queue's admission and the worker. Docker is an argument
  that answers the n-th run with what is observed of the container (absent when the daemon fails); the
  file system is an argument that answers the n-th creation of a workspace. Strings are byte sequences.
\<close>

section \<open>Vocabulary\<close>

datatype exec_lang = XCpp | XJava | XPython | XJavascript

datatype exec_status = ExACCEPTED | ExCOMPILATION_ERROR | ExRUNTIME_ERROR | ExTIME_LIMIT_EXCEEDED
  | ExMEMORY_LIMIT_EXCEEDED | ExOUTPUT_LIMIT_EXCEEDED | ExINTERNAL_ERROR

record lang_profile =
  lg_image :: string
  lg_source :: string
  lg_compile :: "string list option"
  lg_run :: "string list"

fun getLanguageProfile :: "exec_lang \<Rightarrow> lang_profile" where
  "getLanguageProfile XCpp = \<lparr>lg_image = ''devarena/exec-cpp:latest'', lg_source = ''main.cpp'',
     lg_compile = Some [''g++'', ''-O2'', ''-std=c++17'', ''-o'', ''a.out'', ''main.cpp''], lg_run = [''./a.out'']\<rparr>"
| "getLanguageProfile XJava = \<lparr>lg_image = ''devarena/exec-java:latest'', lg_source = ''Main.java'',
     lg_compile = Some [''javac'', ''Main.java''], lg_run = [''java'', ''-XX:+UseSerialGC'', ''Main'']\<rparr>"
| "getLanguageProfile XPython = \<lparr>lg_image = ''devarena/exec-python:latest'', lg_source = ''main.py'',
     lg_compile = None, lg_run = [''python3'', ''-I'', ''main.py'']\<rparr>"
| "getLanguageProfile XJavascript = \<lparr>lg_image = ''devarena/exec-node:latest'', lg_source = ''main.js'',
     lg_compile = None, lg_run = [''node'', ''--max-old-space-size=240'', ''main.js'']\<rparr>"

fun exec_lang_of :: "string \<Rightarrow> exec_lang option" where
  "exec_lang_of s = (if s = ''cpp'' then Some XCpp else if s = ''java'' then Some XJava
     else if s = ''python'' then Some XPython else if s = ''javascript'' then Some XJavascript else None)"

fun exec_status_name :: "exec_status \<Rightarrow> string" where
  "exec_status_name ExACCEPTED = ''ACCEPTED''"
| "exec_status_name ExCOMPILATION_ERROR = ''COMPILATION_ERROR''"
| "exec_status_name ExRUNTIME_ERROR = ''RUNTIME_ERROR''"
| "exec_status_name ExTIME_LIMIT_EXCEEDED = ''TIME_LIMIT_EXCEEDED''"
| "exec_status_name ExMEMORY_LIMIT_EXCEEDED = ''MEMORY_LIMIT_EXCEEDED''"
| "exec_status_name ExOUTPUT_LIMIT_EXCEEDED = ''OUTPUT_LIMIT_EXCEEDED''"
| "exec_status_name ExINTERNAL_ERROR = ''INTERNAL_ERROR''"

text \<open>The service configuration, with the ranges its schema admits.\<close>

record exec_cfg =
  ec_maxCpuCores :: rat
  ec_maxMemoryMb :: int
  ec_maxExecutionMs :: int
  ec_maxCompileMs :: int
  ec_maxPids :: int
  ec_maxOutputBytes :: int
  ec_maxTmpfsMb :: int
  ec_maxQueueDepth :: int

definition cfg_ok :: "exec_cfg \<Rightarrow> bool" where
  "cfg_ok c \<longleftrightarrow> 1 / 10 \<le> ec_maxCpuCores c \<and> ec_maxCpuCores c \<le> 4
     \<and> 16 \<le> ec_maxMemoryMb c \<and> ec_maxMemoryMb c \<le> 1024
     \<and> 100 \<le> ec_maxExecutionMs c \<and> ec_maxExecutionMs c \<le> 30000
     \<and> 1000 \<le> ec_maxCompileMs c \<and> ec_maxCompileMs c \<le> 60000
     \<and> 8 \<le> ec_maxPids c \<and> ec_maxPids c \<le> 512
     \<and> 1024 \<le> ec_maxOutputBytes c \<and> ec_maxOutputBytes c \<le> 10485760
     \<and> 4 \<le> ec_maxTmpfsMb c \<and> ec_maxTmpfsMb c \<le> 256 \<and> 1 \<le> ec_maxQueueDepth c"

definition default_cfg :: exec_cfg where
  "default_cfg = \<lparr>ec_maxCpuCores = 1, ec_maxMemoryMb = 256, ec_maxExecutionMs = 5000, ec_maxCompileMs = 15000,
     ec_maxPids = 64, ec_maxOutputBytes = 1048576, ec_maxTmpfsMb = 32, ec_maxQueueDepth = 10000\<rparr>"

record exec_limits =
  el_timeLimitMs :: int
  el_memoryLimitMb :: int
  el_compileMs :: int
  el_cpuCores :: rat
  el_pids :: int
  el_outputBytes :: int
  el_tmpfsMb :: int

record exec_request =
  eq_language :: exec_lang
  eq_code :: string
  eq_input :: string
  eq_timeLimitMs :: "int option"
  eq_memoryLimitMb :: "int option"
  eq_priority :: "int option"

record exec_job =
  xj_language :: exec_lang
  xj_code :: string
  xj_input :: string
  xj_limits :: exec_limits
  xj_submittedAt :: int

record exec_result =
  er_status :: exec_status
  er_stdout :: string
  er_stderr :: string
  er_exitCode :: "int option"
  er_executionTimeMs :: int
  er_memoryUsedMb :: rat
  er_truncated :: bool

datatype exec_error = XValidation | XQueueFull int | XContainer | XWorkspace | XWaitTimeout

text \<open>The error middleware: operational errors have their own status and code, anything else is a 500.\<close>

fun exec_error_code :: "exec_error \<Rightarrow> nat \<times> string" where
  "exec_error_code XValidation = (422, ''VALIDATION_ERROR'')"
| "exec_error_code (XQueueFull _) = (503, ''QUEUE_FULL'')"
| "exec_error_code XContainer = (500, ''CONTAINER_ERROR'')"
| "exec_error_code _ = (500, ''INTERNAL_ERROR'')"

section \<open>Requests\<close>

definition bounded_str :: "int \<Rightarrow> int \<Rightarrow> json option \<Rightarrow> string option" where
  "bounded_str lo hi x = (case as_str x of None \<Rightarrow> None
     | Some s \<Rightarrow> if lo \<le> int (length s) \<and> int (length s) \<le> hi then Some s else None)"

definition parse_request :: "exec_cfg \<Rightarrow> json \<Rightarrow> exec_request option" where
  "parse_request c body =
     (case (Option.bind (as_str (jfield ''language'' body)) exec_lang_of,
            bounded_str 1 64000 (jfield ''code'' body),
            (case jfield ''input'' body of None \<Rightarrow> Some [] | v \<Rightarrow> bounded_str 0 1000000 v),
            optional_field (int_between 100 (ec_maxExecutionMs c)) (jfield ''timeLimitMs'' body),
            optional_field (int_between 16 (ec_maxMemoryMb c)) (jfield ''memoryLimitMb'' body),
            optional_field (int_between 1 10) (jfield ''priority'' body)) of
        (Some l, Some code, Some inp, Some t, Some m, Some p) \<Rightarrow>
          Some \<lparr>eq_language = l, eq_code = code, eq_input = inp, eq_timeLimitMs = t, eq_memoryLimitMb = m, eq_priority = p\<rparr>
      | _ \<Rightarrow> None)"

definition resolveLimits :: "exec_cfg \<Rightarrow> exec_request \<Rightarrow> exec_limits" where
  "resolveLimits c r =
     \<lparr>el_timeLimitMs = min (or_default (eq_timeLimitMs r) (ec_maxExecutionMs c)) (ec_maxExecutionMs c),
      el_memoryLimitMb = min (or_default (eq_memoryLimitMb r) (ec_maxMemoryMb c)) (ec_maxMemoryMb c),
      el_compileMs = ec_maxCompileMs c, el_cpuCores = ec_maxCpuCores c, el_pids = ec_maxPids c,
      el_outputBytes = ec_maxOutputBytes c, el_tmpfsMb = ec_maxTmpfsMb c\<rparr>"

section \<open>Sandbox\<close>

record sandbox_spec =
  sp_image :: string
  sp_argv :: "string list"
  sp_workdir :: ident
  sp_stdin :: string
  sp_timeoutMs :: int
  sp_limits :: exec_limits

text \<open>
  What one container run shows: the chunks of output in the order they arrive (true for the standard
  output), the exit status, the wall-clock time, whether the watchdog fired first, the out-of-memory
  flag and the memory counters of the inspection, when that worked.
\<close>

record container_obs =
  co_chunks :: "(bool \<times> string) list"
  co_statusCode :: int
  co_durationMs :: int
  co_watchdogFired :: bool
  co_oomKilled :: "bool option"
  co_maxUsage :: "int option"
  co_usage :: "int option"

record container_result =
  cr_stdout :: string
  cr_stderr :: string
  cr_exitCode :: "int option"
  cr_durationMs :: int
  cr_memoryUsedMb :: rat
  cr_oomKilled :: bool
  cr_timedOut :: bool
  cr_truncated :: bool

text \<open>The two sinks share one byte counter; a chunk that would pass the cap is dropped.\<close>

record sink_state =
  sk_out :: "string list"
  sk_err :: "string list"
  sk_bytes :: int
  sk_truncated :: bool

definition sink_write :: "int \<Rightarrow> bool \<times> string \<Rightarrow> sink_state \<Rightarrow> sink_state" where
  "sink_write cap ch s =
     (let n = sk_bytes s + int (length (snd ch)); s1 = s\<lparr>sk_bytes := n\<rparr>
      in if n \<le> cap
         then (if fst ch then s1\<lparr>sk_out := sk_out s1 @ [snd ch]\<rparr> else s1\<lparr>sk_err := sk_err s1 @ [snd ch]\<rparr>)
         else s1\<lparr>sk_truncated := True\<rparr>)"

definition empty_sink :: sink_state where
  "empty_sink = \<lparr>sk_out = [], sk_err = [], sk_bytes = 0, sk_truncated = False\<rparr>"

definition drain_output :: "int \<Rightarrow> (bool \<times> string) list \<Rightarrow> sink_state" where
  "drain_output cap chunks = fold (sink_write cap) chunks empty_sink"

definition peakMemoryMb :: "int option \<Rightarrow> int option \<Rightarrow> rat" where
  "peakMemoryMb maxUsage usage =
     (let bytes = or_default (coalesce maxUsage usage) 0
      in of_int \<lfloor>of_int bytes / (1024 * 1024) * 10 + 1 / 2 :: rat\<rfloor> / 10)"

definition sandbox_result :: "sandbox_spec \<Rightarrow> container_obs \<Rightarrow> container_result" where
  "sandbox_result spec obs =
     (let k = drain_output (el_outputBytes (sp_limits spec)) (co_chunks obs)
      in \<lparr>cr_stdout = concat (sk_out k), cr_stderr = concat (sk_err k),
          cr_exitCode = (if co_watchdogFired obs then None else Some (co_statusCode obs)),
          cr_durationMs = co_durationMs obs, cr_memoryUsedMb = peakMemoryMb (co_maxUsage obs) (co_usage obs),
          cr_oomKilled = or_default (co_oomKilled obs) False, cr_timedOut = co_watchdogFired obs,
          cr_truncated = sk_truncated k\<rparr>)"

text \<open>The container the sandbox asks for.\<close>

record container_cfg =
  kc_image :: string
  kc_cmd :: "string list"
  kc_user :: string
  kc_networkDisabled :: bool
  kc_networkMode :: string
  kc_readonlyRootfs :: bool
  kc_binds :: "string list"
  kc_tmpfs :: string
  kc_nanoCpus :: int
  kc_memory :: int
  kc_memorySwap :: int
  kc_pidsLimit :: int
  kc_capDrop :: "string list"
  kc_securityOpt :: "string list"
  kc_nofile :: int
  kc_fsize :: int

definition hardenedContainer :: "sandbox_spec \<Rightarrow> container_cfg" where
  "hardenedContainer spec =
     (let l = sp_limits spec; bytes = el_memoryLimitMb l * 1024 * 1024
      in \<lparr>kc_image = sp_image spec, kc_cmd = sp_argv spec, kc_user = ''65534:65534'', kc_networkDisabled = True,
          kc_networkMode = ''none'', kc_readonlyRootfs = True, kc_binds = [sp_workdir spec @ '':/sandbox:ro''],
          kc_tmpfs = ''rw,noexec,nosuid,size='' @ dec_digits (nat (el_tmpfsMb l)) @ ''m'',
          kc_nanoCpus = \<lfloor>el_cpuCores l * 1000000000 + 1 / 2\<rfloor>, kc_memory = bytes, kc_memorySwap = bytes,
          kc_pidsLimit = el_pids l, kc_capDrop = [''ALL''], kc_securityOpt = [''no-new-privileges''],
          kc_nofile = 256, kc_fsize = 16 * 1024 * 1024\<rparr>)"

section \<open>Execution service\<close>

record engine_world =
  ew_dirs :: "ident \<Rightarrow> (string \<times> string) option"
  ew_creates :: nat
  ew_containers :: "container_cfg list"
  ew_deadLetters :: "(exec_job \<times> exec_error) list"

record engine_env =
  ee_docker :: "nat \<Rightarrow> sandbox_spec \<Rightarrow> container_obs option"
  ee_mkdir :: "nat \<Rightarrow> (ident \<times> bool) option"

type_synonym 'a engine_op = "(engine_world, exec_error, 'a) op"

text \<open>
  The temporary directory is new; when writing the source fails the directory stays behind.
\<close>

definition ws_create :: "engine_env \<Rightarrow> string \<Rightarrow> string \<Rightarrow> ident engine_op" where
  "ws_create e name code w =
     (let w1 = w\<lparr>ew_creates := ew_creates w + 1\<rparr>
      in case ee_mkdir e (ew_creates w) of
           None \<Rightarrow> (Inl XWorkspace, w1)
         | Some (dir, written) \<Rightarrow>
             if ew_dirs w dir \<noteq> None then (Inl XWorkspace, w1)
             else if \<not> written then (Inl XWorkspace, w1\<lparr>ew_dirs := (ew_dirs w1)(dir := Some ([], []))\<rparr>)
             else (Inr dir, w1\<lparr>ew_dirs := (ew_dirs w1)(dir := Some (name, code))\<rparr>))"

definition ws_destroy :: "ident \<Rightarrow> engine_world \<Rightarrow> engine_world" where
  "ws_destroy dir w = w\<lparr>ew_dirs := (ew_dirs w)(dir := None)\<rparr>"

definition sandbox_run :: "engine_env \<Rightarrow> sandbox_spec \<Rightarrow> container_result engine_op" where
  "sandbox_run e spec w =
     (let w1 = w\<lparr>ew_containers := ew_containers w @ [hardenedContainer spec]\<rparr>
      in case ee_docker e (length (ew_containers w)) spec of
           None \<Rightarrow> (Inl XContainer, w1)
         | Some obs \<Rightarrow> (Inr (sandbox_result spec obs), w1))"

definition classify :: "container_result \<Rightarrow> exec_result" where
  "classify run =
     \<lparr>er_status = (if cr_oomKilled run then ExMEMORY_LIMIT_EXCEEDED
        else if cr_timedOut run then ExTIME_LIMIT_EXCEEDED
        else if cr_truncated run then ExOUTPUT_LIMIT_EXCEEDED
        else if cr_exitCode run \<noteq> Some 0 then ExRUNTIME_ERROR else ExACCEPTED),
      er_stdout = cr_stdout run, er_stderr = cr_stderr run, er_exitCode = cr_exitCode run,
      er_executionTimeMs = cr_durationMs run, er_memoryUsedMb = cr_memoryUsedMb run,
      er_truncated = cr_truncated run\<rparr>"

definition blank_result :: "exec_status \<Rightarrow> exec_result" where
  "blank_result s = \<lparr>er_status = s, er_stdout = [], er_stderr = [], er_exitCode = None, er_executionTimeMs = 0,
     er_memoryUsedMb = 0, er_truncated = False\<rparr>"

definition spec_for :: "exec_job \<Rightarrow> ident \<Rightarrow> string list \<Rightarrow> string \<Rightarrow> int \<Rightarrow> sandbox_spec" where
  "spec_for job dir argv stdin t =
     \<lparr>sp_image = lg_image (getLanguageProfile (xj_language job)), sp_argv = argv, sp_workdir = dir,
      sp_stdin = stdin, sp_timeoutMs = t, sp_limits = xj_limits job\<rparr>"

definition compile_verdict :: "exec_job \<Rightarrow> container_result \<Rightarrow> exec_result option" where
  "compile_verdict job c =
     (if cr_timedOut c
      then Some ((blank_result ExCOMPILATION_ERROR)\<lparr>er_stderr := ''Compilation timed out after ''
                   @ dec_digits (nat (el_compileMs (xj_limits job))) @ ''ms'', er_executionTimeMs := cr_durationMs c\<rparr>)
      else if cr_exitCode c \<noteq> Some 0
      then Some ((blank_result ExCOMPILATION_ERROR)\<lparr>er_stdout := cr_stdout c, er_stderr := cr_stderr c,
                   er_exitCode := cr_exitCode c, er_executionTimeMs := cr_durationMs c, er_truncated := cr_truncated c\<rparr>)
      else None)"

definition run_phase :: "engine_env \<Rightarrow> exec_job \<Rightarrow> ident \<Rightarrow> exec_result engine_op" where
  "run_phase e job dir = bind_op (sandbox_run e (spec_for job dir (lg_run (getLanguageProfile (xj_language job)))
      (xj_input job) (el_timeLimitMs (xj_limits job)))) (\<lambda>run. ret (classify run))"

definition compile_and_run :: "engine_env \<Rightarrow> exec_job \<Rightarrow> ident \<Rightarrow> exec_result engine_op" where
  "compile_and_run e job dir = (case lg_compile (getLanguageProfile (xj_language job)) of
       None \<Rightarrow> run_phase e job dir
     | Some argv \<Rightarrow> bind_op (sandbox_run e (spec_for job dir argv [] (el_compileMs (xj_limits job)))) (\<lambda>c.
         case compile_verdict job c of Some r \<Rightarrow> ret r | None \<Rightarrow> run_phase e job dir))"

text \<open>The try block answers every error with an internal-error result; its finally removes the workspace.\<close>

definition execute :: "engine_env \<Rightarrow> exec_job \<Rightarrow> exec_result engine_op" where
  "execute e job =
     bind_op (ws_create e (lg_source (getLanguageProfile (xj_language job))) (xj_code job)) (\<lambda>dir w.
       case compile_and_run e job dir w of
         (Inr r, w1) \<Rightarrow> (Inr r, ws_destroy dir w1)
       | (Inl err, w1) \<Rightarrow> (Inr ((blank_result ExINTERNAL_ERROR)\<lparr>er_stderr := ''Internal execution error''\<rparr>), ws_destroy dir w1))"

section \<open>Queue, worker and endpoint\<close>

definition exec_attempts :: nat where "exec_attempts = 3"

text \<open>A job is delivered until it finishes or its attempts are used up; then it goes to the dead letters.\<close>

fun deliver_job :: "engine_env \<Rightarrow> nat \<Rightarrow> exec_job \<Rightarrow> engine_world \<Rightarrow> (exec_error + exec_result) \<times> engine_world" where
  "deliver_job e 0 job w = (Inl XWorkspace, w)"
| "deliver_job e (Suc n) job w = (case execute e job w of
     (Inr r, w1) \<Rightarrow> (Inr r, w1)
   | (Inl err, w1) \<Rightarrow> if n = 0 then (Inl err, w1\<lparr>ew_deadLetters := ew_deadLetters w1 @ [(job, err)]\<rparr>) else deliver_job e n job w1)"

definition admit :: "exec_cfg \<Rightarrow> int \<Rightarrow> bool" where
  "admit c depth \<longleftrightarrow> \<not> depth \<ge> ec_maxQueueDepth c"

definition enqueueAndWait :: "exec_cfg \<Rightarrow> engine_env \<Rightarrow> int \<Rightarrow> bool \<Rightarrow> exec_job \<Rightarrow> exec_result engine_op" where
  "enqueueAndWait c e depth in_time job =
     then_op (guard_op (admit c depth) (XQueueFull depth))
    (bind_op (deliver_job e exec_attempts job) (\<lambda>r. if in_time then ret r else throw XWaitTimeout))"

definition result_json :: "exec_result \<Rightarrow> json" where
  "result_json r = JObj [(''status'', JStr (exec_status_name (er_status r))), (''stdout'', JStr (er_stdout r)),
     (''stderr'', JStr (er_stderr r)),
     (''exitCode'', case er_exitCode r of None \<Rightarrow> JNull | Some n \<Rightarrow> JNum (of_int n)),
     (''executionTimeMs'', JNum (of_int (er_executionTimeMs r))), (''memoryUsedMb'', JNum (er_memoryUsedMb r)),
     (''truncated'', JBool (er_truncated r))]"

definition job_for :: "exec_cfg \<Rightarrow> int \<Rightarrow> exec_request \<Rightarrow> exec_job" where
  "job_for c now r = \<lparr>xj_language = eq_language r, xj_code = eq_code r, xj_input = eq_input r,
     xj_limits = resolveLimits c r, xj_submittedAt = now\<rparr>"

text \<open>The endpoint with its error middleware: a status and a JSON body.\<close>

definition execute_endpoint :: "exec_cfg \<Rightarrow> engine_env \<Rightarrow> int \<Rightarrow> int \<Rightarrow> bool \<Rightarrow> json \<Rightarrow> engine_world
    \<Rightarrow> (nat \<times> json) \<times> engine_world" where
  "execute_endpoint c e now depth in_time body w =
     (case (case parse_request c body of None \<Rightarrow> throw XValidation
            | Some r \<Rightarrow> enqueueAndWait c e depth in_time (job_for c now r)) w of
        (Inr r, w1) \<Rightarrow> ((200, JObj [(''success'', JBool True), (''data'', result_json r)]), w1)
      | (Inl err, w1) \<Rightarrow> ((fst (exec_error_code err), JObj [(''success'', JBool False),
            (''error'', JObj [(''code'', JStr (snd (exec_error_code err)))])]), w1))"

end
