(* ===== verification/ExecProps.thy ===== *)
theory ExecProps
  imports ExecEngine
begin

text \<open>
  The guarantees of the execution engine: captured output, resource ceilings, workspaces, retries and
  the queue's admission under concurrent requests.
\<close>

section \<open>Output\<close>

definition out_bytes :: "(bool \<times> string) list \<Rightarrow> int" where
  "out_bytes chunks = int (sum_list (map (\<lambda>ch. length (snd ch)) chunks))"

definition out_of :: "bool \<Rightarrow> (bool \<times> string) list \<Rightarrow> string list" where
  "out_of b chunks = map snd (filter (\<lambda>ch. fst ch = b) chunks)"

lemma out_bytes_simps [simp]: "out_bytes [] = 0" "out_bytes (xs @ ys) = out_bytes xs + out_bytes ys"
    "out_bytes [ch] = int (length (snd ch))" "0 \<le> out_bytes xs"
  by (simp_all add: out_bytes_def)

lemma out_of_simps [simp]: "out_of b [] = []" "out_of b (xs @ ys) = out_of b xs @ out_of b ys"
    "out_of b [ch] = (if fst ch = b then [snd ch] else [])"
  by (simp_all add: out_of_def)

lemma drain_snoc: "drain_output cap (chunks @ [ch]) = sink_write cap ch (drain_output cap chunks)"
  by (simp add: drain_output_def)

lemma out_bytes_take: "out_bytes (take n xs) \<le> out_bytes xs"
  by (metis append_take_drop_id le_add_same_cancel1 out_bytes_simps(2,4))

text \<open>What is kept is a prefix of the chunks: all of them, or those before the first one past the ceiling.\<close>

lemma drain_prefix:
  assumes "0 \<le> cap"
  shows "\<exists>n \<le> length chunks. sk_out (drain_output cap chunks) = out_of True (take n chunks)
      \<and> sk_err (drain_output cap chunks) = out_of False (take n chunks)
      \<and> out_bytes (take n chunks) \<le> cap \<and> sk_bytes (drain_output cap chunks) = out_bytes chunks
      \<and> (sk_truncated (drain_output cap chunks) \<longleftrightarrow> cap < out_bytes chunks)
      \<and> (\<not> sk_truncated (drain_output cap chunks) \<longrightarrow> n = length chunks)"
proof (induction chunks rule: rev_induct)
  case Nil
  from assms show ?case by (simp add: drain_output_def empty_sink_def)
next
  case (snoc ch chunks)
  then obtain n where n: "n \<le> length chunks" "sk_out (drain_output cap chunks) = out_of True (take n chunks)"
      "sk_err (drain_output cap chunks) = out_of False (take n chunks)" "out_bytes (take n chunks) \<le> cap"
      "sk_bytes (drain_output cap chunks) = out_bytes chunks"
      "sk_truncated (drain_output cap chunks) \<longleftrightarrow> cap < out_bytes chunks"
      "\<not> sk_truncated (drain_output cap chunks) \<longrightarrow> n = length chunks" by blast
  show ?case
  proof (cases "out_bytes (chunks @ [ch]) \<le> cap")
    case True
    then have "out_bytes chunks \<le> cap" using out_bytes_simps(4)[of "[ch]"] by simp
    with n have "n = length chunks" by simp
    with True n show ?thesis
      by (intro exI[of _ "Suc n"]) (auto simp: drain_snoc sink_write_def Let_def)
  next
    case False
    with n show ?thesis
      by (intro exI[of _ n]) (auto simp: drain_snoc sink_write_def Let_def)
  qed
qed

lemma out_of_length: "int (length (concat (out_of True xs))) + int (length (concat (out_of False xs))) = out_bytes xs"
  by (induction xs) (auto simp: out_of_def out_bytes_def)

section \<open>Containers of an execution\<close>

lemma sandbox_run_world: "snd (sandbox_run e spec w) = w\<lparr>ew_containers := ew_containers w @ [hardenedContainer spec]\<rparr>"
  by (simp add: sandbox_run_def Let_def split: option.splits)

definition phase_specs :: "exec_job \<Rightarrow> ident \<Rightarrow> sandbox_spec list" where
  "phase_specs job dir = (case lg_compile (getLanguageProfile (xj_language job)) of None \<Rightarrow> []
      | Some argv \<Rightarrow> [spec_for job dir argv [] (el_compileMs (xj_limits job))])
    @ [spec_for job dir (lg_run (getLanguageProfile (xj_language job))) (xj_input job) (el_timeLimitMs (xj_limits job))]"

lemma run_phase_world: "snd (run_phase e job dir w) = w\<lparr>ew_containers := ew_containers w
    @ [hardenedContainer (spec_for job dir (lg_run (getLanguageProfile (xj_language job))) (xj_input job) (el_timeLimitMs (xj_limits job)))]\<rparr>"
  using sandbox_run_world[of e "spec_for job dir (lg_run (getLanguageProfile (xj_language job))) (xj_input job) (el_timeLimitMs (xj_limits job))" w]
  by (auto simp: run_phase_def op_simps split: prod.splits sum.splits)

lemma compile_and_run_world:
  "\<exists>n \<le> 2. snd (compile_and_run e job dir w) = w\<lparr>ew_containers := ew_containers w
      @ map hardenedContainer (take n (phase_specs job dir))\<rparr>"
proof (cases "lg_compile (getLanguageProfile (xj_language job))")
  case None
  then show ?thesis
    by (intro exI[of _ 1]) (simp add: compile_and_run_def phase_specs_def run_phase_world)
next
  case (Some argv)
  let ?spec = "spec_for job dir argv [] (el_compileMs (xj_limits job))"
  obtain x w1 where x: "sandbox_run e ?spec w = (x, w1)" by (cases "sandbox_run e ?spec w")
  with sandbox_run_world[of e ?spec w] have w1: "w1 = w\<lparr>ew_containers := ew_containers w @ [hardenedContainer ?spec]\<rparr>" by simp
  show ?thesis
  proof (cases "\<exists>c. x = Inr c \<and> compile_verdict job c = None")
    case True
    then obtain c where c: "x = Inr c" "compile_verdict job c = None" by blast
    then have "snd (compile_and_run e job dir w) = snd (run_phase e job dir w1)"
      by (simp add: compile_and_run_def Some op_simps x)
    then show ?thesis by (intro exI[of _ 2]) (simp add: run_phase_world w1 phase_specs_def Some)
  next
    case False
    then have "snd (compile_and_run e job dir w) = w1"
      by (cases x) (auto simp: compile_and_run_def Some op_simps x split: option.splits)
    then show ?thesis by (intro exI[of _ 1]) (simp add: w1 phase_specs_def Some)
  qed
qed

text \<open>A workspace that was created is gone afterwards, whatever the containers did.\<close>

lemma execute_created:
  assumes "ee_mkdir e (ew_creates w) = Some (dir, True)" and "ew_dirs w dir = None"
  shows "\<exists>r n. n \<le> 2 \<and> execute e job w = (Inr r, w\<lparr>ew_creates := ew_creates w + 1,
      ew_containers := ew_containers w @ map hardenedContainer (take n (phase_specs job dir))\<rparr>)"
proof -
  let ?src = "lg_source (getLanguageProfile (xj_language job))"
  let ?w1 = "w\<lparr>ew_creates := ew_creates w + 1, ew_dirs := (ew_dirs w)(dir := Some (?src, xj_code job))\<rparr>"
  have ws: "ws_create e ?src (xj_code job) w = (Inr dir, ?w1)"
    using assms by (simp add: ws_create_def Let_def)
  obtain x w2 where x: "compile_and_run e job dir ?w1 = (x, w2)" by (cases "compile_and_run e job dir ?w1")
  with compile_and_run_world[of e job dir ?w1] obtain n where n: "n \<le> 2"
      "w2 = ?w1\<lparr>ew_containers := ew_containers ?w1 @ map hardenedContainer (take n (phase_specs job dir))\<rparr>" by auto
  have "(ew_dirs w)(dir := None) = ew_dirs w" using assms(2) by (simp add: fun_upd_idem)
  then have d: "ws_destroy dir w2 = w\<lparr>ew_creates := ew_creates w + 1,
      ew_containers := ew_containers w @ map hardenedContainer (take n (phase_specs job dir))\<rparr>"
    by (simp add: n ws_destroy_def)
  obtain r where "execute e job w = (Inr r, ws_destroy dir w2)"
    by (cases x) (simp_all add: execute_def bind_op_def ws x del: One_nat_def)
  with d n(1) show ?thesis by metis
qed

lemma execute_failed:
  assumes "\<And>dir. ee_mkdir e (ew_creates w) = Some (dir, True) \<Longrightarrow> ew_dirs w dir \<noteq> None"
  shows "fst (execute e job w) = Inl XWorkspace \<and> ew_containers (snd (execute e job w)) = ew_containers w
    \<and> (\<exists>dir. \<forall>d. d \<noteq> dir \<longrightarrow> ew_dirs (snd (execute e job w)) d = ew_dirs w d)"
  using assms by (auto simp: execute_def bind_op_def ws_create_def Let_def split: option.splits prod.splits)

lemma execute_cases:
  obtains (created) dir where "ee_mkdir e (ew_creates w) = Some (dir, True)" "ew_dirs w dir = None"
  | (failed) "\<And>dir. ee_mkdir e (ew_creates w) = Some (dir, True) \<Longrightarrow> ew_dirs w dir \<noteq> None"
  by blast

section \<open>Admission under concurrency\<close>

text \<open>
  Counting the backlog and adding the job are two requests to Redis, so other requests run between
  them: the state is the depth of the queue and the number of requests that passed the check and have
  not added yet.
\<close>

inductive queue_step :: "exec_cfg \<Rightarrow> nat \<Rightarrow> int \<times> nat \<Rightarrow> int \<times> nat \<Rightarrow> bool" for c K where
  queue_check: "admit c depth \<Longrightarrow> inflight < K \<Longrightarrow> queue_step c K (depth, inflight) (depth, inflight + 1)"
| queue_refuse: "\<not> admit c depth \<Longrightarrow> queue_step c K (depth, inflight) (depth, inflight)"
| queue_add: "0 < inflight \<Longrightarrow> queue_step c K (depth, inflight) (depth + 1, inflight - 1)"
| queue_done: "0 < depth \<Longrightarrow> queue_step c K (depth, inflight) (depth - 1, inflight)"

inductive_cases queue_stepE: "queue_step c K s s'"

inductive queue_steps :: "exec_cfg \<Rightarrow> nat \<Rightarrow> int \<times> nat \<Rightarrow> bool" for c K where
  queue_empty: "queue_steps c K (0, 0)"
| queue_next: "queue_steps c K s \<Longrightarrow> queue_step c K s s' \<Longrightarrow> queue_steps c K s'"

lemma queue_bound:
  assumes "queue_steps c K s" and "1 \<le> ec_maxQueueDepth c"
  shows "fst s + int (snd s) \<le> ec_maxQueueDepth c - 1 + int K \<and> snd s \<le> K \<and> 0 \<le> fst s"
  using assms(1)
proof (induction rule: queue_steps.induct)
  case queue_empty
  from assms(2) show ?case by simp
next
  case (queue_next s s')
  from queue_next.hyps(2) queue_next.IH show ?case
    by (cases rule: queue_step.cases) (auto simp: admit_def)
qed

lemma queue_checks: "queue_steps c K (depth, i) \<Longrightarrow> admit c depth \<Longrightarrow> i + n \<le> K \<Longrightarrow> queue_steps c K (depth, i + n)"
proof (induction n)
  case (Suc n)
  then have "queue_steps c K (depth, i + n)" by simp
  moreover have "queue_step c K (depth, i + n) (depth, i + n + 1)" using Suc.prems by (intro queue_check) auto
  ultimately show ?case using queue_next by fastforce
qed simp

lemma queue_adds: "queue_steps c K (depth, i + n) \<Longrightarrow> queue_steps c K (depth + int n, i)"
proof (induction n arbitrary: depth)
  case (Suc n)
  have "queue_step c K (depth, i + Suc n) (depth + 1, i + n)" using queue_add[of "i + Suc n" c K depth] by simp
  with Suc.prems have "queue_steps c K (depth + 1, i + n)" by (rule queue_next)
  from Suc.IH[OF this] show ?case by (simp add: add.commute add.left_commute)
qed simp

lemma queue_fill: "1 \<le> K \<Longrightarrow> int n \<le> ec_maxQueueDepth c \<Longrightarrow> queue_steps c K (int n, 0)"
proof (induction n)
  case (Suc n)
  then have "queue_steps c K (int n, 0)" "admit c (int n)" by (simp_all add: admit_def)
  from queue_adds[OF queue_checks[OF this, of 1]] Suc.prems show ?case by (simp add: add.commute)
qed (simp add: queue_empty)

definition locked_down :: "exec_cfg \<Rightarrow> exec_lang \<Rightarrow> container_cfg \<Rightarrow> bool" where
  "locked_down c l k \<longleftrightarrow> kc_networkDisabled k \<and> kc_networkMode k = ''none'' \<and> kc_readonlyRootfs k
             \<and> (\<exists>dir. kc_binds k = [dir @ '':/sandbox:ro'']) \<and> kc_capDrop k = [''ALL''] \<and> kc_user k = ''65534:65534''
             \<and> kc_securityOpt k = [''no-new-privileges''] \<and> kc_pidsLimit k = ec_maxPids c
             \<and> kc_memorySwap k = kc_memory k \<and> 16 * 1048576 \<le> kc_memory k \<and> kc_memory k \<le> ec_maxMemoryMb c * 1048576
             \<and> kc_image k = lg_image (getLanguageProfile l)"

section \<open>Properties\<close>


definition demo_limits :: exec_limits where
  "demo_limits = \<lparr>el_timeLimitMs = 100, el_memoryLimitMb = 16, el_compileMs = 1000, el_cpuCores = 1, el_pids = 8,
     el_outputBytes = 4, el_tmpfsMb = 4\<rparr>"

definition demo_spec :: sandbox_spec where
  "demo_spec = \<lparr>sp_image = [], sp_argv = [], sp_workdir = ''d'', sp_stdin = [], sp_timeoutMs = 100, sp_limits = demo_limits\<rparr>"

definition demo_obs :: container_obs where
  "demo_obs = \<lparr>co_chunks = [(True, ''ab''), (False, ''c''), (True, ''de''), (False, ''f'')], co_statusCode = 0,
     co_durationMs = 5, co_watchdogFired = False, co_oomKilled = None, co_maxUsage = None, co_usage = None\<rparr>"


text \<open>
  C21. A request can only tighten the ceilings, and every container is locked down: whatever a request
  that passes validation asks for, and whatever containers do, the execution starts at most two
  containers, each without network, with a read-only root and source, no capabilities and an
  unprivileged user, with memory between 16 MB and the service maximum and swap disabled, and the
  run's time limit lies between 100 ms and the service maximum.
\<close>

theorem requests_only_tighten:
  assumes "cfg_ok c" and "parse_request c body = Some r"
  shows "100 \<le> el_timeLimitMs (resolveLimits c r) \<and> el_timeLimitMs (resolveLimits c r) \<le> ec_maxExecutionMs c
    \<and> (\<exists>ks. ew_containers (snd (execute e (job_for c now r) w)) = ew_containers w @ ks \<and> length ks \<le> 2
        \<and> list_all (locked_down c (eq_language r)) ks)"
proof -
  let ?job = "job_for c now r"
  from assms(2) have t: "optional_field (int_between 100 (ec_maxExecutionMs c)) (jfield ''timeLimitMs'' body) = Some (eq_timeLimitMs r)"
      and m: "optional_field (int_between 16 (ec_maxMemoryMb c)) (jfield ''memoryLimitMb'' body) = Some (eq_memoryLimitMb r)"
    by (auto simp: parse_request_def split: option.splits)
  have time: "100 \<le> el_timeLimitMs (resolveLimits c r) \<and> el_timeLimitMs (resolveLimits c r) \<le> ec_maxExecutionMs c"
    using assms(1) t by (cases "eq_timeLimitMs r") (auto simp: resolveLimits_def or_default_def cfg_ok_def dest: optional_field_bounds)
  have mem: "16 \<le> el_memoryLimitMb (resolveLimits c r) \<and> el_memoryLimitMb (resolveLimits c r) \<le> ec_maxMemoryMb c"
    using assms(1) m by (cases "eq_memoryLimitMb r") (auto simp: resolveLimits_def or_default_def cfg_ok_def dest: optional_field_bounds)
  have spec: "sp_limits s = resolveLimits c r \<and> sp_image s = lg_image (getLanguageProfile (eq_language r))"
    if "s \<in> set (phase_specs ?job dir)" for s dir
    using that by (auto simp: phase_specs_def spec_for_def job_for_def split: option.splits)
  have hard: "locked_down c (eq_language r) k"
    if k: "k \<in> hardenedContainer ` set (phase_specs ?job dir)" for k dir
  proof -
    from k obtain s where s: "s \<in> set (phase_specs ?job dir)" "k = hardenedContainer s" by blast
    from spec[OF s(1)] mem show ?thesis by (simp add: locked_down_def s(2) hardenedContainer_def Let_def) (simp add: resolveLimits_def)
  qed
  show ?thesis
  proof (cases rule: execute_cases[of e w])
    case (created dir)
    from execute_created[OF created, of ?job] obtain n where n: "n \<le> 2"
        "ew_containers (snd (execute e ?job w)) = ew_containers w @ map hardenedContainer (take n (phase_specs ?job dir))" by auto
    have "k \<in> hardenedContainer ` set (phase_specs ?job dir)" if "k \<in> set (map hardenedContainer (take n (phase_specs ?job dir)))" for k
      using that by (auto dest: in_set_takeD)
    with hard have "list_all (locked_down c (eq_language r)) (map hardenedContainer (take n (phase_specs ?job dir)))"
      by (meson list_all_iff)
    with time n show ?thesis
      by (intro conjI exI[of _ "map hardenedContainer (take n (phase_specs ?job dir))"]) simp_all
  next
    case failed
    with time show ?thesis by (simp add: execute_failed)
  qed
qed

lemma requests_only_tighten_witness:
  "el_timeLimitMs (resolveLimits default_cfg \<lparr>eq_language = XPython, eq_code = ''x'', eq_input = [], eq_timeLimitMs = None,
      eq_memoryLimitMb = Some 16, eq_priority = None\<rparr>) \<le> 5000"
proof -
  let ?body = "JObj [(''language'', JStr ''python''), (''code'', JStr ''x''), (''memoryLimitMb'', JNum 16)]"
  have "cfg_ok default_cfg" by (simp add: cfg_ok_def default_cfg_def)
  moreover have "parse_request default_cfg ?body = Some \<lparr>eq_language = XPython, eq_code = ''x'', eq_input = [],
      eq_timeLimitMs = None, eq_memoryLimitMb = Some 16, eq_priority = None\<rparr>"
    by (simp add: parse_request_def bounded_str_def optional_field_def int_between_def default_cfg_def)
  ultimately show ?thesis
    using requests_only_tighten[of default_cfg ?body] by (simp add: default_cfg_def)
qed


definition demo_engine :: engine_env where
  "demo_engine = \<lparr>ee_docker = (\<lambda>n s. None), ee_mkdir = (\<lambda>n. Some (replicate n (CHR ''d''), True))\<rparr>"

definition demo_ew :: engine_world where
  "demo_ew = \<lparr>ew_dirs = Map.empty, ew_creates = 0, ew_containers = [], ew_deadLetters = []\<rparr>"


text \<open>
  The backlog ceiling is soft: with at most K requests between the count and the add, the queue
  never holds more than the ceiling plus K minus one jobs, and that many are reachable, so two
  concurrent requests already overrun the ceiling.
\<close>

theorem backlog_soft_ceiling:
  assumes "1 \<le> ec_maxQueueDepth c"
  shows "(\<forall>depth inflight. queue_steps c K (depth, inflight) \<longrightarrow> depth \<le> ec_maxQueueDepth c - 1 + int K)
    \<and> (1 \<le> K \<longrightarrow> queue_steps c K (ec_maxQueueDepth c - 1 + int K, 0))"
proof (intro conjI allI impI)
  fix depth inflight assume "queue_steps c K (depth, inflight)"
  from queue_bound[OF this assms] show "depth \<le> ec_maxQueueDepth c - 1 + int K" by simp
next
  assume K: "1 \<le> K"
  let ?d = "ec_maxQueueDepth c - 1"
  from queue_fill[OF K, of "nat ?d" c] assms have "queue_steps c K (?d, 0)" "admit c ?d" by (simp_all add: admit_def)
  from queue_adds[OF queue_checks[OF this, of K]] show "queue_steps c K (?d + int K, 0)" by simp
qed

lemma backlog_soft_ceiling_witness: "queue_steps default_cfg 2 (10001, 0)"
  using backlog_soft_ceiling[of default_cfg 2] by (simp add: default_cfg_def)

end
