(* ===== verification/Bridges.thy ===== *)
theory Bridges
  imports BattleProps MatchService JudgeProps ExecProps
begin

text \<open>
  The seams between the components: the HTTP adapter through which the judge calls the execution
  engine, and the two callbacks of the backend's composition root (index.ts) through which matchmaking
  creates battles and the judge hands verdicts to the battle engine.
\<close>

section \<open>Judge to execution engine\<close>

fun language_name :: "language \<Rightarrow> string" where
  "language_name LJavascript = ''javascript''"
| "language_name LTypescript = ''typescript''"
| "language_name LPython = ''python''"
| "language_name LCpp = ''cpp''"
| "language_name LJava = ''java''"

definition adapter_body :: "run_input \<Rightarrow> json" where
  "adapter_body i = JObj [(''language'', JStr (language_name (rn_language i))), (''code'', JStr (rn_code i)),
     (''stdin'', JStr (rn_stdin i)),
     (''limits'', JObj [(''timeoutMs'', JNum (of_int (rn_timeLimitMs i))), (''memoryMb'', JNum (of_int (rn_memoryLimitMb i)))])]"

text \<open>Absent and null fields take the default; fields have the declared types when present.\<close>

definition toOutcome :: "json \<Rightarrow> outcome" where
  "toOutcome p =
     \<lparr>oc_stdout = or_default (as_str (jfield ''stdout'' p)) [], oc_stderr = or_default (as_str (jfield ''stderr'' p)) [],
      oc_exitCode = map_option floor (as_num (jfield ''exitCode'' p)),
      oc_durationMs = or_default (as_num (jfield ''durationMs'' p)) 0,
      oc_memoryUsedMb = or_default (as_num (jfield ''memoryUsedMb'' p)) 0,
      oc_oomKilled = or_default (as_bool (jfield ''oomKilled'' p)) False,
      oc_timedOut = or_default (as_bool (jfield ''timedOut'' p)) False,
      oc_truncated = or_default (as_bool (jfield ''truncated'' p)) False,
      oc_compileError = as_str (jfield ''compileError'' p)\<rparr>"

text \<open>A request that fails or is aborted, a status outside 200 to 299 and a null body all mean unavailable.\<close>

definition http_run :: "(json \<Rightarrow> (nat \<times> json) option) \<Rightarrow> run_input \<Rightarrow> outcome option" where
  "http_run fetch i = (case fetch (adapter_body i) of None \<Rightarrow> None
     | Some (status, body) \<Rightarrow> if 200 \<le> status \<and> status \<le> 299 \<and> body \<noteq> JNull then Some (toOutcome body) else None)"

definition engine_fetch :: "exec_cfg \<Rightarrow> engine_env \<Rightarrow> int \<Rightarrow> int \<Rightarrow> bool \<Rightarrow> engine_world \<Rightarrow> json \<Rightarrow> (nat \<times> json) option" where
  "engine_fetch c e now depth in_time w body = Some (fst (execute_endpoint c e now depth in_time body w))"

lemma error_status: "\<not> (200 \<le> fst (exec_error_code err) \<and> fst (exec_error_code err) \<le> 299)"
  by (cases err) simp_all

lemma envelope_outcome: "oc_exitCode (toOutcome (JObj [(''success'', b), (''data'', d)])) = None
    \<and> \<not> truthy_str (oc_compileError (toOutcome (JObj [(''success'', b), (''data'', d)])))
    \<and> \<not> oc_timedOut (toOutcome (JObj [(''success'', b), (''data'', d)]))
    \<and> \<not> oc_oomKilled (toOutcome (JObj [(''success'', b), (''data'', d)]))
    \<and> \<not> oc_truncated (toOutcome (JObj [(''success'', b), (''data'', d)]))"
  by (simp add: toOutcome_def or_default_def)

lemma adapter_fields: "jfield ''input'' (adapter_body i) = None" "jfield ''timeLimitMs'' (adapter_body i) = None"
    "jfield ''memoryLimitMb'' (adapter_body i) = None" "jfield ''priority'' (adapter_body i) = None"
    "jfield ''language'' (adapter_body i) = Some (JStr (language_name (rn_language i)))"
  by (simp_all add: adapter_body_def)

section \<open>Composition root\<close>

text \<open>Matchmaking asks for a battle without a problem; a failed creation yields the empty battle id.\<close>

definition bridge_createBattle :: "int \<Rightarrow> fresh_values \<Rightarrow> ident list \<Rightarrow> string \<Rightarrow> bool \<Rightarrow> battle_world \<Rightarrow> ident \<times> battle_world" where
  "bridge_createBattle now fr players mode rated w =
     (case create now fr \<lparr>cd_type = TypeOneVsOne, cd_mode = ModeOneVsOne, cd_problemId = None, cd_rated = rated,
         cd_isPrivate = False, cd_name = ''Ranked '' @ mode, cd_capacity = length players, cd_durationMs = None\<rparr> (hd players) w of
        (Inr (battle, token), w') \<Rightarrow> (d_id battle, w')
      | (Inl err, w') \<Rightarrow> ([], w'))"

fun verdict_name :: "verdict \<Rightarrow> string" where
  "verdict_name Vd_PENDING = ''PENDING''"
| "verdict_name Vd_QUEUED = ''QUEUED''"
| "verdict_name Vd_RUNNING = ''RUNNING''"
| "verdict_name Vd_ACCEPTED = ''ACCEPTED''"
| "verdict_name Vd_WRONG_ANSWER = ''WRONG_ANSWER''"
| "verdict_name Vd_TIME_LIMIT_EXCEEDED = ''TIME_LIMIT_EXCEEDED''"
| "verdict_name Vd_MEMORY_LIMIT_EXCEEDED = ''MEMORY_LIMIT_EXCEEDED''"
| "verdict_name Vd_RUNTIME_ERROR = ''RUNTIME_ERROR''"
| "verdict_name Vd_COMPILATION_ERROR = ''COMPILATION_ERROR''"
| "verdict_name Vd_OUTPUT_LIMIT_EXCEEDED = ''OUTPUT_LIMIT_EXCEEDED''"
| "verdict_name Vd_PRESENTATION_ERROR = ''PRESENTATION_ERROR''"
| "verdict_name Vd_SKIPPED = ''SKIPPED''"
| "verdict_name Vd_INTERNAL_ERROR = ''INTERNAL_ERROR''"

definition bridge_onVerdict :: "verdict_payload \<Rightarrow> verdict_msg" where
  "bridge_onVerdict p =
     \<lparr>v_battleId = (case vp_battleId p of None \<Rightarrow> ''null'' | Some i \<Rightarrow> i), v_userId = vp_userId p,
      v_submissionId = vp_submissionId p, v_status = verdict_name (vp_verdict p), v_passed = int (vp_passed p),
      v_total = int (vp_total p), v_runtimeMs = Some (vp_runtimeMs p), v_language = None, v_isFinal = Some True\<rparr>"

lemma verdict_name_accepted: "verdict_name v = ''ACCEPTED'' \<longleftrightarrow> v = Vd_ACCEPTED"
  by (cases v) simp_all

lemma handle_other_rows: "v_status v \<noteq> ''ACCEPTED'' \<Longrightarrow>
    w_rows (snd (handle_verdict now fr v w)) = w_rows w \<and> w_ratingQueue (snd (handle_verdict now fr v w)) = w_ratingQueue w"
  by (simp add: handle_verdict_def recordSubmission_def op_simps get_runtime_def load_def listEvents_def emitAndLog_def
      appendEvent_def emitToRoom_def findById_def split: option.splits prod.splits sum.splits)

section \<open>Properties\<close>

text \<open>
  Judging through the real execution engine never accepts anything: whatever the engine's state,
  limits and containers do, every run the adapter asks for either counts as an outage or is judged a
  runtime error, because the adapter reads the fields of the answer outside its data envelope; and
  requests that pass validation run with an empty input and the default limits, because the adapter
  names those fields differently.
\<close>

theorem engine_answers_misread:
  "(case http_run (engine_fetch c e now depth in_time w) i of None \<Rightarrow> True
     | Some oc \<Rightarrow> map_verdict oc tc cmp = Vd_RUNTIME_ERROR)
   \<and> (case parse_request c (adapter_body i) of None \<Rightarrow> True
     | Some r \<Rightarrow> eq_input r = [] \<and> eq_timeLimitMs r = None \<and> eq_memoryLimitMb r = None)
   \<and> (rn_language i = LTypescript \<longrightarrow> http_run (engine_fetch c e now depth in_time w) i = None)"
proof (intro conjI impI)
  obtain x w1 where x: "(case parse_request c (adapter_body i) of None \<Rightarrow> throw XValidation
            | Some r \<Rightarrow> enqueueAndWait c e depth in_time (job_for c now r)) w = (x, w1)" by force
  show "case http_run (engine_fetch c e now depth in_time w) i of None \<Rightarrow> True
     | Some oc \<Rightarrow> map_verdict oc tc cmp = Vd_RUNTIME_ERROR"
  proof (cases x)
    case (Inl err)
    then show ?thesis using error_status[of err]
      by (cases err) (simp_all add: http_run_def engine_fetch_def execute_endpoint_def x)
  next
    case (Inr r)
    then show ?thesis using envelope_outcome[of "JBool True" "result_json r"]
      by (simp add: http_run_def engine_fetch_def execute_endpoint_def x map_verdict_def)
  qed
  show "case parse_request c (adapter_body i) of None \<Rightarrow> True
     | Some r \<Rightarrow> eq_input r = [] \<and> eq_timeLimitMs r = None \<and> eq_memoryLimitMb r = None"
    by (auto simp: parse_request_def adapter_fields optional_field_def split: option.splits)
next
  assume "rn_language i = LTypescript"
  then have "parse_request c (adapter_body i) = None" by (simp add: parse_request_def adapter_fields)
  then show "http_run (engine_fetch c e now depth in_time w) i = None"
    by (simp add: http_run_def engine_fetch_def execute_endpoint_def op_simps)
qed

lemma engine_answers_misread_witness:
  "http_run (engine_fetch default_cfg demo_engine 0 0 True demo_ew)
     \<lparr>rn_language = LTypescript, rn_code = ''x'', rn_stdin = ''1'', rn_timeLimitMs = 1000, rn_memoryLimitMb = 64\<rparr> = None"
  by (rule engine_answers_misread[THEN conjunct2, THEN conjunct2, rule_format]) simp

text \<open>
  C23. A judged battle submission reaches the battle: judging hands on exactly one verdict for a
  submission that names a battle; on a running one-versus-one battle an accepted verdict finishes the
  battle at that instant with the submitter as winner, and any other verdict, a presentation error
  included, changes neither its row nor the rating queue.
\<close>

theorem judged_submission_reaches_battle:
  assumes "judge e job jw = (Inr res, jw')" and "jw_rows jw (sj_submissionId job) \<noteq> None"
    and "sj_battleId job = Some i" and "i \<noteq> []" and "sj_userId job \<noteq> []"
    and "battle_reachable (t, w)" and "t \<le> t'" and "kv_get t' (w_runtime w) i = Some r"
    and "rb_state r = ACTIVE" and "rb_mode r = ModeOneVsOne"
  shows "\<exists>p. jw_forwarded jw' = jw_forwarded jw @ [p]
    \<and> (jr_verdict res = Vd_ACCEPTED \<longrightarrow> (\<exists>b. find_row i (w_rows (snd (handle_verdict t' fr (bridge_onVerdict p) w))) = Some b
          \<and> b_status b = StFinished \<and> b_winnerId b = Some (sj_userId job) \<and> b_endedAt b = Some t'))
    \<and> (jr_verdict res \<noteq> Vd_ACCEPTED \<longrightarrow> w_rows (snd (handle_verdict t' fr (bridge_onVerdict p) w)) = w_rows w
          \<and> w_ratingQueue (snd (handle_verdict t' fr (bridge_onVerdict p) w)) = w_ratingQueue w)"
proof -
  let ?p = "verdict_of job res" and ?v = "bridge_onVerdict (verdict_of job res)"
  have f: "jw_forwarded jw' = jw_forwarded jw @ [?p]"
    using judge_result_effect[OF assms(1,2)] assms(3,4) by simp
  have v: "v_battleId ?v = i" "v_userId ?v = sj_userId job" "v_status ?v = verdict_name (jr_verdict res)"
    using assms(3) by (simp_all add: bridge_onVerdict_def verdict_of_def)
  have "\<exists>b. find_row i (w_rows (snd (handle_verdict t' fr ?v w))) = Some b
      \<and> b_status b = StFinished \<and> b_winnerId b = Some (sj_userId job) \<and> b_endedAt b = Some t'" if "jr_verdict res = Vd_ACCEPTED"
    using accepted_outcome(1)[where v = ?v and fr = fr, OF assms(6,7) _ assms(9,10) _ _ refl] assms(5,8) that by (simp add: v)
  moreover have "v_status ?v \<noteq> ''ACCEPTED''" if "jr_verdict res \<noteq> Vd_ACCEPTED"
    using that by (simp add: v verdict_name_accepted)
  ultimately show ?thesis using f handle_other_rows[of ?v t' fr w] by (intro exI[of _ ?p]) blast
qed

definition demo_battle_job :: sub_job where
  "demo_battle_job = job_of ''s'' (echo_submission\<lparr>su_userId := ''g'', su_battleId := Some ''b1''\<rparr>)"

lemma judged_submission_reaches_battle_witness:
  "\<exists>res jw' p b. judge (judge_at 20) demo_battle_job demo_running = (Inr res, jw') \<and> jw_forwarded jw' = [p]
     \<and> find_row ''b1'' (w_rows (snd (handle_verdict 8500 demo_fr (bridge_onVerdict p) demo_active))) = Some b
     \<and> b_winnerId b = Some ''g''"
proof -
  have "map_option jr_verdict (case fst (judge (judge_at 20) demo_battle_job demo_running) of Inr r \<Rightarrow> Some r | Inl _ \<Rightarrow> None)
      = Some Vd_ACCEPTED \<and> jw_forwarded demo_running = []" by code_simp
  then obtain res jw' where j: "judge (judge_at 20) demo_battle_job demo_running = (Inr res, jw')"
      "jr_verdict res = Vd_ACCEPTED" "jw_forwarded demo_running = []"
    by (cases "judge (judge_at 20) demo_battle_job demo_running") (auto split: sum.splits)
  have job: "sj_submissionId demo_battle_job = ''s''" "sj_battleId demo_battle_job = Some ''b1''" "sj_userId demo_battle_job = ''g''"
    by (simp_all add: demo_battle_job_def job_of_def echo_submission_def)
  have "status_of demo_running ''s'' = Some Vd_INTERNAL_ERROR" by code_simp
  then have row: "jw_rows demo_running (sj_submissionId demo_battle_job) \<noteq> None" by (auto simp: status_of_def job)
  from judged_submission_reaches_battle[OF j(1) row job(2) _ _ reach_active _ active_facts(3), of 8500 demo_fr] j job show ?thesis
    by (auto simp: demo_runtime_active_def demo_runtime_def)
qed

text \<open>
  No matched pair ever gets a battle: the callback through which matchmaking creates battles always
  answers the empty battle id and leaves the battle engine as it was, so every match it creates names
  no battle.
\<close>

theorem matched_pairs_get_no_battle:
  "bridge_createBattle now fr players mode rated w = ([], w)
   \<and> mt_battleId (match_of (env\<lparr>en_battle := \<lambda>ps m ra. fst (bridge_createBattle now fr ps (mode_name m) ra w)\<rparr>) now a b) = []"
  by (simp add: bridge_createBattle_def create_def op_simps match_of_def)

end
