(* ===== verification/SocketRooms.thy ===== *)
theory SocketRooms
  imports RateLimit
begin

text \<open>
  services/socket-service: the room, presence and connection stores, the room and presence managers, the
  event handlers and the gateway. A request runs at one instant. Socket.IO is modelled by the sockets
  that sit in each room and the log of what was emitted; hash fields and set members keep insertion
  order.
\<close>

section \<open>State\<close>

datatype rt_room_type = RtyBattle | RtyCollab | RtyInterview
datatype presence_state = PsOnline | PsIdle | PsOffline

record auth_user =
  au_id :: ident
  au_role :: string
  au_username :: string

record participant =
  pa_userId :: ident
  pa_username :: string
  pa_role :: string
  pa_state :: presence_state
  pa_typing :: bool
  pa_focused :: bool
  pa_cursor :: "(int \<times> int) option"
  pa_joinedAt :: int

record rt_room =
  srm_type :: rt_room_type
  srm_ownerId :: ident
  srm_capacity :: nat
  srm_createdAt :: int

record socket_data =
  sd_user :: auth_user
  sd_lastNonce :: int
  sd_bucket :: rate_bucket
  sd_joined :: "ident list"

datatype rt_error = RtInvalidToken | RtUnauthorized string | RtRoomNotFound ident | RtRoomFull nat
  | RtDuplicateConnection nat | RtRateLimited | RtValidation string | RtInternal

fun rt_error_code :: "rt_error \<Rightarrow> string" where
  "rt_error_code RtInvalidToken = ''INVALID_TOKEN''"
| "rt_error_code (RtUnauthorized _) = ''UNAUTHORIZED''"
| "rt_error_code (RtRoomNotFound _) = ''ROOM_NOT_FOUND''"
| "rt_error_code (RtRoomFull _) = ''ROOM_FULL''"
| "rt_error_code (RtDuplicateConnection _) = ''DUPLICATE_CONNECTION''"
| "rt_error_code RtRateLimited = ''RATE_LIMITED''"
| "rt_error_code (RtValidation _) = ''VALIDATION_ERROR''"
| "rt_error_code RtInternal = ''INTERNAL_ERROR''"

datatype rt_event = RvUserJoined participant | RvUserLeft ident | RvClosed | RvOwnerChanged ident
  | RvPresence ident presence_state bool | RvTyping ident bool | RvCursor ident "int \<times> int" | RvError string

text \<open>An emission: to a room except possibly one socket, or to one socket.\<close>

datatype rt_push = ToRoom ident "ident option" rt_event | ToSocket ident rt_event

record rt_cfg =
  rg_battleCapacity :: nat
  rg_collabCapacity :: nat
  rg_interviewCapacity :: nat
  rg_roomTtlMs :: int
  rg_maxConnections :: nat
  rg_rateWindowMs :: int
  rg_rateMax :: nat
  rg_replayWindowMs :: int

text \<open>The defaults of the environment schema, and the bounds it puts on what may be configured.\<close>

definition default_rt_cfg :: rt_cfg where
  "default_rt_cfg = \<lparr>rg_battleCapacity = 2, rg_collabCapacity = 50, rg_interviewCapacity = 4,
     rg_roomTtlMs = 86400 * 1000, rg_maxConnections = 5, rg_rateWindowMs = 10000, rg_rateMax = 100, rg_replayWindowMs = 30000\<rparr>"

definition rt_cfg_ok :: "rt_cfg \<Rightarrow> bool" where
  "rt_cfg_ok g \<longleftrightarrow> 2 \<le> rg_battleCapacity g \<and> 2 \<le> rg_collabCapacity g \<and> 2 \<le> rg_interviewCapacity g
     \<and> 60 * 1000 \<le> rg_roomTtlMs g \<and> 1 \<le> rg_maxConnections g \<and> rg_maxConnections g \<le> 50
     \<and> 100 \<le> rg_rateWindowMs g \<and> 1 \<le> rg_rateMax g \<and> 1000 \<le> rg_replayWindowMs g"

record rt_world =
  rt_rooms :: "(ident, rt_room) kv"
  rt_members :: "(ident, ident list) kv"
  rt_presence :: "(ident, (ident \<times> participant) list) kv"
  rt_conns :: "(ident, ident list) kv"
  rt_sockets :: "ident \<Rightarrow> socket_data option"
  rt_inRoom :: "(ident \<times> ident) list"
  rt_sent :: "rt_push list"

type_synonym 'a rt_op = "(rt_world, rt_error, 'a) op"

text \<open>Changing a value keeps its time to live; an emptied set or hash disappears.\<close>

definition kv_modify :: "int \<Rightarrow> ('v list \<Rightarrow> 'v list) \<Rightarrow> ('k, 'v list) kv \<Rightarrow> 'k \<Rightarrow> ('k, 'v list) kv" where
  "kv_modify now f m k = (case m k of None \<Rightarrow> m
     | Some (v, x) \<Rightarrow> if alive now x \<and> f v \<noteq> [] then m(k := Some (f v, x)) else m(k := None))"

definition set_add :: "'a \<Rightarrow> 'a list \<Rightarrow> 'a list" where
  "set_add a xs = (if List.member xs a then xs else xs @ [a])"

definition field_set :: "ident \<Rightarrow> 'a \<Rightarrow> (ident \<times> 'a) list \<Rightarrow> (ident \<times> 'a) list" where
  "field_set k v fs = (if List.member (map fst fs) k then map (\<lambda>f. if fst f = k then (k, v) else f) fs else fs @ [(k, v)])"

section \<open>Stores\<close>

definition capacityFor :: "rt_cfg \<Rightarrow> rt_room_type \<Rightarrow> nat" where
  "capacityFor g t = (case t of RtyBattle \<Rightarrow> rg_battleCapacity g | RtyCollab \<Rightarrow> rg_collabCapacity g
     | RtyInterview \<Rightarrow> rg_interviewCapacity g)"

definition store_createRoom :: "rt_cfg \<Rightarrow> int \<Rightarrow> ident \<Rightarrow> rt_room \<Rightarrow> rt_world \<Rightarrow> rt_world" where
  "store_createRoom g now i r w = w\<lparr>rt_rooms := kv_put (rt_rooms w) i r (Some (now + rg_roomTtlMs g))\<rparr>"

definition getRoom :: "int \<Rightarrow> ident \<Rightarrow> rt_world \<Rightarrow> rt_room option" where
  "getRoom now i w = kv_get now (rt_rooms w) i"

definition memberIds :: "int \<Rightarrow> ident \<Rightarrow> rt_world \<Rightarrow> ident list" where
  "memberIds now i w = kv_list now (rt_members w) i"

definition store_deleteRoom :: "ident \<Rightarrow> rt_world \<Rightarrow> rt_world" where
  "store_deleteRoom i w = w\<lparr>rt_rooms := kv_del (rt_rooms w) i, rt_members := kv_del (rt_members w) i,
     rt_presence := kv_del (rt_presence w) i\<rparr>"

definition addMember :: "rt_cfg \<Rightarrow> int \<Rightarrow> ident \<Rightarrow> ident \<Rightarrow> rt_world \<Rightarrow> rt_world" where
  "addMember g now i u w = w\<lparr>rt_members := kv_put (rt_members w) i (set_add u (memberIds now i w)) (Some (now + rg_roomTtlMs g))\<rparr>"

definition removeMember :: "int \<Rightarrow> ident \<Rightarrow> ident \<Rightarrow> nat rt_op" where
  "removeMember now i u w = (let w1 = w\<lparr>rt_members := kv_modify now (filter (\<lambda>v. v \<noteq> u)) (rt_members w) i\<rparr>
     in (Inr (length (memberIds now i w1)), w1))"

definition setOwner :: "ident \<Rightarrow> ident \<Rightarrow> rt_world \<Rightarrow> rt_world" where
  "setOwner i u w = (case rt_rooms w i of None \<Rightarrow> w
     | Some (r, x) \<Rightarrow> w\<lparr>rt_rooms := (rt_rooms w)(i := Some (r\<lparr>srm_ownerId := u\<rparr>, x))\<rparr>)"

definition presence_list :: "int \<Rightarrow> ident \<Rightarrow> rt_world \<Rightarrow> participant list" where
  "presence_list now i w = map snd (kv_list now (rt_presence w) i)"

definition presence_get :: "int \<Rightarrow> ident \<Rightarrow> ident \<Rightarrow> rt_world \<Rightarrow> participant option" where
  "presence_get now i u w = map_of (kv_list now (rt_presence w) i) u"

definition presence_set :: "rt_cfg \<Rightarrow> int \<Rightarrow> ident \<Rightarrow> participant \<Rightarrow> rt_world \<Rightarrow> rt_world" where
  "presence_set g now i p w = w\<lparr>rt_presence := kv_put (rt_presence w) i
     (field_set (pa_userId p) p (kv_list now (rt_presence w) i)) (Some (now + rg_roomTtlMs g))\<rparr>"

definition presence_update :: "int \<Rightarrow> ident \<Rightarrow> ident \<Rightarrow> (participant \<Rightarrow> participant) \<Rightarrow> participant option rt_op" where
  "presence_update now i u f w = (case presence_get now i u w of None \<Rightarrow> (Inr None, w)
     | Some p \<Rightarrow> (Inr (Some (f p)), w\<lparr>rt_presence := kv_modify now (field_set u (f p)) (rt_presence w) i\<rparr>))"

definition presence_remove :: "int \<Rightarrow> ident \<Rightarrow> ident \<Rightarrow> rt_world \<Rightarrow> rt_world" where
  "presence_remove now i u w = w\<lparr>rt_presence := kv_modify now (filter (\<lambda>f. fst f \<noteq> u)) (rt_presence w) i\<rparr>"

definition conn_add :: "int \<Rightarrow> ident \<Rightarrow> ident \<Rightarrow> nat rt_op" where
  "conn_add now u s w = (let xs = set_add s (kv_list now (rt_conns w) u)
     in (Inr (length xs), w\<lparr>rt_conns := kv_put (rt_conns w) u xs (Some (now + 86400 * 1000))\<rparr>))"

definition conn_remove :: "int \<Rightarrow> ident \<Rightarrow> ident \<Rightarrow> nat rt_op" where
  "conn_remove now u s w = (let w1 = w\<lparr>rt_conns := kv_modify now (filter (\<lambda>v. v \<noteq> s)) (rt_conns w) u\<rparr>
     in (Inr (length (kv_list now (rt_conns w1) u)), w1))"

section \<open>Managers\<close>

definition rt_create :: "rt_cfg \<Rightarrow> int \<Rightarrow> ident \<Rightarrow> ident \<Rightarrow> rt_room_type \<Rightarrow> ident option \<Rightarrow> (ident \<times> rt_room) rt_op" where
  "rt_create g now uuid owner t roomId =
     (let i = (case roomId of None \<Rightarrow> uuid | Some r \<Rightarrow> r) in
      bind_op (reads (getRoom now i)) (\<lambda>existing. case existing of Some r \<Rightarrow> ret (i, r)
      | None \<Rightarrow> let r = \<lparr>srm_type = t, srm_ownerId = owner, srm_capacity = capacityFor g t, srm_createdAt = now\<rparr>
          in then_op (writes (store_createRoom g now i r)) (ret (i, r))))"

definition rt_join :: "rt_cfg \<Rightarrow> int \<Rightarrow> ident \<Rightarrow> ident \<Rightarrow> rt_room rt_op" where
  "rt_join g now i u =
     bind_op (reads (getRoom now i)) (\<lambda>room. bind_op (of_option (RtRoomNotFound i) room) (\<lambda>r.
     bind_op (reads (memberIds now i)) (\<lambda>members.
     then_op (guard_op (List.member members u \<or> \<not> length members \<ge> srm_capacity r) (RtRoomFull (srm_capacity r)))
     (then_op (writes (addMember g now i u)) (ret r)))))"

definition rt_leave :: "int \<Rightarrow> ident \<Rightarrow> ident \<Rightarrow> (rt_room option \<times> bool) rt_op" where
  "rt_leave now i u =
     bind_op (reads (getRoom now i)) (\<lambda>room. case room of None \<Rightarrow> ret (None, False)
     | Some r \<Rightarrow> bind_op (removeMember now i u) (\<lambda>remaining.
         let ownerLeft = (srm_ownerId r = u) in
         if remaining = 0 then then_op (writes (store_deleteRoom i)) (ret (None, ownerLeft))
         else bind_op (reads (getRoom now i)) (\<lambda>r'. ret (r', ownerLeft))))"

definition rt_delete :: "int \<Rightarrow> ident \<Rightarrow> ident \<Rightarrow> rt_room rt_op" where
  "rt_delete now i u =
     bind_op (reads (getRoom now i)) (\<lambda>room. bind_op (of_option (RtRoomNotFound i) room) (\<lambda>r.
     then_op (guard_op (srm_ownerId r = u) (RtUnauthorized ''Only the room owner can delete the room''))
     (then_op (writes (store_deleteRoom i)) (ret r))))"

definition transferOwnership :: "int \<Rightarrow> ident \<Rightarrow> ident \<Rightarrow> ident \<Rightarrow> rt_room rt_op" where
  "transferOwnership now i u v =
     bind_op (reads (getRoom now i)) (\<lambda>room. bind_op (of_option (RtRoomNotFound i) room) (\<lambda>r.
     then_op (guard_op (srm_ownerId r = u) (RtUnauthorized ''Only the room owner can transfer ownership''))
     (bind_op (reads (memberIds now i)) (\<lambda>members.
      then_op (guard_op (List.member members v) (RtValidation ''New owner must be a member of the room''))
      (then_op (writes (setOwner i v)) (ret (r\<lparr>srm_ownerId := v\<rparr>)))))))"

definition handleOwnerDisconnect :: "int \<Rightarrow> ident \<Rightarrow> ident list \<Rightarrow> ident option rt_op" where
  "handleOwnerDisconnect now i remaining =
     bind_op (reads (getRoom now i)) (\<lambda>room. case room of None \<Rightarrow> ret None
     | Some r \<Rightarrow> if remaining = [] then ret None
         else if List.member remaining (srm_ownerId r) then ret None
         else then_op (writes (setOwner i (hd remaining))) (ret (Some (hd remaining))))"

definition presence_join :: "rt_cfg \<Rightarrow> int \<Rightarrow> ident \<Rightarrow> auth_user \<Rightarrow> participant rt_op" where
  "presence_join g now i u =
     (let p = \<lparr>pa_userId = au_id u, pa_username = au_username u, pa_role = au_role u, pa_state = PsOnline,
         pa_typing = False, pa_focused = True, pa_cursor = None, pa_joinedAt = now\<rparr>
      in then_op (writes (presence_set g now i p)) (ret p))"

definition presence_setState :: "int \<Rightarrow> ident \<Rightarrow> ident \<Rightarrow> presence_state \<Rightarrow> participant option rt_op" where
  "presence_setState now i u st = presence_update now i u (\<lambda>p. p\<lparr>pa_state := st\<rparr>)"

definition presence_setFocused :: "int \<Rightarrow> ident \<Rightarrow> ident \<Rightarrow> bool \<Rightarrow> participant option rt_op" where
  "presence_setFocused now i u f = presence_update now i u (\<lambda>p. p\<lparr>pa_focused := f, pa_state := (if f then PsOnline else PsIdle)\<rparr>)"

definition presence_setTyping :: "int \<Rightarrow> ident \<Rightarrow> ident \<Rightarrow> bool \<Rightarrow> participant option rt_op" where
  "presence_setTyping now i u b = presence_update now i u (\<lambda>p. p\<lparr>pa_typing := b\<rparr>)"

definition presence_setCursor :: "int \<Rightarrow> ident \<Rightarrow> ident \<Rightarrow> int \<times> int \<Rightarrow> participant option rt_op" where
  "presence_setCursor now i u c = presence_update now i u (\<lambda>p. p\<lparr>pa_cursor := Some c\<rparr>)"

section \<open>Handlers\<close>

definition rt_emit :: "rt_push \<Rightarrow> rt_world \<Rightarrow> rt_world" where
  "rt_emit p w = w\<lparr>rt_sent := rt_sent w @ [p]\<rparr>"

definition io_join :: "ident \<Rightarrow> ident \<Rightarrow> rt_world \<Rightarrow> rt_world" where
  "io_join s i w = w\<lparr>rt_inRoom := set_add (s, i) (rt_inRoom w)\<rparr>"

definition io_leave :: "ident \<Rightarrow> ident \<Rightarrow> rt_world \<Rightarrow> rt_world" where
  "io_leave s i w = w\<lparr>rt_inRoom := filter (\<lambda>e. e \<noteq> (s, i)) (rt_inRoom w)\<rparr>"

definition io_evict :: "ident \<Rightarrow> rt_world \<Rightarrow> rt_world" where
  "io_evict i w = w\<lparr>rt_inRoom := filter (\<lambda>e. snd e \<noteq> i) (rt_inRoom w)\<rparr>"

definition valid_id :: "ident \<Rightarrow> bool" where
  "valid_id i \<longleftrightarrow> 1 \<le> length i \<and> length i \<le> 128"

definition room_type_named :: "string \<Rightarrow> rt_room_type option" where
  "room_type_named s = (if s = ''battle'' then Some RtyBattle else if s = ''collaboration'' then Some RtyCollab
     else if s = ''interview'' then Some RtyInterview else None)"

text \<open>A payload that fails its schema throws a validation error of the schema library, which is no socket error.\<close>

definition handle_create :: "rt_cfg \<Rightarrow> int \<Rightarrow> ident \<Rightarrow> auth_user \<Rightarrow> string \<Rightarrow> ident option \<Rightarrow> unit rt_op" where
  "handle_create g now uuid u tname roomId =
     (case room_type_named tname of None \<Rightarrow> throw RtInternal
      | Some t \<Rightarrow> then_op (guard_op (case roomId of None \<Rightarrow> True | Some i \<Rightarrow> valid_id i) RtInternal)
          (bind_op (rt_create g now uuid (au_id u) t roomId) (\<lambda>_. ret ())))"

definition handle_join :: "rt_cfg \<Rightarrow> int \<Rightarrow> ident \<Rightarrow> auth_user \<Rightarrow> ident \<Rightarrow> unit rt_op" where
  "handle_join g now s u i =
     then_op (guard_op (valid_id i) RtInternal)
    (bind_op (rt_join g now i (au_id u)) (\<lambda>_.
     bind_op (presence_join g now i u) (\<lambda>p.
     then_op (writes (io_join s i)) (writes (rt_emit (ToRoom i (Some s) (RvUserJoined p)))))))"

definition leave_room :: "int \<Rightarrow> ident \<Rightarrow> auth_user \<Rightarrow> ident \<Rightarrow> unit rt_op" where
  "leave_room now s u i =
     then_op (writes (presence_remove now i (au_id u)))
    (bind_op (rt_leave now i (au_id u)) (\<lambda>(room, ownerLeft).
     then_op (writes (io_leave s i))
    (then_op (writes (rt_emit (ToRoom i (Some s) (RvUserLeft (au_id u)))))
     (case room of None \<Rightarrow> ret ()
      | Some _ \<Rightarrow> bind_op (reads (\<lambda>w. map pa_userId (presence_list now i w))) (\<lambda>remaining.
          bind_op (handleOwnerDisconnect now i remaining) (\<lambda>newOwner.
          case newOwner of None \<Rightarrow> ret () | Some v \<Rightarrow>
            if v = [] then ret () else writes (rt_emit (ToRoom i None (RvOwnerChanged v)))))))))"

definition handle_leave :: "int \<Rightarrow> ident \<Rightarrow> auth_user \<Rightarrow> ident \<Rightarrow> unit rt_op" where
  "handle_leave now s u i = then_op (guard_op (valid_id i) RtInternal) (leave_room now s u i)"

definition handle_delete :: "int \<Rightarrow> auth_user \<Rightarrow> ident \<Rightarrow> unit rt_op" where
  "handle_delete now u i =
     then_op (guard_op (valid_id i) RtInternal)
    (bind_op (rt_delete now i (au_id u)) (\<lambda>_.
     then_op (writes (rt_emit (ToRoom i None RvClosed))) (writes (io_evict i))))"

definition handle_transfer :: "int \<Rightarrow> auth_user \<Rightarrow> ident \<Rightarrow> ident \<Rightarrow> unit rt_op" where
  "handle_transfer now u i v =
     then_op (guard_op (valid_id i \<and> valid_id v) RtInternal)
    (bind_op (transferOwnership now i (au_id u) v) (\<lambda>_. writes (rt_emit (ToRoom i None (RvOwnerChanged v)))))"

definition handle_presence :: "int \<Rightarrow> auth_user \<Rightarrow> ident \<Rightarrow> bool option \<Rightarrow> presence_state option \<Rightarrow> unit rt_op" where
  "handle_presence now u i focused state =
     (if \<not> valid_id i then ret ()
      else bind_op (case focused of Some f \<Rightarrow> presence_setFocused now i (au_id u) f
            | None \<Rightarrow> (case state of Some st \<Rightarrow> presence_setState now i (au_id u) st | None \<Rightarrow> ret None)) (\<lambda>updated.
        case updated of None \<Rightarrow> ret ()
        | Some p \<Rightarrow> writes (rt_emit (ToRoom i None (RvPresence (au_id u) (pa_state p) (pa_focused p))))))"

definition handle_typing :: "int \<Rightarrow> auth_user \<Rightarrow> ident \<Rightarrow> bool \<Rightarrow> unit rt_op" where
  "handle_typing now u i typing =
     (if \<not> valid_id i then ret ()
      else bind_op (presence_setTyping now i (au_id u) typing) (\<lambda>updated.
        case updated of None \<Rightarrow> ret () | Some p \<Rightarrow> writes (rt_emit (ToRoom i None (RvTyping (au_id u) typing)))))"

definition acceptNonce :: "int \<Rightarrow> int \<Rightarrow> bool \<times> int" where
  "acceptNonce lastNonce nonce = (if nonce \<le> lastNonce then (False, lastNonce) else (True, nonce))"

definition isFresh :: "rt_cfg \<Rightarrow> int \<Rightarrow> int \<Rightarrow> bool" where
  "isFresh g now timestampMs \<longleftrightarrow> now - timestampMs \<le> rg_replayWindowMs g"

interpretation cursor_nonce: nonce_guard acceptNonce "\<lambda>n. n"
  by unfold_locales (auto simp: acceptNonce_def split: if_splits)

definition handle_cursor :: "int \<Rightarrow> ident \<Rightarrow> socket_data \<Rightarrow> ident \<Rightarrow> int \<Rightarrow> int \<Rightarrow> int \<Rightarrow> unit rt_op" where
  "handle_cursor now s d i line column nonce =
     (if \<not> (valid_id i \<and> 0 \<le> line \<and> line \<le> 1000000 \<and> 0 \<le> column \<and> column \<le> 100000 \<and> 1 \<le> nonce) then ret ()
      else case acceptNonce (sd_lastNonce d) nonce of (ok, mark) \<Rightarrow>
        if \<not> ok then ret ()
        else then_op (writes (\<lambda>w. w\<lparr>rt_sockets := (rt_sockets w)(s \<mapsto> d\<lparr>sd_lastNonce := mark\<rparr>)\<rparr>))
          (bind_op (presence_setCursor now i (au_id (sd_user d)) (line, column)) (\<lambda>_.
           writes (rt_emit (ToRoom i (Some s) (RvCursor (au_id (sd_user d)) (line, column)))))))"

section \<open>Gateway\<close>

text \<open>The handshake: the verified token payload, when there is one, becomes the identity of the socket.\<close>

record token_payload =
  tp_sub :: string
  tp_role :: "string option"
  tp_username :: "string option"

definition starts_with :: "string \<Rightarrow> string \<Rightarrow> bool" where
  "starts_with p s \<longleftrightarrow> take (length p) s = p"

definition extractToken :: "(string \<Rightarrow> string) \<Rightarrow> string option \<Rightarrow> string option \<Rightarrow> string option" where
  "extractToken strip_bearer authField header =
     (if truthy_str authField then Some (strip_bearer (the authField))
      else (case header of None \<Rightarrow> None
        | Some h \<Rightarrow> if starts_with ''Bearer '' h then Some (drop 7 h) else None))"

definition handshake :: "(string \<Rightarrow> token_payload option) \<Rightarrow> int \<Rightarrow> string option \<Rightarrow> rt_error + socket_data" where
  "handshake verify now token =
     (if \<not> truthy_str token then Inl RtInvalidToken
      else (case verify (the token) of None \<Rightarrow> Inl RtInvalidToken
        | Some p \<Rightarrow> if tp_sub p = [] then Inl RtInvalidToken
            else Inr \<lparr>sd_user = \<lparr>au_id = tp_sub p, au_role = (case tp_role p of None \<Rightarrow> ''USER'' | Some r \<Rightarrow> r),
                au_username = (case tp_username p of None \<Rightarrow> tp_sub p | Some n \<Rightarrow> n)\<rparr>,
              sd_lastNonce = 0, sd_bucket = \<lparr>bk_windowStart = now, bk_count = 0\<rparr>, sd_joined = []\<rparr>))"

definition on_connection :: "rt_cfg \<Rightarrow> int \<Rightarrow> ident \<Rightarrow> socket_data \<Rightarrow> rt_world \<Rightarrow> rt_world" where
  "on_connection g now s d w =
     (let u = au_id (sd_user d) in
      case conn_add now u s w of (Inl _, w1) \<Rightarrow> w1
      | (Inr liveCount, w1) \<Rightarrow>
          if liveCount > rg_maxConnections g
          then rt_emit (ToSocket s (RvError ''DUPLICATE_CONNECTION'')) (snd (conn_remove now u s w1))
          else w1\<lparr>rt_sockets := (rt_sockets w1)(s \<mapsto> d)\<rparr>)"

definition quiet :: "unit rt_op \<Rightarrow> rt_world \<Rightarrow> rt_world" where
  "quiet m w = snd (m w)"

text \<open>A disconnected socket leaves its Socket.IO rooms; the clean-up runs for the last socket of the user only.\<close>

definition on_disconnect :: "int \<Rightarrow> ident \<Rightarrow> rt_world \<Rightarrow> rt_world" where
  "on_disconnect now s w = (case rt_sockets w s of None \<Rightarrow> w
     | Some d \<Rightarrow>
         (let u = au_id (sd_user d);
              w1 = w\<lparr>rt_sockets := (rt_sockets w)(s := None), rt_inRoom := filter (\<lambda>e. fst e \<noteq> s) (rt_inRoom w)\<rparr>
          in case conn_remove now u s w1 of (Inl _, w2) \<Rightarrow> w2
             | (Inr remaining, w2) \<Rightarrow>
                 if remaining = 0 then fold (\<lambda>i. quiet (leave_room now s (sd_user d) i)) (sd_joined d) w2 else w2))"

datatype client_event = CeCreate string "ident option" | CeJoin ident | CeLeave ident | CeDelete ident
  | CeTransfer ident ident | CePresence ident "bool option" "presence_state option" | CeTyping ident bool
  | CeCursor ident int int int | CeHeartbeat

text \<open>The gateway's own listeners run before the handlers and record the attempt, not its outcome.\<close>

definition track_rooms :: "ident \<Rightarrow> client_event \<Rightarrow> rt_world \<Rightarrow> rt_world" where
  "track_rooms s ev w = (case rt_sockets w s of None \<Rightarrow> w
     | Some d \<Rightarrow> (case ev of
         CeJoin i \<Rightarrow> if i = [] then w else w\<lparr>rt_sockets := (rt_sockets w)(s \<mapsto> d\<lparr>sd_joined := set_add i (sd_joined d)\<rparr>)\<rparr>
       | CeLeave i \<Rightarrow> if i = [] then w else w\<lparr>rt_sockets := (rt_sockets w)(s \<mapsto> d\<lparr>sd_joined := filter (\<lambda>j. j \<noteq> i) (sd_joined d)\<rparr>)\<rparr>
       | _ \<Rightarrow> w))"

definition dispatch :: "rt_cfg \<Rightarrow> int \<Rightarrow> ident \<Rightarrow> ident \<Rightarrow> socket_data \<Rightarrow> client_event \<Rightarrow> unit rt_op" where
  "dispatch g now uuid s d ev = (case ev of
       CeCreate t i \<Rightarrow> handle_create g now uuid (sd_user d) t i
     | CeJoin i \<Rightarrow> handle_join g now s (sd_user d) i
     | CeLeave i \<Rightarrow> handle_leave now s (sd_user d) i
     | CeDelete i \<Rightarrow> handle_delete now (sd_user d) i
     | CeTransfer i v \<Rightarrow> handle_transfer now (sd_user d) i v
     | CePresence i f st \<Rightarrow> handle_presence now (sd_user d) i f st
     | CeTyping i b \<Rightarrow> handle_typing now (sd_user d) i b
     | CeCursor i l c n \<Rightarrow> handle_cursor now s d i l c n
     | CeHeartbeat \<Rightarrow> ret ())"

text \<open>A handler's socket error is acknowledged and emitted; any other error is only acknowledged.\<close>

definition guard_ack :: "ident \<Rightarrow> unit rt_op \<Rightarrow> rt_world \<Rightarrow> string option \<times> rt_world" where
  "guard_ack s m w = (case m w of
       (Inr _, w1) \<Rightarrow> (None, w1)
     | (Inl err, w1) \<Rightarrow> (Some (rt_error_code err),
         if err = RtInternal then w1 else rt_emit (ToSocket s (RvError (rt_error_code err))) w1))"

text \<open>The result is the error code of the acknowledgement, if there is one. A flooding socket gets no acknowledgement: it is cut off.\<close>

definition on_event :: "rt_cfg \<Rightarrow> int \<Rightarrow> ident \<Rightarrow> ident \<Rightarrow> client_event \<Rightarrow> rt_world \<Rightarrow> string option \<times> rt_world" where
  "on_event g now uuid s ev w = (case rt_sockets w s of None \<Rightarrow> (None, w)
     | Some d \<Rightarrow>
         (case bucket_hit (rg_rateWindowMs g) (rg_rateMax g) now (sd_bucket d) of (ok, b) \<Rightarrow>
            let d1 = d\<lparr>sd_bucket := b\<rparr>; w1 = w\<lparr>rt_sockets := (rt_sockets w)(s \<mapsto> d1)\<rparr> in
            if \<not> ok then (None, on_disconnect now s (rt_emit (ToSocket s (RvError ''RATE_LIMITED'')) w1))
            else (let w2 = track_rooms s ev w1
                  in guard_ack s (dispatch g now uuid s (the (rt_sockets w2 s)) ev) w2)))"

end
