(* ===== verification/SocketProps.thy ===== *)
theory SocketProps
  imports SocketRooms
begin

text \<open>
  What the socket service guarantees over every run of its gateway: bounded rooms and connection
  registries, rooms that only their owner closes or hands over, and the clean-up of the last socket.
\<close>

section \<open>The invariant\<close>

definition lists_ok :: "nat \<Rightarrow> ('k, 'v list) kv \<Rightarrow> bool" where
  "lists_ok n m \<longleftrightarrow> (\<forall>k xs x. m k = Some (xs, x) \<longrightarrow> distinct xs \<and> length xs \<le> n)"

definition caps_ok :: "rt_cfg \<Rightarrow> (ident, rt_room) kv \<Rightarrow> bool" where
  "caps_ok g m \<longleftrightarrow> (\<forall>k r x. m k = Some (r, x) \<longrightarrow> srm_capacity r = capacityFor g (srm_type r))"

definition max_room :: "rt_cfg \<Rightarrow> nat" where
  "max_room g = max (rg_battleCapacity g) (max (rg_collabCapacity g) (rg_interviewCapacity g))"

definition rt_inv :: "rt_cfg \<Rightarrow> rt_world \<Rightarrow> bool" where
  "rt_inv g w \<longleftrightarrow> caps_ok g (rt_rooms w) \<and> lists_ok (max_room g) (rt_members w)
     \<and> lists_ok (rg_maxConnections g) (rt_conns w)"

lemma lists_ok_put: "lists_ok n m \<Longrightarrow> distinct v \<Longrightarrow> length v \<le> n \<Longrightarrow> lists_ok n (kv_put m k v x)"
  by (auto simp: lists_ok_def kv_put_def)

lemma lists_ok_del: "lists_ok n m \<Longrightarrow> lists_ok n (kv_del m k)"
  by (auto simp: lists_ok_def kv_del_def)

lemma lists_ok_filter: "lists_ok n m \<Longrightarrow> lists_ok n (kv_modify now (filter P) m k)"
  unfolding lists_ok_def kv_modify_def
  by (auto split: option.splits if_splits intro: le_trans[OF length_filter_le] distinct_filter)

lemma lists_ok_list: "lists_ok n m \<Longrightarrow> distinct (kv_list now m k) \<and> length (kv_list now m k) \<le> n"
  by (auto simp: lists_ok_def kv_list_def kv_get_def split: option.splits)

lemma capacity_le: "capacityFor g t \<le> max_room g"
  by (cases t) (auto simp: capacityFor_def max_room_def)

lemma distinct_set_add: "distinct xs \<Longrightarrow> distinct (set_add a xs)"
  by (auto simp: set_add_def)

lemma length_set_add: "length (set_add a xs) = (if a \<in> set xs then length xs else length xs + 1)"
  by (auto simp: set_add_def)

lemma set_set_add [simp]: "set (set_add a xs) = insert a (set xs)"
  by (auto simp: set_add_def)

subsection \<open>Writes that leave it alone\<close>

named_theorems rt_frames \<open>the fields an operation of the socket service leaves alone\<close>

lemma rt_inv_sockets [rt_frames]: "rt_inv g (w\<lparr>rt_sockets := m\<rparr>) = rt_inv g w"
  by (simp add: rt_inv_def)

lemma rt_inv_inRoom [rt_frames]: "rt_inv g (w\<lparr>rt_inRoom := m\<rparr>) = rt_inv g w"
  by (simp add: rt_inv_def)

lemma rt_inv_emit [rt_frames]: "rt_inv g (rt_emit p w) = rt_inv g w"
  by (simp add: rt_inv_def rt_emit_def)

lemma rt_inv_io [rt_frames]: "rt_inv g (io_join s i w) = rt_inv g w" "rt_inv g (io_leave s i w) = rt_inv g w"
    "rt_inv g (io_evict i w) = rt_inv g w"
  by (simp_all add: rt_inv_def io_join_def io_leave_def io_evict_def)

lemma rt_inv_presence [rt_frames]: "rt_inv g (presence_remove now i u w) = rt_inv g w"
    "rt_inv g (presence_set g' now i p w) = rt_inv g w"
  by (simp_all add: rt_inv_def presence_remove_def presence_set_def)

lemma rt_inv_setOwner: "rt_inv g w \<Longrightarrow> rt_inv g (setOwner i u w)"
  by (auto simp: rt_inv_def setOwner_def caps_ok_def split: option.splits)

lemma rt_inv_deleteRoom: "rt_inv g w \<Longrightarrow> rt_inv g (store_deleteRoom i w)"
  by (auto simp: rt_inv_def store_deleteRoom_def caps_ok_def kv_del_def lists_ok_del[unfolded kv_del_def])

lemma rt_inv_createRoom: "rt_inv g w \<Longrightarrow> srm_capacity r = capacityFor g (srm_type r) \<Longrightarrow> rt_inv g (store_createRoom g now i r w)"
  by (auto simp: rt_inv_def store_createRoom_def caps_ok_def kv_put_def)

lemma rt_inv_addMember:
  assumes "rt_inv g w" and "u \<in> set (memberIds now i w) \<or> length (memberIds now i w) < max_room g"
  shows "rt_inv g (addMember g now i u w)"
proof -
  have m: "distinct (memberIds now i w)" "length (memberIds now i w) \<le> max_room g"
    using assms(1) lists_ok_list[of _ "rt_members w" now i] by (auto simp: rt_inv_def memberIds_def)
  then have "lists_ok (max_room g) (kv_put (rt_members w) i (set_add u (memberIds now i w)) (Some (now + rg_roomTtlMs g)))"
    using assms by (intro lists_ok_put) (auto simp: rt_inv_def distinct_set_add length_set_add)
  with assms(1) show ?thesis by (simp add: rt_inv_def addMember_def)
qed

lemma rt_inv_room_capacity: "rt_inv g w \<Longrightarrow> getRoom now i w = Some r \<Longrightarrow> srm_capacity r \<le> max_room g"
  using capacity_le[of g "srm_type r"] by (fastforce simp: rt_inv_def caps_ok_def getRoom_def kv_get_Some)

subsection \<open>Operations keep it\<close>

lemma keeps_removeMember: "keeps (rt_inv g) (removeMember now i u)"
  by (auto simp: keeps_def wp_def removeMember_def rt_inv_def Let_def lists_ok_filter)

lemma keeps_presence_update: "keeps (rt_inv g) (presence_update now i u f)"
  by (auto simp: keeps_def wp_def presence_update_def rt_inv_def split: option.splits)

lemmas keeps_intros = keeps_ret keeps_writes keeps_bind keeps_then keeps_removeMember keeps_presence_update
  rt_inv_setOwner rt_inv_deleteRoom rt_inv_createRoom

lemma keeps_rt_join: "keeps (rt_inv g) (rt_join g now i u)"
  by (auto simp: keeps_def rt_join_def wp_simps not_le split: option.splits
      intro!: rt_inv_addMember dest: rt_inv_room_capacity[of g _ now i] intro: less_le_trans)

lemma keeps_rt_create: "keeps (rt_inv g) (rt_create g now uuid u t i)"
  unfolding rt_create_def Let_def by (intro keeps_intros) (auto split: option.splits intro!: keeps_intros)

lemma keeps_ownerDisconnect: "keeps (rt_inv g) (handleOwnerDisconnect now i us)"
  unfolding handleOwnerDisconnect_def by (intro keeps_intros) (auto split: option.splits intro!: keeps_intros)

lemma keeps_rt_leave: "keeps (rt_inv g) (rt_leave now i u)"
  unfolding rt_leave_def Let_def by (intro keeps_intros) (auto split: option.splits intro!: keeps_intros)

lemma keeps_leave_room: "keeps (rt_inv g) (leave_room now s u i)"
  unfolding leave_room_def
  by (auto simp: rt_frames split: option.splits intro!: keeps_intros keeps_rt_leave keeps_ownerDisconnect)

lemma keeps_dispatch: "keeps (rt_inv g) (dispatch g now uuid s d ev)"
  unfolding dispatch_def handle_create_def handle_join_def handle_leave_def handle_delete_def handle_transfer_def
    handle_presence_def handle_typing_def handle_cursor_def rt_delete_def transferOwnership_def presence_join_def
    presence_setState_def presence_setFocused_def presence_setTyping_def presence_setCursor_def Let_def
  by (auto simp: rt_frames split: client_event.splits option.splits prod.splits
      intro!: keeps_intros keeps_rt_create keeps_rt_join keeps_leave_room)

section \<open>The gateway keeps it\<close>

lemma rt_inv_fold: "(\<And>i. keeps P (m i)) \<Longrightarrow> P w \<Longrightarrow> P (fold (\<lambda>i. quiet (m i)) is w)"
  by (induction "is" arbitrary: w) (auto simp: quiet_def keepsD)

lemma rt_inv_conn_remove: "rt_inv g w \<Longrightarrow> rt_inv g (snd (conn_remove now u s w))"
  by (auto simp: conn_remove_def rt_inv_def Let_def lists_ok_filter)

lemma rt_inv_disconnect: "rt_inv g w \<Longrightarrow> rt_inv g (on_disconnect now s w)"
proof (cases "rt_sockets w s")
  case (Some d)
  assume "rt_inv g w"
  then have "rt_inv g (snd (conn_remove now (au_id (sd_user d)) s
      (w\<lparr>rt_sockets := (rt_sockets w)(s := None), rt_inRoom := filter (\<lambda>e. fst e \<noteq> s) (rt_inRoom w)\<rparr>)))"
    by (intro rt_inv_conn_remove) (simp add: rt_inv_def)
  with Some show ?thesis
    by (auto simp: on_disconnect_def Let_def split: prod.splits sum.splits intro: rt_inv_fold keeps_leave_room)
qed (simp add: on_disconnect_def)

lemma conn_add_remove:
  assumes "lists_ok n (rt_conns w)" and "s \<notin> set (kv_list now (rt_conns w) u)"
  shows "lists_ok n (rt_conns (snd (conn_remove now u s (snd (conn_add now u s w)))))"
proof -
  have "filter (\<lambda>v. v \<noteq> s) (set_add s (kv_list now (rt_conns w) u)) = kv_list now (rt_conns w) u"
    using assms(2) by (auto simp: set_add_def filter_id_conv)
  with assms(1) lists_ok_list[OF assms(1), of now u] show ?thesis
    by (auto simp: conn_add_def conn_remove_def Let_def kv_modify_def kv_put_def lists_ok_def split: option.splits if_splits)
qed

lemma rt_inv_connection:
  assumes w: "rt_inv g w" and new: "s \<notin> set (kv_list now (rt_conns w) (au_id (sd_user d)))"
  shows "rt_inv g (on_connection g now s d w)"
proof -
  define xs where "xs = set_add s (kv_list now (rt_conns w) (au_id (sd_user d)))"
  have d: "distinct xs"
    using w lists_ok_list[of _ "rt_conns w" now "au_id (sd_user d)"] by (auto simp: xs_def rt_inv_def distinct_set_add)
  show ?thesis
  proof (cases "length xs > rg_maxConnections g")
    case True
    then show ?thesis
      using w conn_add_remove[OF _ new, of "rg_maxConnections g"]
      by (auto simp: on_connection_def conn_add_def Let_def rt_frames xs_def) (auto simp: rt_inv_def conn_remove_def Let_def)
  next
    case False
    with d have "lists_ok (rg_maxConnections g) (kv_put (rt_conns w) (au_id (sd_user d)) xs (Some (now + 86400 * 1000)))"
      using w by (intro lists_ok_put) (auto simp: rt_inv_def)
    with False w show ?thesis
      by (auto simp: on_connection_def conn_add_def Let_def xs_def[symmetric] rt_inv_def)
  qed
qed

lemma rt_inv_track: "rt_inv g (track_rooms s ev w) = rt_inv g w"
  by (auto simp: track_rooms_def rt_frames split: option.splits client_event.splits)

lemma rt_inv_ack: "keeps (rt_inv g) m \<Longrightarrow> rt_inv g w \<Longrightarrow> rt_inv g (snd (guard_ack s m w))"
  using keepsD[of "rt_inv g" m w] by (auto simp: guard_ack_def rt_frames split: prod.splits sum.splits)

lemma rt_inv_event: "rt_inv g w \<Longrightarrow> rt_inv g (snd (on_event g now uuid s ev w))"
  by (auto simp: on_event_def Let_def rt_frames rt_inv_track
      split: option.splits prod.splits intro!: rt_inv_disconnect rt_inv_ack keeps_dispatch)

section \<open>Runs\<close>

text \<open>
  A socket id is fresh when it connects; its identity is what the handshake made of its token.
\<close>

inductive rt_step :: "rt_cfg \<Rightarrow> (string \<Rightarrow> token_payload option) \<Rightarrow> rt_world \<Rightarrow> rt_world \<Rightarrow> bool"
  for g verify where
  connects: "handshake verify now tok = Inr d \<Longrightarrow> s \<notin> set (kv_list now (rt_conns w) (au_id (sd_user d)))
    \<Longrightarrow> rt_step g verify w (on_connection g now s d w)"
| emits: "rt_step g verify w (snd (on_event g now uuid s ev w))"
| disconnects: "rt_step g verify w (on_disconnect now s w)"

inductive rt_reachable :: "rt_cfg \<Rightarrow> (string \<Rightarrow> token_payload option) \<Rightarrow> rt_world \<Rightarrow> bool"
  for g verify where
  rt_start: "rt_reachable g verify \<lparr>rt_rooms = Map.empty, rt_members = Map.empty, rt_presence = Map.empty,
    rt_conns = Map.empty, rt_sockets = Map.empty, rt_inRoom = [], rt_sent = []\<rparr>"
| rt_next: "rt_reachable g verify w \<Longrightarrow> rt_step g verify w w' \<Longrightarrow> rt_reachable g verify w'"

inductive_cases rt_stepE: "rt_step g verify w w'"

lemma rt_step_inv: "rt_step g verify w w' \<Longrightarrow> rt_inv g w \<Longrightarrow> rt_inv g w'"
  by (auto elim!: rt_stepE simp: rt_inv_connection rt_inv_event rt_inv_disconnect)

lemma rt_reachable_inv: "rt_reachable g verify w \<Longrightarrow> rt_inv g w"
  by (induction rule: rt_reachable.induct)
    (auto simp: rt_step_inv, simp add: rt_inv_def caps_ok_def lists_ok_def)



section \<open>A concrete run\<close>

definition rt_empty :: rt_world where
  "rt_empty = \<lparr>rt_rooms = Map.empty, rt_members = Map.empty, rt_presence = Map.empty,
    rt_conns = Map.empty, rt_sockets = Map.empty, rt_inRoom = [], rt_sent = []\<rparr>"

definition demo_verify :: "string \<Rightarrow> token_payload option" where
  "demo_verify t = Some \<lparr>tp_sub = t, tp_role = None, tp_username = None\<rparr>"

definition demo_sock :: "string \<Rightarrow> socket_data" where
  "demo_sock t = \<lparr>sd_user = \<lparr>au_id = t, au_role = ''USER'', au_username = t\<rparr>, sd_lastNonce = 0,
     sd_bucket = \<lparr>bk_windowStart = 0, bk_count = 0\<rparr>, sd_joined = []\<rparr>"

lemma demo_handshake: "t \<noteq> [] \<Longrightarrow> handshake demo_verify 0 (Some t) = Inr (demo_sock t)"
  by (simp add: handshake_def demo_verify_def demo_sock_def)

definition rt_demo :: rt_world where
  "rt_demo = snd (on_event default_rt_cfg 2 ''x'' ''s1'' (CeJoin ''r'')
     (snd (on_event default_rt_cfg 1 ''x'' ''s1'' (CeCreate ''battle'' (Some ''r''))
       (on_connection default_rt_cfg 0 ''s2'' (demo_sock ''eve'')
         (on_connection default_rt_cfg 0 ''s1'' (demo_sock ''ann'') rt_empty)))))"

lemmas rt_eval = on_event_def on_connection_def conn_add_def conn_remove_def dispatch_def guard_ack_def track_rooms_def
  handle_create_def handle_join_def handle_leave_def handle_delete_def handle_transfer_def rt_create_def rt_join_def
  rt_leave_def rt_delete_def transferOwnership_def leave_room_def handleOwnerDisconnect_def presence_join_def
  room_type_named_def valid_id_def op_simps getRoom_def memberIds_def store_createRoom_def addMember_def
  removeMember_def store_deleteRoom_def setOwner_def presence_set_def presence_remove_def presence_list_def presence_get_def
  io_join_def io_leave_def io_evict_def rt_emit_def kv_get_def kv_put_def kv_del_def kv_list_def kv_modify_def
  set_add_def field_set_def bucket_hit_def capacityFor_def default_rt_cfg_def demo_sock_def rt_empty_def Let_def on_disconnect_def quiet_def

lemma rt_demo_eq: "rt_demo = \<lparr>rt_rooms = [''r'' \<mapsto> (\<lparr>srm_type = RtyBattle, srm_ownerId = ''ann'', srm_capacity = 2, srm_createdAt = 1\<rparr>, Some 86400001)],
   rt_members = [''r'' \<mapsto> ([''ann''], Some 86400002)],
   rt_presence = [''r'' \<mapsto> ([(''ann'', \<lparr>pa_userId = ''ann'', pa_username = ''ann'', pa_role = ''USER'', pa_state = PsOnline,
       pa_typing = False, pa_focused = True, pa_cursor = None, pa_joinedAt = 2\<rparr>)], Some 86400002)],
   rt_conns = [''ann'' \<mapsto> ([''s1''], Some 86400000), ''eve'' \<mapsto> ([''s2''], Some 86400000)],
   rt_sockets = [''s1'' \<mapsto> (demo_sock ''ann'')\<lparr>sd_bucket := \<lparr>bk_windowStart = 0, bk_count = 2\<rparr>, sd_joined := [''r'']\<rparr>,
      ''s2'' \<mapsto> demo_sock ''eve''],
   rt_inRoom = [(''s1'', ''r'')],
   rt_sent = [ToRoom ''r'' (Some ''s1'') (RvUserJoined \<lparr>pa_userId = ''ann'', pa_username = ''ann'', pa_role = ''USER'', pa_state = PsOnline,
       pa_typing = False, pa_focused = True, pa_cursor = None, pa_joinedAt = 2\<rparr>)]\<rparr>"
  by (simp add: rt_demo_def rt_eval fun_upd_twist numeral_2_eq_2)

lemma rt_demo_reachable: "rt_reachable default_rt_cfg demo_verify rt_demo"
proof -
  have 0: "rt_reachable default_rt_cfg demo_verify rt_empty"
    unfolding rt_empty_def by (rule rt_start)
  have 1: "rt_reachable default_rt_cfg demo_verify (on_connection default_rt_cfg 0 ''s1'' (demo_sock ''ann'') rt_empty)"
    by (rule rt_next[OF 0 connects[OF demo_handshake[of "''ann''"]]]) (simp_all add: rt_empty_def)
  have 2: "rt_reachable default_rt_cfg demo_verify
      (on_connection default_rt_cfg 0 ''s2'' (demo_sock ''eve'') (on_connection default_rt_cfg 0 ''s1'' (demo_sock ''ann'') rt_empty))"
    by (rule rt_next[OF 1 connects[OF demo_handshake[of "''eve''"]]]) (simp_all add: rt_eval)
  show ?thesis
    unfolding rt_demo_def by (rule rt_next[OF rt_next[OF 2 emits] emits])
qed



section \<open>Ownership\<close>

lemma rt_delete_refused: "getRoom now i w = Some r \<Longrightarrow> srm_ownerId r \<noteq> u \<Longrightarrow>
    rt_delete now i u w = (Inl (RtUnauthorized ''Only the room owner can delete the room''), w)"
  by (simp add: rt_delete_def op_simps)

lemma transferOwnership_refused: "getRoom now i w = Some r \<Longrightarrow> srm_ownerId r \<noteq> u \<Longrightarrow>
    transferOwnership now i u v w = (Inl (RtUnauthorized ''Only the room owner can transfer ownership''), w)"
  by (simp add: transferOwnership_def op_simps)

lemma getRoom_sockets [simp]: "getRoom now i (w\<lparr>rt_sockets := m\<rparr>) = getRoom now i w"
  by (simp add: getRoom_def)

lemma track_rooms_other: "ev = CeDelete i \<or> ev = CeTransfer i v \<Longrightarrow> track_rooms s ev w = w"
  by (auto simp: track_rooms_def split: option.splits)

text \<open>
  Deleting a room and handing it over are the owner's alone: a connected socket of any other user
  that asks for either, within its event budget, is acknowledged with UNAUTHORIZED and told so, and
  rooms, members, presence and who sits in which room are what they were.
\<close>

theorem only_owner_deletes_or_transfers:
  assumes "rt_sockets w s = Some d" and "fst (bucket_hit (rg_rateWindowMs g) (rg_rateMax g) now (sd_bucket d))"
    and "valid_id i" and "valid_id v" and "getRoom now i w = Some r" and "srm_ownerId r \<noteq> au_id (sd_user d)"
    and "ev = CeDelete i \<or> ev = CeTransfer i v"
  shows "fst (on_event g now uuid s ev w) = Some ''UNAUTHORIZED''
    \<and> rt_sent (snd (on_event g now uuid s ev w)) = rt_sent w @ [ToSocket s (RvError ''UNAUTHORIZED'')]
    \<and> rt_rooms (snd (on_event g now uuid s ev w)) = rt_rooms w
    \<and> rt_members (snd (on_event g now uuid s ev w)) = rt_members w
    \<and> rt_presence (snd (on_event g now uuid s ev w)) = rt_presence w
    \<and> rt_inRoom (snd (on_event g now uuid s ev w)) = rt_inRoom w"
proof -
  obtain b where b: "bucket_hit (rg_rateWindowMs g) (rg_rateMax g) now (sd_bucket d) = (True, b)"
    using assms(2) by (metis eq_fst_iff)
  let ?w1 = "w\<lparr>rt_sockets := (rt_sockets w)(s \<mapsto> d\<lparr>sd_bucket := b\<rparr>)\<rparr>"
  have room: "getRoom now i ?w1 = Some r" using assms(5) by simp
  have owner: "srm_ownerId r \<noteq> au_id (sd_user (d\<lparr>sd_bucket := b\<rparr>))" using assms(6) by simp
  have "\<exists>e. dispatch g now uuid s (d\<lparr>sd_bucket := b\<rparr>) ev ?w1 = (Inl (RtUnauthorized e), ?w1)"
    using assms(3,4,7) rt_delete_refused[OF room owner] transferOwnership_refused[OF room owner]
    by (auto simp: dispatch_def handle_delete_def handle_transfer_def op_simps)
  with assms(1) b track_rooms_other[OF assms(7), of s ?w1] show ?thesis
    by (auto simp: on_event_def guard_ack_def rt_emit_def)
qed

lemma only_owner_deletes_or_transfers_witness:
  "fst (on_event default_rt_cfg 5 ''x'' ''s2'' (CeDelete ''r'') rt_demo) = Some ''UNAUTHORIZED''
   \<and> rt_rooms (snd (on_event default_rt_cfg 5 ''x'' ''s2'' (CeDelete ''r'') rt_demo)) ''r'' \<noteq> None
   \<and> fst (on_event default_rt_cfg 5 ''x'' ''s1'' (CeDelete ''r'') rt_demo) = None"
proof -
  have "bucket_hit (rg_rateWindowMs default_rt_cfg) (rg_rateMax default_rt_cfg) 5 (sd_bucket (demo_sock ''eve''))
      = (True, \<lparr>bk_windowStart = 0, bk_count = 1\<rparr>)"
    by (simp add: bucket_hit_def default_rt_cfg_def demo_sock_def)
  with only_owner_deletes_or_transfers[of rt_demo "''s2''" "demo_sock ''eve''" default_rt_cfg 5 "''r''" "''ann''"
      "\<lparr>srm_type = RtyBattle, srm_ownerId = ''ann'', srm_capacity = 2, srm_createdAt = 1\<rparr>" "CeDelete ''r''" "''x''"]
  have "fst (on_event default_rt_cfg 5 ''x'' ''s2'' (CeDelete ''r'') rt_demo) = Some ''UNAUTHORIZED''
   \<and> rt_rooms (snd (on_event default_rt_cfg 5 ''x'' ''s2'' (CeDelete ''r'') rt_demo)) = rt_rooms rt_demo"
    by (simp add: rt_demo_eq getRoom_def kv_get_def valid_id_def demo_sock_def)
  then show ?thesis by (simp add: rt_demo_eq rt_eval)
qed

section \<open>The last socket\<close>

definition absent :: "int \<Rightarrow> ident \<Rightarrow> ident \<Rightarrow> rt_world \<Rightarrow> bool" where
  "absent now i u w \<longleftrightarrow> u \<notin> set (memberIds now i w) \<and> u \<notin> fst ` set (kv_list now (rt_presence w) i)"

lemma kv_list_modify: "kv_list now (kv_modify now f m k) k' =
    (if k' = k then (if kv_get now m k = None then [] else f (kv_list now m k)) else kv_list now m k')"
  by (auto simp: kv_list_def kv_modify_def kv_get_def split: option.splits if_splits)

lemma wp_removeMember: "wp (removeMember now i u) Q E w = (let w1 = w\<lparr>rt_members := kv_modify now (filter (\<lambda>v. v \<noteq> u)) (rt_members w) i\<rparr>
    in Q (length (memberIds now i w1)) w1)"
  by (simp add: wp_def removeMember_def Let_def)

lemma absent_frames [simp]: "absent now i u (rt_emit p w) = absent now i u w" "absent now i u (io_leave s j w) = absent now i u w"
    "absent now i u (setOwner j v w) = absent now i u w"
  by (auto simp: absent_def rt_emit_def io_leave_def setOwner_def memberIds_def split: option.splits)

lemma absent_removed: "absent now i u w \<Longrightarrow> absent now i u (presence_remove now j v w)"
    "absent now i u w \<Longrightarrow> absent now i u (store_deleteRoom j w)"
    "absent now i u w \<Longrightarrow> absent now i u (w\<lparr>rt_members := kv_modify now (filter P) (rt_members w) j\<rparr>)"
  by (auto simp: absent_def presence_remove_def store_deleteRoom_def memberIds_def kv_list_modify kv_list_del)

lemma keeps_absent_tail: "keeps (absent now i u) (handleOwnerDisconnect now j us)"
  unfolding handleOwnerDisconnect_def by (intro keeps_intros) (auto split: option.splits intro!: keeps_intros)

lemma keeps_absent: "keeps (absent now i u) (leave_room now s v j)"
proof -
  have "keeps (absent now i u) (removeMember now j (au_id v))"
    by (simp add: keeps_def wp_removeMember Let_def absent_removed)
  then have "keeps (absent now i u) (rt_leave now j (au_id v))"
    unfolding rt_leave_def Let_def
    by (intro keeps_intros) (auto split: option.splits intro!: keeps_ret keeps_bind keeps_then keeps_writes absent_removed)
  then show ?thesis
    unfolding leave_room_def
    by (auto split: option.splits intro!: keeps_ret keeps_bind keeps_then keeps_writes absent_removed keeps_absent_tail)
qed

lemma leave_room_absent:
  assumes "getRoom now i w \<noteq> None"
  shows "absent now i (au_id v) (snd (leave_room now s v i w))"
proof -
  let ?A = "absent now i (au_id v)" and ?w = "presence_remove now i (au_id v) w"
  have p: "au_id v \<notin> fst ` set (kv_list now (rt_presence ?w) i)"
    by (auto simp: presence_remove_def kv_list_modify)
  have "getRoom now i ?w \<noteq> None" using assms by (simp add: getRoom_def presence_remove_def)
  then have l: "wp (rt_leave now i (au_id v)) (\<lambda>_. ?A) (\<lambda>_. ?A) ?w"
    using p by (auto simp: rt_leave_def wp_simps wp_removeMember Let_def split: option.splits)
      (auto simp: absent_def memberIds_def kv_list_modify kv_list_del store_deleteRoom_def)
  show ?thesis
    unfolding leave_room_def wp_snd[symmetric] wp_then wp_writes
    by (rule wp_bind_keeps[OF l])
      (auto split: option.splits prod.splits intro!: keeps_ret keeps_bind keeps_then keeps_writes keeps_absent_tail)
qed

definition room_live :: "int \<Rightarrow> ident \<Rightarrow> rt_world \<Rightarrow> bool" where
  "room_live now i w \<longleftrightarrow> getRoom now i w \<noteq> None"

lemma leave_room_other:
  assumes "i \<noteq> j"
  shows "keeps (room_live now i) (leave_room now s v j)"
proof -
  let ?P = "room_live now i"
  have f: "?P (rt_emit p w) = ?P w" "?P (io_leave s k w) = ?P w" "?P (presence_remove now k u w) = ?P w"
      "?P (store_deleteRoom j w) = ?P w" "?P (setOwner k u w) = ?P w" for p k u w
    using assms
    by (auto simp: room_live_def getRoom_def rt_emit_def io_leave_def presence_remove_def store_deleteRoom_def kv_del_def setOwner_def kv_get_def
        split: option.splits)
  have "keeps ?P (removeMember now j u)" for u
    by (simp add: keeps_def wp_removeMember Let_def) (simp add: room_live_def getRoom_def)
  then have "keeps ?P (rt_leave now j u)" for u
    unfolding rt_leave_def Let_def
    by (intro keeps_intros) (auto simp: f split: option.splits intro!: keeps_ret keeps_bind keeps_then keeps_writes)
  moreover have "keeps ?P (handleOwnerDisconnect now j us)" for us
    unfolding handleOwnerDisconnect_def
    by (intro keeps_intros) (auto simp: f split: option.splits intro!: keeps_ret keeps_bind keeps_then keeps_writes)
  ultimately show ?thesis
    unfolding leave_room_def
    by (auto simp: f split: option.splits intro!: keeps_ret keeps_bind keeps_then keeps_writes)
qed

lemma fold_leave_absent:
  "i \<in> set js \<Longrightarrow> room_live now i w \<Longrightarrow> absent now i (au_id v) (fold (\<lambda>j. quiet (leave_room now s v j)) js w)"
proof (induction js arbitrary: w)
  case (Cons j js)
  let ?w = "snd (leave_room now s v j w)"
  show ?case
  proof (cases "j = i")
    case True
    have "absent now i (au_id v) ?w" using leave_room_absent Cons.prems(2) True by (simp add: room_live_def)
    then have "absent now i (au_id v) (fold (\<lambda>j. quiet (leave_room now s v j)) js ?w)"
      by (rule rt_inv_fold[OF keeps_absent])
    then show ?thesis by (simp add: quiet_def[of _ w])
  next
    case False
    have "room_live now i ?w" by (rule keepsD[OF leave_room_other Cons.prems(2)]) (use False in auto)
    moreover have "i \<in> set js" using Cons.prems(1) False by auto
    ultimately show ?thesis using Cons.IH by (simp add: quiet_def[of _ w])
  qed
qed simp

text \<open>
  When a socket disconnects, the clean-up depends on the user's other sockets. Was it the last one
  registered, the user is afterwards neither a member of nor present in any live room that socket had
  asked to join. Is another one registered, nobody leaves anything: rooms, members and presence stay,
  and nothing is emitted.
\<close>

theorem last_socket_clears_rooms:
  assumes "rt_sockets w s = Some d"
  shows "(set (kv_list now (rt_conns w) (au_id (sd_user d))) \<subseteq> {s} \<and> i \<in> set (sd_joined d) \<and> room_live now i w
       \<longrightarrow> absent now i (au_id (sd_user d)) (on_disconnect now s w))
    \<and> (t \<in> set (kv_list now (rt_conns w) (au_id (sd_user d))) \<and> t \<noteq> s
       \<longrightarrow> rt_rooms (on_disconnect now s w) = rt_rooms w \<and> rt_members (on_disconnect now s w) = rt_members w
         \<and> rt_presence (on_disconnect now s w) = rt_presence w \<and> rt_sent (on_disconnect now s w) = rt_sent w)"
proof -
  let ?u = "au_id (sd_user d)" and ?xs = "kv_list now (rt_conns w) (au_id (sd_user d))"
  define w2 where "w2 = snd (conn_remove now ?u s
      (w\<lparr>rt_sockets := (rt_sockets w)(s := None), rt_inRoom := filter (\<lambda>e. fst e \<noteq> s) (rt_inRoom w)\<rparr>))"
  have xs: "kv_list now (rt_conns w2) ?u = filter (\<lambda>v. v \<noteq> s) ?xs"
    by (auto simp: w2_def conn_remove_def Let_def kv_list_modify) (simp add: kv_list_def)
  have d: "on_disconnect now s w = (if filter (\<lambda>v. v \<noteq> s) ?xs = []
      then fold (\<lambda>i. quiet (leave_room now s (sd_user d) i)) (sd_joined d) w2 else w2)"
    using assms xs by (simp add: on_disconnect_def Let_def w2_def conn_remove_def)
  have same: "rt_rooms w2 = rt_rooms w" "rt_members w2 = rt_members w" "rt_presence w2 = rt_presence w" "rt_sent w2 = rt_sent w"
    by (simp_all add: w2_def conn_remove_def Let_def)
  then have "room_live now i w2 = room_live now i w" by (simp add: room_live_def getRoom_def)
  then have "i \<in> set (sd_joined d) \<Longrightarrow> room_live now i w \<Longrightarrow>
      absent now i ?u (fold (\<lambda>i. quiet (leave_room now s (sd_user d) i)) (sd_joined d) w2)"
    by (intro fold_leave_absent) auto
  with d same show ?thesis by (auto simp: filter_empty_conv)
qed

lemma last_socket_clears_rooms_witness:
  "absent 9 ''r'' ''ann'' (on_disconnect 9 ''s1'' rt_demo) \<and> \<not> absent 9 ''r'' ''ann'' rt_demo"
proof -
  have "rt_sockets rt_demo ''s1'' = Some ((demo_sock ''ann'')\<lparr>sd_bucket := \<lparr>bk_windowStart = 0, bk_count = 2\<rparr>, sd_joined := [''r'']\<rparr>)"
    by (simp add: rt_demo_eq)
  from last_socket_clears_rooms[OF this, of 9 "''r''"] show ?thesis
    by (simp add: rt_demo_eq demo_sock_def kv_list_def kv_get_def room_live_def getRoom_def) (simp add: absent_def memberIds_def kv_list_def kv_get_def)
qed

end
