(* ===== verification/ProblemTypes.thy ===== *)
theory ProblemTypes
  imports Json
begin

text \<open>
  backend/modules/problems: vocabulary, slugs and the request validators (types, dto, constants,
  validators, the slug function of problem-admin.service.ts). Text is ASCII or single code units up to
  255; the case folding and accent stripping that precede the slug's own rewriting are an argument.
\<close>

section \<open>Rows\<close>

datatype difficulty = DfEasy | DfMedium | DfHard
datatype visibility = VsDraft | VsPublic | VsPremium | VsArchived

record viewer =
  vw_id :: ident
  vw_role :: string

record tag_row =
  tg_id :: ident
  tg_name :: string
  tg_slug :: string

record company_row =
  cy_id :: ident
  cy_name :: string
  cy_slug :: string
  cy_logoUrl :: "string option"

record example_row =
  ex_input :: string
  ex_output :: string
  ex_explanation :: "string option"
  ex_order :: nat

record editorial_row =
  ed_content :: string
  ed_timeComplexity :: "string option"
  ed_spaceComplexity :: "string option"

record test_row =
  tr_id :: ident
  tr_input :: string
  tr_expectedOutput :: string
  tr_isHidden :: bool
  tr_weight :: int
  tr_order :: nat

text \<open>A problem with its relations; tags and companies are the ids of the join rows.\<close>

record problem_row =
  pm_id :: ident
  pm_slug :: string
  pm_title :: string
  pm_statement :: string
  pm_difficulty :: difficulty
  pm_visibility :: visibility
  pm_timeLimitMs :: int
  pm_memoryLimitMb :: int
  pm_solvedCount :: nat
  pm_submissionCount :: nat
  pm_authorId :: "ident option"
  pm_version :: int
  pm_deletedAt :: "int option"
  pm_createdAt :: int
  pm_tags :: "ident list"
  pm_companies :: "ident list"
  pm_examples :: "example_row list"
  pm_constraints :: "(string \<times> nat) list"
  pm_hints :: "(string \<times> nat) list"
  pm_editorial :: "editorial_row option"
  pm_testCases :: "test_row list"

section \<open>Slugs\<close>

definition slug_char :: "char \<Rightarrow> bool" where
  "slug_char c \<longleftrightarrow> (let n = (of_char c :: nat) in 97 \<le> n \<and> n \<le> 122 \<or> 48 \<le> n \<and> n \<le> 57)"

definition dash :: char where "dash = CHR ''-''"

text \<open>Every maximal run of other characters becomes one hyphen; the flag says that the last output was one.\<close>

fun dash_runs :: "bool \<Rightarrow> string \<Rightarrow> string" where
  "dash_runs b [] = []"
| "dash_runs b (c # cs) = (if slug_char c then c # dash_runs False cs
     else if b then dash_runs True cs else dash # dash_runs True cs)"

definition strip_dashes :: "string \<Rightarrow> string" where
  "strip_dashes s = rev (dropWhile (\<lambda>c. c = dash) (rev (dropWhile (\<lambda>c. c = dash) s)))"

definition slugify :: "(string \<Rightarrow> string) \<Rightarrow> string \<Rightarrow> string" where
  "slugify fold_text title = take 120 (strip_dashes (dash_runs False (fold_text title)))"

text \<open>The pattern of a valid slug: runs of slug characters joined by single hyphens.\<close>

fun kebab_from :: "bool \<Rightarrow> string \<Rightarrow> bool" where
  "kebab_from after_dash [] \<longleftrightarrow> \<not> after_dash"
| "kebab_from after_dash (c # cs) \<longleftrightarrow> (if c = dash then \<not> after_dash \<and> kebab_from True cs
     else slug_char c \<and> kebab_from False cs)"

definition is_kebab :: "string \<Rightarrow> bool" where
  "is_kebab s \<longleftrightarrow> kebab_from True s"

definition valid_slug :: "string \<Rightarrow> bool" where
  "valid_slug s \<longleftrightarrow> 3 \<le> length s \<and> length s \<le> 128 \<and> is_kebab s"

subsection \<open>Identifiers\<close>

definition ascii_lower_char :: "char \<Rightarrow> char" where
  "ascii_lower_char c = (let n = (of_char c :: nat) in if 65 \<le> n \<and> n \<le> 90 then char_of (n + 32) else c)"

definition ascii_lower :: "string \<Rightarrow> string" where
  "ascii_lower s = map ascii_lower_char s"

definition is_hex :: "char \<Rightarrow> bool" where
  "is_hex c \<longleftrightarrow> hex_val c \<noteq> None"

text \<open>Five groups of 8, 4, 4, 4 and 12 hexadecimal digits.\<close>

definition is_uuid :: "string \<Rightarrow> bool" where
  "is_uuid s \<longleftrightarrow> length s = 36 \<and> list_all (\<lambda>i. if i \<in> {8, 13, 18, 23} then s ! i = dash else is_hex (s ! i)) [0..<36]"

section \<open>Validators\<close>

definition obj_str :: "string \<Rightarrow> int \<Rightarrow> int \<Rightarrow> json \<Rightarrow> string option" where
  "obj_str k lo hi b = (case as_str (jfield k b) of None \<Rightarrow> None
     | Some s \<Rightarrow> if lo \<le> int (length s) \<and> int (length s) \<le> hi then Some s else None)"

definition obj_trimmed :: "string \<Rightarrow> int \<Rightarrow> int \<Rightarrow> json \<Rightarrow> string option" where
  "obj_trimmed k lo hi b = (case as_str (jfield k b) of None \<Rightarrow> None
     | Some s \<Rightarrow> if lo \<le> int (length (trim s)) \<and> int (length (trim s)) \<le> hi then Some (trim s) else None)"

text \<open>An integer of the body is not coerced.\<close>

definition plain_int :: "int \<Rightarrow> int \<Rightarrow> json \<Rightarrow> int option" where
  "plain_int lo hi v = (case v of JNum q \<Rightarrow>
       if q = of_int \<lfloor>q\<rfloor> \<and> lo \<le> \<lfloor>q\<rfloor> \<and> \<lfloor>q\<rfloor> \<le> hi then Some \<lfloor>q\<rfloor> else None
     | _ \<Rightarrow> None)"

definition with_default :: "'a \<Rightarrow> (json \<Rightarrow> 'a option) \<Rightarrow> json option \<Rightarrow> 'a option" where
  "with_default d f x = (case x of None \<Rightarrow> Some d | Some v \<Rightarrow> f v)"

fun all_some :: "'a option list \<Rightarrow> 'a list option" where
  "all_some [] = Some []"
| "all_some (None # xs) = None"
| "all_some (Some a # xs) = map_option ((#) a) (all_some xs)"

definition array_of :: "nat \<Rightarrow> nat \<Rightarrow> (json \<Rightarrow> 'a option) \<Rightarrow> json \<Rightarrow> 'a list option" where
  "array_of lo hi f v = (case v of JArr vs \<Rightarrow> if lo \<le> length vs \<and> length vs \<le> hi then all_some (map f vs) else None
     | _ \<Rightarrow> None)"

fun str_value :: "int \<Rightarrow> int \<Rightarrow> json \<Rightarrow> string option" where
  "str_value lo hi (JStr s) = (if lo \<le> int (length s) \<and> int (length s) \<le> hi then Some s else None)"
| "str_value lo hi _ = None"

fun slug_value :: "json \<Rightarrow> string option" where
  "slug_value (JStr s) = (if valid_slug s then Some s else None)"
| "slug_value _ = None"

fun difficulty_value :: "json \<Rightarrow> difficulty option" where
  "difficulty_value (JStr s) = (if s = ''EASY'' then Some DfEasy else if s = ''MEDIUM'' then Some DfMedium
     else if s = ''HARD'' then Some DfHard else None)"
| "difficulty_value _ = None"

fun visibility_value :: "json \<Rightarrow> visibility option" where
  "visibility_value (JStr s) = (if s = ''DRAFT'' then Some VsDraft else if s = ''PUBLIC'' then Some VsPublic
     else if s = ''PREMIUM'' then Some VsPremium else if s = ''ARCHIVED'' then Some VsArchived else None)"
| "visibility_value _ = None"

fun bool_value :: "json \<Rightarrow> bool option" where
  "bool_value (JBool b) = Some b"
| "bool_value _ = None"

text \<open>Unbounded above.\<close>

definition str_min :: "int \<Rightarrow> json \<Rightarrow> string option" where
  "str_min lo v = (case v of JStr s \<Rightarrow> if lo \<le> int (length s) then Some s else None | _ \<Rightarrow> None)"

definition example_value :: "json \<Rightarrow> (string \<times> string \<times> string option) option" where
  "example_value v = (case (obj_str ''input'' 1 10000 v, obj_str ''output'' 1 10000 v,
      optional_field (str_value 0 10000) (jfield ''explanation'' v)) of
     (Some i, Some out, Some e) \<Rightarrow> Some (i, out, e) | _ \<Rightarrow> None)"

definition test_value :: "json \<Rightarrow> (string \<times> string \<times> bool \<times> int) option" where
  "test_value v = (case (obj_str ''input'' 1 1000000 v, obj_str ''expectedOutput'' 1 1000000 v,
      with_default True bool_value (jfield ''isHidden'' v), with_default 1 (plain_int 1 100) (jfield ''weight'' v)) of
     (Some i, Some out, Some h, Some n) \<Rightarrow> Some (i, out, h, n) | _ \<Rightarrow> None)"

record create_dto =
  cp_title :: string
  cp_slug :: "string option"
  cp_statement :: string
  cp_difficulty :: difficulty
  cp_visibility :: visibility
  cp_timeLimitMs :: int
  cp_memoryLimitMb :: int
  cp_tags :: "string list"
  cp_companies :: "string list"
  cp_examples :: "(string \<times> string \<times> string option) list"
  cp_constraints :: "string list"
  cp_hints :: "string list"

definition title_value :: "json \<Rightarrow> string option" where
  "title_value v = (case v of JStr s \<Rightarrow> if 3 \<le> length (trim s) \<and> length (trim s) \<le> 200 then Some (trim s) else None
     | _ \<Rightarrow> None)"

definition parse_create :: "json \<Rightarrow> create_dto option" where
  "parse_create b =
     (case (Option.bind (jfield ''title'' b) title_value, optional_field slug_value (jfield ''slug'' b),
            Option.bind (jfield ''statement'' b) (str_min 20), Option.bind (jfield ''difficulty'' b) difficulty_value,
            with_default VsDraft visibility_value (jfield ''visibility'' b),
            with_default 2000 (plain_int 100 20000) (jfield ''timeLimitMs'' b),
            with_default 256 (plain_int 16 1024) (jfield ''memoryLimitMb'' b),
            with_default [] (array_of 0 10 slug_value) (jfield ''tags'' b),
            with_default [] (array_of 0 15 slug_value) (jfield ''companies'' b),
            Option.bind (jfield ''examples'' b) (array_of 1 10 example_value),
            with_default [] (array_of 0 50 (str_value 1 500)) (jfield ''constraints'' b),
            with_default [] (array_of 0 10 (str_value 1 5000)) (jfield ''hints'' b)) of
        (Some t, Some s, Some st, Some df, Some vs, Some tlim, Some mlim, Some tags, Some comps, Some exs, Some cons, Some hs) \<Rightarrow>
          Some \<lparr>cp_title = t, cp_slug = s, cp_statement = st, cp_difficulty = df, cp_visibility = vs, cp_timeLimitMs = tlim,
            cp_memoryLimitMb = mlim, cp_tags = tags, cp_companies = comps, cp_examples = exs, cp_constraints = cons, cp_hints = hs\<rparr>
      | _ \<Rightarrow> None)"

record update_dto =
  up_expectedVersion :: int
  up_title :: "string option"
  up_slug :: "string option"
  up_statement :: "string option"
  up_difficulty :: "difficulty option"
  up_visibility :: "visibility option"
  up_timeLimitMs :: "int option"
  up_memoryLimitMb :: "int option"
  up_tags :: "string list option"
  up_companies :: "string list option"
  up_examples :: "(string \<times> string \<times> string option) list option"
  up_constraints :: "string list option"
  up_hints :: "string list option"

definition update_fields :: "update_dto \<Rightarrow> string list" where
  "update_fields d =
     concat [if up_title d \<noteq> None then [''title''] else [], if up_slug d \<noteq> None then [''slug''] else [],
       if up_statement d \<noteq> None then [''statement''] else [], if up_difficulty d \<noteq> None then [''difficulty''] else [],
       if up_visibility d \<noteq> None then [''visibility''] else [], if up_timeLimitMs d \<noteq> None then [''timeLimitMs''] else [],
       if up_memoryLimitMb d \<noteq> None then [''memoryLimitMb''] else [], if up_tags d \<noteq> None then [''tags''] else [],
       if up_companies d \<noteq> None then [''companies''] else [], if up_examples d \<noteq> None then [''examples''] else [],
       if up_constraints d \<noteq> None then [''constraints''] else [], if up_hints d \<noteq> None then [''hints''] else []]"

definition parse_update :: "json \<Rightarrow> update_dto option" where
  "parse_update b =
     (case (Option.bind (jfield ''expectedVersion'' b) (\<lambda>v. case v of JNum q \<Rightarrow> if q = of_int \<lfloor>q\<rfloor> \<and> 1 \<le> q then Some \<lfloor>q\<rfloor> else None | _ \<Rightarrow> None),
            optional_field title_value (jfield ''title'' b), optional_field slug_value (jfield ''slug'' b),
            optional_field (str_min 20) (jfield ''statement'' b), optional_field difficulty_value (jfield ''difficulty'' b),
            optional_field visibility_value (jfield ''visibility'' b),
            optional_field (plain_int 100 20000) (jfield ''timeLimitMs'' b),
            optional_field (plain_int 16 1024) (jfield ''memoryLimitMb'' b),
            optional_field (array_of 0 10 slug_value) (jfield ''tags'' b),
            optional_field (array_of 0 15 slug_value) (jfield ''companies'' b),
            optional_field (array_of 1 10 example_value) (jfield ''examples'' b),
            optional_field (array_of 0 50 (str_value 1 500)) (jfield ''constraints'' b),
            optional_field (array_of 0 10 (str_value 1 5000)) (jfield ''hints'' b)) of
        (Some ev, Some t, Some s, Some st, Some df, Some vs, Some tlim, Some mlim, Some tags, Some comps, Some exs, Some cons, Some hs) \<Rightarrow>
          (let d = \<lparr>up_expectedVersion = ev, up_title = t, up_slug = s, up_statement = st, up_difficulty = df, up_visibility = vs,
              up_timeLimitMs = tlim, up_memoryLimitMb = mlim, up_tags = tags, up_companies = comps, up_examples = exs,
              up_constraints = cons, up_hints = hs\<rparr>
           in if update_fields d = [] then None else Some d)
      | _ \<Rightarrow> None)"

definition parse_tests :: "json \<Rightarrow> (string \<times> string \<times> bool \<times> int) list option" where
  "parse_tests b =
     (case (with_default True (\<lambda>v. if v = JStr ''replace'' then Some True else None) (jfield ''mode'' b),
            Option.bind (jfield ''testCases'' b) (array_of 1 200 test_value)) of
        (Some _, Some ts) \<Rightarrow> Some ts | _ \<Rightarrow> None)"

definition parse_editorial :: "json \<Rightarrow> editorial_row option" where
  "parse_editorial b =
     (case (Option.bind (jfield ''content'' b) (str_min 20), optional_field (str_value 0 64) (jfield ''timeComplexity'' b),
            optional_field (str_value 0 64) (jfield ''spaceComplexity'' b)) of
        (Some c, Some t, Some s) \<Rightarrow> Some \<lparr>ed_content = c, ed_timeComplexity = t, ed_spaceComplexity = s\<rparr> | _ \<Rightarrow> None)"

definition parse_hints :: "json \<Rightarrow> string list option" where
  "parse_hints b = Option.bind (jfield ''hints'' b) (array_of 1 10 (str_value 1 5000))"

definition parse_tag :: "json \<Rightarrow> string option" where
  "parse_tag b = obj_trimmed ''name'' 2 64 b"

definition parse_company :: "(string \<Rightarrow> bool) \<Rightarrow> json \<Rightarrow> (string \<times> string option) option" where
  "parse_company valid_url b =
     (case (obj_trimmed ''name'' 2 64 b,
            optional_field (\<lambda>v. Option.bind (str_value 0 512 v) (\<lambda>s. if valid_url s then Some s else None)) (jfield ''logoUrl'' b)) of
        (Some n, Some l) \<Rightarrow> Some (n, l) | _ \<Rightarrow> None)"

subsection \<open>Queries\<close>

datatype sort_option = SoNewest | SoOldest | SoAcceptance | SoDifficulty

record list_query =
  lq_page :: int
  lq_pageSize :: int
  lq_sortBy :: sort_option
  lq_difficulty :: "difficulty option"
  lq_tags :: "string list option"
  lq_companies :: "string list option"
  lq_q :: "string option"
  lq_solved :: "bool option"
  lq_bookmarked :: "bool option"

fun split_comma :: "string \<Rightarrow> string list" where
  "split_comma [] = [[]]"
| "split_comma (c # cs) = (if c = CHR '','' then [] # split_comma cs
     else (case split_comma cs of [] \<Rightarrow> [[c]] | x # xs \<Rightarrow> (c # x) # xs))"

definition csv_clean :: "string list \<Rightarrow> string list" where
  "csv_clean xs = filter (\<lambda>s. s \<noteq> []) (map (\<lambda>s. ascii_lower (trim s)) xs)"

fun csv_value :: "json \<Rightarrow> string list option" where
  "csv_value (JStr s) = Some (csv_clean (split_comma s))"
| "csv_value (JArr vs) = map_option csv_clean (all_some (map (\<lambda>v. as_str (Some v)) vs))"
| "csv_value _ = None"

fun bool_query :: "json \<Rightarrow> bool option" where
  "bool_query (JBool b) = Some b"
| "bool_query (JStr s) = (if s = ''true'' then Some True else if s = ''false'' then Some False else None)"
| "bool_query _ = None"

fun sort_value :: "json \<Rightarrow> sort_option option" where
  "sort_value (JStr s) = (if s = ''newest'' then Some SoNewest else if s = ''oldest'' then Some SoOldest
     else if s = ''acceptance'' then Some SoAcceptance else if s = ''difficulty'' then Some SoDifficulty else None)"
| "sort_value _ = None"

definition int_from :: "int \<Rightarrow> json \<Rightarrow> int option" where
  "int_from lo v = (case coerce_number v of Fin q \<Rightarrow> if q = of_int \<lfloor>q\<rfloor> \<and> lo \<le> \<lfloor>q\<rfloor> then Some \<lfloor>q\<rfloor> else None | _ \<Rightarrow> None)"

definition parse_query :: "bool \<Rightarrow> json \<Rightarrow> list_query option" where
  "parse_query search b =
     (case (with_default 1 (int_from 1) (jfield ''page'' b), with_default 20 (int_between 1 100) (jfield ''pageSize'' b),
            with_default SoNewest sort_value (jfield ''sortBy'' b), optional_field difficulty_value (jfield ''difficulty'' b),
            optional_field csv_value (jfield ''tags'' b), optional_field csv_value (jfield ''companies'' b),
            (if search \<and> jfield ''q'' b = None then None
             else optional_field (\<lambda>v. case v of JStr s \<Rightarrow>
               if 1 \<le> length (trim s) \<and> length (trim s) \<le> 100 then Some (trim s) else None | _ \<Rightarrow> None) (jfield ''q'' b)),
            optional_field bool_query (jfield ''solved'' b), optional_field bool_query (jfield ''bookmarked'' b)) of
        (Some p, Some n, Some so, Some df, Some tags, Some comps, Some q, Some s, Some bk) \<Rightarrow>
          Some \<lparr>lq_page = p, lq_pageSize = n, lq_sortBy = so, lq_difficulty = df, lq_tags = tags, lq_companies = comps,
            lq_q = q, lq_solved = s, lq_bookmarked = bk\<rparr>
      | _ \<Rightarrow> None)"

end
