(* ===== verification/ProblemStore.thy ===== *)
theory ProblemStore
  imports ProblemTypes
begin

text \<open>
  backend/modules/problems/repositories, lib/cache.ts and errors/app-error.ts: the tables of the problem
  catalogue, the repositories over them, the cache and the audit log. A table is the list of its rows in
  insertion order; rows with equal sort keys keep that order. A transaction that throws leaves no trace.
\<close>

section \<open>State\<close>

record problem_snapshot =
  sn_slug :: string
  sn_title :: string
  sn_statement :: string
  sn_difficulty :: difficulty
  sn_visibility :: visibility
  sn_timeLimitMs :: int
  sn_memoryLimitMb :: int
  sn_tags :: "string list"
  sn_companies :: "string list"
  sn_examples :: "example_row list"
  sn_constraints :: "(string \<times> nat) list"
  sn_hints :: "(string \<times> nat) list"
  sn_editorial :: "editorial_row option"

record version_row =
  vn_problemId :: ident
  vn_version :: int
  vn_editorId :: ident
  vn_snapshot :: problem_snapshot
  vn_createdAt :: int

record submission_fact =
  sf_userId :: ident
  sf_problemId :: ident
  sf_accepted :: bool
  sf_createdAt :: int

record bookmark_row =
  bm_userId :: ident
  bm_problemId :: ident
  bm_createdAt :: int

record audit_row =
  al_actorId :: ident
  al_action :: string
  al_targetType :: string
  al_targetId :: ident
  al_metadata :: json

record summary_dto =
  sm_id :: ident
  sm_slug :: string
  sm_title :: string
  sm_difficulty :: difficulty
  sm_tags :: "(string \<times> string) list"
  sm_companies :: "(string \<times> string) list"
  sm_solvedCount :: nat
  sm_submissionCount :: nat
  sm_acceptanceRate :: rat
  sm_isSolved :: bool
  sm_isBookmarked :: bool
  sm_createdAt :: int

datatype cache_key = CkDetailId ident | CkDetailSlug string | CkTrending | CkTags | CkCompanies
datatype cached = CvSummaries "summary_dto list" | CvTags "tag_row list" | CvCompanies "company_row list"

record problem_world =
  zw_problems :: "problem_row list"
  zw_tags :: "tag_row list"
  zw_companies :: "company_row list"
  zw_versions :: "version_row list"
  zw_bookmarks :: "bookmark_row list"
  zw_submissions :: "submission_fact list"
  zw_audit :: "audit_row list"
  zw_cache :: "(cache_key, cached) kv"

text \<open>What a request meets: the instant, whether the cache and the audit table answer, the ids the database
  hands out, the token verifier, the text folding of slugs and the URL parser.\<close>

record problem_env =
  ze_now :: int
  ze_cacheUp :: bool
  ze_auditUp :: bool
  ze_id :: "nat \<Rightarrow> ident"
  ze_verify :: "string \<Rightarrow> (string \<times> string) option"
  ze_fold :: "string \<Rightarrow> string"
  ze_validUrl :: "string \<Rightarrow> bool"

datatype api_error = ProblemNotFound string | DuplicateProblem string | VersionConflict int int | ApiValidation
  | ApiUnauthorized | ApiForbidden | ApiNotFound string
  | PrismaConflict int | PrismaNotFound | PrismaUnique | PrismaRejected

text \<open>The error middleware: operational errors carry their status and code, any other is a 500.\<close>

fun api_error_code :: "api_error \<Rightarrow> nat \<times> string" where
  "api_error_code (ProblemNotFound _) = (404, ''PROBLEM_NOT_FOUND'')"
| "api_error_code (DuplicateProblem _) = (409, ''DUPLICATE_PROBLEM'')"
| "api_error_code (VersionConflict _ _) = (409, ''VERSION_CONFLICT'')"
| "api_error_code ApiValidation = (422, ''VALIDATION_ERROR'')"
| "api_error_code ApiUnauthorized = (401, ''UNAUTHORIZED'')"
| "api_error_code ApiForbidden = (403, ''FORBIDDEN'')"
| "api_error_code (ApiNotFound _) = (404, ''NOT_FOUND'')"
| "api_error_code _ = (500, ''INTERNAL_ERROR'')"

type_synonym 'a prob_op = "(problem_world, api_error, 'a) op"

section \<open>Problem repository\<close>

definition findByIdOrSlug :: "string \<Rightarrow> bool \<Rightarrow> problem_world \<Rightarrow> problem_row option" where
  "findByIdOrSlug idOrSlug includeDeleted w = List.find (\<lambda>p.
     (if is_uuid idOrSlug then pm_id p = ascii_lower idOrSlug else pm_slug p = idOrSlug)
     \<and> (includeDeleted \<or> pm_deletedAt p = None)) (zw_problems w)"

definition existsBySlug :: "string \<Rightarrow> problem_world \<Rightarrow> bool" where
  "existsBySlug s w \<longleftrightarrow> list_ex (\<lambda>p. pm_slug p = s) (zw_problems w)"

definition tags_of :: "problem_world \<Rightarrow> problem_row \<Rightarrow> tag_row list" where
  "tags_of w p = concat (map (\<lambda>i. filter (\<lambda>t. tg_id t = i) (zw_tags w)) (pm_tags p))"

definition companies_of :: "problem_world \<Rightarrow> problem_row \<Rightarrow> company_row list" where
  "companies_of w p = concat (map (\<lambda>i. filter (\<lambda>c. cy_id c = i) (zw_companies w)) (pm_companies p))"

record list_options =
  lo_page :: int
  lo_pageSize :: int
  lo_sortBy :: sort_option
  lo_difficulty :: "difficulty option"
  lo_tags :: "string list option"
  lo_companies :: "string list option"
  lo_q :: "string option"
  lo_solved :: "bool option"
  lo_bookmarked :: "bool option"
  lo_viewerId :: "ident option"
  lo_visible :: "visibility list"

definition contains_ci :: "string \<Rightarrow> string \<Rightarrow> bool" where
  "contains_ci q s \<longleftrightarrow> list_ex (\<lambda>i. take (length q) (drop i (ascii_lower s)) = ascii_lower q) [0..<length s + 1]"

definition has_solved :: "problem_world \<Rightarrow> ident \<Rightarrow> ident \<Rightarrow> bool" where
  "has_solved w u i \<longleftrightarrow> list_ex (\<lambda>s. sf_userId s = u \<and> sf_problemId s = i \<and> sf_accepted s) (zw_submissions w)"

definition has_bookmarked :: "problem_world \<Rightarrow> ident \<Rightarrow> ident \<Rightarrow> bool" where
  "has_bookmarked w u i \<longleftrightarrow> list_ex (\<lambda>b. bm_userId b = u \<and> bm_problemId b = i) (zw_bookmarks w)"

definition nonempty_list :: "'a list option \<Rightarrow> bool" where
  "nonempty_list x \<longleftrightarrow> (case x of None \<Rightarrow> False | Some xs \<Rightarrow> xs \<noteq> [])"

definition buildListWhere :: "list_options \<Rightarrow> problem_world \<Rightarrow> problem_row \<Rightarrow> bool" where
  "buildListWhere o1 w p \<longleftrightarrow> pm_deletedAt p = None \<and> List.member (lo_visible o1) (pm_visibility p)
     \<and> (case lo_difficulty o1 of None \<Rightarrow> True | Some d \<Rightarrow> pm_difficulty p = d)
     \<and> (nonempty_list (lo_tags o1) \<longrightarrow> list_ex (\<lambda>t. List.member (the (lo_tags o1)) (tg_slug t)) (tags_of w p))
     \<and> (nonempty_list (lo_companies o1) \<longrightarrow> list_ex (\<lambda>c. List.member (the (lo_companies o1)) (cy_slug c)) (companies_of w p))
     \<and> (truthy_str (lo_q o1) \<longrightarrow> contains_ci (the (lo_q o1)) (pm_title p) \<or> contains_ci (the (lo_q o1)) (pm_statement p)
          \<or> list_ex (\<lambda>t. contains_ci (the (lo_q o1)) (tg_name t)) (tags_of w p)
          \<or> list_ex (\<lambda>c. contains_ci (the (lo_q o1)) (cy_name c)) (companies_of w p))
     \<and> (case lo_viewerId o1 of None \<Rightarrow> True | Some u \<Rightarrow>
          (lo_solved o1 = Some True \<longrightarrow> has_solved w u (pm_id p))
          \<and> (lo_solved o1 = Some False \<longrightarrow> \<not> has_solved w u (pm_id p))
          \<and> (lo_bookmarked o1 = Some True \<longrightarrow> has_bookmarked w u (pm_id p)))"

fun difficulty_rank :: "difficulty \<Rightarrow> int" where
  "difficulty_rank DfEasy = 0" | "difficulty_rank DfMedium = 1" | "difficulty_rank DfHard = 2"

definition newest_first :: "problem_row list \<Rightarrow> problem_row list" where
  "newest_first = sort_key (\<lambda>p. - pm_createdAt p)"

definition acceptance_ratio :: "problem_row \<Rightarrow> rat" where
  "acceptance_ratio p = (if pm_submissionCount p = 0 then 0 else of_nat (pm_solvedCount p) / of_nat (pm_submissionCount p))"

definition order_rows :: "sort_option \<Rightarrow> problem_row list \<Rightarrow> problem_row list" where
  "order_rows so ps = (case so of
       SoOldest \<Rightarrow> sort_key pm_createdAt ps
     | SoDifficulty \<Rightarrow> sort_key (\<lambda>p. difficulty_rank (pm_difficulty p)) (newest_first ps)
     | SoAcceptance \<Rightarrow> sort_key (\<lambda>p. - acceptance_ratio p) (newest_first ps)
     | SoNewest \<Rightarrow> newest_first ps)"

text \<open>A page: skip and limit.\<close>

definition page_of :: "int \<Rightarrow> int \<Rightarrow> 'a list \<Rightarrow> 'a list" where
  "page_of page pageSize xs = take (nat pageSize) (drop (nat ((page - 1) * pageSize)) xs)"

text \<open>Hydration by ids: rows that are gone are skipped, the caller's order is kept.\<close>

definition findManyByIds :: "ident list \<Rightarrow> problem_world \<Rightarrow> problem_row list" where
  "findManyByIds ids w = concat (map (\<lambda>i. case List.find (\<lambda>p. pm_id p = i \<and> pm_deletedAt p = None) (zw_problems w) of
     None \<Rightarrow> [] | Some p \<Rightarrow> [p]) ids)"

record list_result =
  lr_rows :: "problem_row list"
  lr_total :: nat
  lr_solvedIds :: "ident list"
  lr_bookmarkedIds :: "ident list"

definition viewerFlags :: "ident option \<Rightarrow> ident list \<Rightarrow> problem_world \<Rightarrow> ident list \<times> ident list" where
  "viewerFlags v ids w = (if \<not> truthy_str v \<or> ids = [] then ([], [])
     else (filter (has_solved w (the v)) ids, filter (has_bookmarked w (the v)) ids))"

definition list_problems :: "list_options \<Rightarrow> problem_world \<Rightarrow> list_result" where
  "list_problems o1 w =
     (let found = filter (buildListWhere o1 w) (zw_problems w);
          ordered = page_of (lo_page o1) (lo_pageSize o1) (order_rows (lo_sortBy o1) found);
          rows = (if lo_sortBy o1 = SoAcceptance then findManyByIds (map pm_id ordered) w else ordered);
          (solved, bookmarked) = viewerFlags (lo_viewerId o1) (map pm_id rows) w
      in \<lparr>lr_rows = rows, lr_total = length found, lr_solvedIds = solved, lr_bookmarkedIds = bookmarked\<rparr>)"

definition trending_ids :: "int \<Rightarrow> int \<Rightarrow> nat \<Rightarrow> problem_world \<Rightarrow> (ident \<times> nat) list" where
  "trending_ids now days limit w =
     (let recent = filter (\<lambda>s. now - days * 24 * 60 * 60 * 1000 \<le> sf_createdAt s) (zw_submissions w);
          ids = js_set (map sf_problemId recent)
      in take limit (sort_key (\<lambda>g. - int (snd g)) (map (\<lambda>i. (i, length (filter (\<lambda>s. sf_problemId s = i) recent))) ids)))"

definition recentlySolvedProblemIds :: "ident \<Rightarrow> nat \<Rightarrow> problem_world \<Rightarrow> ident list" where
  "recentlySolvedProblemIds u limit w = take limit (js_set (map sf_problemId
     (sort_key (\<lambda>s. - sf_createdAt s) (filter (\<lambda>s. sf_userId s = u \<and> sf_accepted s) (zw_submissions w)))))"

definition create_problem :: "problem_row \<Rightarrow> problem_row prob_op" where
  "create_problem p w =
     (if existsBySlug (pm_slug p) w then (Inl PrismaUnique, w)
      else (Inr p, w\<lparr>zw_problems := zw_problems w @ [p]\<rparr>))"

definition snapshot_of :: "problem_world \<Rightarrow> problem_row \<Rightarrow> problem_snapshot" where
  "snapshot_of w p =
     \<lparr>sn_slug = pm_slug p, sn_title = pm_title p, sn_statement = pm_statement p, sn_difficulty = pm_difficulty p,
      sn_visibility = pm_visibility p, sn_timeLimitMs = pm_timeLimitMs p, sn_memoryLimitMb = pm_memoryLimitMb p,
      sn_tags = map tg_slug (tags_of w p), sn_companies = map cy_slug (companies_of w p), sn_examples = pm_examples p,
      sn_constraints = pm_constraints p, sn_hints = pm_hints p, sn_editorial = pm_editorial p\<rparr>"

text \<open>The update of the transaction is a function on the row; join rows are replaced when ids are given.\<close>

definition updateWithSnapshot :: "int \<Rightarrow> ident \<Rightarrow> int \<Rightarrow> ident \<Rightarrow> (problem_row \<Rightarrow> problem_row) \<Rightarrow> ident list option
    \<Rightarrow> ident list option \<Rightarrow> problem_row prob_op" where
  "updateWithSnapshot now i expectedVersion editor data tagIds companyIds w =
     (case List.find (\<lambda>p. pm_id p = i) (zw_problems w) of
        None \<Rightarrow> (Inl PrismaNotFound, w)
      | Some current \<Rightarrow>
          if pm_deletedAt current \<noteq> None then (Inl PrismaNotFound, w)
          else if pm_version current \<noteq> expectedVersion then (Inl (PrismaConflict (pm_version current)), w)
          else if list_ex (\<lambda>v. vn_problemId v = i \<and> vn_version v = pm_version current) (zw_versions w)
          then (Inl PrismaUnique, w)
          else (let bumped = current\<lparr>pm_version := pm_version current + 1\<rparr>;
                    tagged = (case tagIds of None \<Rightarrow> bumped | Some ts \<Rightarrow> bumped\<lparr>pm_tags := ts\<rparr>);
                    linked = (case companyIds of None \<Rightarrow> tagged | Some cs \<Rightarrow> tagged\<lparr>pm_companies := cs\<rparr>);
                    updated = data linked;
                    row = \<lparr>vn_problemId = i, vn_version = pm_version current, vn_editorId = editor,
                      vn_snapshot = snapshot_of w current, vn_createdAt = now\<rparr>
                in if list_ex (\<lambda>p. pm_id p \<noteq> i \<and> pm_slug p = pm_slug updated) (zw_problems w) then (Inl PrismaUnique, w)
                   else (Inr updated, w\<lparr>zw_problems := map (\<lambda>p. if pm_id p = i then updated else p) (zw_problems w),
                     zw_versions := zw_versions w @ [row]\<rparr>)))"

definition update_rows :: "ident \<Rightarrow> (problem_row \<Rightarrow> problem_row) \<Rightarrow> problem_world \<Rightarrow> problem_world" where
  "update_rows i f w = w\<lparr>zw_problems := map (\<lambda>p. if pm_id p = i then f p else p) (zw_problems w)\<rparr>"

definition softDelete_row :: "int \<Rightarrow> ident \<Rightarrow> problem_world \<Rightarrow> problem_world" where
  "softDelete_row now i w = update_rows i (\<lambda>p. p\<lparr>pm_deletedAt := Some now\<rparr>) w"

definition test_rows :: "(nat \<Rightarrow> ident) \<Rightarrow> (string \<times> string \<times> bool \<times> int) list \<Rightarrow> test_row list" where
  "test_rows fresh ts = map (\<lambda>(n, i, out, h, wt). \<lparr>tr_id = fresh n, tr_input = i, tr_expectedOutput = out,
     tr_isHidden = h, tr_weight = wt, tr_order = n\<rparr>) (zip [0..<length ts] ts)"

definition replaceTestCases :: "(nat \<Rightarrow> ident) \<Rightarrow> ident \<Rightarrow> (string \<times> string \<times> bool \<times> int) list \<Rightarrow> nat prob_op" where
  "replaceTestCases fresh i ts w =
     (Inr (length ts), update_rows i (\<lambda>p. p\<lparr>pm_testCases := test_rows fresh ts\<rparr>) w)"

definition listVersions_rows :: "ident \<Rightarrow> problem_world \<Rightarrow> version_row list" where
  "listVersions_rows i w = sort_key (\<lambda>v. - vn_version v) (filter (\<lambda>v. vn_problemId v = i) (zw_versions w))"

definition getVersion_row :: "ident \<Rightarrow> int \<Rightarrow> problem_world \<Rightarrow> problem_snapshot option" where
  "getVersion_row i n w = map_option vn_snapshot
     (List.find (\<lambda>v. vn_problemId v = i \<and> vn_version v = n) (zw_versions w))"

section \<open>Taxonomy, bookmarks, audit and cache\<close>

text \<open>Slug and name of a tag are unique and hold at most 64 characters.\<close>

definition upsertTag_row :: "ident \<Rightarrow> string \<Rightarrow> string \<Rightarrow> tag_row prob_op" where
  "upsertTag_row fresh name slug w =
     (if length name > 64 \<or> length slug > 64 then (Inl PrismaRejected, w)
      else if list_ex (\<lambda>t. tg_name t = name \<and> tg_slug t \<noteq> slug) (zw_tags w) then (Inl PrismaUnique, w)
      else (case List.find (\<lambda>t. tg_slug t = slug) (zw_tags w) of
          None \<Rightarrow> (let t = \<lparr>tg_id = fresh, tg_name = name, tg_slug = slug\<rparr> in (Inr t, w\<lparr>zw_tags := zw_tags w @ [t]\<rparr>))
        | Some t \<Rightarrow> (Inr (t\<lparr>tg_name := name\<rparr>),
            w\<lparr>zw_tags := map (\<lambda>r. if tg_slug r = slug then r\<lparr>tg_name := name\<rparr> else r) (zw_tags w)\<rparr>)))"

definition upsertCompany_row :: "ident \<Rightarrow> string \<Rightarrow> string \<Rightarrow> string option \<Rightarrow> company_row prob_op" where
  "upsertCompany_row fresh name slug logo w =
     (if length name > 64 \<or> length slug > 64 then (Inl PrismaRejected, w)
      else if list_ex (\<lambda>t. cy_name t = name \<and> cy_slug t \<noteq> slug) (zw_companies w) then (Inl PrismaUnique, w)
      else (let upd = (\<lambda>r. case logo of None \<Rightarrow> r\<lparr>cy_name := name\<rparr> | Some l \<Rightarrow> r\<lparr>cy_name := name, cy_logoUrl := Some l\<rparr>)
        in case List.find (\<lambda>t. cy_slug t = slug) (zw_companies w) of
          None \<Rightarrow> (let t = \<lparr>cy_id = fresh, cy_name = name, cy_slug = slug, cy_logoUrl = logo\<rparr>
             in (Inr t, w\<lparr>zw_companies := zw_companies w @ [t]\<rparr>))
        | Some t \<Rightarrow> (Inr (upd t), w\<lparr>zw_companies := map (\<lambda>r. if cy_slug r = slug then upd r else r) (zw_companies w)\<rparr>)))"

text \<open>Deleting a tag or a company removes its join rows; the database refuses an id that is no UUID.\<close>

definition deleteTag_row :: "ident \<Rightarrow> bool prob_op" where
  "deleteTag_row i w = (if \<not> is_uuid i then (Inl PrismaRejected, w)
     else (let j = ascii_lower i in (Inr (list_ex (\<lambda>t. tg_id t = j) (zw_tags w)),
       w\<lparr>zw_tags := filter (\<lambda>t. tg_id t \<noteq> j) (zw_tags w),
         zw_problems := map (\<lambda>p. p\<lparr>pm_tags := filter (\<lambda>k. k \<noteq> j) (pm_tags p)\<rparr>) (zw_problems w)\<rparr>)))"

definition deleteCompany_row :: "ident \<Rightarrow> bool prob_op" where
  "deleteCompany_row i w = (if \<not> is_uuid i then (Inl PrismaRejected, w)
     else (let j = ascii_lower i in (Inr (list_ex (\<lambda>t. cy_id t = j) (zw_companies w)),
       w\<lparr>zw_companies := filter (\<lambda>t. cy_id t \<noteq> j) (zw_companies w),
         zw_problems := map (\<lambda>p. p\<lparr>pm_companies := filter (\<lambda>k. k \<noteq> j) (pm_companies p)\<rparr>) (zw_problems w)\<rparr>)))"

definition resolveTagIds :: "string list \<Rightarrow> problem_world \<Rightarrow> ident list" where
  "resolveTagIds slugs w = map tg_id (filter (\<lambda>t. List.member slugs (tg_slug t)) (zw_tags w))"

definition resolveCompanyIds :: "string list \<Rightarrow> problem_world \<Rightarrow> ident list" where
  "resolveCompanyIds slugs w = map cy_id (filter (\<lambda>t. List.member slugs (cy_slug t)) (zw_companies w))"

text \<open>String order of the database.\<close>

fun str_le :: "string \<Rightarrow> string \<Rightarrow> bool" where
  "str_le [] _ = True"
| "str_le (c # cs) [] = False"
| "str_le (c # cs) (d # ds) = ((of_char c :: nat) < of_char d \<or> c = d \<and> str_le cs ds)"

fun insert_by :: "('a \<Rightarrow> string) \<Rightarrow> 'a \<Rightarrow> 'a list \<Rightarrow> 'a list" where
  "insert_by k x [] = [x]"
| "insert_by k x (y # ys) = (if str_le (k x) (k y) then x # y # ys else y # insert_by k x ys)"

definition sort_by_name :: "('a \<Rightarrow> string) \<Rightarrow> 'a list \<Rightarrow> 'a list" where
  "sort_by_name k xs = foldr (insert_by k) xs []"

definition add_bookmark :: "int \<Rightarrow> ident \<Rightarrow> ident \<Rightarrow> problem_world \<Rightarrow> problem_world" where
  "add_bookmark now u i w = (if has_bookmarked w u i then w
     else w\<lparr>zw_bookmarks := zw_bookmarks w @ [\<lparr>bm_userId = u, bm_problemId = i, bm_createdAt = now\<rparr>]\<rparr>)"

definition remove_bookmark :: "ident \<Rightarrow> ident \<Rightarrow> bool prob_op" where
  "remove_bookmark u i w = (Inr (has_bookmarked w u i),
     w\<lparr>zw_bookmarks := filter (\<lambda>b. \<not> (bm_userId b = u \<and> bm_problemId b = i)) (zw_bookmarks w)\<rparr>)"

definition bookmarked_ids :: "ident \<Rightarrow> problem_world \<Rightarrow> ident list" where
  "bookmarked_ids u w = map bm_problemId (sort_key (\<lambda>b. - bm_createdAt b) (filter (\<lambda>b. bm_userId b = u) (zw_bookmarks w)))"

text \<open>A failing audit write is logged and swallowed.\<close>

definition audit_record :: "problem_env \<Rightarrow> ident \<Rightarrow> string \<Rightarrow> string \<Rightarrow> ident \<Rightarrow> json \<Rightarrow> unit prob_op" where
  "audit_record e actor action targetType targetId metadata = writes (\<lambda>w. if ze_auditUp e
     then w\<lparr>zw_audit := zw_audit w @ [\<lparr>al_actorId = actor, al_action = action, al_targetType = targetType,
        al_targetId = targetId, al_metadata = metadata\<rparr>]\<rparr> else w)"

text \<open>A cache that is down misses, and ignores writes.\<close>

definition cache_get :: "problem_env \<Rightarrow> cache_key \<Rightarrow> problem_world \<Rightarrow> cached option" where
  "cache_get e k w = (if ze_cacheUp e then kv_get (ze_now e) (zw_cache w) k else None)"

definition cache_set :: "problem_env \<Rightarrow> cache_key \<Rightarrow> cached \<Rightarrow> int \<Rightarrow> problem_world \<Rightarrow> problem_world" where
  "cache_set e k v ttlSeconds w = (if ze_cacheUp e
     then w\<lparr>zw_cache := kv_put (zw_cache w) k v (Some (ze_now e + ttlSeconds * 1000))\<rparr> else w)"

definition cache_del :: "problem_env \<Rightarrow> cache_key list \<Rightarrow> problem_world \<Rightarrow> problem_world" where
  "cache_del e ks w = (if ze_cacheUp e then w\<lparr>zw_cache := fold (\<lambda>k m. kv_del m k) ks (zw_cache w)\<rparr> else w)"

end
