(* ===== verification/ProblemService.thy ===== *)
theory ProblemService
  imports ProblemStore
begin

text \<open>
  backend/modules/problems/services and controllers, with the response mappers, the authentication
  middlewares and the routes: the read side for users, bookmarks, the write side for staff and the
  vocabulary of tags and companies. A request runs at one instant.
\<close>

section \<open>Response mappers\<close>

definition acceptanceRate :: "nat \<Rightarrow> nat \<Rightarrow> rat" where
  "acceptanceRate solved submissions = (if submissions = 0 then 0
     else of_int \<lfloor>of_nat solved / of_nat submissions * 1000 + 1 / 2 :: rat\<rfloor> / 10)"

definition toProblemSummaryDto :: "problem_world \<Rightarrow> ident list \<Rightarrow> ident list \<Rightarrow> problem_row \<Rightarrow> summary_dto" where
  "toProblemSummaryDto w solvedIds bookmarkedIds p =
     \<lparr>sm_id = pm_id p, sm_slug = pm_slug p, sm_title = pm_title p, sm_difficulty = pm_difficulty p,
      sm_tags = map (\<lambda>t. (tg_name t, tg_slug t)) (tags_of w p),
      sm_companies = map (\<lambda>c. (cy_name c, cy_slug c)) (companies_of w p),
      sm_solvedCount = pm_solvedCount p, sm_submissionCount = pm_submissionCount p,
      sm_acceptanceRate = acceptanceRate (pm_solvedCount p) (pm_submissionCount p),
      sm_isSolved = List.member solvedIds (pm_id p), sm_isBookmarked = List.member bookmarkedIds (pm_id p),
      sm_createdAt = pm_createdAt p\<rparr>"

record detail_dto =
  dt_summary :: summary_dto
  dt_statement :: string
  dt_timeLimitMs :: int
  dt_memoryLimitMb :: int
  dt_examples :: "(string \<times> string \<times> string option) list"
  dt_constraints :: "string list"
  dt_hints :: "string list"
  dt_editorial :: "editorial_row option"
  dt_sampleTestCases :: "(string \<times> string) list"

definition toProblemDetailDto :: "problem_world \<Rightarrow> bool \<Rightarrow> bool \<Rightarrow> problem_row \<Rightarrow> detail_dto" where
  "toProblemDetailDto w isSolved isBookmarked p =
     \<lparr>dt_summary = (toProblemSummaryDto w [] [] p)\<lparr>sm_isSolved := isSolved, sm_isBookmarked := isBookmarked\<rparr>,
      dt_statement = pm_statement p, dt_timeLimitMs = pm_timeLimitMs p, dt_memoryLimitMb = pm_memoryLimitMb p,
      dt_examples = map (\<lambda>e. (ex_input e, ex_output e, ex_explanation e)) (sort_key ex_order (pm_examples p)),
      dt_constraints = map fst (sort_key snd (pm_constraints p)), dt_hints = map fst (sort_key snd (pm_hints p)),
      dt_editorial = pm_editorial p,
      dt_sampleTestCases = map (\<lambda>t. (tr_input t, tr_expectedOutput t))
        (sort_key tr_order (filter (\<lambda>t. \<not> tr_isHidden t) (pm_testCases p)))\<rparr>"

text \<open>The staff view has every test case instead of the samples.\<close>

record admin_dto =
  ad_base :: detail_dto
  ad_visibility :: visibility
  ad_version :: int
  ad_authorId :: "ident option"
  ad_deletedAt :: "int option"
  ad_testCases :: "test_row list"

definition toAdminProblemDetailDto :: "problem_world \<Rightarrow> problem_row \<Rightarrow> admin_dto" where
  "toAdminProblemDetailDto w p =
     \<lparr>ad_base = (toProblemDetailDto w False False p)\<lparr>dt_sampleTestCases := []\<rparr>, ad_visibility = pm_visibility p,
      ad_version = pm_version p, ad_authorId = pm_authorId p, ad_deletedAt = pm_deletedAt p,
      ad_testCases = sort_key tr_order (pm_testCases p)\<rparr>"

section \<open>Reading\<close>

definition is_staff :: "viewer option \<Rightarrow> bool" where
  "is_staff v \<longleftrightarrow> (case v of None \<Rightarrow> False | Some u \<Rightarrow> vw_role u = ''ADMIN'' \<or> vw_role u = ''MODERATOR'')"

definition visibleVisibilities :: "viewer option \<Rightarrow> visibility list" where
  "visibleVisibilities v = (if is_staff v then [VsPublic, VsPremium, VsDraft, VsArchived] else [VsPublic, VsPremium])"

record summary_page =
  sp_items :: "summary_dto list"
  sp_page :: int
  sp_size :: int
  sp_total :: nat

definition list_service :: "list_query \<Rightarrow> viewer option \<Rightarrow> summary_page prob_op" where
  "list_service q v = reads (\<lambda>w.
     let r = list_problems \<lparr>lo_page = lq_page q, lo_pageSize = lq_pageSize q, lo_sortBy = lq_sortBy q,
          lo_difficulty = lq_difficulty q, lo_tags = lq_tags q, lo_companies = lq_companies q, lo_q = lq_q q,
          lo_solved = (if v = None then None else lq_solved q), lo_bookmarked = (if v = None then None else lq_bookmarked q),
          lo_viewerId = map_option vw_id v, lo_visible = visibleVisibilities v\<rparr> w
     in \<lparr>sp_items = map (toProblemSummaryDto w (lr_solvedIds r) (lr_bookmarkedIds r)) (lr_rows r),
         sp_page = lq_page q, sp_size = lq_pageSize q, sp_total = lr_total r\<rparr>)"

definition getByIdOrSlug :: "string \<Rightarrow> viewer option \<Rightarrow> detail_dto prob_op" where
  "getByIdOrSlug i v =
     bind_op (reads (findByIdOrSlug i False)) (\<lambda>found. bind_op (of_option (ProblemNotFound i) found) (\<lambda>p.
     then_op (guard_op (\<not> (pm_visibility p = VsDraft \<and> \<not> is_staff v)) (ProblemNotFound i))
    (then_op (guard_op (pm_visibility p = VsPremium \<longrightarrow>
        (case v of None \<Rightarrow> False | Some u \<Rightarrow> vw_role u = ''PREMIUM'' \<or> is_staff v)) ApiForbidden)
     (reads (\<lambda>w. case v of
         None \<Rightarrow> toProblemDetailDto w False False p
       | Some u \<Rightarrow> toProblemDetailDto w (List.member (recentlySolvedProblemIds (vw_id u) 500 w) (pm_id p))
            (List.member (bookmarked_ids (vw_id u) w) (pm_id p)) p)))))"

definition applyViewerFlagsToCached :: "summary_dto list \<Rightarrow> viewer option \<Rightarrow> problem_world \<Rightarrow> summary_dto list" where
  "applyViewerFlagsToCached dtos v w = (case v of None \<Rightarrow> dtos
     | Some u \<Rightarrow> map (\<lambda>d. d\<lparr>sm_isSolved := List.member (recentlySolvedProblemIds (vw_id u) 500 w) (sm_id d),
         sm_isBookmarked := List.member (bookmarked_ids (vw_id u) w) (sm_id d)\<rparr>) dtos)"

definition trending_size :: nat where "trending_size = 20"
definition trending_days :: int where "trending_days = 7"

definition trending :: "problem_env \<Rightarrow> viewer option \<Rightarrow> summary_dto list prob_op" where
  "trending e v =
     bind_op (reads (cache_get e CkTrending)) (\<lambda>cached. case cached of
       Some (CvSummaries dtos) \<Rightarrow> reads (applyViewerFlagsToCached dtos v)
     | _ \<Rightarrow> bind_op (reads (\<lambda>w. map (toProblemSummaryDto w [] []) (filter (\<lambda>p. List.member (visibleVisibilities None) (pm_visibility p))
              (findManyByIds (map fst (trending_ids (ze_now e) trending_days trending_size w)) w)))) (\<lambda>dtos.
            then_op (writes (cache_set e CkTrending (CvSummaries dtos) 300)) (reads (applyViewerFlagsToCached dtos v))))"

definition recentlySolved :: "viewer \<Rightarrow> summary_dto list prob_op" where
  "recentlySolved u = reads (\<lambda>w. let ids = recentlySolvedProblemIds (vw_id u) 20 w
     in map (toProblemSummaryDto w ids (bookmarked_ids (vw_id u) w)) (findManyByIds ids w))"

section \<open>Bookmarks\<close>

definition bookmark_add :: "problem_env \<Rightarrow> string \<Rightarrow> viewer \<Rightarrow> unit prob_op" where
  "bookmark_add e i u =
     bind_op (reads (findByIdOrSlug i False)) (\<lambda>found. bind_op (of_option (ProblemNotFound i) found) (\<lambda>p.
     writes (add_bookmark (ze_now e) (vw_id u) (pm_id p))))"

definition bookmark_remove :: "string \<Rightarrow> viewer \<Rightarrow> bool prob_op" where
  "bookmark_remove i u =
     bind_op (reads (findByIdOrSlug i False)) (\<lambda>found. bind_op (of_option (ProblemNotFound i) found) (\<lambda>p.
     remove_bookmark (vw_id u) (pm_id p)))"

definition listMine :: "viewer \<Rightarrow> int \<Rightarrow> int \<Rightarrow> summary_page prob_op" where
  "listMine u page pageSize = reads (\<lambda>w.
     let allIds = bookmarked_ids (vw_id u) w;
         rows = findManyByIds (page_of page pageSize allIds) w
     in \<lparr>sp_items = map (toProblemSummaryDto w (recentlySolvedProblemIds (vw_id u) 500 w) allIds) rows,
         sp_page = page, sp_size = pageSize, sp_total = length allIds\<rparr>)"

section \<open>Writing\<close>

definition invalidate :: "problem_env \<Rightarrow> ident \<Rightarrow> string \<Rightarrow> unit prob_op" where
  "invalidate e i slug = writes (cache_del e [CkDetailId i, CkDetailSlug slug, CkTrending])"

fun upsert_tags :: "problem_env \<Rightarrow> nat \<Rightarrow> string list \<Rightarrow> unit prob_op" where
  "upsert_tags e n [] = ret ()"
| "upsert_tags e n (s # ss) = then_op (upsertTag_row (ze_id e n) s s) (upsert_tags e (n + 1) ss)"

fun upsert_companies :: "problem_env \<Rightarrow> nat \<Rightarrow> string list \<Rightarrow> unit prob_op" where
  "upsert_companies e n [] = ret ()"
| "upsert_companies e n (s # ss) = then_op (upsertCompany_row (ze_id e n) s s None) (upsert_companies e (n + 1) ss)"

text \<open>Ids 100 onwards are for tags, 200 onwards for companies; requests name at most 25 of them.\<close>

definition ensureTaxonomy :: "problem_env \<Rightarrow> string list \<Rightarrow> string list \<Rightarrow> (ident list \<times> ident list) prob_op" where
  "ensureTaxonomy e tagSlugs companySlugs =
     then_op (upsert_tags e 100 tagSlugs) (then_op (upsert_companies e 200 companySlugs)
       (reads (\<lambda>w. (resolveTagIds tagSlugs w, resolveCompanyIds companySlugs w))))"

definition example_rows :: "(string \<times> string \<times> string option) list \<Rightarrow> example_row list" where
  "example_rows es = map (\<lambda>(n, i, out, x). \<lparr>ex_input = i, ex_output = out, ex_explanation = x, ex_order = n\<rparr>)
     (zip [0..<length es] es)"

definition with_order :: "'a list \<Rightarrow> ('a \<times> nat) list" where
  "with_order xs = zip xs [0..<length xs]"

fun difficulty_name :: "difficulty \<Rightarrow> string" where
  "difficulty_name DfEasy = ''EASY''" | "difficulty_name DfMedium = ''MEDIUM''" | "difficulty_name DfHard = ''HARD''"

definition new_problem :: "problem_env \<Rightarrow> create_dto \<Rightarrow> viewer \<Rightarrow> string \<Rightarrow> ident list \<times> ident list \<Rightarrow> problem_row" where
  "new_problem e d u slug tc =
     \<lparr>pm_id = ze_id e 0, pm_slug = slug, pm_title = cp_title d, pm_statement = cp_statement d,
      pm_difficulty = cp_difficulty d, pm_visibility = cp_visibility d, pm_timeLimitMs = cp_timeLimitMs d,
      pm_memoryLimitMb = cp_memoryLimitMb d, pm_solvedCount = 0, pm_submissionCount = 0, pm_authorId = Some (vw_id u),
      pm_version = 1, pm_deletedAt = None, pm_createdAt = ze_now e, pm_tags = fst tc, pm_companies = snd tc,
      pm_examples = example_rows (cp_examples d), pm_constraints = with_order (cp_constraints d),
      pm_hints = with_order (cp_hints d), pm_editorial = None, pm_testCases = []\<rparr>"

definition slug_for :: "problem_env \<Rightarrow> create_dto \<Rightarrow> string" where
  "slug_for e d = (case cp_slug d of None \<Rightarrow> slugify (ze_fold e) (cp_title d) | Some s \<Rightarrow> s)"

definition problem_create :: "problem_env \<Rightarrow> create_dto \<Rightarrow> viewer \<Rightarrow> admin_dto prob_op" where
  "problem_create e d u =
      bind_op (reads (existsBySlug (slug_for e d))) (\<lambda>taken. then_op (guard_op (\<not> taken) (DuplicateProblem (slug_for e d)))
     (bind_op (ensureTaxonomy e (cp_tags d) (cp_companies d)) (\<lambda>tc.
      bind_op (create_problem (new_problem e d u (slug_for e d) tc)) (\<lambda>p.
      then_op (audit_record e (vw_id u) ''problem.create'' ''problem'' (pm_id p)
        (JObj [(''slug'', JStr (slug_for e d)), (''difficulty'', JStr (difficulty_name (cp_difficulty d)))]))
      (reads (\<lambda>w. toAdminProblemDetailDto w p))))))"

definition or_keep :: "'a option \<Rightarrow> 'a \<Rightarrow> 'a" where
  "or_keep x a = (case x of None \<Rightarrow> a | Some b \<Rightarrow> b)"

definition update_data :: "update_dto \<Rightarrow> problem_row \<Rightarrow> problem_row" where
  "update_data d p = p\<lparr>pm_title := or_keep (up_title d) (pm_title p), pm_slug := or_keep (up_slug d) (pm_slug p),
     pm_statement := or_keep (up_statement d) (pm_statement p), pm_difficulty := or_keep (up_difficulty d) (pm_difficulty p),
     pm_visibility := or_keep (up_visibility d) (pm_visibility p), pm_timeLimitMs := or_keep (up_timeLimitMs d) (pm_timeLimitMs p),
     pm_memoryLimitMb := or_keep (up_memoryLimitMb d) (pm_memoryLimitMb p),
     pm_examples := or_keep (map_option example_rows (up_examples d)) (pm_examples p),
     pm_constraints := or_keep (map_option with_order (up_constraints d)) (pm_constraints p),
     pm_hints := or_keep (map_option with_order (up_hints d)) (pm_hints p)\<rparr>"

text \<open>The catch of the update maps the two errors of the transaction.\<close>

definition mapped_update :: "string \<Rightarrow> int \<Rightarrow> 'a prob_op \<Rightarrow> 'a prob_op" where
  "mapped_update i expected m w = (case m w of
       (Inr a, w1) \<Rightarrow> (Inr a, w1)
     | (Inl err, w1) \<Rightarrow> (Inl (case err of PrismaConflict c \<Rightarrow> VersionConflict expected c
         | PrismaNotFound \<Rightarrow> ProblemNotFound i | err \<Rightarrow> err), w1))"

definition update_taxonomy :: "problem_env \<Rightarrow> update_dto \<Rightarrow> (ident list \<times> ident list) prob_op" where
  "update_taxonomy e d = (if up_tags d \<noteq> None \<or> up_companies d \<noteq> None
     then ensureTaxonomy e (or_keep (up_tags d) []) (or_keep (up_companies d) []) else ret ([], []))"

definition commit_update :: "problem_env \<Rightarrow> string \<Rightarrow> update_dto \<Rightarrow> viewer \<Rightarrow> problem_row \<Rightarrow> ident list \<times> ident list \<Rightarrow> admin_dto prob_op" where
  "commit_update e i d u existing tc =
     mapped_update i (up_expectedVersion d)
      (bind_op (updateWithSnapshot (ze_now e) (pm_id existing) (up_expectedVersion d) (vw_id u) (update_data d)
          (map_option (\<lambda>_. fst tc) (up_tags d)) (map_option (\<lambda>_. snd tc) (up_companies d))) (\<lambda>updated.
       then_op (invalidate e (pm_id existing) (pm_slug existing))
      (then_op (audit_record e (vw_id u) ''problem.update'' ''problem'' (pm_id existing)
          (JObj [(''fields'', JArr (map JStr (update_fields d)))]))
       (reads (\<lambda>w. toAdminProblemDetailDto w updated)))))"

definition problem_update :: "problem_env \<Rightarrow> string \<Rightarrow> update_dto \<Rightarrow> viewer \<Rightarrow> admin_dto prob_op" where
  "problem_update e i d u =
     bind_op (reads (findByIdOrSlug i False)) (\<lambda>found. bind_op (of_option (ProblemNotFound i) found) (\<lambda>existing.
     bind_op (reads (existsBySlug (or_keep (up_slug d) []))) (\<lambda>taken.
     then_op (guard_op (\<not> (truthy_str (up_slug d) \<and> up_slug d \<noteq> Some (pm_slug existing) \<and> taken)) (DuplicateProblem (or_keep (up_slug d) [])))
    (bind_op (update_taxonomy e d) (commit_update e i d u existing)))))"

definition problem_softDelete :: "problem_env \<Rightarrow> string \<Rightarrow> viewer \<Rightarrow> unit prob_op" where
  "problem_softDelete e i u =
     bind_op (reads (findByIdOrSlug i False)) (\<lambda>found. bind_op (of_option (ProblemNotFound i) found) (\<lambda>existing.
     then_op (writes (softDelete_row (ze_now e) (pm_id existing)))
    (then_op (invalidate e (pm_id existing) (pm_slug existing))
     (audit_record e (vw_id u) ''problem.delete'' ''problem'' (pm_id existing)
        (JObj [(''slug'', JStr (pm_slug existing)), (''soft'', JBool True)])))))"

text \<open>An edit under the version just read: publishing, archiving, editorial and hints.\<close>

definition edit_current :: "problem_env \<Rightarrow> string \<Rightarrow> viewer \<Rightarrow> string \<Rightarrow> json \<Rightarrow> (problem_row \<Rightarrow> problem_row) \<Rightarrow> admin_dto prob_op" where
  "edit_current e i u action metadata f =
     bind_op (reads (findByIdOrSlug i False)) (\<lambda>found. bind_op (of_option (ProblemNotFound i) found) (\<lambda>existing.
     bind_op (updateWithSnapshot (ze_now e) (pm_id existing) (pm_version existing) (vw_id u) f None None) (\<lambda>updated.
     then_op (invalidate e (pm_id existing) (pm_slug existing))
    (then_op (audit_record e (vw_id u) action ''problem'' (pm_id existing) metadata)
     (reads (\<lambda>w. toAdminProblemDetailDto w updated))))))"

definition setVisibility :: "problem_env \<Rightarrow> string \<Rightarrow> visibility \<Rightarrow> string \<Rightarrow> viewer \<Rightarrow> admin_dto prob_op" where
  "setVisibility e i vis action u = edit_current e i u action (JObj []) (\<lambda>p. p\<lparr>pm_visibility := vis\<rparr>)"

definition upsertEditorial :: "problem_env \<Rightarrow> string \<Rightarrow> editorial_row \<Rightarrow> viewer \<Rightarrow> admin_dto prob_op" where
  "upsertEditorial e i ed u = edit_current e i u ''problem.editorial.upsert'' (JObj []) (\<lambda>p. p\<lparr>pm_editorial := Some ed\<rparr>)"

definition upsertHints :: "problem_env \<Rightarrow> string \<Rightarrow> string list \<Rightarrow> viewer \<Rightarrow> admin_dto prob_op" where
  "upsertHints e i hs u = edit_current e i u ''problem.hints.upsert'' (JObj [(''count'', JNum (of_nat (length hs)))])
     (\<lambda>p. p\<lparr>pm_hints := with_order hs\<rparr>)"

definition getAdminDetail :: "string \<Rightarrow> admin_dto prob_op" where
  "getAdminDetail i = bind_op (reads (findByIdOrSlug i True)) (\<lambda>found. bind_op (of_option (ProblemNotFound i) found) (\<lambda>p.
     reads (\<lambda>w. toAdminProblemDetailDto w p)))"

definition uploadTestCases :: "problem_env \<Rightarrow> string \<Rightarrow> (string \<times> string \<times> bool \<times> int) list \<Rightarrow> viewer \<Rightarrow> nat prob_op" where
  "uploadTestCases e i ts u =
     bind_op (reads (findByIdOrSlug i False)) (\<lambda>found. bind_op (of_option (ProblemNotFound i) found) (\<lambda>existing.
     bind_op (replaceTestCases (ze_id e) (pm_id existing) ts) (\<lambda>n.
     then_op (invalidate e (pm_id existing) (pm_slug existing))
    (then_op (audit_record e (vw_id u) ''problem.testcases.replace'' ''problem'' (pm_id existing)
        (JObj [(''count'', JNum (of_nat n))]))
     (ret n)))))"

definition listVersions :: "string \<Rightarrow> version_row list prob_op" where
  "listVersions i = bind_op (reads (findByIdOrSlug i True)) (\<lambda>found. bind_op (of_option (ProblemNotFound i) found) (\<lambda>p.
     reads (listVersions_rows (pm_id p))))"

definition getVersion :: "string \<Rightarrow> int \<Rightarrow> problem_snapshot prob_op" where
  "getVersion i n = bind_op (reads (findByIdOrSlug i True)) (\<lambda>found. bind_op (of_option (ProblemNotFound i) found) (\<lambda>p.
     bind_op (reads (getVersion_row (pm_id p) n)) (of_option (ProblemNotFound (i @ ''@v'' @ dec_digits (nat n))))))"

section \<open>Vocabulary\<close>

definition listTags :: "problem_env \<Rightarrow> tag_row list prob_op" where
  "listTags e = bind_op (reads (cache_get e CkTags)) (\<lambda>cached. case cached of
       Some (CvTags ts) \<Rightarrow> ret ts
     | _ \<Rightarrow> bind_op (reads (\<lambda>w. sort_by_name tg_name (zw_tags w))) (\<lambda>ts.
         then_op (writes (cache_set e CkTags (CvTags ts) 600)) (ret ts)))"

definition listCompanies :: "problem_env \<Rightarrow> company_row list prob_op" where
  "listCompanies e = bind_op (reads (cache_get e CkCompanies)) (\<lambda>cached. case cached of
       Some (CvCompanies cs) \<Rightarrow> ret cs
     | _ \<Rightarrow> bind_op (reads (\<lambda>w. sort_by_name cy_name (zw_companies w))) (\<lambda>cs.
         then_op (writes (cache_set e CkCompanies (CvCompanies cs) 600)) (ret cs)))"

definition tax_upsertTag :: "problem_env \<Rightarrow> string \<Rightarrow> viewer \<Rightarrow> tag_row prob_op" where
  "tax_upsertTag e name u = bind_op (upsertTag_row (ze_id e 0) name (slugify (ze_fold e) name)) (\<lambda>t.
     then_op (writes (cache_del e [CkTags]))
    (then_op (audit_record e (vw_id u) ''tag.upsert'' ''tag'' (tg_id t) (JObj [(''name'', JStr name)])) (ret t)))"

definition tax_upsertCompany :: "problem_env \<Rightarrow> string \<Rightarrow> string option \<Rightarrow> viewer \<Rightarrow> company_row prob_op" where
  "tax_upsertCompany e name logo u = bind_op (upsertCompany_row (ze_id e 0) name (slugify (ze_fold e) name) logo) (\<lambda>c.
     then_op (writes (cache_del e [CkCompanies]))
    (then_op (audit_record e (vw_id u) ''company.upsert'' ''company'' (cy_id c) (JObj [(''name'', JStr name)])) (ret c)))"

definition tax_deleteTag :: "problem_env \<Rightarrow> ident \<Rightarrow> viewer \<Rightarrow> unit prob_op" where
  "tax_deleteTag e i u = bind_op (deleteTag_row i) (\<lambda>removed.
     then_op (guard_op removed (ApiNotFound ''Tag'')) (then_op (writes (cache_del e [CkTags]))
     (audit_record e (vw_id u) ''tag.delete'' ''tag'' i (JObj []))))"

definition tax_deleteCompany :: "problem_env \<Rightarrow> ident \<Rightarrow> viewer \<Rightarrow> unit prob_op" where
  "tax_deleteCompany e i u = bind_op (deleteCompany_row i) (\<lambda>removed.
     then_op (guard_op removed (ApiNotFound ''Company'')) (then_op (writes (cache_del e [CkCompanies]))
     (audit_record e (vw_id u) ''company.delete'' ''company'' i (JObj []))))"

section \<open>HTTP\<close>

definition bearer_token :: "string option \<Rightarrow> string option" where
  "bearer_token header = (case header of None \<Rightarrow> None
     | Some h \<Rightarrow> if take 7 h = ''Bearer '' then Some (drop 7 h) else None)"

definition verifyToken :: "problem_env \<Rightarrow> string \<Rightarrow> viewer option" where
  "verifyToken e tok = (case ze_verify e tok of None \<Rightarrow> None
     | Some (sub, role) \<Rightarrow> if sub = [] \<or> role = [] then None else Some \<lparr>vw_id = sub, vw_role = role\<rparr>)"

definition requireAuth :: "problem_env \<Rightarrow> string option \<Rightarrow> viewer prob_op" where
  "requireAuth e header = (if \<not> truthy_str (bearer_token header) then throw ApiUnauthorized
     else of_option ApiUnauthorized (verifyToken e (the (bearer_token header))))"

definition optionalAuth :: "problem_env \<Rightarrow> string option \<Rightarrow> viewer option" where
  "optionalAuth e header = (if truthy_str (bearer_token header) then verifyToken e (the (bearer_token header)) else None)"

definition requireRole :: "string list \<Rightarrow> viewer \<Rightarrow> unit prob_op" where
  "requireRole roles u = guard_op (List.member roles (vw_role u)) ApiForbidden"

definition valid_param :: "string \<Rightarrow> unit prob_op" where
  "valid_param i = guard_op (1 \<le> length i \<and> length i \<le> 128) ApiValidation"

datatype user_request = UrList json | UrSearch json | UrTrending | UrRecentlySolved | UrBookmarks json | UrTags | UrCompanies
  | UrGet string | UrBookmark string | UrUnbookmark string

datatype admin_request = ArCreate json | ArGet string | ArUpdate string json | ArDelete string | ArPublish string
  | ArArchive string | ArTests string json | ArEditorial string json | ArHints string json | ArVersions string
  | ArVersion string json | ArUpsertTag json | ArDeleteTag string | ArUpsertCompany json | ArDeleteCompany string

datatype api_reply = RePage summary_page | ReSummaries "summary_dto list" | ReDetail detail_dto | ReAdmin admin_dto
  | ReTags "tag_row list" | ReCompanies "company_row list" | ReBookmarked bool | ReReplaced nat
  | ReVersions "(int \<times> ident \<times> int) list" | ReSnapshot int problem_snapshot | ReTag tag_row | ReCompany company_row | ReNothing

definition replying :: "('a \<Rightarrow> api_reply) \<Rightarrow> 'a prob_op \<Rightarrow> api_reply prob_op" where
  "replying f m = bind_op m (\<lambda>a. ret (f a))"

fun user_route :: "problem_env \<Rightarrow> string option \<Rightarrow> user_request \<Rightarrow> api_reply prob_op" where
  "user_route e h (UrList q) = bind_op (of_option ApiValidation (parse_query False q)) (\<lambda>d.
     replying RePage (list_service d (optionalAuth e h)))"
| "user_route e h (UrSearch q) = bind_op (of_option ApiValidation (parse_query True q)) (\<lambda>d.
     replying RePage (list_service d (optionalAuth e h)))"
| "user_route e h UrTrending = replying ReSummaries (trending e (optionalAuth e h))"
| "user_route e h UrRecentlySolved = bind_op (requireAuth e h) (\<lambda>u. replying ReSummaries (recentlySolved u))"
| "user_route e h (UrBookmarks q) = bind_op (requireAuth e h) (\<lambda>u. bind_op (of_option ApiValidation (parse_query False q)) (\<lambda>d.
     replying RePage (listMine u (lq_page d) (lq_pageSize d))))"
| "user_route e h UrTags = replying ReTags (listTags e)"
| "user_route e h UrCompanies = replying ReCompanies (listCompanies e)"
| "user_route e h (UrGet i) = then_op (valid_param i) (replying ReDetail (getByIdOrSlug i (optionalAuth e h)))"
| "user_route e h (UrBookmark i) = bind_op (requireAuth e h) (\<lambda>u. then_op (valid_param i)
     (replying (\<lambda>_. ReBookmarked True) (bookmark_add e i u)))"
| "user_route e h (UrUnbookmark i) = bind_op (requireAuth e h) (\<lambda>u. then_op (valid_param i)
     (replying (\<lambda>_. ReBookmarked False) (bookmark_remove i u)))"

fun admin_handler :: "problem_env \<Rightarrow> viewer \<Rightarrow> admin_request \<Rightarrow> api_reply prob_op" where
  "admin_handler e u (ArCreate b) = bind_op (of_option ApiValidation (parse_create b)) (\<lambda>d. replying ReAdmin (problem_create e d u))"
| "admin_handler e u (ArGet i) = then_op (valid_param i) (replying ReAdmin (getAdminDetail i))"
| "admin_handler e u (ArUpdate i b) = then_op (valid_param i) (bind_op (of_option ApiValidation (parse_update b)) (\<lambda>d.
     replying ReAdmin (problem_update e i d u)))"
| "admin_handler e u (ArDelete i) = then_op (valid_param i) (replying (\<lambda>_. ReNothing) (problem_softDelete e i u))"
| "admin_handler e u (ArPublish i) = then_op (valid_param i) (replying ReAdmin (setVisibility e i VsPublic ''problem.publish'' u))"
| "admin_handler e u (ArArchive i) = then_op (valid_param i) (replying ReAdmin (setVisibility e i VsArchived ''problem.archive'' u))"
| "admin_handler e u (ArTests i b) = then_op (valid_param i) (bind_op (of_option ApiValidation (parse_tests b)) (\<lambda>ts.
     replying ReReplaced (uploadTestCases e i ts u)))"
| "admin_handler e u (ArEditorial i b) = then_op (valid_param i) (bind_op (of_option ApiValidation (parse_editorial b)) (\<lambda>ed.
     replying ReAdmin (upsertEditorial e i ed u)))"
| "admin_handler e u (ArHints i b) = then_op (valid_param i) (bind_op (of_option ApiValidation (parse_hints b)) (\<lambda>hs.
     replying ReAdmin (upsertHints e i hs u)))"
| "admin_handler e u (ArVersions i) = then_op (valid_param i) (replying
     (\<lambda>vs. ReVersions (map (\<lambda>v. (vn_version v, vn_editorId v, vn_createdAt v)) vs)) (listVersions i))"
| "admin_handler e u (ArVersion i n) = then_op (valid_param i) (bind_op (of_option ApiValidation (int_from 1 n)) (\<lambda>k.
     replying (ReSnapshot k) (getVersion i k)))"
| "admin_handler e u (ArUpsertTag b) = bind_op (of_option ApiValidation (parse_tag b)) (\<lambda>n. replying ReTag (tax_upsertTag e n u))"
| "admin_handler e u (ArDeleteTag i) = then_op (valid_param i) (replying (\<lambda>_. ReNothing) (tax_deleteTag e i u))"
| "admin_handler e u (ArUpsertCompany b) = bind_op (of_option ApiValidation (parse_company (ze_validUrl e) b)) (\<lambda>(n, l).
     replying ReCompany (tax_upsertCompany e n l u))"
| "admin_handler e u (ArDeleteCompany i) = then_op (valid_param i) (replying (\<lambda>_. ReNothing) (tax_deleteCompany e i u))"

text \<open>The whole admin router sits behind both gates.\<close>

definition admin_route :: "problem_env \<Rightarrow> string option \<Rightarrow> admin_request \<Rightarrow> api_reply prob_op" where
  "admin_route e h r = bind_op (requireAuth e h) (\<lambda>u. then_op (requireRole [''ADMIN'', ''MODERATOR''] u) (admin_handler e u r))"

end
