(* ===== verification/ProblemInv.thy ===== *)
theory ProblemInv
  imports ProblemService
begin

text \<open>
  The invariant of the problem catalogue: what every stored problem looks like, keys that are unique,
  and a version history without gaps. Every request of the module keeps it.
\<close>

section \<open>The invariant\<close>

definition problem_row_ok :: "ident set \<Rightarrow> ident set \<Rightarrow> problem_row \<Rightarrow> bool" where
  "problem_row_ok T C p \<longleftrightarrow> 3 \<le> length (pm_title p) \<and> length (pm_title p) \<le> 200 \<and> 20 \<le> length (pm_statement p)
     \<and> 100 \<le> pm_timeLimitMs p \<and> pm_timeLimitMs p \<le> 20000 \<and> 16 \<le> pm_memoryLimitMb p \<and> pm_memoryLimitMb p \<le> 1024
     \<and> map ex_order (pm_examples p) = [0..<length (pm_examples p)] \<and> 1 \<le> length (pm_examples p) \<and> length (pm_examples p) \<le> 10
     \<and> map snd (pm_constraints p) = [0..<length (pm_constraints p)] \<and> length (pm_constraints p) \<le> 50
     \<and> map snd (pm_hints p) = [0..<length (pm_hints p)] \<and> length (pm_hints p) \<le> 10
     \<and> map tr_order (pm_testCases p) = [0..<length (pm_testCases p)] \<and> length (pm_testCases p) \<le> 200
     \<and> list_all (\<lambda>t. 1 \<le> tr_weight t \<and> tr_weight t \<le> 100) (pm_testCases p)
     \<and> distinct (pm_tags p) \<and> set (pm_tags p) \<subseteq> T \<and> distinct (pm_companies p) \<and> set (pm_companies p) \<subseteq> C"

definition tag_ids :: "problem_world \<Rightarrow> ident set" where
  "tag_ids w = tg_id ` set (zw_tags w)"

definition company_ids :: "problem_world \<Rightarrow> ident set" where
  "company_ids w = cy_id ` set (zw_companies w)"

definition taxonomy_ok :: "problem_world \<Rightarrow> bool" where
  "taxonomy_ok w \<longleftrightarrow> distinct (map tg_id (zw_tags w)) \<and> distinct (map tg_slug (zw_tags w))
     \<and> distinct (map cy_id (zw_companies w)) \<and> distinct (map cy_slug (zw_companies w))"

definition versions_of :: "ident \<Rightarrow> problem_world \<Rightarrow> int list" where
  "versions_of i w = map vn_version (filter (\<lambda>v. vn_problemId v = i) (zw_versions w))"

definition history_ok :: "problem_world \<Rightarrow> bool" where
  "history_ok w \<longleftrightarrow> (\<forall>p \<in> set (zw_problems w). 1 \<le> pm_version p \<and> versions_of (pm_id p) w = [1..pm_version p - 1])
     \<and> (\<forall>v \<in> set (zw_versions w). vn_problemId v \<in> pm_id ` set (zw_problems w))"

definition keys_ok :: "problem_world \<Rightarrow> bool" where
  "keys_ok w \<longleftrightarrow> distinct (map pm_id (zw_problems w)) \<and> distinct (map pm_slug (zw_problems w))"

definition prob_inv :: "problem_world \<Rightarrow> bool" where
  "prob_inv w \<longleftrightarrow> keys_ok w \<and> taxonomy_ok w \<and> history_ok w
     \<and> (\<forall>p \<in> set (zw_problems w). problem_row_ok (tag_ids w) (company_ids w) p)"

text \<open>Fresh ids: pairwise distinct and unused.\<close>

definition env_fresh :: "problem_env \<Rightarrow> problem_world \<Rightarrow> bool" where
  "env_fresh e w \<longleftrightarrow> inj (ze_id e) \<and> (\<forall>n. ze_id e n \<notin> pm_id ` set (zw_problems w) \<and> ze_id e n \<notin> tag_ids w
     \<and> ze_id e n \<notin> company_ids w)"

lemma problem_row_ok_mono: "problem_row_ok T C p \<Longrightarrow> T \<subseteq> T' \<Longrightarrow> C \<subseteq> C' \<Longrightarrow> problem_row_ok T' C' p"
  by (auto simp: problem_row_ok_def)

section \<open>Validated bodies\<close>

lemma all_some_length: "all_some xs = Some ys \<Longrightarrow> length ys = length xs"
  by (induction xs arbitrary: ys rule: all_some.induct) auto

lemma all_some_member: "all_some xs = Some ys \<Longrightarrow> y \<in> set ys \<Longrightarrow> Some y \<in> set xs"
  by (induction xs arbitrary: ys rule: all_some.induct) auto

lemma array_of_length: "array_of lo hi f v = Some ys \<Longrightarrow> lo \<le> length ys \<and> length ys \<le> hi"
  by (auto simp: array_of_def dest: all_some_length split: json.splits if_splits)

lemma array_of_member: "array_of lo hi f v = Some ys \<Longrightarrow> y \<in> set ys \<Longrightarrow> \<exists>x. f x = Some y"
  by (auto simp: array_of_def dest!: all_some_member split: json.splits if_splits) metis

lemma plain_int_bounds: "plain_int lo hi v = Some n \<Longrightarrow> lo \<le> n \<and> n \<le> hi"
  by (auto simp: plain_int_def split: json.splits if_splits)

lemma with_default_cases: "with_default d f x = Some y \<Longrightarrow> y = d \<or> (\<exists>v. f v = Some y)"
  by (auto simp: with_default_def split: option.splits)

lemma optional_field_cases: "optional_field f x = Some (Some y) \<Longrightarrow> \<exists>v. f v = Some y"
  by (auto simp: optional_field_def split: option.splits)

lemma title_value_bounds: "title_value v = Some s \<Longrightarrow> 3 \<le> length s \<and> length s \<le> 200"
  by (auto simp: title_value_def split: json.splits if_splits)

lemma str_min_bounds: "str_min lo v = Some s \<Longrightarrow> lo \<le> int (length s)"
  by (auto simp: str_min_def split: json.splits if_splits)

lemma test_value_weight: "test_value v = Some (i, out, h, n) \<Longrightarrow> 1 \<le> n \<and> n \<le> 100"
  by (auto simp: test_value_def dest!: with_default_cases plain_int_bounds split: option.splits)

definition create_ok :: "create_dto \<Rightarrow> bool" where
  "create_ok d \<longleftrightarrow> 3 \<le> length (cp_title d) \<and> length (cp_title d) \<le> 200 \<and> 20 \<le> length (cp_statement d)
     \<and> 100 \<le> cp_timeLimitMs d \<and> cp_timeLimitMs d \<le> 20000 \<and> 16 \<le> cp_memoryLimitMb d \<and> cp_memoryLimitMb d \<le> 1024
     \<and> 1 \<le> length (cp_examples d) \<and> length (cp_examples d) \<le> 10 \<and> length (cp_constraints d) \<le> 50 \<and> length (cp_hints d) \<le> 10"

lemma parse_create_fields:
  assumes "parse_create b = Some d"
  shows "Option.bind (jfield ''title'' b) title_value = Some (cp_title d)"
    and "Option.bind (jfield ''statement'' b) (str_min 20) = Some (cp_statement d)"
    and "with_default 2000 (plain_int 100 20000) (jfield ''timeLimitMs'' b) = Some (cp_timeLimitMs d)"
    and "with_default 256 (plain_int 16 1024) (jfield ''memoryLimitMb'' b) = Some (cp_memoryLimitMb d)"
    and "Option.bind (jfield ''examples'' b) (array_of 1 10 example_value) = Some (cp_examples d)"
    and "with_default [] (array_of 0 50 (str_value 1 500)) (jfield ''constraints'' b) = Some (cp_constraints d)"
    and "with_default [] (array_of 0 10 (str_value 1 5000)) (jfield ''hints'' b) = Some (cp_hints d)"
  using assms unfolding parse_create_def by (auto split: option.splits)

lemma parse_create_ok:
  assumes "parse_create b = Some d"
  shows "create_ok d"
proof -
  note f = parse_create_fields[OF assms]
  have "3 \<le> length (cp_title d) \<and> length (cp_title d) \<le> 200" using f(1) by (auto simp: bind_eq_Some_conv dest: title_value_bounds)
  moreover have "20 \<le> length (cp_statement d)" using f(2) by (auto simp: bind_eq_Some_conv dest: str_min_bounds)
  moreover have "100 \<le> cp_timeLimitMs d \<and> cp_timeLimitMs d \<le> 20000" using with_default_cases[OF f(3)] by (auto dest: plain_int_bounds)
  moreover have "16 \<le> cp_memoryLimitMb d \<and> cp_memoryLimitMb d \<le> 1024" using with_default_cases[OF f(4)] by (auto dest: plain_int_bounds)
  moreover have "1 \<le> length (cp_examples d) \<and> length (cp_examples d) \<le> 10" using f(5) by (auto simp: bind_eq_Some_conv dest: array_of_length)
  moreover have "length (cp_constraints d) \<le> 50" using with_default_cases[OF f(6)] by (auto dest: array_of_length)
  moreover have "length (cp_hints d) \<le> 10" using with_default_cases[OF f(7)] by (auto dest: array_of_length)
  ultimately show ?thesis by (simp add: create_ok_def)
qed

definition opt_all :: "('a \<Rightarrow> bool) \<Rightarrow> 'a option \<Rightarrow> bool" where
  "opt_all P x \<longleftrightarrow> (case x of None \<Rightarrow> True | Some a \<Rightarrow> P a)"

lemma opt_all_simps [simp]: "opt_all P None" "opt_all P (Some a) = P a"
  by (simp_all add: opt_all_def)

definition update_ok :: "update_dto \<Rightarrow> bool" where
  "update_ok d \<longleftrightarrow> opt_all (\<lambda>s. 3 \<le> length s \<and> length s \<le> 200) (up_title d) \<and> opt_all (\<lambda>s. 20 \<le> length s) (up_statement d)
     \<and> opt_all (\<lambda>n. 100 \<le> n \<and> n \<le> 20000) (up_timeLimitMs d) \<and> opt_all (\<lambda>n. 16 \<le> n \<and> n \<le> 1024) (up_memoryLimitMb d)
     \<and> opt_all (\<lambda>es. 1 \<le> length es \<and> length es \<le> 10) (up_examples d) \<and> opt_all (\<lambda>cs. length cs \<le> 50) (up_constraints d)
     \<and> opt_all (\<lambda>hs. length hs \<le> 10) (up_hints d)"

lemma optional_field_all: "optional_field f x = Some y \<Longrightarrow> (\<And>v a. f v = Some a \<Longrightarrow> P a) \<Longrightarrow> opt_all P y"
  by (auto simp: optional_field_def split: option.splits)

lemma parse_update_fields:
  assumes "parse_update b = Some d"
  shows "optional_field title_value (jfield ''title'' b) = Some (up_title d)"
    and "optional_field (str_min 20) (jfield ''statement'' b) = Some (up_statement d)"
    and "optional_field (plain_int 100 20000) (jfield ''timeLimitMs'' b) = Some (up_timeLimitMs d)"
    and "optional_field (plain_int 16 1024) (jfield ''memoryLimitMb'' b) = Some (up_memoryLimitMb d)"
    and "optional_field (array_of 1 10 example_value) (jfield ''examples'' b) = Some (up_examples d)"
    and "optional_field (array_of 0 50 (str_value 1 500)) (jfield ''constraints'' b) = Some (up_constraints d)"
    and "optional_field (array_of 0 10 (str_value 1 5000)) (jfield ''hints'' b) = Some (up_hints d)"
  using assms unfolding parse_update_def Let_def by (auto split: option.splits if_splits)

lemma parse_update_ok: "parse_update b = Some d \<Longrightarrow> update_ok d"
  unfolding update_ok_def
  by (intro conjI)
    (erule parse_update_fields[THEN optional_field_all], auto dest!: title_value_bounds str_min_bounds plain_int_bounds array_of_length)+

lemma parse_tests_ok: "parse_tests b = Some ts \<Longrightarrow> length ts \<le> 200 \<and> (\<forall>(i, out, h, n) \<in> set ts. 1 \<le> n \<and> n \<le> 100)"
  by (auto simp: parse_tests_def bind_eq_Some_conv dest: array_of_length array_of_member test_value_weight split: option.splits)

lemma parse_hints_ok: "parse_hints b = Some hs \<Longrightarrow> length hs \<le> 10"
  by (auto simp: parse_hints_def bind_eq_Some_conv dest: array_of_length)

section \<open>Rows that are built\<close>

lemma orders_zip: "map fst (zip [0..<length xs] xs) = [0..<length xs]"
  by simp

lemma example_rows_order [simp]: "map ex_order (example_rows es) = [0..<length es]" "length (example_rows es) = length es"
  unfolding example_rows_def by (auto intro: nth_equalityI split: prod.splits)

lemma with_order_order [simp]: "map snd (with_order xs) = [0..<length xs]" "length (with_order xs) = length xs"
  by (simp_all add: with_order_def)

lemma test_rows_order [simp]: "map tr_order (test_rows fresh ts) = [0..<length ts]" "length (test_rows fresh ts) = length ts"
  unfolding test_rows_def by (auto intro: nth_equalityI split: prod.splits)

lemma test_rows_weight: "\<forall>(i, out, h, n) \<in> set ts. 1 \<le> n \<and> n \<le> 100 \<Longrightarrow> list_all (\<lambda>t. 1 \<le> tr_weight t \<and> tr_weight t \<le> 100) (test_rows fresh ts)"
  by (auto simp: test_rows_def list_all_iff dest!: set_zip_rightD)

lemma update_data_keeps: "pm_id (update_data d p) = pm_id p" "pm_version (update_data d p) = pm_version p"
  by (simp_all add: update_data_def)

lemma update_data_problem_row_ok: "update_ok d \<Longrightarrow> problem_row_ok T C p \<Longrightarrow> problem_row_ok T C (update_data d p)"
  by (auto simp: update_ok_def update_data_def problem_row_ok_def or_keep_def opt_all_def split: option.splits)

section \<open>Updates\<close>

lemma distinct_map_replace:
  assumes "distinct (map k xs)" and "\<forall>x \<in> set xs. g x \<noteq> c \<longrightarrow> k x \<noteq> k u" and "distinct (map g xs)"
  shows "distinct (map k (map (\<lambda>x. if g x = c then u else x) xs))"
  using assms
proof (induction xs)
  case (Cons x xs)
  show ?case
  proof (cases "g x = c")
    case True
    then have "\<forall>y \<in> set xs. g y \<noteq> c" using Cons.prems(3) by (auto simp: image_iff)
    then have "map (\<lambda>x. if g x = c then u else x) xs = xs" by (simp add: map_idI)
    with True Cons.prems \<open>\<forall>y \<in> set xs. g y \<noteq> c\<close> show ?thesis by (auto simp: image_iff)
  next
    case False
    with Cons show ?thesis by (auto simp: image_iff)
  qed
qed simp

lemma map_ids_replace: "pm_id u = i \<Longrightarrow> map pm_id (map (\<lambda>p. if pm_id p = i then u else p) ps) = map pm_id ps"
  by (induction ps) auto

lemma versions_of_snoc: "versions_of j (w\<lparr>zw_problems := ps, zw_versions := zw_versions w @ [v]\<rparr>) =
    versions_of j w @ (if vn_problemId v = j then [vn_version v] else [])"
  by (simp add: versions_of_def)

lemma updateWithSnapshot_inv:
  assumes inv: "prob_inv w"
    and data: "\<And>p. pm_id (data p) = pm_id p" "\<And>p. pm_version (data p) = pm_version p"
      "\<And>p. problem_row_ok (tag_ids w) (company_ids w) p \<Longrightarrow> problem_row_ok (tag_ids w) (company_ids w) (data p)"
    and ts: "opt_all (\<lambda>ts. distinct ts \<and> set ts \<subseteq> tag_ids w) ts" and cs: "opt_all (\<lambda>cs. distinct cs \<and> set cs \<subseteq> company_ids w) cs"
  shows "wp (updateWithSnapshot now i ev editor data ts cs) (\<lambda>_. prob_inv) (\<lambda>_. prob_inv) w"
proof (cases "List.find (\<lambda>p. pm_id p = i) (zw_problems w)")
  case None
  with inv show ?thesis by (simp add: updateWithSnapshot_def wp_def)
next
  case (Some cur)
  from find_Some_set[OF Some] have cur: "cur \<in> set (zw_problems w)" "pm_id cur = i" by auto
  define linked where "linked = (case cs of None \<Rightarrow> (case ts of None \<Rightarrow> cur\<lparr>pm_version := pm_version cur + 1\<rparr>
      | Some t \<Rightarrow> cur\<lparr>pm_version := pm_version cur + 1, pm_tags := t\<rparr>)
    | Some c \<Rightarrow> (case ts of None \<Rightarrow> cur\<lparr>pm_version := pm_version cur + 1\<rparr>
      | Some t \<Rightarrow> cur\<lparr>pm_version := pm_version cur + 1, pm_tags := t\<rparr>)\<lparr>pm_companies := c\<rparr>)"
  define u where "u = data linked"
  have rc: "problem_row_ok (tag_ids w) (company_ids w) cur" using inv cur(1) by (simp add: prob_inv_def)
  have "problem_row_ok (tag_ids w) (company_ids w) linked"
    using rc ts cs by (auto simp: linked_def problem_row_ok_def opt_all_def split: option.splits)
  then have ru: "problem_row_ok (tag_ids w) (company_ids w) u" by (simp add: u_def data(3))
  have iu: "pm_id u = i" "pm_version u = pm_version cur + 1"
    using cur(2) by (auto simp: u_def data(1,2) linked_def split: option.splits)
  have ids: "distinct (map pm_id (zw_problems w))" and slugs: "distinct (map pm_slug (zw_problems w))"
    using inv by (simp_all add: prob_inv_def keys_ok_def)
  have hist: "p \<in> set (zw_problems w) \<Longrightarrow> 1 \<le> pm_version p \<and> versions_of (pm_id p) w = [1..pm_version p - 1]" for p
    using inv by (simp add: prob_inv_def history_ok_def)
  have vids: "v \<in> set (zw_versions w) \<Longrightarrow> vn_problemId v \<in> pm_id ` set (zw_problems w)" for v
    using inv by (simp add: prob_inv_def history_ok_def)
  define row where "row = \<lparr>vn_problemId = i, vn_version = pm_version cur, vn_editorId = editor,
      vn_snapshot = snapshot_of w cur, vn_createdAt = now\<rparr>"
  define w' where "w' = w\<lparr>zw_problems := map (\<lambda>p. if pm_id p = i then u else p) (zw_problems w), zw_versions := zw_versions w @ [row]\<rparr>"
  have inv': "prob_inv w'" if free: "\<not> list_ex (\<lambda>p. pm_id p \<noteq> i \<and> pm_slug p = pm_slug u) (zw_problems w)"
  proof -
    have k: "keys_ok w'"
      using ids slugs free distinct_map_replace[of pm_slug "zw_problems w" pm_id i u]
      by (auto simp: keys_ok_def w'_def list_ex_iff map_ids_replace[OF iu(1)] simp del: map_map)
    have mem: "p \<in> set (zw_problems w') \<Longrightarrow> p = u \<or> p \<in> set (zw_problems w) \<and> pm_id p \<noteq> i" for p
      by (auto simp: w'_def split: if_splits)
    have "1 \<le> pm_version p \<and> versions_of (pm_id p) w' = [1..pm_version p - 1]" if "p \<in> set (zw_problems w')" for p
    proof (cases "p = u")
      case True
      from hist[OF cur(1)] cur(2) iu True show ?thesis
        by (simp add: w'_def versions_of_snoc row_def upto_rec2)
    next
      case False
      with mem[OF that] hist[of p] show ?thesis by (auto simp: w'_def versions_of_snoc row_def)
    qed
    moreover have "pm_id ` set (zw_problems w') = pm_id ` set (zw_problems w)"
    proof -
      have "pm_id ` set (map (\<lambda>p. if pm_id p = i then u else p) (zw_problems w)) = pm_id ` set (zw_problems w)"
        using map_ids_replace[OF iu(1), of "zw_problems w"] by (metis set_map)
      then show ?thesis by (simp add: w'_def del: set_map)
    qed
    moreover have "vn_problemId v \<in> pm_id ` set (zw_problems w)" if "v \<in> set (zw_versions w')" for v
      using that vids cur by (auto simp: w'_def row_def)
    ultimately have h: "history_ok w'" by (simp add: history_ok_def)
    have t: "taxonomy_ok w'" "tag_ids w' = tag_ids w" "company_ids w' = company_ids w"
      using inv by (simp_all add: prob_inv_def w'_def taxonomy_ok_def tag_ids_def company_ids_def)
    have "problem_row_ok (tag_ids w') (company_ids w') p" if "p \<in> set (zw_problems w')" for p
      using mem[OF that] ru inv t by (auto simp: prob_inv_def)
    with k h t show ?thesis by (simp add: prob_inv_def)
  qed
  have "u = data (case cs of None \<Rightarrow> (case ts of None \<Rightarrow> cur\<lparr>pm_version := pm_version cur + 1\<rparr> | Some ts \<Rightarrow> cur\<lparr>pm_version := pm_version cur + 1\<rparr>\<lparr>pm_tags := ts\<rparr>)
      | Some cs \<Rightarrow> (case ts of None \<Rightarrow> cur\<lparr>pm_version := pm_version cur + 1\<rparr> | Some ts \<Rightarrow> cur\<lparr>pm_version := pm_version cur + 1\<rparr>\<lparr>pm_tags := ts\<rparr>)\<lparr>pm_companies := cs\<rparr>)"
    by (simp add: u_def linked_def)
  with Some inv inv' show ?thesis
    by (auto simp: updateWithSnapshot_def wp_def Let_def w'_def row_def)
qed

text \<open>Changes of rows outside the version history: deletion marks, test cases, removed join rows.\<close>

lemma map_rows_inv:
  assumes inv: "prob_inv w" and ps: "zw_problems w' = map g (zw_problems w)" and vs: "zw_versions w' = zw_versions w"
    and t: "taxonomy_ok w'" and g: "\<And>p. pm_id (g p) = pm_id p" "\<And>p. pm_slug (g p) = pm_slug p" "\<And>p. pm_version (g p) = pm_version p"
    and ok: "\<And>p. problem_row_ok (tag_ids w) (company_ids w) p \<Longrightarrow> problem_row_ok (tag_ids w') (company_ids w') (g p)"
  shows "prob_inv w'"
proof -
  have "map pm_id (zw_problems w') = map pm_id (zw_problems w)" "map pm_slug (zw_problems w') = map pm_slug (zw_problems w)"
    by (simp_all add: ps g)
  with inv have k: "keys_ok w'" by (simp add: prob_inv_def keys_ok_def)
  have "versions_of j w' = versions_of j w" for j by (simp add: versions_of_def vs)
  with inv have h: "history_ok w'" by (simp add: prob_inv_def history_ok_def ps vs g image_image)
  from inv ok k h t show ?thesis by (simp add: prob_inv_def ps)
qed

lemma update_rows_inv:
  assumes "prob_inv w" and "\<And>p. pm_id (f p) = pm_id p" "\<And>p. pm_slug (f p) = pm_slug p" "\<And>p. pm_version (f p) = pm_version p"
    and "\<And>p. problem_row_ok (tag_ids w) (company_ids w) p \<Longrightarrow> problem_row_ok (tag_ids w) (company_ids w) (f p)"
  shows "prob_inv (update_rows i f w)"
proof (rule map_rows_inv[OF assms(1)])
  show "zw_problems (update_rows i f w) = map (\<lambda>p. if pm_id p = i then f p else p) (zw_problems w)"
    by (simp add: update_rows_def)
qed (use assms in \<open>auto simp: update_rows_def prob_inv_def taxonomy_ok_def tag_ids_def company_ids_def\<close>)

section \<open>Vocabulary\<close>

text \<open>Growing the vocabulary leaves everything else alone.\<close>

definition grows :: "problem_world \<Rightarrow> problem_world \<Rightarrow> bool" where
  "grows w w' \<longleftrightarrow> zw_problems w' = zw_problems w \<and> zw_versions w' = zw_versions w \<and> tag_ids w \<subseteq> tag_ids w'
     \<and> company_ids w \<subseteq> company_ids w' \<and> taxonomy_ok w'"

lemma grows_inv: "prob_inv w \<Longrightarrow> grows w w' \<Longrightarrow> prob_inv w'"
  using problem_row_ok_mono[of "tag_ids w" "company_ids w" _ "tag_ids w'" "company_ids w'"]
  by (auto simp: prob_inv_def grows_def keys_ok_def history_ok_def versions_of_def)

lemma grows_refl: "taxonomy_ok w \<Longrightarrow> grows w w"
  by (simp add: grows_def)

lemma grows_trans: "grows w w' \<Longrightarrow> grows w' w'' \<Longrightarrow> grows w w''"
  by (auto simp: grows_def)

lemma map_rename_same:
  assumes "\<And>r. k (f r) = k r"
  shows "map k (map (\<lambda>r. if P r then f r else r) rs) = map k rs"
  using assms by (induction rs) auto

lemma upsertTag_grows:
  assumes "taxonomy_ok w" and "fresh \<notin> tag_ids w"
  shows "wp (upsertTag_row fresh name slug) (\<lambda>_ w'. grows w w' \<and> tag_ids w' \<subseteq> insert fresh (tag_ids w) \<and> company_ids w' = company_ids w)
    (\<lambda>_ w'. w' = w) w"
proof (cases "List.find (\<lambda>t. tg_slug t = slug) (zw_tags w)")
  case None
  then have "slug \<notin> tg_slug ` set (zw_tags w)" by (auto simp: find_None_iff)
  with None assms show ?thesis
    by (auto simp: upsertTag_row_def wp_def Let_def grows_def taxonomy_ok_def tag_ids_def company_ids_def)
next
  case (Some t)
  have m: "map tg_id (map (\<lambda>r. if tg_slug r = slug then r\<lparr>tg_name := name\<rparr> else r) rs) = map tg_id rs"
      "map tg_slug (map (\<lambda>r. if tg_slug r = slug then r\<lparr>tg_name := name\<rparr> else r) rs) = map tg_slug rs" for rs
    by (rule map_rename_same, simp)+
  have "tg_id ` set (map (\<lambda>r. if tg_slug r = slug then r\<lparr>tg_name := name\<rparr> else r) (zw_tags w)) = tg_id ` set (zw_tags w)"
    using m(1)[of "zw_tags w"] by (metis set_map)
  with Some assms m[of "zw_tags w"] show ?thesis
    by (auto simp: upsertTag_row_def wp_def grows_def taxonomy_ok_def tag_ids_def company_ids_def simp del: map_map set_map)
qed

lemma upsertCompany_grows:
  assumes "taxonomy_ok w" and "fresh \<notin> company_ids w"
  shows "wp (upsertCompany_row fresh name slug logo) (\<lambda>_ w'. grows w w' \<and> company_ids w' \<subseteq> insert fresh (company_ids w) \<and> tag_ids w' = tag_ids w)
    (\<lambda>_ w'. w' = w) w"
proof (cases "List.find (\<lambda>t. cy_slug t = slug) (zw_companies w)")
  case None
  then have "slug \<notin> cy_slug ` set (zw_companies w)" by (auto simp: find_None_iff)
  with None assms show ?thesis
    by (auto simp: upsertCompany_row_def wp_def Let_def grows_def taxonomy_ok_def tag_ids_def company_ids_def)
next
  case (Some t)
  define f :: "company_row \<Rightarrow> company_row" where "f = (\<lambda>r. case logo of None \<Rightarrow> r\<lparr>cy_name := name\<rparr> | Some l \<Rightarrow> r\<lparr>cy_name := name, cy_logoUrl := Some l\<rparr>)"
  have m: "map cy_id (map (\<lambda>r. if cy_slug r = slug then f r else r) rs) = map cy_id rs"
      "map cy_slug (map (\<lambda>r. if cy_slug r = slug then f r else r) rs) = map cy_slug rs" for rs
    by (rule map_rename_same, simp add: f_def split: option.splits)+
  have "cy_id ` set (map (\<lambda>r. if cy_slug r = slug then f r else r) (zw_companies w)) = cy_id ` set (zw_companies w)"
    using m(1)[of "zw_companies w"] by (metis set_map)
  with Some assms m[of "zw_companies w"] show ?thesis
    by (auto simp: upsertCompany_row_def wp_def Let_def f_def[symmetric] grows_def taxonomy_ok_def tag_ids_def company_ids_def
        simp del: map_map set_map)
qed

lemma upsert_tags_grows:
  "taxonomy_ok w \<Longrightarrow> inj (ze_id e) \<Longrightarrow> \<forall>m \<ge> n. ze_id e m \<notin> tag_ids w \<Longrightarrow>
   wp (upsert_tags e n ss) (\<lambda>_ w'. grows w w' \<and> company_ids w' = company_ids w) (\<lambda>_ w'. grows w w' \<and> company_ids w' = company_ids w) w"
proof (induction ss arbitrary: n w)
  case (Cons s ss)
  have f: "ze_id e n \<notin> tag_ids w" using Cons.prems(3) by blast
  show ?case
    unfolding upsert_tags.simps wp_then
  proof (rule wp_mono[OF upsertTag_grows[OF Cons.prems(1) f, of s s]])
    fix a w1 assume g: "grows w w1 \<and> tag_ids w1 \<subseteq> insert (ze_id e n) (tag_ids w) \<and> company_ids w1 = company_ids w"
    then have t: "taxonomy_ok w1" by (simp add: grows_def)
    have fr: "\<forall>m \<ge> n + 1. ze_id e m \<notin> tag_ids w1"
      using g Cons.prems(2,3) by (auto simp: inj_eq dest!: subsetD)
    show "wp (upsert_tags e (n + 1) ss) (\<lambda>_ w'. grows w w' \<and> company_ids w' = company_ids w) (\<lambda>_ w'. grows w w' \<and> company_ids w' = company_ids w) w1"
      by (rule wp_mono[OF Cons.IH[OF t Cons.prems(2) fr]]) (use g in \<open>auto intro: grows_trans\<close>)
  qed (use Cons.prems(1) in \<open>auto intro: grows_refl\<close>)
qed (simp add: wp_ret grows_refl)

lemma upsert_companies_grows:
  "taxonomy_ok w \<Longrightarrow> inj (ze_id e) \<Longrightarrow> \<forall>m \<ge> n. ze_id e m \<notin> company_ids w \<Longrightarrow>
   wp (upsert_companies e n ss) (\<lambda>_. grows w) (\<lambda>_. grows w) w"
proof (induction ss arbitrary: n w)
  case (Cons s ss)
  have f: "ze_id e n \<notin> company_ids w" using Cons.prems(3) by blast
  show ?case
    unfolding upsert_companies.simps wp_then
  proof (rule wp_mono[OF upsertCompany_grows[OF Cons.prems(1) f, of s s None]])
    fix a w1 assume g: "grows w w1 \<and> company_ids w1 \<subseteq> insert (ze_id e n) (company_ids w) \<and> tag_ids w1 = tag_ids w"
    then have t: "taxonomy_ok w1" by (simp add: grows_def)
    have fr: "\<forall>m \<ge> n + 1. ze_id e m \<notin> company_ids w1"
      using g Cons.prems(2,3) by (auto simp: inj_eq dest!: subsetD)
    show "wp (upsert_companies e (n + 1) ss) (\<lambda>_. grows w) (\<lambda>_. grows w) w1"
      by (rule wp_mono[OF Cons.IH[OF t Cons.prems(2) fr]]) (use g in \<open>auto intro: grows_trans\<close>)
  qed (use Cons.prems(1) in \<open>auto intro: grows_refl\<close>)
qed (simp add: wp_ret grows_refl)

lemma resolved_ids:
  "taxonomy_ok w \<Longrightarrow> distinct (resolveTagIds ss w) \<and> set (resolveTagIds ss w) \<subseteq> tag_ids w"
  "taxonomy_ok w \<Longrightarrow> distinct (resolveCompanyIds ss w) \<and> set (resolveCompanyIds ss w) \<subseteq> company_ids w"
  by (auto simp: resolveTagIds_def resolveCompanyIds_def taxonomy_ok_def tag_ids_def company_ids_def distinct_map inj_on_def)

definition refs_ok :: "problem_world \<Rightarrow> ident list \<times> ident list \<Rightarrow> bool" where
  "refs_ok w tc \<longleftrightarrow> distinct (fst tc) \<and> set (fst tc) \<subseteq> tag_ids w \<and> distinct (snd tc) \<and> set (snd tc) \<subseteq> company_ids w"

lemma ensureTaxonomy_grows:
  assumes "prob_inv w" and "env_fresh e w"
  shows "wp (ensureTaxonomy e ts cs) (\<lambda>r w'. grows w w' \<and> refs_ok w' r) (\<lambda>_. grows w) w"
proof -
  have t: "taxonomy_ok w" and f: "inj (ze_id e)" "\<forall>m \<ge> 100. ze_id e m \<notin> tag_ids w" "\<forall>m \<ge> 200. ze_id e m \<notin> company_ids w"
    using assms by (auto simp: prob_inv_def env_fresh_def)
  show ?thesis
    unfolding ensureTaxonomy_def wp_then
  proof (rule wp_mono[OF upsert_tags_grows[OF t f(1,2)]])
    fix a w1 assume g: "grows w w1 \<and> company_ids w1 = company_ids w"
    then have "taxonomy_ok w1" "\<forall>m \<ge> 200. ze_id e m \<notin> company_ids w1" using f(3) by (simp_all add: grows_def)
    from upsert_companies_grows[OF this(1) f(1) this(2)]
    show "wp (upsert_companies e 200 cs) (\<lambda>_. wp (reads (\<lambda>w. (resolveTagIds ts w, resolveCompanyIds cs w)))
        (\<lambda>r w'. grows w w' \<and> refs_ok w' r) (\<lambda>_. grows w)) (\<lambda>_. grows w) w1"
    proof (rule wp_mono)
      fix a w2 assume g2: "grows w1 w2"
      then have "taxonomy_ok w2" by (simp add: grows_def)
      with g g2 resolved_ids[of w2 ts] resolved_ids[of w2 cs]
      show "wp (reads (\<lambda>w. (resolveTagIds ts w, resolveCompanyIds cs w))) (\<lambda>r w'. grows w w' \<and> refs_ok w' r) (\<lambda>_. grows w) w2"
        by (simp add: wp_reads refs_ok_def grows_trans[of w w1 w2])
    qed (use g in \<open>auto intro: grows_trans\<close>)
  qed auto
qed

end
