(* ===== verification/ProblemKeep.thy ===== *)
theory ProblemKeep
  imports ProblemInv
begin

text \<open>Every handler of the problem module keeps the invariant of the catalogue.\<close>

section \<open>Requests keep the invariant\<close>

named_theorems prob_frames \<open>writes of the catalogue outside its invariant\<close>

lemma prob_inv_other [prob_frames]:
  "prob_inv (w\<lparr>zw_bookmarks := b\<rparr>) = prob_inv w" "prob_inv (w\<lparr>zw_audit := a\<rparr>) = prob_inv w"
  "prob_inv (w\<lparr>zw_cache := c\<rparr>) = prob_inv w" "prob_inv (w\<lparr>zw_submissions := s\<rparr>) = prob_inv w"
  by (simp_all add: prob_inv_def keys_ok_def taxonomy_ok_def history_ok_def versions_of_def tag_ids_def company_ids_def)

lemma prob_inv_cache [prob_frames]: "prob_inv (cache_set e k v t w) = prob_inv w" "prob_inv (cache_del e ks w) = prob_inv w"
  by (simp_all add: cache_set_def cache_del_def prob_frames)

lemma prob_inv_bookmark [prob_frames]: "prob_inv (add_bookmark now u i w) = prob_inv w"
  by (simp add: add_bookmark_def prob_frames)

lemma keeps_audit: "keeps prob_inv (audit_record e a b c d m)"
  unfolding audit_record_def by (rule keeps_writes) (simp add: prob_frames)

lemma keeps_invalidate: "keeps prob_inv (invalidate e i s)"
  unfolding invalidate_def by (rule keeps_writes) (simp add: prob_frames)

lemmas prob_keeps = keeps_ret keeps_bind keeps_then keeps_writes keeps_audit keeps_invalidate

lemma keeps_wp: "keeps P m \<Longrightarrow> P w \<Longrightarrow> wp m (\<lambda>_. P) (\<lambda>_. P) w"
  by (simp add: keeps_def)

lemma keeps_user_route: "keeps prob_inv (user_route e h r)"
  by (cases r)
    (auto simp: list_service_def getByIdOrSlug_def trending_def recentlySolved_def bookmark_add_def bookmark_remove_def
      listMine_def listTags_def listCompanies_def requireAuth_def valid_param_def replying_def prob_frames
      split: option.splits cached.splits intro!: prob_keeps,
     auto simp: keeps_def wp_def remove_bookmark_def prob_frames)

lemma create_problem_row_ok: "create_ok d \<Longrightarrow> refs_ok w tc \<Longrightarrow> problem_row_ok (tag_ids w) (company_ids w) (new_problem e d u s tc)"
  by (simp add: new_problem_def problem_row_ok_def create_ok_def refs_ok_def)

lemma create_problem_inv:
  assumes inv: "prob_inv w" and p: "problem_row_ok (tag_ids w) (company_ids w) p" "pm_version p = 1" "pm_id p \<notin> pm_id ` set (zw_problems w)"
  shows "wp (create_problem p) (\<lambda>_. prob_inv) (\<lambda>_. prob_inv) w"
proof -
  let ?w = "w\<lparr>zw_problems := zw_problems w @ [p]\<rparr>"
  have "prob_inv ?w" if s: "\<not> existsBySlug (pm_slug p) w"
  proof -
    have k: "keys_ok ?w" using inv s p(3) by (auto simp: prob_inv_def keys_ok_def existsBySlug_def list_ex_iff)
    have v: "versions_of i ?w = versions_of i w" for i by (simp add: versions_of_def)
    have "versions_of (pm_id p) w = []"
    proof -
      have "\<forall>v \<in> set (zw_versions w). vn_problemId v \<noteq> pm_id p"
        using inv p(3) unfolding prob_inv_def history_ok_def by (metis image_eqI)
      then show ?thesis by (simp add: versions_of_def filter_empty_conv)
    qed
    with inv p(2) have "history_ok ?w" by (auto simp: prob_inv_def history_ok_def v)
    with k inv p(1) show ?thesis by (auto simp: prob_inv_def taxonomy_ok_def tag_ids_def company_ids_def)
  qed
  with inv show ?thesis by (simp add: create_problem_def wp_def)
qed

lemma problem_create_inv:
  assumes inv: "prob_inv w" and fresh: "env_fresh e w" and d: "create_ok d"
  shows "wp (problem_create e d u) (\<lambda>_. prob_inv) (\<lambda>_. prob_inv) w"
proof -
  let ?tail = "\<lambda>tc. bind_op (create_problem (new_problem e d u (slug_for e d) tc)) (\<lambda>p.
      then_op (audit_record e (vw_id u) ''problem.create'' ''problem'' (pm_id p)
        (JObj [(''slug'', JStr (slug_for e d)), (''difficulty'', JStr (difficulty_name (cp_difficulty d)))]))
      (reads (\<lambda>w. toAdminProblemDetailDto w p)))"
  have "wp (bind_op (ensureTaxonomy e (cp_tags d) (cp_companies d)) ?tail) (\<lambda>_. prob_inv) (\<lambda>_. prob_inv) w"
    unfolding wp_bind[of "ensureTaxonomy e (cp_tags d) (cp_companies d)"]
  proof (rule wp_mono[OF ensureTaxonomy_grows[OF inv fresh]])
    fix tc w1 assume g: "grows w w1 \<and> refs_ok w1 tc"
    then have i1: "prob_inv w1" using inv grows_inv by blast
    have "ze_id e 0 \<notin> pm_id ` set (zw_problems w1)" using g fresh by (auto simp: grows_def env_fresh_def)
    with g create_problem_row_ok[OF d, of w1 tc] show "wp (?tail tc) (\<lambda>_. prob_inv) (\<lambda>_. prob_inv) w1"
      by (intro wp_bind_keeps create_problem_inv[OF i1] prob_keeps) (auto simp: new_problem_def)
  qed (use inv grows_inv in blast)
  with inv show ?thesis by (simp add: problem_create_def wp_simps)
qed

lemma mapped_update_wp: "wp m (\<lambda>_. P) (\<lambda>_. P) w \<Longrightarrow> wp (mapped_update i n m) (\<lambda>_. P) (\<lambda>_. P) w"
  by (auto simp: wp_def mapped_update_def split: prod.splits sum.splits)

lemma found_wp:
  assumes "P w" and "\<And>p. findByIdOrSlug i b w = Some p \<Longrightarrow> wp (f p) (\<lambda>_. P) (\<lambda>_. P) w"
  shows "wp (bind_op (reads (findByIdOrSlug i b)) (\<lambda>found. bind_op (of_option err found) f)) (\<lambda>_. P) (\<lambda>_. P) w"
  using assms by (auto simp: wp_simps split: option.splits)

lemma commit_update_inv:
  assumes i1: "prob_inv w" and r: "refs_ok w tc" and d: "update_ok d"
  shows "wp (commit_update e i d u existing tc) (\<lambda>_. prob_inv) (\<lambda>_. prob_inv) w"
  unfolding commit_update_def
  by (intro mapped_update_wp wp_bind_keeps updateWithSnapshot_inv[OF i1] prob_keeps)
    (use r d in \<open>auto simp: update_data_keeps update_data_problem_row_ok opt_all_def refs_ok_def split: option.splits\<close>)

lemma update_taxonomy_grows:
  "prob_inv w \<Longrightarrow> env_fresh e w \<Longrightarrow> wp (update_taxonomy e d) (\<lambda>r w'. grows w w' \<and> refs_ok w' r) (\<lambda>_. grows w) w"
proof (cases "up_tags d \<noteq> None \<or> up_companies d \<noteq> None")
  case False
  moreover assume "prob_inv w"
  then have "taxonomy_ok w" by (simp add: prob_inv_def)
  ultimately show ?thesis by (simp add: update_taxonomy_def wp_ret refs_ok_def grows_refl)
qed (simp only: update_taxonomy_def if_True ensureTaxonomy_grows)

lemma problem_update_inv:
  assumes inv: "prob_inv w" and fresh: "env_fresh e w" and d: "update_ok d"
  shows "wp (problem_update e i d u) (\<lambda>_. prob_inv) (\<lambda>_. prob_inv) w"
  unfolding problem_update_def
proof (rule found_wp[where P = prob_inv, OF inv])
  fix existing
  have "wp (bind_op (update_taxonomy e d) (commit_update e i d u existing)) (\<lambda>_. prob_inv) (\<lambda>_. prob_inv) w"
    unfolding wp_bind
    by (rule wp_mono[OF update_taxonomy_grows[OF inv fresh]])
      (use d in \<open>auto intro: commit_update_inv grows_inv[OF inv]\<close>)
  with inv show "wp (bind_op (reads (existsBySlug (or_keep (up_slug d) []))) (\<lambda>taken.
     then_op (guard_op (\<not> (truthy_str (up_slug d) \<and> up_slug d \<noteq> Some (pm_slug existing) \<and> taken)) (DuplicateProblem (or_keep (up_slug d) [])))
    (bind_op (update_taxonomy e d) (commit_update e i d u existing)))) (\<lambda>_. prob_inv) (\<lambda>_. prob_inv) w"
    by (simp add: wp_bind[of "reads _"] wp_then wp_reads wp_guard)
qed

lemma edit_current_inv:
  assumes inv: "prob_inv w" and f: "\<And>p. pm_id (f p) = pm_id p" "\<And>p. pm_version (f p) = pm_version p"
    "\<And>T C p. problem_row_ok T C p \<Longrightarrow> problem_row_ok T C (f p)"
  shows "wp (edit_current e i u a m f) (\<lambda>_. prob_inv) (\<lambda>_. prob_inv) w"
  unfolding edit_current_def
  by (rule found_wp[where P = prob_inv, OF inv]) (intro wp_bind_keeps updateWithSnapshot_inv[OF inv] f prob_keeps; simp)

lemma setVisibility_inv: "prob_inv w \<Longrightarrow> wp (setVisibility e i v a u) (\<lambda>_. prob_inv) (\<lambda>_. prob_inv) w"
  unfolding setVisibility_def by (rule edit_current_inv) (auto simp: problem_row_ok_def)

lemma upsertEditorial_inv: "prob_inv w \<Longrightarrow> wp (upsertEditorial e i ed u) (\<lambda>_. prob_inv) (\<lambda>_. prob_inv) w"
  unfolding upsertEditorial_def by (rule edit_current_inv) (auto simp: problem_row_ok_def)

lemma upsertHints_inv: "prob_inv w \<Longrightarrow> length hs \<le> 10 \<Longrightarrow> wp (upsertHints e i hs u) (\<lambda>_. prob_inv) (\<lambda>_. prob_inv) w"
  unfolding upsertHints_def by (rule edit_current_inv) (auto simp: problem_row_ok_def)

lemma softDelete_inv: "prob_inv w \<Longrightarrow> wp (problem_softDelete e i u) (\<lambda>_. prob_inv) (\<lambda>_. prob_inv) w"
  unfolding problem_softDelete_def
  by (rule found_wp[where P = prob_inv]) (auto intro!: keeps_wp[where P = prob_inv] prob_keeps update_rows_inv simp: softDelete_row_def problem_row_ok_def)

lemma uploadTestCases_inv:
  assumes "prob_inv w" and "length ts \<le> 200" and "\<forall>(i, out, h, n) \<in> set ts. 1 \<le> n \<and> n \<le> 100"
  shows "wp (uploadTestCases e i ts u) (\<lambda>_. prob_inv) (\<lambda>_. prob_inv) w"
  unfolding uploadTestCases_def
proof (rule found_wp[where P = prob_inv, OF assms(1)])
  fix existing
  have "wp (replaceTestCases (ze_id e) (pm_id existing) ts) (\<lambda>_. prob_inv) (\<lambda>_. prob_inv) w"
    using assms test_rows_weight[OF assms(3)]
    by (auto simp: replaceTestCases_def wp_def problem_row_ok_def intro!: update_rows_inv)
  then show "wp (bind_op (replaceTestCases (ze_id e) (pm_id existing) ts) (\<lambda>n.
     then_op (invalidate e (pm_id existing) (pm_slug existing))
    (then_op (audit_record e (vw_id u) ''problem.testcases.replace'' ''problem'' (pm_id existing)
        (JObj [(''count'', JNum (of_nat n))])) (ret n)))) (\<lambda>_. prob_inv) (\<lambda>_. prob_inv) w"
    by (rule wp_bind_keeps) (intro prob_keeps)
qed

lemma tax_upsertTag_inv:
  assumes "prob_inv w" and "env_fresh e w"
  shows "wp (tax_upsertTag e n u) (\<lambda>_. prob_inv) (\<lambda>_. prob_inv) w"
proof -
  have "taxonomy_ok w" "ze_id e 0 \<notin> tag_ids w" using assms by (simp_all add: prob_inv_def env_fresh_def)
  then have "wp (upsertTag_row (ze_id e 0) n s) (\<lambda>_. prob_inv) (\<lambda>_. prob_inv) w" for s
    by (intro wp_mono[OF upsertTag_grows]) (auto intro: grows_inv[OF assms(1)] simp: assms(1))
  then show ?thesis unfolding tax_upsertTag_def by (rule wp_bind_keeps) (intro prob_keeps; simp add: prob_frames)
qed

lemma tax_upsertCompany_inv:
  assumes "prob_inv w" and "env_fresh e w"
  shows "wp (tax_upsertCompany e n l u) (\<lambda>_. prob_inv) (\<lambda>_. prob_inv) w"
proof -
  have "taxonomy_ok w" "ze_id e 0 \<notin> company_ids w" using assms by (simp_all add: prob_inv_def env_fresh_def)
  then have "wp (upsertCompany_row (ze_id e 0) n s l) (\<lambda>_. prob_inv) (\<lambda>_. prob_inv) w" for s
    by (intro wp_mono[OF upsertCompany_grows]) (auto intro: grows_inv[OF assms(1)] simp: assms(1))
  then show ?thesis unfolding tax_upsertCompany_def by (rule wp_bind_keeps) (intro prob_keeps; simp add: prob_frames)
qed

lemma distinct_map_filter_key: "distinct (map k xs) \<Longrightarrow> distinct (map k (filter P xs))"
  by (induction xs) auto

lemma keeps_deleteTag: "keeps prob_inv (deleteTag_row i)"
proof (unfold keeps_def, intro allI impI)
  fix w assume inv: "prob_inv w"
  let ?w = "w\<lparr>zw_tags := filter (\<lambda>t. tg_id t \<noteq> ascii_lower i) (zw_tags w),
      zw_problems := map (\<lambda>p. p\<lparr>pm_tags := filter (\<lambda>k. k \<noteq> ascii_lower i) (pm_tags p)\<rparr>) (zw_problems w)\<rparr>"
  have "prob_inv ?w"
    by (rule map_rows_inv[OF inv, where g = "\<lambda>p. p\<lparr>pm_tags := filter (\<lambda>k. k \<noteq> ascii_lower i) (pm_tags p)\<rparr>"])
      (use inv in \<open>auto simp: prob_inv_def taxonomy_ok_def distinct_map_filter_key problem_row_ok_def tag_ids_def company_ids_def\<close>)
  with inv show "wp (deleteTag_row i) (\<lambda>_. prob_inv) (\<lambda>_. prob_inv) w" by (simp add: deleteTag_row_def wp_def Let_def)
qed

lemma keeps_deleteCompany: "keeps prob_inv (deleteCompany_row i)"
proof (unfold keeps_def, intro allI impI)
  fix w assume inv: "prob_inv w"
  let ?w = "w\<lparr>zw_companies := filter (\<lambda>t. cy_id t \<noteq> ascii_lower i) (zw_companies w),
      zw_problems := map (\<lambda>p. p\<lparr>pm_companies := filter (\<lambda>k. k \<noteq> ascii_lower i) (pm_companies p)\<rparr>) (zw_problems w)\<rparr>"
  have "prob_inv ?w"
    by (rule map_rows_inv[OF inv, where g = "\<lambda>p. p\<lparr>pm_companies := filter (\<lambda>k. k \<noteq> ascii_lower i) (pm_companies p)\<rparr>"])
      (use inv in \<open>auto simp: prob_inv_def taxonomy_ok_def distinct_map_filter_key problem_row_ok_def tag_ids_def company_ids_def\<close>)
  with inv show "wp (deleteCompany_row i) (\<lambda>_. prob_inv) (\<lambda>_. prob_inv) w" by (simp add: deleteCompany_row_def wp_def Let_def)
qed

lemma requireAuth_wp: "P w \<Longrightarrow> (\<And>u. P w \<Longrightarrow> wp (f u) (\<lambda>_. P) (\<lambda>_. P) w) \<Longrightarrow> wp (bind_op (requireAuth e h) f) (\<lambda>_. P) (\<lambda>_. P) w"
  by (auto simp: requireAuth_def wp_simps split: option.splits)

lemma parsed_wp: "P w \<Longrightarrow> (\<And>d. x = Some d \<Longrightarrow> wp (f d) (\<lambda>_. P) (\<lambda>_. P) w) \<Longrightarrow> wp (bind_op (of_option err x) f) (\<lambda>_. P) (\<lambda>_. P) w"
  by (auto simp: wp_simps split: option.splits)

lemma param_wp: "P w \<Longrightarrow> wp m (\<lambda>_. P) (\<lambda>_. P) w \<Longrightarrow> wp (then_op (valid_param i) m) (\<lambda>_. P) (\<lambda>_. P) w"
  by (auto simp: valid_param_def wp_simps)

lemma replying_wp: "wp m (\<lambda>_. P) (\<lambda>_. P) w \<Longrightarrow> wp (replying f m) (\<lambda>_. P) (\<lambda>_. P) w"
  by (auto simp: replying_def wp_simps intro: wp_mono)

lemma keeps_tax_delete: "keeps prob_inv (tax_deleteTag e i u)" "keeps prob_inv (tax_deleteCompany e i u)"
  unfolding tax_deleteTag_def tax_deleteCompany_def
  by (intro prob_keeps keeps_deleteTag keeps_deleteCompany; simp add: prob_frames)+

lemma keeps_reads_only: "keeps prob_inv (getAdminDetail i)" "keeps prob_inv (listVersions i)" "keeps prob_inv (getVersion i n)"
  unfolding getAdminDetail_def listVersions_def getVersion_def by (intro prob_keeps)+

lemma admin_handler_inv:
  assumes "prob_inv w" and "env_fresh e w"
  shows "wp (admin_handler e u r) (\<lambda>_. prob_inv) (\<lambda>_. prob_inv) w"
  using assms
  by (cases r)
    (auto intro!: parsed_wp[where P = prob_inv] param_wp[where P = prob_inv] replying_wp problem_create_inv problem_update_inv softDelete_inv
      setVisibility_inv uploadTestCases_inv upsertEditorial_inv upsertHints_inv tax_upsertTag_inv tax_upsertCompany_inv
      keeps_wp[OF keeps_tax_delete(1)] keeps_wp[OF keeps_tax_delete(2)] keeps_wp[OF keeps_reads_only(1)]
      keeps_wp[OF keeps_reads_only(2)] keeps_wp[OF keeps_reads_only(3)] dest: parse_create_ok parse_update_ok parse_tests_ok parse_hints_ok)

lemma admin_route_inv: "prob_inv w \<Longrightarrow> env_fresh e w \<Longrightarrow> prob_inv (snd (admin_route e h r w))"
  unfolding wp_snd[symmetric] admin_route_def
  by (auto intro!: requireAuth_wp[where P = prob_inv] simp: requireRole_def wp_then wp_guard intro: admin_handler_inv)

section \<open>Runs\<close>

text \<open>A run of the catalogue: any request of anybody, and submissions that other modules record.\<close>

inductive prob_step :: "problem_world \<Rightarrow> problem_world \<Rightarrow> bool" where
  users: "prob_step w (snd (user_route e h r w))"
| admins: "env_fresh e w \<Longrightarrow> prob_step w (snd (admin_route e h r w))"
| submits: "prob_step w (w\<lparr>zw_submissions := s\<rparr>)"

definition empty_catalogue :: problem_world where
  "empty_catalogue = \<lparr>zw_problems = [], zw_tags = [], zw_companies = [], zw_versions = [], zw_bookmarks = [], zw_submissions = [],
     zw_audit = [], zw_cache = Map.empty\<rparr>"

inductive prob_reachable :: "problem_world \<Rightarrow> bool" where
  prob_start: "prob_reachable empty_catalogue"
| prob_next: "prob_reachable w \<Longrightarrow> prob_step w w' \<Longrightarrow> prob_reachable w'"

inductive_cases prob_stepE: "prob_step w w'"

lemma prob_step_inv: "prob_step w w' \<Longrightarrow> prob_inv w \<Longrightarrow> prob_inv w'"
  by (auto elim!: prob_stepE simp: admin_route_inv prob_frames keepsD[OF keeps_user_route])

lemma prob_reachable_inv: "prob_reachable w \<Longrightarrow> prob_inv w"
proof (induction rule: prob_reachable.induct)
  case prob_start
  show ?case by (simp add: empty_catalogue_def prob_inv_def keys_ok_def taxonomy_ok_def history_ok_def)
qed (rule prob_step_inv)

end
