(* ===== verification/ProblemSlug.thy ===== *)
theory ProblemSlug
  imports ProblemTypes
begin

text \<open>The slugs made from titles: their shape, and the ones that are fixed.\<close>

lemma dash_not_slug [simp]: "\<not> slug_char dash"
  by (simp add: slug_char_def dash_def)

lemma set_dash_runs: "c \<in> set (dash_runs b s) \<Longrightarrow> slug_char c \<or> c = dash"
  by (induction b s rule: dash_runs.induct) (auto split: if_splits)

text \<open>No two hyphens in a row, and after a hyphen none at the start.\<close>

fun no_double :: "bool \<Rightarrow> string \<Rightarrow> bool" where
  "no_double b [] \<longleftrightarrow> True"
| "no_double b (c # cs) \<longleftrightarrow> (if c = dash then \<not> b \<and> no_double True cs else slug_char c \<and> no_double False cs)"

lemma no_double_dash_runs: "no_double b (dash_runs b s)"
  by (induction b s rule: dash_runs.induct) auto

lemma no_double_mono: "no_double True s \<Longrightarrow> no_double b s"
  by (cases s) auto

lemma no_double_drop: "no_double b s \<Longrightarrow> no_double True (dropWhile (\<lambda>c. c = dash) s)"
proof (induction b s rule: no_double.induct)
  case (2 b c cs)
  then show ?case by (cases "c = dash") auto
qed simp

lemma no_double_append: "no_double b (xs @ ys) \<Longrightarrow> no_double b xs"
  by (induction b xs rule: no_double.induct) auto

lemma no_double_take: "no_double b s \<Longrightarrow> no_double b (take n s)"
  using no_double_append[of b "take n s" "drop n s"] by simp

lemma kebab_no_double: "kebab_from b s \<longleftrightarrow> no_double b s \<and> (if s = [] then \<not> b else last s \<noteq> dash)"
proof (induction b s rule: kebab_from.induct)
  case (2 b c cs)
  then show ?case by (cases cs) auto
qed simp

lemma strip_right_prefix: "\<exists>ys. s = rev (dropWhile (\<lambda>c. c = dash) (rev s)) @ ys"
proof -
  have "s = rev (takeWhile (\<lambda>c. c = dash) (rev s) @ dropWhile (\<lambda>c. c = dash) (rev s))"
    by (simp only: takeWhile_dropWhile_id rev_rev_ident)
  then show ?thesis unfolding rev_append by blast
qed

lemma strip_dashes_last: "strip_dashes s \<noteq> [] \<Longrightarrow> last (strip_dashes s) \<noteq> dash"
  unfolding strip_dashes_def using hd_dropWhile[of "\<lambda>c. c = dash"] by (simp add: last_rev)

lemma strip_dashes_no_double: "no_double b s \<Longrightarrow> no_double True (strip_dashes s)"
proof -
  assume "no_double b s"
  then have d: "no_double True (dropWhile (\<lambda>c. c = dash) s)" by (rule no_double_drop)
  obtain ys where "dropWhile (\<lambda>c. c = dash) s = strip_dashes s @ ys"
    using strip_right_prefix[of "dropWhile (\<lambda>c. c = dash) s"] by (auto simp: strip_dashes_def)
  with d show ?thesis by (metis no_double_append)
qed

lemma slugify_no_double: "no_double True (slugify f t)"
  unfolding slugify_def by (rule no_double_take[OF strip_dashes_no_double[OF no_double_dash_runs]])

lemma slugify_uncut: "length (slugify f t) < 120 \<Longrightarrow> slugify f t = strip_dashes (dash_runs False (f t))"
  by (simp add: slugify_def)

subsection \<open>Fixed slugs\<close>

lemma no_double_fixed: "no_double b s \<Longrightarrow> dash_runs b s = s"
proof (induction b s rule: no_double.induct)
  case (2 b c cs)
  then show ?case by (cases "c = dash") auto
qed simp

lemma strip_dashes_fixed:
  assumes "is_kebab s"
  shows "strip_dashes s = s"
proof -
  have k: "no_double True s" "s \<noteq> []" "last s \<noteq> dash"
    using assms by (auto simp: is_kebab_def kebab_no_double split: if_splits)
  then obtain c cs where s: "s = c # cs" by (cases s) auto
  with k have "dropWhile (\<lambda>c. c = dash) s = s" by auto
  moreover have "dropWhile (\<lambda>c. c = dash) (rev s) = rev s"
    using k(2,3) by (cases s rule: rev_cases) auto
  ultimately show ?thesis by (simp add: strip_dashes_def)
qed

lemma slugify_fixed: "is_kebab s \<Longrightarrow> length s \<le> 120 \<Longrightarrow> f s = s \<Longrightarrow> slugify f s = s"
  using no_double_mono[of s False] no_double_fixed[of False s] strip_dashes_fixed[of s]
  by (auto simp: slugify_def is_kebab_def kebab_no_double)

lemma dash_runs_empty: "set (dash_runs b s) \<subseteq> {dash} \<longleftrightarrow> (\<forall>c \<in> set s. \<not> slug_char c)"
proof (induction b s rule: dash_runs.induct)
  case (2 b c cs)
  have "slug_char c \<Longrightarrow> c \<noteq> dash" by auto
  with 2 show ?case by auto
qed simp

lemma dropWhile_all: "set s \<subseteq> {dash} \<Longrightarrow> dropWhile (\<lambda>c. c = dash) s = []"
  unfolding dropWhile_eq_Nil_conv by blast

lemma strip_dashes_empty: "strip_dashes s = [] \<longleftrightarrow> set s \<subseteq> {dash}"
proof
  assume "strip_dashes s = []"
  then have "\<forall>c \<in> set (dropWhile (\<lambda>c. c = dash) s). c = dash"
    unfolding strip_dashes_def rev_is_Nil_conv dropWhile_eq_Nil_conv set_rev by blast
  then have d: "hd (dropWhile (\<lambda>c. c = dash) s) = dash" if "dropWhile (\<lambda>c. c = dash) s \<noteq> []"
    using hd_in_set[OF that] by blast
  have "dropWhile (\<lambda>c. c = dash) s = []"
    using hd_dropWhile[of "\<lambda>c. c = dash" s] d by blast
  then show "set s \<subseteq> {dash}" unfolding dropWhile_eq_Nil_conv by blast
qed (simp add: strip_dashes_def dropWhile_all)

lemma slugify_empty: "slugify f t = [] \<longleftrightarrow> (\<forall>c \<in> set (f t). \<not> slug_char c)"
  by (simp add: slugify_def strip_dashes_empty dash_runs_empty)

text \<open>
  The slug made from a title is kebab-case unless it is empty or was cut: at most 120 characters,
  empty exactly for titles without a letter or digit, and ending in a hyphen only when cut at 120. A
  kebab-case title of at most 120 characters is its own slug, so making a slug is idempotent on
  well-formed slugs, whatever folding of case and accents leaves them alone.
\<close>

theorem slugs_are_kebab:
  "length (slugify f t) \<le> 120
   \<and> (slugify f t = [] \<longleftrightarrow> (\<forall>c \<in> set (f t). \<not> slug_char c))
   \<and> (is_kebab (slugify f t) \<or> slugify f t = [] \<or> length (slugify f t) = 120 \<and> last (slugify f t) = dash)
   \<and> (is_kebab s \<and> length s \<le> 120 \<and> f s = s \<longrightarrow> slugify f s = s)"
proof (intro conjI impI)
  show "length (slugify f t) \<le> 120" by (simp add: slugify_def)
  show "slugify f t = [] \<longleftrightarrow> (\<forall>c \<in> set (f t). \<not> slug_char c)" by (rule slugify_empty)
  show "is_kebab (slugify f t) \<or> slugify f t = [] \<or> length (slugify f t) = 120 \<and> last (slugify f t) = dash"
  proof (cases "length (slugify f t) < 120")
    case True
    with strip_dashes_last[of "dash_runs False (f t)"] slugify_no_double[of f t] slugify_uncut[OF True]
    show ?thesis by (auto simp: is_kebab_def kebab_no_double)
  next
    case False
    then have "length (slugify f t) = 120" by (simp add: slugify_def)
    with slugify_no_double[of f t] show ?thesis by (auto simp: is_kebab_def kebab_no_double)
  qed
qed (simp add: slugify_fixed)

lemma slugs_are_kebab_witness:
  "slugify ascii_lower ''two-sum-ii'' = ''two-sum-ii'' \<and> slugify ascii_lower ''  Two Sum -- (II)!'' = ''two-sum-ii''"
proof -
  have "is_kebab ''two-sum-ii'' \<and> length ''two-sum-ii'' \<le> 120 \<and> ascii_lower ''two-sum-ii'' = ''two-sum-ii''" by code_simp
  then have "slugify ascii_lower ''two-sum-ii'' = ''two-sum-ii''"
    by (rule slugs_are_kebab[THEN conjunct2, THEN conjunct2, THEN conjunct2, rule_format])
  moreover have "slugify ascii_lower ''  Two Sum -- (II)!'' = ''two-sum-ii''" by code_simp
  ultimately show ?thesis by simp
qed

end
