(* ===== verification/ProblemProps.thy ===== *)
theory ProblemProps
  imports ProblemKeep ProblemSlug
begin

text \<open>
  What the problem catalogue guarantees over every run of its routes: well-formed problems, a complete
  version history, who may write, what stays hidden, and pages that miss nothing.
\<close>

section \<open>A concrete run\<close>

definition demo_penv :: problem_env where
  "demo_penv = \<lparr>ze_now = 10, ze_cacheUp = True, ze_auditUp = True, ze_id = (\<lambda>n. replicate n (CHR ''a'')),
     ze_verify = (\<lambda>t. if t = ''root'' then Some (''adm'', ''ADMIN'') else if t = ''joe'' then Some (''joe'', ''USER'') else None),
     ze_fold = ascii_lower, ze_validUrl = (\<lambda>_. True)\<rparr>"

definition demo_body :: json where
  "demo_body = JObj [(''title'', JStr ''Two Sum''), (''statement'', JStr ''Find the two that add up.''), (''difficulty'', JStr ''EASY''),
     (''tags'', JArr [JStr ''array'']),
     (''examples'', JArr [JObj [(''input'', JStr ''1 2''), (''output'', JStr ''3'')]])]"

definition root_header :: "string option" where "root_header = Some ''Bearer root''"
definition joe_header :: "string option" where "joe_header = Some ''Bearer joe''"

definition demo_catalogue :: problem_world where
  "demo_catalogue = snd (admin_route demo_penv root_header (ArCreate demo_body) empty_catalogue)"

definition demo_problem :: problem_row where
  "demo_problem = \<lparr>pm_id = [], pm_slug = ''two-sum'', pm_title = ''Two Sum'', pm_statement = ''Find the two that add up.'',
     pm_difficulty = DfEasy, pm_visibility = VsDraft, pm_timeLimitMs = 2000, pm_memoryLimitMb = 256, pm_solvedCount = 0,
     pm_submissionCount = 0, pm_authorId = Some ''adm'', pm_version = 1, pm_deletedAt = None, pm_createdAt = 10,
     pm_tags = [replicate 100 (CHR ''a'')], pm_companies = [],
     pm_examples = [\<lparr>ex_input = ''1 2'', ex_output = ''3'', ex_explanation = None, ex_order = 0\<rparr>], pm_constraints = [],
     pm_hints = [], pm_editorial = None, pm_testCases = []\<rparr>"

lemma demo_fresh: "env_fresh demo_penv empty_catalogue"
  by (simp add: env_fresh_def demo_penv_def empty_catalogue_def tag_ids_def company_ids_def inj_def)

lemma demo_reachable: "prob_reachable demo_catalogue"
  unfolding demo_catalogue_def by (rule prob_next[OF prob_start admins[OF demo_fresh]])

lemma demo_catalogue_problems: "zw_problems demo_catalogue = [demo_problem]"
  by code_simp

section \<open>Well-formedness and history\<close>

text \<open>
  C25. Every stored problem is well-formed in every run: title, statement, limits and list sizes are
  within the bounds of the validators, worked examples, constraints, hints and test cases are numbered
  from zero without gaps, test weights lie between 1 and 100, tags and companies exist and are named
  once, and no two problems share an id or a slug.
\<close>

theorem catalogue_well_formed:
  assumes "prob_reachable w" and "p \<in> set (zw_problems w)"
  shows "problem_row_ok (tg_id ` set (zw_tags w)) (cy_id ` set (zw_companies w)) p
    \<and> distinct (map pm_id (zw_problems w)) \<and> distinct (map pm_slug (zw_problems w))"
  using prob_reachable_inv[OF assms(1)] assms(2) by (simp add: prob_inv_def keys_ok_def tag_ids_def company_ids_def)

lemma demo_catalogue_versions: "zw_versions demo_catalogue = []"
  by code_simp

lemma catalogue_well_formed_witness:
  "pm_timeLimitMs demo_problem \<le> 20000 \<and> map ex_order (pm_examples demo_problem) = [0]"
proof -
  have "demo_problem \<in> set (zw_problems demo_catalogue)" by (simp add: demo_catalogue_problems)
  from catalogue_well_formed[OF demo_reachable this] show ?thesis
    by (simp add: problem_row_ok_def) (simp add: demo_problem_def)
qed

lemma find_key_eq:
  "distinct (map k xs) \<Longrightarrow> x \<in> set xs \<Longrightarrow> List.find (\<lambda>y. k y = k x) xs = Some x"
proof (induction xs)
  case (Cons y xs)
  then show ?case by (cases "k y = k x") (auto simp: image_iff)
qed simp

lemma find_new_version:
  assumes "\<forall>v \<in> set vs. \<not> P v" and "P r"
  shows "List.find P (vs @ [r]) = Some r"
  using assms by (induction vs) auto

lemma find_old_version: "List.find P vs = Some v \<Longrightarrow> List.find P (vs @ ws) = Some v"
  by (induction vs) (auto split: if_splits)

text \<open>
  C26. The version history is complete. Every problem at version n has exactly the snapshots 1 to n-1,
  each once and in order. An edit under version n that succeeds leaves the problem at version n+1 and
  archives as snapshot n what the problem was before the edit; snapshots already there stay.
\<close>

theorem version_history_complete:
  assumes "prob_reachable w" and "p \<in> set (zw_problems w)"
  shows "map vn_version (filter (\<lambda>v. vn_problemId v = pm_id p) (zw_versions w)) = [1..pm_version p - 1]
    \<and> (case updateWithSnapshot now (pm_id p) n editor data ts cs w of
         (Inl err, w') \<Rightarrow> w' = w
       | (Inr p', w') \<Rightarrow> n = pm_version p \<and> getVersion_row (pm_id p) n w' = Some (snapshot_of w p)
           \<and> (\<forall>k s. getVersion_row (pm_id p) k w = Some s \<longrightarrow> getVersion_row (pm_id p) k w' = Some s))"
proof -
  from prob_reachable_inv[OF assms(1)] have inv: "prob_inv w" .
  with assms(2) have h: "map vn_version (filter (\<lambda>v. vn_problemId v = pm_id p) (zw_versions w)) = [1..pm_version p - 1]"
    by (auto simp: prob_inv_def history_ok_def versions_of_def)
  have f: "List.find (\<lambda>q. pm_id q = pm_id p) (zw_problems w) = Some p"
    using inv assms(2) by (intro find_key_eq) (auto simp: prob_inv_def keys_ok_def)
  have old: "getVersion_row (pm_id p) k w' = Some s" if "getVersion_row (pm_id p) k w = Some s" "zw_versions w' = zw_versions w @ vs" for k s w' vs
    using that by (auto simp: getVersion_row_def find_old_version)
  show ?thesis
  proof (cases "updateWithSnapshot now (pm_id p) n editor data ts cs w")
    case (Pair r w')
    show ?thesis
    proof (cases r)
      case (Inl err)
      with Pair f h show ?thesis by (auto simp: updateWithSnapshot_def Let_def split: if_splits)
    next
      case (Inr p')
      let ?row = "\<lparr>vn_problemId = pm_id p, vn_version = pm_version p, vn_editorId = editor, vn_snapshot = snapshot_of w p, vn_createdAt = now\<rparr>"
      from Pair Inr f have u: "n = pm_version p" "zw_versions w' = zw_versions w @ [?row]"
          "\<not> list_ex (\<lambda>v. vn_problemId v = pm_id p \<and> vn_version v = pm_version p) (zw_versions w)"
        by (auto simp: updateWithSnapshot_def Let_def split: if_splits)
      then have "getVersion_row (pm_id p) n w' = Some (snapshot_of w p)"
        using find_new_version[of "zw_versions w" "\<lambda>v. vn_problemId v = pm_id p \<and> vn_version v = n" ?row]
        by (simp add: getVersion_row_def list_ex_iff)
      with u(1) old[OF _ u(2)] h Pair Inr show ?thesis by simp
    qed
  qed
qed

lemma version_history_complete_witness:
  "getVersion_row [] 1 (snd (updateWithSnapshot 11 [] 1 ''adm'' (\<lambda>p. p\<lparr>pm_visibility := VsPublic\<rparr>) None None demo_catalogue))
     = Some (snapshot_of demo_catalogue demo_problem)"
proof -
  have m: "demo_problem \<in> set (zw_problems demo_catalogue)" "pm_id demo_problem = []"
    by (simp_all add: demo_catalogue_problems demo_problem_def)
  have "\<exists>p' w'. updateWithSnapshot 11 [] 1 ''adm'' (\<lambda>p. p\<lparr>pm_visibility := VsPublic\<rparr>) None None demo_catalogue = (Inr p', w')"
    by (simp add: updateWithSnapshot_def demo_catalogue_problems demo_catalogue_versions Let_def demo_problem_def)
  then obtain p' w' where "updateWithSnapshot 11 [] 1 ''adm'' (\<lambda>p. p\<lparr>pm_visibility := VsPublic\<rparr>) None None demo_catalogue = (Inr p', w')" by blast
  with version_history_complete[OF demo_reachable m(1), where now = 11 and n = 1 and editor = "''adm''" and data = "\<lambda>p. p\<lparr>pm_visibility := VsPublic\<rparr>" and ts = None and cs = None]
  show ?thesis by (simp add: m(2))
qed

section \<open>Who may write\<close>

definition staff_header :: "problem_env \<Rightarrow> string option \<Rightarrow> bool" where
  "staff_header e h \<longleftrightarrow> is_staff (optionalAuth e h)"

text \<open>What users may change: their own bookmarks and the cache.\<close>

definition user_frame :: "ident option \<Rightarrow> problem_world \<Rightarrow> problem_world \<Rightarrow> bool" where
  "user_frame u w w' \<longleftrightarrow> zw_problems w' = zw_problems w \<and> zw_tags w' = zw_tags w \<and> zw_companies w' = zw_companies w
     \<and> zw_versions w' = zw_versions w \<and> zw_submissions w' = zw_submissions w \<and> zw_audit w' = zw_audit w
     \<and> filter (\<lambda>b. Some (bm_userId b) \<noteq> u) (zw_bookmarks w') = filter (\<lambda>b. Some (bm_userId b) \<noteq> u) (zw_bookmarks w)"

lemma user_frame_cache: "user_frame u w (cache_set e k v t w) = True"
  by (simp add: user_frame_def cache_set_def)

lemma user_frame_bookmark: "user_frame (Some u) w (add_bookmark now u i w)"
  by (simp add: user_frame_def add_bookmark_def)

lemma filter_remove_own:
  "filter (\<lambda>b. (bm_userId b = u \<longrightarrow> bm_problemId b \<noteq> i) \<and> bm_userId b \<noteq> u) bs = filter (\<lambda>b. bm_userId b \<noteq> u) bs"
  by (induction bs) auto

lemma user_frame_refl: "user_frame u w w"
  by (simp add: user_frame_def)

lemma requireAuth_some: "requireAuth e h w = (case optionalAuth e h of None \<Rightarrow> (Inl ApiUnauthorized, w) | Some u \<Rightarrow> (Inr u, w))"
  by (auto simp: requireAuth_def optionalAuth_def op_simps split: option.splits)

lemma wp_requireAuth: "wp (requireAuth e h) Q E w = (case optionalAuth e h of None \<Rightarrow> E ApiUnauthorized w | Some u \<Rightarrow> Q u w)"
  by (simp add: wp_def requireAuth_some split: option.splits)

text \<open>
  C28. Only staff writes. An admin request whose token is missing, invalid or of another role is refused
  with 401 or 403 and changes nothing at all. A request to the user routes, whoever sends it, changes no
  problem, tag, company, version, submission or audit entry, and no bookmark but the sender's own.
\<close>

theorem only_staff_writes:
  "(\<not> staff_header e h \<longrightarrow> (\<exists>err. admin_route e h r w = (Inl err, w) \<and> fst (api_error_code err) = (if optionalAuth e h = None then 401 else 403)))
   \<and> user_frame (map_option vw_id (optionalAuth e h)) w (snd (user_route e h q w))"
proof (intro conjI impI)
  assume "\<not> staff_header e h"
  then show "\<exists>err. admin_route e h r w = (Inl err, w) \<and> fst (api_error_code err) = (if optionalAuth e h = None then 401 else 403)"
    by (auto simp: staff_header_def is_staff_def admin_route_def requireRole_def op_simps requireAuth_some[unfolded op_simps] split: option.splits)
next
  show "user_frame (map_option vw_id (optionalAuth e h)) w (snd (user_route e h q w))"
    unfolding wp_snd[symmetric]
    by (cases q)
      (auto simp: wp_simps wp_requireAuth valid_param_def replying_def list_service_def getByIdOrSlug_def trending_def
        recentlySolved_def bookmark_add_def bookmark_remove_def listMine_def listTags_def listCompanies_def user_frame_refl
        user_frame_cache user_frame_bookmark split: option.splits cached.splits,
       auto simp: wp_def ret_def remove_bookmark_def user_frame_def filter_remove_own)
qed

lemma only_staff_writes_witness:
  "fst (api_error_code (projl (fst (admin_route demo_penv joe_header (ArDelete ''two-sum'') demo_catalogue)))) = 403
   \<and> zw_problems (snd (user_route demo_penv joe_header (UrBookmark ''two-sum'') demo_catalogue)) = [demo_problem]"
proof -
  have "\<not> staff_header demo_penv joe_header \<and> optionalAuth demo_penv joe_header \<noteq> None" by code_simp
  with only_staff_writes[of demo_penv joe_header "ArDelete ''two-sum''" demo_catalogue "UrBookmark ''two-sum''"] show ?thesis
    by (auto simp: user_frame_def demo_catalogue_problems)
qed

end
