(* ===== verification/ProblemViews.thy ===== *)
theory ProblemViews
  imports ProblemProps "HOL-Library.Multiset"
begin

text \<open>
  What the read side of the catalogue shows to whom, what paging returns, and what a stale edit does.
\<close>

section \<open>Pages\<close>

lemma page_of_concat:
  "0 < s \<Longrightarrow> concat (map (\<lambda>k. page_of (int k + 1) s xs) [0..<n]) = take (n * nat s) xs"
proof (induction n)
  case (Suc n)
  have "nat (int n * s) = n * nat s" using Suc.prems by (simp add: nat_mult_distrib)
  moreover have "take (Suc n * nat s) xs = take (n * nat s) xs @ take (nat s) (drop (n * nat s) xs)"
    unfolding mult_Suc add.commute[of "nat s"] take_add ..
  ultimately show ?case using Suc by (simp add: page_of_def del: mult_Suc)
qed simp

lemma findManyByIds_rows:
  assumes "distinct (map pm_id (zw_problems w))" and "\<forall>p \<in> set ps. p \<in> set (zw_problems w) \<and> pm_deletedAt p = None"
  shows "findManyByIds (map pm_id ps) w = ps"
proof -
  have f: "List.find (\<lambda>q. pm_id q = pm_id p \<and> pm_deletedAt q = None) qs = Some p"
    if "distinct (map pm_id qs)" "p \<in> set qs" "pm_deletedAt p = None" for p qs
    using that
  proof (induction qs)
    case (Cons q qs)
    then show ?case by (cases "pm_id q = pm_id p") (auto simp: image_iff)
  qed simp
  from assms(2) show ?thesis
    unfolding findManyByIds_def by (induction ps) (auto simp: f[OF assms(1)])
qed

lemma order_rows_mset: "mset (order_rows so ps) = mset ps"
  by (cases so) (simp_all add: order_rows_def newest_first_def)

lemma order_rows_set [simp]: "set (order_rows so ps) = set ps"
  by (cases so) (simp_all add: order_rows_def newest_first_def)

lemma page_of_subset: "set (page_of k s xs) \<subseteq> set xs"
  unfolding page_of_def using set_take_subset set_drop_subset by fast

lemma page_of_member: "x \<in> set (page_of k s xs) \<Longrightarrow> x \<in> set xs"
  using page_of_subset by fast

lemma listed_row: "buildListWhere q w p \<Longrightarrow> pm_deletedAt p = None \<and> pm_visibility p \<in> set (lo_visible q)"
  by (simp add: buildListWhere_def)

lemma list_rows_page:
  assumes "prob_inv w"
  shows "lr_rows (list_problems q w) = page_of (lo_page q) (lo_pageSize q) (order_rows (lo_sortBy q) (filter (buildListWhere q w) (zw_problems w)))"
proof -
  have "\<forall>p \<in> set (page_of (lo_page q) (lo_pageSize q) (order_rows (lo_sortBy q) (filter (buildListWhere q w) (zw_problems w)))).
      p \<in> set (zw_problems w) \<and> pm_deletedAt p = None"
    by (auto dest!: page_of_member listed_row)
  from findManyByIds_rows[OF _ this] assms show ?thesis
    by (cases "lo_sortBy q = SoAcceptance") (simp_all add: list_problems_def Let_def prob_inv_def keys_ok_def split: prod.splits)
qed

lemma list_total: "lr_total (list_problems q w) = length (filter (buildListWhere q w) (zw_problems w))"
  by (simp add: list_problems_def Let_def split: prod.splits)

lemma buildListWhere_page: "buildListWhere (q\<lparr>lo_page := k\<rparr>) w = buildListWhere q w"
  by (cases "lo_viewerId q") (simp_all add: buildListWhere_def fun_eq_iff)


definition staff_query :: list_options where
  "staff_query = \<lparr>lo_page = 1, lo_pageSize = 1, lo_sortBy = SoAcceptance, lo_difficulty = None, lo_tags = None, lo_companies = None,
     lo_q = None, lo_solved = None, lo_bookmarked = None, lo_viewerId = Some ''adm'', lo_visible = [VsPublic, VsPremium, VsDraft, VsArchived]\<rparr>"


section \<open>What is hidden\<close>

lemma sm_id_summary [simp]: "sm_id (toProblemSummaryDto w a b p) = pm_id p"
  by (simp add: toProblemSummaryDto_def)

lemma listed_rows:
  "prob_inv w \<Longrightarrow> p \<in> set (lr_rows (list_problems q w)) \<Longrightarrow>
   p \<in> set (zw_problems w) \<and> pm_visibility p \<in> set (lo_visible q) \<and> pm_deletedAt p = None"
  by (auto simp: list_rows_page dest!: page_of_member listed_row)

lemma list_service_items:
  assumes "prob_inv w" and "list_service q v w = (Inr page, w')" and "s \<in> set (sp_items page)"
  shows "\<exists>p \<in> set (zw_problems w). sm_id s = pm_id p \<and> pm_visibility p \<in> set (visibleVisibilities v) \<and> pm_deletedAt p = None"
proof -
  obtain o1 a b p where "p \<in> set (lr_rows (list_problems o1 w))" "s = toProblemSummaryDto w a b p" "lo_visible o1 = visibleVisibilities v"
    using assms(2,3) by (force simp: list_service_def reads_def Let_def)
  with listed_rows[OF assms(1) this(1)] show ?thesis by auto
qed

definition visible_detail :: "viewer option \<Rightarrow> problem_row \<Rightarrow> detail_dto \<Rightarrow> bool" where
  "visible_detail v p d \<longleftrightarrow> pm_deletedAt p = None \<and> pm_visibility p \<noteq> VsDraft \<and> sm_id (dt_summary d) = pm_id p
     \<and> (pm_visibility p = VsPremium \<longrightarrow> (\<exists>u. v = Some u \<and> vw_role u = ''PREMIUM''))
     \<and> (\<forall>t \<in> set (dt_sampleTestCases d). \<exists>c \<in> set (pm_testCases p). \<not> tr_isHidden c \<and> t = (tr_input c, tr_expectedOutput c))"

lemma visible_detail_dto:
  "pm_deletedAt p = None \<Longrightarrow> pm_visibility p \<noteq> VsDraft \<Longrightarrow> pm_visibility p = VsPremium \<longrightarrow> (\<exists>u. v = Some u \<and> vw_role u = ''PREMIUM'')
   \<Longrightarrow> visible_detail v p (toProblemDetailDto w a b p)"
  by (auto simp: visible_detail_def toProblemDetailDto_def toProblemSummaryDto_def)

lemma findByIdOrSlug_live: "findByIdOrSlug i False w = Some p \<Longrightarrow> p \<in> set (zw_problems w) \<and> pm_deletedAt p = None"
  by (auto simp: findByIdOrSlug_def dest!: find_Some_set)

lemma getByIdOrSlug_wp:
  assumes "\<not> is_staff v"
  shows "wp (getByIdOrSlug i v) (\<lambda>d _. \<exists>p \<in> set (zw_problems w). visible_detail v p d) (\<lambda>err _. err = ProblemNotFound i \<or> err = ApiForbidden) w"
  using assms unfolding getByIdOrSlug_def
  by (auto simp: wp_simps split: option.splits dest!: findByIdOrSlug_live intro!: bexI visible_detail_dto)



text \<open>
  Bookmarks are not guarded: anybody may bookmark a draft whose slug or id is known and then read its
  summary in the own list.
\<close>

lemma bookmarks_reveal_drafts:
  assumes "prob_reachable w" and "findByIdOrSlug i False w = Some p"
  shows "fst (bookmark_add e i u w) = Inr ()
    \<and> (\<exists>s page. listMine u 1 (int (length (bookmarked_ids (vw_id u) (snd (bookmark_add e i u w))))) (snd (bookmark_add e i u w))
        = (Inr page, snd (bookmark_add e i u w)) \<and> s \<in> set (sp_items page) \<and> sm_id s = pm_id p \<and> sm_title s = pm_title p)"
proof -
  let ?w = "snd (bookmark_add e i u w)"
  have w: "?w = add_bookmark (ze_now e) (vw_id u) (pm_id p) w" and ok: "fst (bookmark_add e i u w) = Inr ()"
    using assms(2) by (simp_all add: bookmark_add_def op_simps)
  have mem: "pm_id p \<in> set (bookmarked_ids (vw_id u) ?w)"
    unfolding w bookmarked_ids_def add_bookmark_def has_bookmarked_def by (force simp: list_ex_iff)
  have "List.find (\<lambda>q. pm_id q = pm_id p \<and> pm_deletedAt q = None) (zw_problems w) = Some p"
    using findManyByIds_rows[of w "[p]"] findByIdOrSlug_live[OF assms(2)] prob_reachable_inv[OF assms(1)]
    by (auto simp: findManyByIds_def prob_inv_def keys_ok_def split: option.splits)
  then have "p \<in> set (findManyByIds (bookmarked_ids (vw_id u) ?w) ?w)"
    using mem unfolding findManyByIds_def by (force simp: w add_bookmark_def)
  then show ?thesis using ok
    by (fastforce simp: listMine_def reads_def Let_def page_of_def toProblemSummaryDto_def)
qed

section \<open>Stale edits\<close>

text \<open>Tags and companies may differ, everything else is as before.\<close>

definition same_but_vocabulary :: "problem_world \<Rightarrow> problem_world \<Rightarrow> bool" where
  "same_but_vocabulary w w' \<longleftrightarrow> w' = w\<lparr>zw_tags := zw_tags w', zw_companies := zw_companies w'\<rparr>"

lemma same_vocabulary_intros:
  "same_but_vocabulary w w"
  "same_but_vocabulary w v \<Longrightarrow> same_but_vocabulary w (v\<lparr>zw_tags := t\<rparr>)"
  "same_but_vocabulary w v \<Longrightarrow> same_but_vocabulary w (v\<lparr>zw_companies := c\<rparr>)"
  by (auto simp: same_but_vocabulary_def elim: ssubst)

lemma keeps_upsert_row:
  "keeps (same_but_vocabulary w) (upsertTag_row f n s)" "keeps (same_but_vocabulary w) (upsertCompany_row f n s l)"
  by (auto simp: keeps_def wp_def upsertTag_row_def upsertCompany_row_def Let_def intro!: same_vocabulary_intros split: option.splits)

lemma keeps_upserts:
  "keeps (same_but_vocabulary w) (upsert_tags e n ss)" "keeps (same_but_vocabulary w) (upsert_companies e n ss)"
  by (induction ss arbitrary: n) (auto intro!: keeps_ret keeps_then keeps_upsert_row)

lemma keeps_update_taxonomy: "keeps (same_but_vocabulary w) (update_taxonomy e d)"
  by (auto simp: update_taxonomy_def ensureTaxonomy_def intro!: keeps_ret keeps_then keeps_upserts)

lemma same_vocabulary_problems: "same_but_vocabulary w w' \<Longrightarrow> zw_problems w' = zw_problems w"
  unfolding same_but_vocabulary_def by (erule ssubst) simp

lemma commit_stale:
  assumes "prob_inv w" and "p \<in> set (zw_problems w)" and "pm_deletedAt p = None" and "up_expectedVersion d \<noteq> pm_version p"
    and "same_but_vocabulary w w'"
  shows "commit_update e i d u p tc w' = (Inl (VersionConflict (up_expectedVersion d) (pm_version p)), w')"
proof -
  have "List.find (\<lambda>q. pm_id q = pm_id p) (zw_problems w') = Some p"
    using assms(1,2) same_vocabulary_problems[OF assms(5)] by (simp add: find_key_eq prob_inv_def keys_ok_def)
  with assms(3,4) show ?thesis
    by (simp add: commit_update_def mapped_update_def bind_op_def updateWithSnapshot_def)
qed

text \<open>
  C27. A stale edit is refused. An update that names another version than the problem's is answered with
  an error and leaves problems, versions, bookmarks, audit log and cache as they were; when it asks for
  no new slug, tag or company the error is the version conflict with the stored version, and nothing
  changes at all.
\<close>

theorem stale_edit_refused:
  assumes "prob_reachable w" and "findByIdOrSlug i False w = Some p" and "up_expectedVersion d \<noteq> pm_version p"
  shows "\<exists>err w'. problem_update e i d u w = (Inl err, w') \<and> same_but_vocabulary w w'
    \<and> (up_slug d = None \<and> up_tags d = None \<and> up_companies d = None
        \<longrightarrow> err = VersionConflict (up_expectedVersion d) (pm_version p) \<and> w' = w)"
proof -
  note c = commit_stale[OF prob_reachable_inv[OF assms(1)] findByIdOrSlug_live[OF assms(2), THEN conjunct1]
      findByIdOrSlug_live[OF assms(2), THEN conjunct2] assms(3)]
  have k: "same_but_vocabulary w (snd (update_taxonomy e d w))"
    using keepsD[OF keeps_update_taxonomy same_vocabulary_intros(1)] .
  show ?thesis
  proof (cases "update_taxonomy e d w")
    case (Pair r w')
    with k c assms(2) show ?thesis
      by (cases r) (auto simp: problem_update_def op_simps same_vocabulary_intros update_taxonomy_def truthy_str_def split: if_splits option.splits)
  qed
qed

definition stale_request :: update_dto where
  "stale_request = \<lparr>up_expectedVersion = 2, up_title = Some ''Sums'', up_slug = None, up_statement = None, up_difficulty = None, up_visibility = None,
      up_timeLimitMs = None, up_memoryLimitMb = None, up_tags = None, up_companies = None, up_examples = None, up_constraints = None,
      up_hints = None\<rparr>"

lemma stale_edit_refused_witness:
  "fst (problem_update demo_penv ''two-sum'' stale_request \<lparr>vw_id = ''adm'', vw_role = ''ADMIN''\<rparr> demo_catalogue) = Inl (VersionConflict 2 1)"
proof -
  have f: "findByIdOrSlug ''two-sum'' False demo_catalogue = Some demo_problem"
    by (simp add: findByIdOrSlug_def demo_catalogue_problems) (simp add: demo_problem_def is_uuid_def)
  have v: "pm_version demo_problem = 1" by (simp add: demo_problem_def)
  show ?thesis using stale_edit_refused[OF demo_reachable f, of stale_request demo_penv] v by (fastforce simp: stale_request_def)
qed

lemma filter_key_eq: "distinct (map k xs) \<Longrightarrow> x \<in> set xs \<Longrightarrow> filter (\<lambda>y. k y = k x) xs = [x]"
proof (induction xs)
  case (Cons y xs)
  then show ?case by (cases "k y = k x") (auto simp: image_iff filter_empty_conv)
qed simp

text \<open>Naming a tag by its slug in a create or update request overwrites the name the tag had.\<close>

lemma referencing_tag_renames_it:
  assumes "prob_reachable w" and "t \<in> set (zw_tags w)" and "length (tg_slug t) \<le> 64"
    and "\<forall>r \<in> set (zw_tags w). tg_name r = tg_slug t \<longrightarrow> r = t"
  shows "fst (ensureTaxonomy e [tg_slug t] [] w) = Inr ([tg_id t], [])
    \<and> t\<lparr>tg_name := tg_slug t\<rparr> \<in> set (zw_tags (snd (ensureTaxonomy e [tg_slug t] [] w)))"
proof -
  have d: "distinct (map tg_slug (zw_tags w))"
    using prob_reachable_inv[OF assms(1)] by (simp add: prob_inv_def taxonomy_ok_def)
  note f = find_key_eq[OF d assms(2)]
  have u: "\<not> list_ex (\<lambda>r. tg_name r = tg_slug t \<and> tg_slug r \<noteq> tg_slug t) (zw_tags w)"
    using assms(4) by (auto simp: list_ex_iff)
  have up: "upsertTag_row (ze_id e 100) (tg_slug t) (tg_slug t) w = (Inr (t\<lparr>tg_name := tg_slug t\<rparr>),
      w\<lparr>zw_tags := map (\<lambda>r. if tg_slug r = tg_slug t then r\<lparr>tg_name := tg_slug t\<rparr> else r) (zw_tags w)\<rparr>)"
    using assms(3) u f by (simp add: upsertTag_row_def)
  have one: "filter (\<lambda>r. tg_slug r = tg_slug t) (zw_tags w) = [t]"
    using d assms(2) by (rule filter_key_eq)
  have ids: "map tg_id (filter (\<lambda>r. tg_slug r = s) (map (\<lambda>r. if tg_slug r = s then r\<lparr>tg_name := s\<rparr> else r) rs))
      = map tg_id (filter (\<lambda>r. tg_slug r = s) rs)" for s rs
    by (induction rs) auto
  have "ensureTaxonomy e [tg_slug t] [] w = (Inr ([tg_id t], []), snd (upsertTag_row (ze_id e 100) (tg_slug t) (tg_slug t) w))"
    by (simp add: ensureTaxonomy_def op_simps up resolveTagIds_def resolveCompanyIds_def ids one)
  with assms(2) show ?thesis by (auto simp: up image_iff intro!: bexI[of _ t])
qed

end
