(* ===== verification/Regex.thy ===== *)
theory Regex
  imports Prelude
begin

text \<open>
  Regular expressions of the source language, as far as the program uses them. A position is the text
  consumed so far, reversed, and the text ahead. The matcher lists the ends of all matches from a
  position in the order backtracking finds them, so the first one is the match the language reports.
\<close>

type_synonym rx_pos = "string \<times> string"

datatype rx =
    RxEmpty
  | RxChar "char \<Rightarrow> bool"
  | RxSeq rx rx
  | RxAlt rx rx
  | RxStar rx
  | RxLazy rx
  | RxStart
  | RxEnd
  | RxBoundary
  | RxNotBehind "char \<Rightarrow> bool"
  | RxNotAhead "char \<Rightarrow> bool"

section \<open>The matcher\<close>

definition word_char :: "char \<Rightarrow> bool" where
  "word_char c \<longleftrightarrow> (let n = (of_char c :: nat) in 48 \<le> n \<and> n \<le> 57 \<or> 65 \<le> n \<and> n \<le> 90 \<or> n = 95 \<or> 97 \<le> n \<and> n \<le> 122)"

fun at_word :: "string \<Rightarrow> bool" where
  "at_word [] = False"
| "at_word (c # cs) = word_char c"

fun head_is :: "(char \<Rightarrow> bool) \<Rightarrow> string \<Rightarrow> bool" where
  "head_is p [] = False"
| "head_is p (c # cs) = p c"

text \<open>
  Greedy repetition: as many iterations as go, then the position itself; lazy repetition the other way
  round. An iteration that consumes nothing is given up, so the text ahead is fuel enough.
\<close>

fun rx_repeat :: "nat \<Rightarrow> (rx_pos \<Rightarrow> rx_pos list) \<Rightarrow> rx_pos \<Rightarrow> rx_pos list" where
  "rx_repeat 0 f x = [x]"
| "rx_repeat (Suc n) f x = concat (map (\<lambda>y. if length (snd y) < length (snd x) then rx_repeat n f y else []) (f x)) @ [x]"

fun rx_repeat_lazy :: "nat \<Rightarrow> (rx_pos \<Rightarrow> rx_pos list) \<Rightarrow> rx_pos \<Rightarrow> rx_pos list" where
  "rx_repeat_lazy 0 f x = [x]"
| "rx_repeat_lazy (Suc n) f x = x # concat (map (\<lambda>y. if length (snd y) < length (snd x) then rx_repeat_lazy n f y else []) (f x))"

primrec rx_ends :: "rx \<Rightarrow> rx_pos \<Rightarrow> rx_pos list" where
  "rx_ends RxEmpty x = [x]"
| "rx_ends (RxChar p) x = (case snd x of [] \<Rightarrow> [] | c # cs \<Rightarrow> if p c then [(c # fst x, cs)] else [])"
| "rx_ends (RxSeq r s) x = concat (map (rx_ends s) (rx_ends r x))"
| "rx_ends (RxAlt r s) x = rx_ends r x @ rx_ends s x"
| "rx_ends (RxStar r) x = rx_repeat (length (snd x)) (rx_ends r) x"
| "rx_ends (RxLazy r) x = rx_repeat_lazy (length (snd x)) (rx_ends r) x"
| "rx_ends RxStart x = (if fst x = [] then [x] else [])"
| "rx_ends RxEnd x = (if snd x = [] then [x] else [])"
| "rx_ends RxBoundary x = (if at_word (fst x) \<noteq> at_word (snd x) then [x] else [])"
| "rx_ends (RxNotBehind p) x = (if head_is p (fst x) then [] else [x])"
| "rx_ends (RxNotAhead p) x = (if head_is p (snd x) then [] else [x])"

text \<open>\<open>re.test(text)\<close>: a match at some position.\<close>

fun rx_search :: "rx \<Rightarrow> string \<Rightarrow> string \<Rightarrow> bool" where
  "rx_search r b [] = (rx_ends r (b, []) \<noteq> [])"
| "rx_search r b (c # cs) = (rx_ends r (b, c # cs) \<noteq> [] \<or> rx_search r (c # b) cs)"

definition rx_test :: "rx \<Rightarrow> string \<Rightarrow> bool" where
  "rx_test r s = rx_search r [] s"

text \<open>\<open>text.replace(re, by)\<close> with the global flag: every match from left to right, none overlapping.\<close>

function rx_replace_from :: "rx \<Rightarrow> string \<Rightarrow> rx_pos \<Rightarrow> string" where
  "rx_replace_from r by (b, s) =
     (let step = (case s of [] \<Rightarrow> [] | c # cs \<Rightarrow> c # rx_replace_from r by (c # b, cs))
      in case rx_ends r (b, s) of
           [] \<Rightarrow> step
         | y # _ \<Rightarrow> if length (snd y) < length s then by @ rx_replace_from r by y else by @ step)"
  by pat_completeness auto
termination by (relation "measure (\<lambda>(r, by, b, s). length s)") auto

declare rx_replace_from.simps [simp del]

definition rx_replace :: "rx \<Rightarrow> string \<Rightarrow> string \<Rightarrow> string" where
  "rx_replace r by s = rx_replace_from r by ([], s)"

section \<open>Building blocks\<close>

definition rx_opt :: "rx \<Rightarrow> rx" where "rx_opt r = RxAlt r RxEmpty"
definition rx_plus :: "rx \<Rightarrow> rx" where "rx_plus r = RxSeq r (RxStar r)"

fun rx_seq :: "rx list \<Rightarrow> rx" where
  "rx_seq [] = RxEmpty"
| "rx_seq [r] = r"
| "rx_seq (r # rs) = RxSeq r (rx_seq rs)"

fun rx_alt :: "rx list \<Rightarrow> rx" where
  "rx_alt [] = RxChar (\<lambda>_. False)"
| "rx_alt [r] = r"
| "rx_alt (r # rs) = RxAlt r (rx_alt rs)"

fun rx_times :: "nat \<Rightarrow> rx \<Rightarrow> rx" where
  "rx_times 0 r = RxEmpty"
| "rx_times (Suc n) r = RxSeq r (rx_times n r)"

text \<open>Up to n more, greedily.\<close>

fun rx_upto :: "nat \<Rightarrow> rx \<Rightarrow> rx" where
  "rx_upto 0 r = RxEmpty"
| "rx_upto (Suc n) r = RxAlt (RxSeq r (rx_upto n r)) RxEmpty"

definition rx_between :: "nat \<Rightarrow> nat \<Rightarrow> rx \<Rightarrow> rx" where
  "rx_between m n r = RxSeq (rx_times m r) (rx_upto (n - m) r)"

definition fold_case :: "char \<Rightarrow> char" where
  "fold_case c = (let n = (of_char c :: nat) in if 65 \<le> n \<and> n \<le> 90 then char_of (n + 32) else c)"

text \<open>A literal, and a literal under the flag i.\<close>

definition rx_lit :: "string \<Rightarrow> rx" where
  "rx_lit s = rx_seq (map (\<lambda>c. RxChar (\<lambda>d. d = c)) s)"

definition rx_word :: "string \<Rightarrow> rx" where
  "rx_word s = rx_seq (map (\<lambda>c. RxChar (\<lambda>d. fold_case d = c)) s)"

section \<open>What a match is\<close>

inductive rx_match :: "rx \<Rightarrow> rx_pos \<Rightarrow> rx_pos \<Rightarrow> bool" where
  rxm_empty: "rx_match RxEmpty x x"
| rxm_char: "p c \<Longrightarrow> rx_match (RxChar p) (b, c # cs) (c # b, cs)"
| rxm_seq: "rx_match r x y \<Longrightarrow> rx_match s y z \<Longrightarrow> rx_match (RxSeq r s) x z"
| rxm_left: "rx_match r x y \<Longrightarrow> rx_match (RxAlt r s) x y"
| rxm_right: "rx_match s x y \<Longrightarrow> rx_match (RxAlt r s) x y"
| rxm_none: "rx_match (RxStar r) x x"
| rxm_more: "rx_match r x y \<Longrightarrow> rx_match (RxStar r) y z \<Longrightarrow> rx_match (RxStar r) x z"
| rxm_lazy: "rx_match (RxStar r) x y \<Longrightarrow> rx_match (RxLazy r) x y"
| rxm_start: "rx_match RxStart ([], s) ([], s)"
| rxm_end: "rx_match RxEnd (b, []) (b, [])"
| rxm_boundary: "at_word b \<noteq> at_word s \<Longrightarrow> rx_match RxBoundary (b, s) (b, s)"
| rxm_behind: "\<not> head_is p b \<Longrightarrow> rx_match (RxNotBehind p) (b, s) (b, s)"
| rxm_ahead: "\<not> head_is p s \<Longrightarrow> rx_match (RxNotAhead p) (b, s) (b, s)"

inductive_cases rx_matchE:
  "rx_match RxEmpty x y" "rx_match (RxChar p) x y" "rx_match (RxSeq r s) x y" "rx_match (RxAlt r s) x y"
  "rx_match (RxLazy r) x y" "rx_match RxStart x y" "rx_match RxEnd x y" "rx_match RxBoundary x y" "rx_match (RxNotBehind p) x y"
  "rx_match (RxNotAhead p) x y"

text \<open>A match consumes a stretch of the text ahead.\<close>

definition ahead_of :: "rx_pos \<Rightarrow> rx_pos \<Rightarrow> bool" where
  "ahead_of x y \<longleftrightarrow> (\<exists>w. snd x = w @ snd y \<and> fst y = rev w @ fst x)"

lemma ahead_of_refl [simp]: "ahead_of x x"
  by (simp add: ahead_of_def)

lemma ahead_of_trans: "ahead_of x y \<Longrightarrow> ahead_of y z \<Longrightarrow> ahead_of x z"
  by (auto simp: ahead_of_def)

lemma ahead_of_same: "ahead_of x y \<Longrightarrow> \<not> length (snd y) < length (snd x) \<Longrightarrow> y = x"
  by (cases x; cases y) (auto simp: ahead_of_def)

lemma match_ahead: "rx_match r x y \<Longrightarrow> ahead_of x y"
proof (induction rule: rx_match.induct)
  case (rxm_char p c b cs)
  show ?case by (auto simp: ahead_of_def intro!: exI[of _ "[c]"])
qed (auto intro: ahead_of_trans)

lemma repeat_sound: "(\<And>u v. v \<in> set (f u) \<Longrightarrow> rx_match r u v) \<Longrightarrow> y \<in> set (rx_repeat n f x) \<Longrightarrow> rx_match (RxStar r) x y"
proof (induction n f x rule: rx_repeat.induct)
  case (2 n f x)
  show ?case
  proof (cases "y = x")
    case False
    with "2.prems"(2) obtain z where z: "z \<in> set (f x)" "length (snd z) < length (snd x)" "y \<in> set (rx_repeat n f z)"
      by (force split: if_splits)
    show ?thesis by (rule rxm_more[OF "2.prems"(1)[OF z(1)] "2.IH"[OF z(1,2) "2.prems"(1) z(3)]])
  qed (simp add: rxm_none)
qed (simp add: rxm_none)

lemma set_repeat_lazy: "set (rx_repeat_lazy n f x) = set (rx_repeat n f x)"
  by (induction n f x rule: rx_repeat.induct) (simp, auto split: if_splits)

lemma ends_sound: "y \<in> set (rx_ends r x) \<Longrightarrow> rx_match r x y"
proof (induction r arbitrary: x y)
  case (RxStar r)
  then show ?case using repeat_sound[of "rx_ends r" r] by simp
next
  case (RxLazy r)
  then have "y \<in> set (rx_repeat (length (snd x)) (rx_ends r) x)" by (simp add: set_repeat_lazy)
  from rxm_lazy[OF repeat_sound[OF RxLazy.IH this]] show ?case .
next
  case (RxChar p)
  then show ?case by (cases x) (auto split: list.splits if_splits intro: rx_match.intros)
next
  case (RxSeq r s)
  from RxSeq.prems obtain z where "z \<in> set (rx_ends r x)" "y \<in> set (rx_ends s z)" by auto
  then show ?case by (intro rxm_seq[OF RxSeq.IH])
next
  case RxEmpty
  then show ?case by (simp add: rxm_empty)
next
  case (RxAlt r s)
  from RxAlt.prems have "y \<in> set (rx_ends r x) \<or> y \<in> set (rx_ends s x)" by simp
  then show ?case by (elim disjE) (erule rxm_left[OF RxAlt.IH(1)], erule rxm_right[OF RxAlt.IH(2)])
qed (cases x; auto split: if_splits intro: rx_match.intros)+

lemma repeat_complete:
  assumes "\<And>u v. rx_match r u v \<Longrightarrow> v \<in> set (f u)"
  shows "rx_match q x y \<Longrightarrow> q = RxStar r \<Longrightarrow> length (snd x) \<le> n \<Longrightarrow> y \<in> set (rx_repeat n f x)"
proof (induction arbitrary: n rule: rx_match.induct)
  case (rxm_none r' x)
  then show ?case by (cases n) auto
next
  case (rxm_more r' x y z)
  show ?case
  proof (cases "length (snd y) < length (snd x)")
    case True
    with rxm_more.prems obtain k where k: "n = Suc k" by (cases n) auto
    with True rxm_more have "z \<in> set (rx_repeat k f y)" by simp
    moreover have "y \<in> set (f x)" using assms rxm_more by simp
    ultimately show ?thesis using k True by auto
  next
    case False
    from ahead_of_same[OF match_ahead[OF rxm_more.hyps(1)] False] rxm_more show ?thesis by simp
  qed
qed simp_all

lemma ends_complete: "rx_match r x y \<Longrightarrow> y \<in> set (rx_ends r x)"
proof (induction r arbitrary: x y)
  case (RxStar r)
  from repeat_complete[OF RxStar.IH RxStar.prems refl] show ?case by simp
next
  case (RxLazy r)
  from RxLazy.prems have "rx_match (RxStar r) x y" by (auto elim: rx_matchE)
  from repeat_complete[OF RxLazy.IH this refl] show ?case by (simp add: set_repeat_lazy)
qed (auto elim!: rx_matchE; fastforce)+

text \<open>The matcher always returns, with exactly the matches there are.\<close>

lemma rx_ends_iff: "y \<in> set (rx_ends r x) \<longleftrightarrow> rx_match r x y"
  using ends_sound ends_complete by blast

lemma ex_end: "rx_ends r x \<noteq> [] \<longleftrightarrow> (\<exists>y. rx_match r x y)"
  unfolding rx_ends_iff[symmetric] by (cases "rx_ends r x") (auto simp del: split_paired_Ex)

lemma rx_search_iff: "rx_search r b s \<longleftrightarrow> (\<exists>u v y. s = u @ v \<and> rx_match r (rev u @ b, v) y)"
proof (induction s arbitrary: b)
  case Nil
  show ?case by (simp add: ex_end)
next
  case (Cons c cs)
  have "(\<exists>u v y. c # cs = u @ v \<and> rx_match r (rev u @ b, v) y) \<longleftrightarrow>
      (\<exists>y. rx_match r (b, c # cs) y) \<or> (\<exists>u v y. cs = u @ v \<and> rx_match r (rev u @ c # b, v) y)"
    (is "?all \<longleftrightarrow> ?here \<or> ?later")
  proof
    assume ?all
    then obtain u v y where m: "c # cs = u @ v" "rx_match r (rev u @ b, v) y" by blast
    show "?here \<or> ?later"
    proof (cases u)
      case Nil
      with m have ?here by (simp del: split_paired_Ex) (erule exI)
      then show ?thesis ..
    next
      case (Cons d u')
      with m have "cs = u' @ v \<and> rx_match r (rev u' @ c # b, v) y" by simp
      then show ?thesis by blast
    qed
  next
    assume "?here \<or> ?later"
    then show ?all
    proof
      assume ?here
      then obtain y where "rx_match r (b, c # cs) y" ..
      then have "c # cs = [] @ c # cs \<and> rx_match r (rev [] @ b, c # cs) y" by simp
      then show ?all by blast
    next
      assume ?later
      then obtain u v y where "cs = u @ v" "rx_match r (rev u @ c # b, v) y" by blast
      then have "c # cs = (c # u) @ v \<and> rx_match r (rev (c # u) @ b, v) y" by simp
      then show ?all by blast
    qed
  qed
  with Cons show ?case by (simp add: ex_end)
qed

lemma rx_test_iff: "rx_test r s \<longleftrightarrow> (\<exists>u v y. s = u @ v \<and> rx_match r (rev u, v) y)"
  by (simp add: rx_test_def rx_search_iff)

lemma rx_replace_none: "\<not> rx_search r b s \<Longrightarrow> rx_replace_from r by (b, s) = s"
  by (induction s arbitrary: b) (auto simp: rx_replace_from.simps)

end
