(* ===== verification/CoachText.thy ===== *)
theory CoachText
  imports Json
begin

text \<open>
  What the AI coach uses of the language's strings and of JSON texts: lower case, splitting, joining and
  searching, the text of a value, and reading and writing JSON. Text is code units up to 255; the three
  characters of the prompts beyond that range are given the free code units 133, 150 and 151.
\<close>

section \<open>Strings\<close>

definition ellipsis :: char where "ellipsis = char_of (133::nat)"
definition en_dash :: char where "en_dash = char_of (150::nat)"
definition em_dash :: char where "em_dash = char_of (151::nat)"

definition js_lower_char :: "char \<Rightarrow> char" where
  "js_lower_char c = (let n = (of_char c :: nat)
     in if 65 \<le> n \<and> n \<le> 90 \<or> 192 \<le> n \<and> n \<le> 222 \<and> n \<noteq> 215 then char_of (n + 32) else c)"

definition js_lower :: "string \<Rightarrow> string" where
  "js_lower s = map js_lower_char s"

fun str_join :: "string \<Rightarrow> string list \<Rightarrow> string" where
  "str_join sep [] = []"
| "str_join sep [s] = s"
| "str_join sep (s # ss) = s @ sep @ str_join sep ss"

fun split_at_char :: "char \<Rightarrow> string \<Rightarrow> string list" where
  "split_at_char d [] = [[]]"
| "split_at_char d (c # cs) = (if c = d then [] # split_at_char d cs
     else (case split_at_char d cs of [] \<Rightarrow> [[c]] | w # ws \<Rightarrow> (c # w) # ws))"

fun starts_str :: "string \<Rightarrow> string \<Rightarrow> bool" where
  "starts_str [] s = True"
| "starts_str (c # cs) [] = False"
| "starts_str (c # cs) (d # ds) = (c = d \<and> starts_str cs ds)"

text \<open>\<open>text.includes(part)\<close>\<close>

fun str_includes :: "string \<Rightarrow> string \<Rightarrow> bool" where
  "str_includes p [] = (p = [])"
| "str_includes p (c # cs) = (starts_str p (c # cs) \<or> str_includes p cs)"

text \<open>The text before and after the first occurrence of a part.\<close>

fun cut_at :: "string \<Rightarrow> string \<Rightarrow> (string \<times> string) option" where
  "cut_at p [] = (if p = [] then Some ([], []) else None)"
| "cut_at p (c # cs) = (if starts_str p (c # cs) then Some ([], drop (length p) (c # cs))
     else map_option (\<lambda>(a, b). (c # a, b)) (cut_at p cs))"

text \<open>Runs of whitespace become one space.\<close>

fun squeeze_from :: "bool \<Rightarrow> string \<Rightarrow> string" where
  "squeeze_from w [] = []"
| "squeeze_from w (c # cs) = (if is_ws c then (if w then squeeze_from True cs else CHR '' '' # squeeze_from True cs)
     else c # squeeze_from False cs)"

definition squeeze :: "string \<Rightarrow> string" where
  "squeeze s = squeeze_from False s"

lemma starts_str_iff: "starts_str p s \<longleftrightarrow> (\<exists>r. s = p @ r)"
  by (induction p s rule: starts_str.induct) auto

lemma str_includes_iff: "str_includes p s \<longleftrightarrow> (\<exists>a b. s = a @ p @ b)"
proof (induction p s rule: str_includes.induct)
  case (2 p c cs)
  have "(\<exists>a b. c # cs = a @ p @ b) \<longleftrightarrow> (\<exists>b. c # cs = p @ b) \<or> (\<exists>a b. cs = a @ p @ b)"
    by (auto simp: Cons_eq_append_conv)
  with 2 show ?case by (simp add: starts_str_iff)
qed simp

lemma str_includes_append: "str_includes p s \<Longrightarrow> str_includes p (a @ s @ b)"
  by (auto simp: str_includes_iff) (metis append.assoc)

lemma str_includes_trans: "str_includes p q \<Longrightarrow> str_includes q s \<Longrightarrow> str_includes p s"
  by (auto simp: str_includes_iff) (metis append.assoc)

lemma cut_at_Some: "cut_at p s = Some (a, b) \<Longrightarrow> s = a @ p @ b"
  by (induction p s arbitrary: a b rule: cut_at.induct) (auto split: if_splits simp: starts_str_iff)

lemma cut_at_None: "cut_at p s = None \<longleftrightarrow> \<not> str_includes p s"
  by (induction p s rule: cut_at.induct) auto

section \<open>The text of a value\<close>

text \<open>Numbers of a JSON text have a finite decimal expansion; exponents are idealised away.\<close>

fun frac_digits :: "nat \<Rightarrow> rat \<Rightarrow> string" where
  "frac_digits 0 f = []"
| "frac_digits (Suc n) f = (if f = 0 then []
     else char_of (48 + nat \<lfloor>10 * f\<rfloor>) # frac_digits n (10 * f - of_int \<lfloor>10 * f\<rfloor>))"

definition num_text :: "rat \<Rightarrow> string" where
  "num_text q = (let a = \<bar>q\<bar>; i = nat \<lfloor>a\<rfloor>; f = a - of_nat i
     in (if q < 0 then ''-'' else []) @ dec_digits i @ (if f = 0 then [] else ''.'' @ frac_digits 20 f))"

text \<open>\<open>String(v)\<close>\<close>

fun js_String :: "json \<Rightarrow> string" where
  "js_String JNull = ''null''"
| "js_String (JBool b) = (if b then ''true'' else ''false'')"
| "js_String (JNum q) = num_text q"
| "js_String (JStr s) = s"
| "js_String (JArr vs) = str_join '','' (map (\<lambda>v. if v = JNull then [] else js_String v) vs)"
| "js_String (JObj fs) = ''[object Object]''"

text \<open>\<open>JSON.stringify\<close>\<close>

definition hex_char :: "nat \<Rightarrow> char" where
  "hex_char n = char_of (if n < 10 then 48 + n else 87 + n)"

definition quote_char :: "char \<Rightarrow> string" where
  "quote_char c = (let n = (of_char c :: nat) in
     if n = 34 then [CHR 92, CHR 34] else if n = 92 then [CHR 92, CHR 92]
     else if n = 8 then [CHR 92, CHR ''b''] else if n = 9 then [CHR 92, CHR ''t''] else if n = 10 then [CHR 92, CHR ''n'']
     else if n = 12 then [CHR 92, CHR ''f''] else if n = 13 then [CHR 92, CHR ''r'']
     else if n < 32 then [CHR 92, CHR ''u'', CHR ''0'', CHR ''0'', hex_char (n div 16), hex_char (n mod 16)]
     else [c])"

definition quoted :: "string \<Rightarrow> string" where
  "quoted s = [CHR 34] @ concat (map quote_char s) @ [CHR 34]"

fun stringify :: "json \<Rightarrow> string" where
  "stringify JNull = ''null''"
| "stringify (JBool b) = (if b then ''true'' else ''false'')"
| "stringify (JNum q) = num_text q"
| "stringify (JStr s) = quoted s"
| "stringify (JArr vs) = ''['' @ str_join '','' (map stringify vs) @ '']''"
| "stringify (JObj fs) = ''{'' @ str_join '','' (map (\<lambda>(k, v). quoted k @ '':'' @ stringify v) fs) @ ''}''"

section \<open>Reading JSON\<close>

text \<open>
  \<open>JSON.parse\<close>: every function returns what it read and the text after it, and each call consumes a
  character, so the length of the text is fuel enough. A repeated field keeps its place and takes the
  last value.
\<close>

definition json_ws :: "char \<Rightarrow> bool" where
  "json_ws c \<longleftrightarrow> (of_char c :: nat) \<in> {9, 10, 13, 32}"

definition skip_ws :: "string \<Rightarrow> string" where
  "skip_ws s = dropWhile json_ws s"

definition escape_code :: "char \<Rightarrow> char option" where
  "escape_code c = map_of [(CHR 34, CHR 34), (CHR 92, CHR 92), (CHR ''/'', CHR ''/''), (CHR ''b'', char_of (8::nat)),
     (CHR ''f'', char_of (12::nat)), (CHR ''n'', char_of (10::nat)), (CHR ''r'', char_of (13::nat)), (CHR ''t'', char_of (9::nat))] c"

fun read_escape :: "string \<Rightarrow> (char \<times> string) option" where
  "read_escape [] = None"
| "read_escape (e # r) = (if e = CHR ''u'' then (if length r < 4 then None
       else map_option (\<lambda>n. (char_of n, drop 4 r)) (radix_from 16 0 (take 4 r)))
     else map_option (\<lambda>x. (x, r)) (escape_code e))"

lemma read_escape_shorter: "read_escape s = Some (x, r) \<Longrightarrow> length r < length s"
  by (cases s) (auto split: if_splits)

function read_string :: "string \<Rightarrow> (string \<times> string) option" where
  "read_string [] = None"
| "read_string (c # cs) =
     (if c = CHR 34 then Some ([], cs)
      else if (of_char c :: nat) < 32 then None
      else if c = CHR 92 then (case read_escape cs of None \<Rightarrow> None
        | Some (x, r) \<Rightarrow> map_option (\<lambda>(s, r'). (x # s, r')) (read_string r))
      else map_option (\<lambda>(s, r). (c # s, r)) (read_string cs))"
  by pat_completeness auto
termination by (relation "measure length") (auto dest: read_escape_shorter)

text \<open>A number: no leading zero, digits on both sides of the point, digits in the exponent. A magnitude
  beyond the doubles reads as their bound.\<close>

definition number_lexeme :: "string \<Rightarrow> string \<times> string" where
  "number_lexeme s = (takeWhile (\<lambda>c. is_digit c \<or> c \<in> set ''+-.eE'') s, dropWhile (\<lambda>c. is_digit c \<or> c \<in> set ''+-.eE'') s)"

definition exponent_ok :: "string \<Rightarrow> bool" where
  "exponent_ok s \<longleftrightarrow> s = [] \<or> hd s \<in> set ''eE'' \<and> (let d = (if tl s \<noteq> [] \<and> hd (tl s) \<in> set ''+-'' then tl (tl s) else tl s)
     in d \<noteq> [] \<and> list_all is_digit d)"

definition number_ok :: "string \<Rightarrow> bool" where
  "number_ok s \<longleftrightarrow> (let u = (if s \<noteq> [] \<and> hd s = CHR ''-'' then tl s else s); i = takeWhile is_digit u; r = dropWhile is_digit u
     in i \<noteq> [] \<and> (hd i = CHR ''0'' \<longrightarrow> length i = 1) \<and>
       (if r \<noteq> [] \<and> hd r = CHR ''.'' then takeWhile is_digit (tl r) \<noteq> [] \<and> exponent_ok (dropWhile is_digit (tl r))
        else exponent_ok r))"

definition read_number :: "string \<Rightarrow> (json \<times> string) option" where
  "read_number s = (case number_lexeme s of (t, r) \<Rightarrow> if number_ok t
     then (case js_Number t of Fin q \<Rightarrow> Some (JNum q, r) | NegInf \<Rightarrow> Some (JNum (- overflow), r) | _ \<Rightarrow> Some (JNum overflow, r)) else None)"

definition put_field :: "string \<Rightarrow> json \<Rightarrow> (string \<times> json) list \<Rightarrow> (string \<times> json) list" where
  "put_field k v fs = (if k \<in> fst ` set fs then map (\<lambda>(k', v'). if k' = k then (k, v) else (k', v')) fs else fs @ [(k, v)])"

definition read_atom :: "string \<Rightarrow> (json \<times> string) option" where
  "read_atom s =
     (if starts_str [CHR 34] s then map_option (\<lambda>(t, r). (JStr t, r)) (read_string (tl s))
      else if starts_str ''null'' s then Some (JNull, drop 4 s)
      else if starts_str ''true'' s then Some (JBool True, drop 4 s)
      else if starts_str ''false'' s then Some (JBool False, drop 5 s)
      else read_number s)"

fun read_value :: "nat \<Rightarrow> string \<Rightarrow> (json \<times> string) option"
  and read_items :: "nat \<Rightarrow> json list \<Rightarrow> string \<Rightarrow> (json \<times> string) option"
  and read_fields :: "nat \<Rightarrow> (string \<times> json) list \<Rightarrow> string \<Rightarrow> (json \<times> string) option" where
  "read_value 0 s = None"
| "read_value (Suc n) s = (case skip_ws s of
       [] \<Rightarrow> None
     | c # cs \<Rightarrow>
         if c = CHR ''['' then (case skip_ws cs of [] \<Rightarrow> None | d # ds \<Rightarrow> if d = CHR '']'' then Some (JArr [], ds) else read_items n [] cs)
         else if c = CHR ''{'' then (case skip_ws cs of [] \<Rightarrow> None | d # ds \<Rightarrow> if d = CHR ''}'' then Some (JObj [], ds) else read_fields n [] cs)
         else read_atom (c # cs))"
| "read_items 0 vs s = None"
| "read_items (Suc n) vs s = (case read_value n s of None \<Rightarrow> None
     | Some (v, r) \<Rightarrow> (case skip_ws r of [] \<Rightarrow> None
         | c # cs \<Rightarrow> if c = CHR '']'' then Some (JArr (vs @ [v]), cs)
             else if c = CHR '','' then read_items n (vs @ [v]) cs else None))"
| "read_fields 0 fs s = None"
| "read_fields (Suc n) fs s = (case skip_ws s of [] \<Rightarrow> None
     | q # qs \<Rightarrow> if q \<noteq> CHR 34 then None else (case read_string qs of None \<Rightarrow> None
         | Some (k, r) \<Rightarrow> (case skip_ws r of [] \<Rightarrow> None
             | d # ds \<Rightarrow> if d \<noteq> CHR '':'' then None else (case read_value n ds of None \<Rightarrow> None
                 | Some (v, r') \<Rightarrow> (case skip_ws r' of [] \<Rightarrow> None
                     | c # cs \<Rightarrow> if c = CHR ''}'' then Some (JObj (put_field k v fs), cs)
                         else if c = CHR '','' then read_fields n (put_field k v fs) cs else None)))))"

definition parse_json :: "string \<Rightarrow> json option" where
  "parse_json s = (case read_value (2 * length s + 2) s of None \<Rightarrow> None
     | Some (v, r) \<Rightarrow> if skip_ws r = [] then Some v else None)"

text \<open>The fuel is enough: more of it changes nothing.\<close>

lemma skip_ws_length: "length (skip_ws s) \<le> length s"
  by (simp add: skip_ws_def length_dropWhile_le)

lemma skip_ws_Cons: "skip_ws s = c # cs \<Longrightarrow> length cs < length s"
  using skip_ws_length[of s] by simp

lemma read_string_shorter: "read_string s = Some (t, r) \<Longrightarrow> length r < length s"
proof (induction s arbitrary: t r rule: read_string.induct)
  case (2 c cs)
  show ?case
  proof (cases "c = CHR 92")
    case True
    with 2(3) obtain x u where "read_escape cs = Some (x, u)" "\<exists>t'. read_string u = Some (t', r)"
      by (auto split: if_splits option.splits)
    with 2(1)[OF _ _ True] True read_escape_shorter[of cs x u] show ?thesis by fastforce
  next
    case False
    with 2 show ?thesis by (fastforce split: if_splits)
  qed
qed simp

lemma number_shorter: "read_number s = Some (v, r) \<Longrightarrow> length r < length s"
proof -
  assume h: "read_number s = Some (v, r)"
  let ?p = "\<lambda>c. is_digit c \<or> c \<in> set ''+-.eE''"
  from h have "takeWhile ?p s \<noteq> []" "r = dropWhile ?p s"
    by (auto simp: read_number_def number_lexeme_def number_ok_def Let_def split: if_splits js_num.splits)
  then show ?thesis
    by (cases s) (auto simp: le_imp_less_Suc length_dropWhile_le split: if_splits)
qed

lemma atom_shorter: "read_atom s = Some (v, r) \<Longrightarrow> length r < length s"
  by (cases s) (auto simp: read_atom_def dest: read_string_shorter number_shorter split: if_splits)

lemma read_shorter:
  "read_value n s = Some (v, r) \<Longrightarrow> length r < length s"
  "read_items n vs s = Some (v, r) \<Longrightarrow> length r < length s"
  "read_fields n fs s = Some (v, r) \<Longrightarrow> length r < length s"
proof (induction n arbitrary: s v r vs fs)
  case (Suc n)
  {
    case 1
    then show ?case
      using skip_ws_length[of s]
      by (fastforce split: list.splits if_splits dest: Suc.IH atom_shorter skip_ws_Cons)
  next
    case 2
    then show ?case
      by (auto split: list.splits if_splits option.splits dest!: Suc.IH skip_ws_Cons)
  next
    case 3
    then show ?case
      by (auto split: list.splits if_splits option.splits dest!: read_string_shorter Suc.IH skip_ws_Cons)
  }
qed simp_all

lemma read_fuel:
  "2 * length s < n \<Longrightarrow> read_value (Suc n) s = read_value n s"
  "2 * length s + 1 < n \<Longrightarrow> read_items (Suc n) vs s = read_items n vs s"
  "2 * length s + 1 < n \<Longrightarrow> read_fields (Suc n) fs s = read_fields n fs s"
proof (induction n arbitrary: s vs fs)
  case (Suc n)
  {
    case 1
    have "read_items (Suc n) [] cs = read_items n [] cs \<and> read_fields (Suc n) [] cs = read_fields n [] cs"
      if "skip_ws s = c # cs" for c cs
      using skip_ws_Cons[OF that] 1 by (intro conjI Suc.IH) simp_all
    then show ?case by (auto simp del: read_items.simps read_fields.simps split: list.splits)
  next
    case 2
    have v: "read_value (Suc n) s = read_value n s" using 2 by (intro Suc.IH) simp
    have "read_items (Suc n) (vs @ [v]) cs = read_items n (vs @ [v]) cs"
      if "read_value n s = Some (v, r)" "skip_ws r = c # cs" for v r c cs
      using read_shorter(1)[OF that(1)] skip_ws_Cons[OF that(2)] 2 by (intro Suc.IH) simp
    then show ?case unfolding read_items.simps(2) v by (auto split: list.splits option.splits)
  next
    case 3
    have v: "read_value (Suc n) ds = read_value n ds"
      if "skip_ws s = q # qs" "read_string qs = Some (k, r)" "skip_ws r = d # ds" for q qs k r d ds
      using skip_ws_Cons[OF that(1)] read_string_shorter[OF that(2)] skip_ws_Cons[OF that(3)] 3 by (intro Suc.IH) simp
    have "read_fields (Suc n) gs cs = read_fields n gs cs"
      if "skip_ws s = q # qs" "read_string qs = Some (k, r)" "skip_ws r = d # ds"
        "read_value n ds = Some (v, r')" "skip_ws r' = c # cs" for q qs k r d ds v r' c cs gs
      using skip_ws_Cons[OF that(1)] read_string_shorter[OF that(2)] skip_ws_Cons[OF that(3)]
        read_shorter(1)[OF that(4)] skip_ws_Cons[OF that(5)] 3 by (intro Suc.IH) simp
    with v show ?case unfolding read_fields.simps(2) by (auto split: list.splits option.splits)
  }
qed simp_all

lemma parse_fuel_enough: "2 * length s < n \<Longrightarrow> read_value n s = read_value (2 * length s + 1) s"
proof (induction n)
  case (Suc n)
  then show ?case by (cases "2 * length s < n") (auto simp: read_fuel(1) less_Suc_eq simp del: read_value.simps)
qed simp

end
