(* ===== verification/HttpValues.thy ===== *)
theory HttpValues
  imports ProblemService
begin

text \<open>
  What the validators of the HTTP modules share: members of an enumeration given by name, and identifiers
  in the textual form of a UUID.
\<close>

fun enum_value :: "(string \<times> 'a) list \<Rightarrow> json \<Rightarrow> 'a option" where
  "enum_value vs (JStr s) = map_of vs s"
| "enum_value vs _ = None"

fun uuid_value :: "json \<Rightarrow> ident option" where
  "uuid_value (JStr s) = (if is_uuid s then Some s else None)"
| "uuid_value _ = None"

lemma uuid_value_ok: "uuid_value v = Some i \<Longrightarrow> is_uuid i"
  by (cases v) (auto split: if_splits)

lemma uuid_field_ok: "optional_field uuid_value x = Some (Some i) \<Longrightarrow> is_uuid i"
  by (auto simp: optional_field_def dest: uuid_value_ok split: option.splits)

end
