(* ===== verification/CoachTypes.thy ===== *)
theory CoachTypes
  imports CoachText HttpValues RateLimit
begin

text \<open>
  backend/modules/ai-coach/types, constants, errors, interfaces and validators: the modes of the coach,
  what it reasons over, its answers, its errors with their statuses, and the request bodies.
\<close>

section \<open>Vocabulary\<close>

datatype ai_mode = AmHint | AmComplexity | AmReview | AmInterview | AmLearning | AmRecommendation

fun ai_mode_name :: "ai_mode \<Rightarrow> string" where
  "ai_mode_name AmHint = ''hint''" | "ai_mode_name AmComplexity = ''complexity''" | "ai_mode_name AmReview = ''review''"
| "ai_mode_name AmInterview = ''interview''" | "ai_mode_name AmLearning = ''learning''" | "ai_mode_name AmRecommendation = ''recommendation''"

definition supported_languages :: "string list" where
  "supported_languages = [''javascript'', ''typescript'', ''python'', ''cpp'', ''java'']"

definition max_prompt_chars :: nat where "max_prompt_chars = 24000"
definition max_code_chars :: nat where "max_code_chars = 12000"
definition max_hints :: nat where "max_hints = 5"
definition history_max :: nat where "history_max = 100"
definition coach_window_ms :: int where "coach_window_ms = 60000"
definition coach_per_minute :: nat where "coach_per_minute = 20"

text \<open>Editorial and hidden inputs are there for leak detection.\<close>

record problem_context =
  pc_problemId :: ident
  pc_title :: string
  pc_statement :: string
  pc_constraints :: string
  pc_difficulty :: string
  pc_topics :: "string list"
  pc_editorialText :: "string option"
  pc_hiddenTestInputs :: "string list"

record submission_context =
  sc_code :: string
  sc_language :: string
  sc_verdict :: "string option"
  sc_runtimeMs :: "int option"
  sc_memoryKb :: "int option"
  sc_failingCaseSummary :: "string option"
  sc_attemptCount :: "nat option"
  sc_recentVerdicts :: "string list option"

record coach_context =
  cx_problem :: problem_context
  cx_submission :: "submission_context option"
  cx_weakTopics :: "string list option"
  cx_solvedTopics :: "string list option"

record coach_request =
  cr_userId :: ident
  cr_mode :: ai_mode
  cr_problemId :: ident
  cr_code :: "string option"
  cr_language :: "string option"
  cr_question :: "string option"

record recommendation =
  rc_title :: string
  rc_reason :: string
  rc_topic :: "string option"
  rc_problemId :: "string option"

record answer_meta =
  me_cached :: bool
  me_model :: string
  me_latencyMs :: int
  me_tokensIn :: "rat option"
  me_tokensOut :: "rat option"

record coach_response =
  an_mode :: ai_mode
  an_summary :: string
  an_points :: "string list"
  an_complexity :: "(string \<times> string \<times> string) option"
  an_questions :: "string list option"
  an_recommendations :: "recommendation list option"
  an_hintLevel :: "rat option"
  an_meta :: answer_meta

record interaction =
  ir_id :: ident
  ir_mode :: ai_mode
  ir_problemId :: ident
  ir_at :: int
  ir_cached :: bool
  ir_latencyMs :: int
  ir_tokensIn :: "rat option"
  ir_tokensOut :: "rat option"
  ir_summary :: string

record candidate =
  ca_problemId :: ident
  ca_title :: string
  ca_topic :: string

record prompt_extra =
  ex_question :: "string option"
  ex_hintLevel :: "nat option"
  ex_candidates :: "candidate list option"

record llm_request =
  lm_system :: string
  lm_user :: string
  lm_model :: string
  lm_temperature :: rat
  lm_maxOutputTokens :: nat
  lm_responseSchema :: json

record llm_result =
  ll_text :: string
  ll_model :: string
  ll_tokensIn :: "rat option"
  ll_tokensOut :: "rat option"
  ll_blocked :: bool

datatype coach_error = CoachUnauthorized | CoachInvalid | CoachRateLimited | CoachBlocked | CoachInjection
  | CoachProblemNotFound ident | CoachBadLanguage string | CoachPromptTooLarge | CoachUnavailable | CoachRedisDown

text \<open>The last one is an error of the Redis client, no operational error.\<close>

fun coach_error_code :: "coach_error \<Rightarrow> nat \<times> string" where
  "coach_error_code CoachUnauthorized = (401, ''UNAUTHORIZED'')"
| "coach_error_code CoachInvalid = (422, ''VALIDATION_ERROR'')"
| "coach_error_code CoachRateLimited = (429, ''RATE_LIMIT_EXCEEDED'')"
| "coach_error_code CoachBlocked = (400, ''CONTENT_BLOCKED'')"
| "coach_error_code CoachInjection = (400, ''PROMPT_INJECTION_DETECTED'')"
| "coach_error_code (CoachProblemNotFound _) = (404, ''PROBLEM_NOT_FOUND'')"
| "coach_error_code (CoachBadLanguage _) = (422, ''INVALID_LANGUAGE'')"
| "coach_error_code CoachPromptTooLarge = (413, ''PROMPT_TOO_LARGE'')"
| "coach_error_code CoachUnavailable = (503, ''AI_UNAVAILABLE'')"
| "coach_error_code CoachRedisDown = (500, ''INTERNAL_ERROR'')"

section \<open>Request bodies\<close>

record coach_dto =
  cq_problemId :: ident
  cq_code :: "string option"
  cq_language :: "string option"
  cq_question :: "string option"

fun language_value :: "json \<Rightarrow> string option" where
  "language_value (JStr s) = (if List.member supported_languages s then Some s else None)"
| "language_value _ = None"

fun question_value :: "json \<Rightarrow> string option" where
  "question_value (JStr s) = (if length (trim s) \<le> 1000 then Some (trim s) else None)"
| "question_value _ = None"

text \<open>Hint and interview take code and language or not; review and complexity need both; learning and
  recommendation take the problem only.\<close>

definition parse_free :: "json \<Rightarrow> coach_dto option" where
  "parse_free b =
     (case (Option.bind (jfield ''problemId'' b) uuid_value, optional_field (str_value 0 (int max_code_chars)) (jfield ''code'' b),
            optional_field language_value (jfield ''language'' b), optional_field question_value (jfield ''question'' b)) of
        (Some p, Some c, Some l, Some q) \<Rightarrow> Some \<lparr>cq_problemId = p, cq_code = c, cq_language = l, cq_question = q\<rparr>
      | _ \<Rightarrow> None)"

definition parse_review :: "json \<Rightarrow> coach_dto option" where
  "parse_review b =
     (case (Option.bind (jfield ''problemId'' b) uuid_value, Option.bind (jfield ''code'' b) (str_value 1 (int max_code_chars)),
            Option.bind (jfield ''language'' b) language_value, optional_field question_value (jfield ''question'' b)) of
        (Some p, Some c, Some l, Some q) \<Rightarrow> Some \<lparr>cq_problemId = p, cq_code = Some c, cq_language = Some l, cq_question = q\<rparr>
      | _ \<Rightarrow> None)"

definition parse_problem_only :: "json \<Rightarrow> coach_dto option" where
  "parse_problem_only b = (case Option.bind (jfield ''problemId'' b) uuid_value of None \<Rightarrow> None
     | Some p \<Rightarrow> Some \<lparr>cq_problemId = p, cq_code = None, cq_language = None, cq_question = None\<rparr>)"

fun parse_coach :: "ai_mode \<Rightarrow> json \<Rightarrow> coach_dto option" where
  "parse_coach AmHint b = parse_free b"
| "parse_coach AmInterview b = parse_free b"
| "parse_coach AmReview b = parse_review b"
| "parse_coach AmComplexity b = parse_review b"
| "parse_coach AmLearning b = parse_problem_only b"
| "parse_coach AmRecommendation b = parse_problem_only b"

definition parse_history :: "json \<Rightarrow> int option" where
  "parse_history q = (case jfield ''limit'' q of None \<Rightarrow> Some 20 | Some v \<Rightarrow> int_between 1 100 v)"

text \<open>What an accepted body guarantees.\<close>

lemma str_value_most: "str_value lo (int k) v = Some s \<Longrightarrow> length s \<le> k"
  by (cases v) (auto split: if_splits)

lemma language_value_ok: "language_value v = Some l \<Longrightarrow> l \<in> set supported_languages"
  by (cases v) (auto split: if_splits)

lemma question_value_ok: "question_value v = Some q \<Longrightarrow> length q \<le> 1000"
  by (cases v) (auto split: if_splits)

definition dto_ok :: "coach_dto \<Rightarrow> bool" where
  "dto_ok d \<longleftrightarrow> (\<forall>c. cq_code d = Some c \<longrightarrow> length c \<le> max_code_chars)
     \<and> (\<forall>l. cq_language d = Some l \<longrightarrow> l \<in> set supported_languages)
     \<and> (\<forall>q. cq_question d = Some q \<longrightarrow> length q \<le> 1000)"

lemma parse_coach_ok: "parse_coach m b = Some d \<Longrightarrow> dto_ok d"
  by (cases m)
    (auto simp: parse_free_def parse_review_def parse_problem_only_def dto_ok_def optional_field_def bind_eq_Some_conv
      dest: str_value_most language_value_ok question_value_ok split: option.splits)

end
