(* ===== verification/CoachAnswer.thy ===== *)
theory CoachAnswer
  imports CoachPrompt
begin

text \<open>
  backend/modules/ai-coach/validation/response-validator.ts: what the model answered becomes the answer
  of the coach. The text is read as JSON or wrapped, checked against the material the prompt withheld,
  cleared of large code, cut to length and reduced to the fields of the mode.
\<close>

section \<open>Reading the text\<close>

definition strip_leading_fence :: "string \<Rightarrow> string" where
  "strip_leading_fence s = (if starts_str fence s
     then (let r = drop 3 s in dropWhile is_ws (if js_lower (take 4 r) = ''json'' then drop 4 r else r)) else s)"

definition strip_trailing_fence :: "string \<Rightarrow> string" where
  "strip_trailing_fence s = (if starts_str fence (rev s) then strip_trailing_ws (take (length s - 3) s) else s)"

definition safeParse :: "string \<Rightarrow> json" where
  "safeParse raw = (case parse_json (trim (strip_trailing_fence (strip_leading_fence (trim raw)))) of
       None \<Rightarrow> JObj [(''summary'', JStr (take 800 raw)), (''points'', JArr [])]
     | Some (JObj fs) \<Rightarrow> JObj fs
     | Some (JArr vs) \<Rightarrow> JArr vs
     | Some _ \<Rightarrow> JObj [])"

text \<open>\<open>v ?? other\<close> on a field, and the truth of a value.\<close>

definition field_or :: "string \<Rightarrow> json \<Rightarrow> json \<Rightarrow> json" where
  "field_or k d v = (case jfield k v of None \<Rightarrow> d | Some JNull \<Rightarrow> d | Some x \<Rightarrow> x)"

fun json_truthy :: "json \<Rightarrow> bool" where
  "json_truthy JNull = False" | "json_truthy (JBool b) = b" | "json_truthy (JNum q) = (q \<noteq> 0)"
| "json_truthy (JStr s) = (s \<noteq> [])" | "json_truthy (JArr vs) = True" | "json_truthy (JObj fs) = True"

fun is_object :: "json \<Rightarrow> bool" where
  "is_object (JArr vs) = True" | "is_object (JObj fs) = True" | "is_object _ = False"

fun array_items :: "json option \<Rightarrow> json list option" where
  "array_items (Some (JArr vs)) = Some vs"
| "array_items _ = None"

section \<open>Leaks\<close>

definition norm_text :: "string \<Rightarrow> string" where
  "norm_text s = squeeze (js_lower s)"

definition word_window :: "nat \<Rightarrow> nat \<Rightarrow> string list \<Rightarrow> string" where
  "word_window i n ws = str_join '' '' (take n (drop i ws))"

text \<open>Windows of twelve words are looked up at every sixth word.\<close>

definition leaksEditorial :: "string \<Rightarrow> coach_context \<Rightarrow> bool" where
  "leaksEditorial text ctx = (case pc_editorialText (cx_problem ctx) of None \<Rightarrow> False
     | Some ed \<Rightarrow> length ed \<ge> 40 \<and> (let ws = split_at_char (CHR '' '') (norm_text ed)
         in list_ex (\<lambda>k. 6 * k + 12 \<le> length ws \<and> str_includes (word_window (6 * k) 12 ws) (norm_text text)) [0..<length ws]))"

definition leaksHiddenTests :: "string \<Rightarrow> coach_context \<Rightarrow> bool" where
  "leaksHiddenTests text ctx \<longleftrightarrow> list_ex (\<lambda>inp. length inp \<ge> 8 \<and> str_includes inp text) (pc_hiddenTestInputs (cx_problem ctx))"

section \<open>Code\<close>

text \<open>The first fenced block: what precedes it, the block, what follows.\<close>

definition next_block :: "string \<Rightarrow> (string \<times> string \<times> string) option" where
  "next_block t = (case cut_at fence t of None \<Rightarrow> None
     | Some (a, b) \<Rightarrow> (case cut_at fence b of None \<Rightarrow> None | Some (c, d) \<Rightarrow> Some (a, fence @ c @ fence, d)))"

lemma next_block_Some: "next_block t = Some (a, c, d) \<Longrightarrow> t = a @ c @ d \<and> length c \<ge> 6"
  by (auto simp: next_block_def fence_def split: option.splits dest!: cut_at_Some)

lemma next_block_shorter: "next_block t = Some (a, c, d) \<Longrightarrow> length d < length t"
  using next_block_Some[of t a c d] by (cases c) auto

function code_blocks :: "string \<Rightarrow> string list" where
  "code_blocks t = (case next_block t of None \<Rightarrow> [] | Some (a, c, d) \<Rightarrow> c # code_blocks d)"
  by pat_completeness auto
termination by (relation "measure length") (auto dest: next_block_shorter)

declare code_blocks.simps [simp del]

definition codeCharCount :: "string \<Rightarrow> nat" where
  "codeCharCount t = sum_list (map length (code_blocks t))"

definition omitted :: string where
  "omitted = ''[code omitted '' @ [em_dash] @ '' try implementing this yourself]''"

function stripLargeCode :: "string \<Rightarrow> string" where
  "stripLargeCode t = (case next_block t of None \<Rightarrow> t | Some (a, c, d) \<Rightarrow> a @ omitted @ stripLargeCode d)"
  by pat_completeness auto
termination by (relation "measure length") (auto dest: next_block_shorter)

declare stripLargeCode.simps [simp del]

section \<open>The answer\<close>

definition raw_summary :: "json \<Rightarrow> string" where
  "raw_summary p = trim (js_String (field_or ''summary'' (JStr []) p))"

definition raw_points :: "json \<Rightarrow> string list" where
  "raw_points p = (case array_items (jfield ''points'' p) of None \<Rightarrow> [] | Some vs \<Rightarrow> map js_String vs)"

definition leakHaystack :: "json \<Rightarrow> string" where
  "leakHaystack p = str_join [lf] ([raw_summary p] @ raw_points p @ [stringify (field_or ''complexity'' (JObj []) p)])"

definition leaks :: "json \<Rightarrow> coach_context \<Rightarrow> bool" where
  "leaks p ctx \<longleftrightarrow> leaksEditorial (leakHaystack p) ctx \<or> leaksHiddenTests (leakHaystack p) ctx"

definition safe_summary :: string where "safe_summary = ''Here is a hint to guide you without giving away the answer.''"
definition safe_point :: string where "safe_point = ''Re-read the constraints and think about which data structure fits.''"
definition default_summary :: string where "default_summary = ''Let me help you think through this problem.''"

definition checked_text :: "json \<Rightarrow> coach_context \<Rightarrow> string \<times> string list" where
  "checked_text p ctx =
     (let (s, ps) = (if leaks p ctx then (safe_summary, [safe_point]) else (raw_summary p, raw_points p));
          (s', ps') = (if codeCharCount (leakHaystack p) > 400 then (stripLargeCode s, map stripLargeCode ps) else (s, ps))
      in (take 1200 s', map (take 500) (take 8 ps')))"

definition read_complexity :: "json \<Rightarrow> (string \<times> string \<times> string) option" where
  "read_complexity p = (case jfield ''complexity'' p of None \<Rightarrow> None
     | Some c \<Rightarrow> if is_object c then Some (js_String (field_or ''time'' (JStr ''unknown'') c), js_String (field_or ''space'' (JStr ''unknown'') c),
         take 600 (js_String (field_or ''explanation'' (JStr []) c))) else None)"

definition optional_text :: "string \<Rightarrow> json \<Rightarrow> string option" where
  "optional_text k v = (case jfield k v of None \<Rightarrow> None | Some x \<Rightarrow> if json_truthy x then Some (js_String x) else None)"

definition read_recommendation :: "json \<Rightarrow> recommendation" where
  "read_recommendation r =
     \<lparr>rc_title = take 200 (js_String (field_or ''title'' (JStr []) r)), rc_reason = take 300 (js_String (field_or ''reason'' (JStr []) r)),
      rc_topic = optional_text ''topic'' r, rc_problemId = optional_text ''problemId'' r\<rparr>"

definition parseAndValidate :: "string \<Rightarrow> ai_mode \<Rightarrow> coach_context \<Rightarrow> coach_response" where
  "parseAndValidate raw m ctx =
     (let p = safeParse raw; (summary, points) = checked_text p ctx
      in \<lparr>an_mode = m, an_summary = or_else summary default_summary, an_points = points,
          an_complexity = (if m = AmComplexity then read_complexity p else None),
          an_questions = (if m = AmInterview
            then map_option (\<lambda>qs. take 6 (map (\<lambda>q. take 300 (js_String q)) qs)) (array_items (jfield ''questions'' p)) else None),
          an_recommendations = (if m = AmLearning \<or> m = AmRecommendation
            then map_option (\<lambda>rs. take 8 (map read_recommendation (filter is_object rs))) (array_items (jfield ''recommendations'' p)) else None),
          an_hintLevel = (if m = AmHint then as_num (jfield ''hintLevel'' p) else None),
          an_meta = \<lparr>me_cached = False, me_model = [], me_latencyMs = 0, me_tokensIn = None, me_tokensOut = None\<rparr>\<rparr>)"

end
