(* ===== verification/CoachService.thy ===== *)
theory CoachService
  imports CoachGuard CoachAnswer
begin

text \<open>
  backend/modules/ai-coach/services, context, cache, repositories, controllers and routes: one request to
  the coach from the token to the answer. It runs at one instant; each Redis command may fail on its own,
  and the code says what happens then. The problem catalogue and the submissions are the tables the
  context is read from; the log of requests sent to the model is kept to speak about them.
\<close>

section \<open>State\<close>

record coach_submission =
  cu_userId :: ident
  cu_problemId :: ident
  cu_code :: string
  cu_language :: string
  cu_status :: string
  cu_runtimeMs :: "int option"
  cu_memoryKb :: "int option"
  cu_createdAt :: int

record coach_world =
  cw_catalogue :: problem_world
  cw_subs :: "coach_submission list"
  cw_rate :: "ident counters"
  cw_hints :: "(ident \<times> ident, nat) kv"
  cw_cache :: "(string, coach_response) kv"
  cw_history :: "(ident, interaction list) kv"
  cw_hits :: nat
  cw_misses :: nat
  cw_asked :: "llm_request list"

datatype coach_cmd = CcRate | CcHintIncr | CcHintExpire | CcCacheGet | CcCacheSet | CcMetrics | CcHistory | CcWeak

record coach_env =
  ce_now :: int
  ce_latency :: int
  ce_uuid :: ident
  ce_up :: "coach_cmd \<Rightarrow> bool"
  ce_digest :: "string \<Rightarrow> string"
  ce_fetch :: "string \<Rightarrow> json \<Rightarrow> fetch_outcome"
  ce_auth :: problem_env

type_synonym 'a coach_op = "(coach_world, coach_error, 'a) op"

definition of_sum :: "'e + 'a \<Rightarrow> ('s, 'e, 'a) op" where
  "of_sum x = (case x of Inl e \<Rightarrow> throw e | Inr a \<Rightarrow> ret a)"

section \<open>Context\<close>

definition getProblem :: "ident \<Rightarrow> coach_world \<Rightarrow> problem_context option" where
  "getProblem i w = (case List.find (\<lambda>p. pm_id p = ascii_lower i) (zw_problems (cw_catalogue w)) of None \<Rightarrow> None
     | Some p \<Rightarrow> Some \<lparr>pc_problemId = pm_id p, pc_title = pm_title p, pc_statement = pm_statement p,
         pc_constraints = str_join ''; '' (map fst (sort_key snd (pm_constraints p))), pc_difficulty = difficulty_name (pm_difficulty p),
         pc_topics = map tg_name (tags_of (cw_catalogue w) p), pc_editorialText = map_option ed_content (pm_editorial p),
         pc_hiddenTestInputs = map tr_input (filter tr_isHidden (pm_testCases p))\<rparr>)"

definition subs_of :: "ident \<Rightarrow> ident \<Rightarrow> coach_world \<Rightarrow> coach_submission list" where
  "subs_of u i w = sort_key (\<lambda>s. - cu_createdAt s) (filter (\<lambda>s. cu_userId s = u \<and> cu_problemId s = ascii_lower i) (cw_subs w))"

definition getLatestSubmission :: "ident \<Rightarrow> ident \<Rightarrow> coach_world \<Rightarrow> submission_context option" where
  "getLatestSubmission u i w = (case subs_of u i w of [] \<Rightarrow> None
     | s # ss \<Rightarrow> Some \<lparr>sc_code = cu_code s, sc_language = ascii_lower (cu_language s), sc_verdict = Some (cu_status s),
         sc_runtimeMs = cu_runtimeMs s, sc_memoryKb = cu_memoryKb s, sc_failingCaseSummary = None,
         sc_attemptCount = Some (length (take 5 (s # ss))), sc_recentVerdicts = Some (map cu_status (take 5 (s # ss)))\<rparr>)"

definition topics_of :: "coach_world \<Rightarrow> ident \<Rightarrow> string list" where
  "topics_of w i = (case List.find (\<lambda>p. pm_id p = i) (zw_problems (cw_catalogue w)) of None \<Rightarrow> []
     | Some p \<Rightarrow> map tg_name (tags_of (cw_catalogue w) p))"

text \<open>A score per topic in order of first appearance: plus one for a failed attempt, minus one for a passed one.\<close>

fun bump :: "string \<Rightarrow> int \<Rightarrow> (string \<times> int) list \<Rightarrow> (string \<times> int) list" where
  "bump k d [] = [(k, d)]"
| "bump k d ((k', n) # xs) = (if k' = k then (k, n + d) # xs else (k', n) # bump k d xs)"

definition topic_scores :: "coach_world \<Rightarrow> coach_submission list \<Rightarrow> (string \<times> int) list" where
  "topic_scores w ss = fold (\<lambda>s acc. fold (\<lambda>t. bump t (if cu_status s = ''ACCEPTED'' then - 1 else 1)) (topics_of w (cu_problemId s)) acc) ss []"

definition getWeakTopics :: "coach_env \<Rightarrow> ident \<Rightarrow> coach_world \<Rightarrow> string list" where
  "getWeakTopics e u w = (if ce_up e CcWeak
     then map fst (take 5 (sort_key (\<lambda>x. - snd x) (filter (\<lambda>x. snd x > 0)
       (topic_scores w (take 500 (sort_key (\<lambda>s. - cu_createdAt s) (filter (\<lambda>s. cu_userId s = u) (cw_subs w))))))))
     else [])"

definition getSolvedTopics :: "ident \<Rightarrow> coach_world \<Rightarrow> string list" where
  "getSolvedTopics u w = js_set (concat (map (\<lambda>s. topics_of w (cu_problemId s))
     (take 500 (filter (\<lambda>s. cu_userId s = u \<and> cu_status s = ''ACCEPTED'') (cw_subs w)))))"

definition suggestProblems :: "string list \<Rightarrow> nat \<Rightarrow> coach_world \<Rightarrow> candidate list" where
  "suggestProblems topics limit w = (if topics = [] then []
     else map (\<lambda>p. \<lparr>ca_problemId = pm_id p, ca_title = pm_title p,
         ca_topic = (case List.find (\<lambda>t. List.member topics (tg_name t)) (tags_of (cw_catalogue w) p) of None \<Rightarrow> hd topics | Some t \<Rightarrow> tg_name t)\<rparr>)
       (take limit (filter (\<lambda>p. pm_visibility p = VsPublic \<and> list_ex (\<lambda>t. List.member topics (tg_name t)) (tags_of (cw_catalogue w) p))
         (zw_problems (cw_catalogue w)))))"

definition needs_code :: "ai_mode \<Rightarrow> bool" where
  "needs_code m \<longleftrightarrow> m = AmHint \<or> m = AmComplexity \<or> m = AmReview \<or> m = AmInterview"

definition plain_submission :: "string \<Rightarrow> string \<Rightarrow> submission_context" where
  "plain_submission code lang = \<lparr>sc_code = code, sc_language = lang, sc_verdict = None, sc_runtimeMs = None, sc_memoryKb = None,
     sc_failingCaseSummary = None, sc_attemptCount = None, sc_recentVerdicts = None\<rparr>"

text \<open>The code under discussion: inline, else the latest submission; cut, redacted, its language checked.\<close>

definition code_context :: "coach_request \<Rightarrow> coach_world \<Rightarrow> coach_error + submission_context option" where
  "code_context req w =
     (let inline = (case cr_code req of None \<Rightarrow> [] | Some c \<Rightarrow> c);
          latest = (if inline = [] then getLatestSubmission (cr_userId req) (cr_problemId req) w else None);
          code = (case latest of None \<Rightarrow> inline | Some s \<Rightarrow> sc_code s);
          lang = (case latest of None \<Rightarrow> cr_language req | Some s \<Rightarrow> Some (sc_language s))
      in if truthy_str lang \<and> \<not> List.member supported_languages (the lang) then Inl (CoachBadLanguage (the lang))
         else if code = [] then Inr latest
         else Inr (Some ((case latest of None \<Rightarrow> plain_submission [] [] | Some s \<Rightarrow> s)
             \<lparr>sc_code := fst (redactPII (take max_code_chars code)),
              sc_language := (case lang of None \<Rightarrow> ''javascript'' | Some l \<Rightarrow> l)\<rparr>)))"

definition build_context :: "coach_env \<Rightarrow> coach_request \<Rightarrow> coach_context coach_op" where
  "build_context e req =
     bind_op (reads (getProblem (cr_problemId req))) (\<lambda>found. bind_op (of_option (CoachProblemNotFound (cr_problemId req)) found) (\<lambda>p.
     bind_op (if needs_code (cr_mode req) then bind_op (reads (code_context req)) of_sum else ret None) (\<lambda>sub.
     reads (\<lambda>w. let profile = (cr_mode req = AmLearning \<or> cr_mode req = AmRecommendation) in
       \<lparr>cx_problem = p, cx_submission = sub, cx_weakTopics = (if profile then Some (getWeakTopics e (cr_userId req) w) else None),
        cx_solvedTopics = (if profile then Some (getSolvedTopics (cr_userId req) w) else None)\<rparr>))))"

section \<open>Redis\<close>

definition coach_rate :: "coach_env \<Rightarrow> ident \<Rightarrow> unit coach_op" where
  "coach_rate e u =
     then_op (guard_op (ce_up e CcRate) CoachRedisDown)
    (bind_op (reads (\<lambda>w. fst (rate_hit coach_window_ms coach_per_minute u (ce_now e) (cw_rate w)))) (\<lambda>ok.
     then_op (writes (\<lambda>w. w\<lparr>cw_rate := snd (rate_hit coach_window_ms coach_per_minute u (ce_now e) (cw_rate w))\<rparr>))
     (guard_op ok CoachRateLimited)))"

text \<open>INCR keeps the time to live of a live key; EXPIRE does nothing on an absent one.\<close>

definition key_incr :: "int \<Rightarrow> 'k \<Rightarrow> ('k, nat) kv \<Rightarrow> nat \<times> ('k, nat) kv" where
  "key_incr now k m = (case m k of
       Some (n, x) \<Rightarrow> if alive now x then (n + 1, kv_put m k (n + 1) x) else (1, kv_put m k 1 None)
     | None \<Rightarrow> (1, kv_put m k 1 None))"

definition key_expire :: "int \<Rightarrow> 'k \<Rightarrow> int \<Rightarrow> ('k, 'v) kv \<Rightarrow> ('k, 'v) kv" where
  "key_expire now k till m = (case kv_get now m k of None \<Rightarrow> m | Some v \<Rightarrow> kv_put m k v (Some till))"

definition nextHintLevel :: "coach_env \<Rightarrow> ident \<Rightarrow> ident \<Rightarrow> nat coach_op" where
  "nextHintLevel e u i =
     bind_op (reads (\<lambda>w. if ce_up e CcHintIncr then fst (key_incr (ce_now e) (u, i) (cw_hints w)) else 1)) (\<lambda>level.
     then_op (writes (\<lambda>w. if ce_up e CcHintIncr then w\<lparr>cw_hints := snd (key_incr (ce_now e) (u, i) (cw_hints w))\<rparr> else w))
    (then_op (writes (\<lambda>w. if ce_up e CcHintExpire then w\<lparr>cw_hints := key_expire (ce_now e) (u, i) (ce_now e + 3600 * 1000) (cw_hints w)\<rparr> else w))
     (ret (min level max_hints))))"

definition getResponse :: "coach_env \<Rightarrow> string \<Rightarrow> coach_world \<Rightarrow> coach_response option" where
  "getResponse e k w = (if ce_up e CcCacheGet then kv_get (ce_now e) (cw_cache w) k else None)"

definition setResponse :: "coach_env \<Rightarrow> string \<Rightarrow> coach_response \<Rightarrow> unit coach_op" where
  "setResponse e k a = writes (\<lambda>w. if ce_up e CcCacheSet
     then w\<lparr>cw_cache := kv_put (cw_cache w) k a (Some (ce_now e + 24 * 3600 * 1000))\<rparr> else w)"

definition recordHit :: "coach_env \<Rightarrow> unit coach_op" where
  "recordHit e = writes (\<lambda>w. if ce_up e CcMetrics then w\<lparr>cw_hits := cw_hits w + 1\<rparr> else w)"

definition recordMiss :: "coach_env \<Rightarrow> unit coach_op" where
  "recordMiss e = writes (\<lambda>w. if ce_up e CcMetrics then w\<lparr>cw_misses := cw_misses w + 1\<rparr> else w)"

definition hitRatio :: "coach_env \<Rightarrow> coach_world \<Rightarrow> nat \<times> nat \<times> rat" where
  "hitRatio e w = (let h = (if ce_up e CcMetrics then cw_hits w else 0); m = (if ce_up e CcMetrics then cw_misses w else 0)
     in (h, m, if h + m = 0 then 0 else of_nat h / of_nat (h + m)))"

definition history_append :: "coach_env \<Rightarrow> ident \<Rightarrow> interaction \<Rightarrow> unit coach_op" where
  "history_append e u r = writes (\<lambda>w. if ce_up e CcHistory
     then w\<lparr>cw_history := kv_put (cw_history w) u (take history_max (r # kv_list (ce_now e) (cw_history w) u)) (Some (ce_now e + 30 * 24 * 3600 * 1000))\<rparr>
     else w)"

definition getHistory :: "coach_env \<Rightarrow> ident \<Rightarrow> nat \<Rightarrow> interaction list coach_op" where
  "getHistory e u limit = then_op (guard_op (ce_up e CcHistory) CoachRedisDown)
     (reads (\<lambda>w. take limit (kv_list (ce_now e) (cw_history w) u)))"

section \<open>The pipeline\<close>

definition check_question :: "coach_request \<Rightarrow> unit coach_op" where
  "check_question req = (if truthy_str (cr_question req)
     then then_op (guard_op (isAllowed (the (cr_question req))) CoachBlocked)
       (guard_op (detectInjection (the (cr_question req)) = None) CoachInjection)
     else ret ())"

definition record_interaction :: "coach_env \<Rightarrow> coach_request \<Rightarrow> coach_response \<Rightarrow> unit coach_op" where
  "record_interaction e req a = history_append e (cr_userId req)
     \<lparr>ir_id = ce_uuid e, ir_mode = cr_mode req, ir_problemId = cr_problemId req, ir_at = ce_now e, ir_cached = me_cached (an_meta a),
      ir_latencyMs = me_latencyMs (an_meta a), ir_tokensIn = me_tokensIn (an_meta a), ir_tokensOut = me_tokensOut (an_meta a),
      ir_summary = take 200 (an_summary a)\<rparr>"

record prepared =
  pr_ctx :: coach_context
  pr_hintLevel :: "nat option"
  pr_request :: llm_request
  pr_key :: string

text \<open>Steps 1 to 6: limits, guards, context, hint level, candidates, prompt and key.\<close>

definition prepare_request :: "coach_env \<Rightarrow> coach_request \<Rightarrow> prepared coach_op" where
  "prepare_request e req =
     then_op (coach_rate e (cr_userId req)) (then_op (check_question req)
    (bind_op (build_context e req) (\<lambda>ctx.
     bind_op (if cr_mode req = AmHint then bind_op (nextHintLevel e (cr_userId req) (cr_problemId req)) (\<lambda>n. ret (Some n)) else ret None) (\<lambda>level.
     bind_op (reads (\<lambda>w. if cr_mode req = AmRecommendation
       then Some (suggestProblems (case cx_weakTopics ctx of None \<Rightarrow> [] | Some ts \<Rightarrow> ts) 8 w) else None)) (\<lambda>cands.
     bind_op (of_sum (build_prompt (ce_digest e) (cr_mode req) ctx
       \<lparr>ex_question = cr_question req, ex_hintLevel = level, ex_candidates = cands\<rparr>)) (\<lambda>(r, key).
     ret \<lparr>pr_ctx = ctx, pr_hintLevel = level, pr_request = r, pr_key = key\<rparr>))))))"

definition answer_cached :: "coach_env \<Rightarrow> coach_request \<Rightarrow> coach_response \<Rightarrow> coach_response coach_op" where
  "answer_cached e req cached =
     (let a = cached\<lparr>an_meta := (an_meta cached)\<lparr>me_cached := True, me_latencyMs := ce_latency e\<rparr>\<rparr>
      in then_op (recordHit e) (then_op (record_interaction e req a) (ret a)))"

definition answer_of :: "coach_env \<Rightarrow> coach_request \<Rightarrow> prepared \<Rightarrow> llm_result \<Rightarrow> coach_response" where
  "answer_of e req p x =
     (let a = parseAndValidate (ll_text x) (cr_mode req) (pr_ctx p)
      in a\<lparr>an_hintLevel := (case pr_hintLevel p of None \<Rightarrow> an_hintLevel a | Some n \<Rightarrow> Some (of_nat n)),
           an_meta := \<lparr>me_cached = False, me_model = ll_model x, me_latencyMs = ce_latency e, me_tokensIn = ll_tokensIn x, me_tokensOut = ll_tokensOut x\<rparr>\<rparr>)"

definition ask_model :: "coach_env \<Rightarrow> coach_request \<Rightarrow> prepared \<Rightarrow> coach_response coach_op" where
  "ask_model e req p =
     then_op (recordMiss e)
    (then_op (writes (\<lambda>w. w\<lparr>cw_asked := cw_asked w @ [pr_request p]\<rparr>))
    (bind_op (of_sum (gemini_complete (ce_fetch e) (pr_request p))) (\<lambda>x.
     then_op (guard_op (\<not> ll_blocked x) CoachBlocked)
    (then_op (setResponse e (pr_key p) (answer_of e req p x))
    (then_op (record_interaction e req (answer_of e req p x)) (ret (answer_of e req p x)))))))"

definition coach :: "coach_env \<Rightarrow> coach_request \<Rightarrow> coach_response coach_op" where
  "coach e req = bind_op (prepare_request e req) (\<lambda>p. bind_op (reads (getResponse e (pr_key p))) (\<lambda>cached. case cached of
       Some a \<Rightarrow> answer_cached e req a
     | None \<Rightarrow> ask_model e req p))"

section \<open>HTTP\<close>

definition coach_user :: "coach_env \<Rightarrow> string option \<Rightarrow> viewer coach_op" where
  "coach_user e h = of_option CoachUnauthorized (optionalAuth (ce_auth e) h)"

definition coach_route :: "coach_env \<Rightarrow> string option \<Rightarrow> ai_mode \<Rightarrow> json \<Rightarrow> coach_response coach_op" where
  "coach_route e h m b =
     bind_op (coach_user e h) (\<lambda>u. bind_op (of_option CoachInvalid (parse_coach m b)) (\<lambda>d.
     coach e \<lparr>cr_userId = vw_id u, cr_mode = m, cr_problemId = cq_problemId d, cr_code = cq_code d, cr_language = cq_language d, cr_question = cq_question d\<rparr>))"

definition history_route :: "coach_env \<Rightarrow> string option \<Rightarrow> json \<Rightarrow> interaction list coach_op" where
  "history_route e h q =
     bind_op (coach_user e h) (\<lambda>u. bind_op (of_option CoachInvalid (parse_history q)) (\<lambda>n. getHistory e (vw_id u) (nat n)))"

end
