(* ===== verification/CoachBlind.thy ===== *)
theory CoachBlind
  imports CoachService
begin

text \<open>
  What the coach tells the model does not depend on the material withheld from it. \<open>hide_secrets\<close> is the
  same database without editorials and hidden tests; every step up to the call of the model commutes
  with it.
\<close>

section \<open>The database without the secrets\<close>

definition hide_problem :: "problem_row \<Rightarrow> problem_row" where
  "hide_problem p = p\<lparr>pm_editorial := None, pm_testCases := filter (\<lambda>t. \<not> tr_isHidden t) (pm_testCases p)\<rparr>"

definition hide_secrets :: "coach_world \<Rightarrow> coach_world" where
  "hide_secrets w = w\<lparr>cw_catalogue := (cw_catalogue w)\<lparr>zw_problems := map hide_problem (zw_problems (cw_catalogue w))\<rparr>\<rparr>"

lemma hide_problem_simps [simp]:
  "pm_id (hide_problem p) = pm_id p" "pm_title (hide_problem p) = pm_title p" "pm_statement (hide_problem p) = pm_statement p"
  "pm_constraints (hide_problem p) = pm_constraints p" "pm_difficulty (hide_problem p) = pm_difficulty p"
  "pm_tags (hide_problem p) = pm_tags p" "pm_visibility (hide_problem p) = pm_visibility p" "pm_editorial (hide_problem p) = None"
  "filter tr_isHidden (pm_testCases (hide_problem p)) = []"
  by (simp_all add: hide_problem_def filter_empty_conv)

lemma hide_secrets_simps [simp]:
  "cw_subs (hide_secrets w) = cw_subs w" "cw_rate (hide_secrets w) = cw_rate w" "cw_hints (hide_secrets w) = cw_hints w"
  "cw_cache (hide_secrets w) = cw_cache w" "cw_history (hide_secrets w) = cw_history w" "cw_hits (hide_secrets w) = cw_hits w"
  "cw_misses (hide_secrets w) = cw_misses w" "cw_asked (hide_secrets w) = cw_asked w"
  "zw_problems (cw_catalogue (hide_secrets w)) = map hide_problem (zw_problems (cw_catalogue w))"
  "tags_of (cw_catalogue (hide_secrets w)) p = tags_of (cw_catalogue w) p"
  "tags_of W (hide_problem p) = tags_of W p"
  by (simp_all add: hide_secrets_def tags_of_def)

lemma find_map: "List.find P (map f xs) = map_option f (List.find (\<lambda>x. P (f x)) xs)"
  by (induction xs) auto

section \<open>Reading the context\<close>

definition hide_problem_context :: "problem_context \<Rightarrow> problem_context" where
  "hide_problem_context p = p\<lparr>pc_editorialText := None, pc_hiddenTestInputs := []\<rparr>"

definition hide_context :: "coach_context \<Rightarrow> coach_context" where
  "hide_context ctx = ctx\<lparr>cx_problem := hide_problem_context (cx_problem ctx)\<rparr>"

definition hide_prepared :: "prepared \<Rightarrow> prepared" where
  "hide_prepared p = p\<lparr>pr_ctx := hide_context (pr_ctx p)\<rparr>"

lemma hide_context_secrets: "hide_context ctx = with_secrets None [] ctx"
  by (simp add: hide_context_def hide_problem_context_def with_secrets_def)

lemma hide_context_simps [simp]:
  "cx_weakTopics (hide_context c) = cx_weakTopics c" "cx_submission (hide_context c) = cx_submission c"
  by (simp_all add: hide_context_def)

lemma hide_reads [simp]:
  "getProblem i (hide_secrets w) = map_option hide_problem_context (getProblem i w)"
  "getLatestSubmission u i (hide_secrets w) = getLatestSubmission u i w"
  "topics_of (hide_secrets w) i = topics_of w i"
  by (simp_all add: getProblem_def getLatestSubmission_def subs_of_def topics_of_def find_map hide_problem_context_def
      del: filter_empty_conv split: option.splits list.splits)

lemma hide_topics [simp]:
  "getWeakTopics e u (hide_secrets w) = getWeakTopics e u w" "getSolvedTopics u (hide_secrets w) = getSolvedTopics u w"
  "suggestProblems ts n (hide_secrets w) = suggestProblems ts n w"
  by (simp_all add: getWeakTopics_def topic_scores_def getSolvedTopics_def suggestProblems_def filter_map take_map[symmetric] o_def)

lemma hide_code [simp]: "code_context req (hide_secrets w) = code_context req w"
  by (simp only: code_context_def hide_reads)

section \<open>Operations that commute with hiding\<close>

definition blind :: "('a \<Rightarrow> 'b) \<Rightarrow> 'a coach_op \<Rightarrow> 'b coach_op \<Rightarrow> bool" where
  "blind f m m' \<longleftrightarrow> (\<forall>w. m' (hide_secrets w) = (map_sum id f (fst (m w)), hide_secrets (snd (m w))))"

lemma blind_ret: "blind f (ret a) (ret (f a))"
  by (simp add: blind_def ret_def)

lemma blind_guard: "blind id (guard_op b x) (guard_op b x)"
  by (simp add: blind_def guard_op_def ret_def throw_def)

lemma blind_reads: "(\<And>w. h' (hide_secrets w) = f (h w)) \<Longrightarrow> blind f (reads h) (reads h')"
  by (simp add: blind_def reads_def)

lemma blind_writes: "(\<And>w. h (hide_secrets w) = hide_secrets (h w)) \<Longrightarrow> blind id (writes h) (writes h)"
  by (simp add: blind_def writes_def)

lemma blind_of_sum: "blind f (of_sum x) (of_sum (map_sum id f x))"
  by (simp add: blind_def of_sum_def ret_def throw_def split: sum.splits)

lemma blind_of_option: "blind f (of_option x y) (of_option x (map_option f y))"
  by (simp add: blind_def of_option_def ret_def throw_def split: option.splits)

lemma blind_bind: "blind f m m' \<Longrightarrow> (\<And>a. blind g (k a) (k' (f a))) \<Longrightarrow> blind g (bind_op m k) (bind_op m' k')"
  by (simp add: blind_def bind_op_def split: prod.splits sum.splits) fastforce

lemma blind_then: "blind id m m \<Longrightarrow> blind g k k' \<Longrightarrow> blind g (then_op m k) (then_op m k')"
  unfolding then_op_def by (rule blind_bind) simp_all

lemma hide_rate: "blind id (coach_rate e u) (coach_rate e u)"
  unfolding coach_rate_def
  by (intro blind_then blind_bind[where f = id] blind_guard blind_reads blind_writes) (auto simp: hide_secrets_def intro!: blind_guard blind_then blind_writes)

lemma hide_hint: "blind id (nextHintLevel e u i) (nextHintLevel e u i)"
  unfolding nextHintLevel_def
  by (intro blind_bind[where f = id] blind_reads) (auto simp: hide_secrets_def intro!: blind_ret[of id, simplified] blind_then blind_writes)

lemma hide_question: "blind id (check_question req) (check_question req)"
  unfolding check_question_def by (auto intro!: blind_guard blind_then blind_ret[of id, simplified])

lemma hide_build: "blind hide_context (build_context e req) (build_context e req)"
  unfolding build_context_def
proof (rule blind_bind[where f = "map_option hide_problem_context"])
  show "blind (map_option hide_problem_context) (reads (getProblem (cr_problemId req))) (reads (getProblem (cr_problemId req)))"
    by (rule blind_reads) simp
next
  fix found
  let ?k = "\<lambda>p sub. reads (\<lambda>w. let profile = (cr_mode req = AmLearning \<or> cr_mode req = AmRecommendation) in
       \<lparr>cx_problem = p, cx_submission = sub, cx_weakTopics = (if profile then Some (getWeakTopics e (cr_userId req) w) else None),
        cx_solvedTopics = (if profile then Some (getSolvedTopics (cr_userId req) w) else None)\<rparr>)"
  let ?c = "if needs_code (cr_mode req) then bind_op (reads (code_context req)) of_sum else ret None"
  have c: "blind id ?c ?c"
    by (auto intro!: blind_bind[where f = id] blind_reads blind_of_sum[of id, simplified sum.map_id0 id_apply] blind_ret[of id, simplified])
  have k: "blind hide_context (?k p sub) (?k (hide_problem_context p) sub)" for p sub
    by (rule blind_reads) (simp add: Let_def hide_context_def)
  show "blind hide_context (bind_op (of_option (CoachProblemNotFound (cr_problemId req)) found) (\<lambda>p. bind_op ?c (?k p)))
      (bind_op (of_option (CoachProblemNotFound (cr_problemId req)) (map_option hide_problem_context found)) (\<lambda>p. bind_op ?c (?k p)))"
    by (rule blind_bind[OF blind_of_option]) (rule blind_bind[OF c], simp only: id_apply, rule k)
qed

section \<open>The whole pipeline\<close>

lemma hide_prepare: "blind hide_prepared (prepare_request e req) (prepare_request e req)"
  unfolding prepare_request_def
proof (rule blind_then[OF hide_rate], rule blind_then[OF hide_question], rule blind_bind[OF hide_build])
  fix ctx
  let ?h = "if cr_mode req = AmHint then bind_op (nextHintLevel e (cr_userId req) (cr_problemId req)) (\<lambda>n. ret (Some n)) else ret None"
  let ?s = "\<lambda>c. reads (\<lambda>w. if cr_mode req = AmRecommendation
       then Some (suggestProblems (case cx_weakTopics c of None \<Rightarrow> [] | Some ts \<Rightarrow> ts) 8 w) else None)"
  let ?b = "\<lambda>c level cands. build_prompt (ce_digest e) (cr_mode req) c \<lparr>ex_question = cr_question req, ex_hintLevel = level, ex_candidates = cands\<rparr>"
  let ?r = "\<lambda>c level (r, key). ret \<lparr>pr_ctx = c, pr_hintLevel = level, pr_request = r, pr_key = key\<rparr>"
  have h: "blind id ?h ?h"
    by (auto intro!: blind_bind[where f = id] hide_hint blind_ret[of id, simplified])
  have s: "blind id (?s ctx) (?s (hide_context ctx))"
    by (rule blind_reads) simp
  have r: "blind hide_prepared (?r ctx level rk) (?r (hide_context ctx) level rk)" for level rk
    by (cases rk) (use blind_ret[of hide_prepared "\<lparr>pr_ctx = ctx, pr_hintLevel = level, pr_request = fst rk, pr_key = snd rk\<rparr>"]
      in \<open>simp add: hide_prepared_def\<close>)
  have b: "?b (hide_context ctx) level cands = ?b ctx level cands" for level cands
    unfolding hide_context_secrets by (rule build_prompt_secrets)
  show "blind hide_prepared
      (bind_op ?h (\<lambda>level. bind_op (?s ctx) (\<lambda>cands. bind_op (of_sum (?b ctx level cands)) (?r ctx level))))
      (bind_op ?h (\<lambda>level. bind_op (?s (hide_context ctx)) (\<lambda>cands. bind_op (of_sum (?b (hide_context ctx) level cands)) (?r (hide_context ctx) level))))"
    unfolding b
  proof (rule blind_bind[OF h])
    fix level
    show "blind hide_prepared (bind_op (?s ctx) (\<lambda>cands. bind_op (of_sum (?b ctx level cands)) (?r ctx level)))
        (bind_op (?s (hide_context ctx)) (\<lambda>cands. bind_op (of_sum (?b ctx (id level) cands)) (?r (hide_context ctx) (id level))))"
    proof (rule blind_bind[OF s])
      fix cands
      have "blind id (of_sum (?b ctx level cands)) (of_sum (?b ctx level cands))"
        using blind_of_sum[of id] by (simp only: sum.map_id0 id_apply)
      then show "blind hide_prepared (bind_op (of_sum (?b ctx level cands)) (?r ctx level))
          (bind_op (of_sum (?b ctx (id level) (id cands))) (?r (hide_context ctx) (id level)))"
        unfolding id_apply using r by (rule blind_bind[where f = id, unfolded id_apply])
    qed
  qed
qed

end
