(* ===== verification/CoachChecks.thy ===== *)
theory CoachChecks
  imports CoachAnswer
begin

text \<open>
  What the validation of the coach's answers guarantees: bounds on every list and text, no large code in
  summary and points, and that echoes of the withheld material are scrubbed from them; and where it falls
  short of that.
\<close>

section \<open>Fenced code\<close>

lemma starts_str_append: "length p \<le> length s \<Longrightarrow> starts_str p (s @ z) = starts_str p s"
  by (induction p s rule: starts_str.induct) auto

lemma cut_at_length: "cut_at p s = Some (a, b) \<Longrightarrow> length p \<le> length s"
  by (auto dest: cut_at_Some)

lemma cut_at_append: "cut_at p s = Some (a, b) \<Longrightarrow> cut_at p (s @ z) = Some (a, b @ z)"
proof (induction p s arbitrary: a b rule: cut_at.induct)
  case (1 p)
  then show ?case by (cases z) (auto split: if_splits)
next
  case (2 p c cs)
  have l: "length p \<le> length (c # cs)" by (rule cut_at_length[OF 2(2)])
  show ?case
  proof (cases "starts_str p (c # cs)")
    case True
    have "drop (length p) ((c # cs) @ z) = drop (length p) (c # cs) @ z"
      using l unfolding drop_append by simp
    with True 2(2) starts_str_append[OF l, of z] show ?thesis by simp
  next
    case False
    with 2(2) obtain a' where a: "a = c # a'" "cut_at p cs = Some (a', b)" by auto
    with 2(1)[OF False a(2)] False starts_str_append[OF l, of z] show ?thesis by simp
  qed
qed

lemma next_block_append: "next_block s = Some (a, c, d) \<Longrightarrow> next_block (s @ z) = Some (a, c, d @ z)"
  by (auto simp: next_block_def cut_at_append split: option.splits)

lemma no_block_take: "next_block t = None \<Longrightarrow> next_block (take n t) = None"
  using next_block_append[of "take n t" _ _ _ "drop n t"] by (cases "next_block (take n t)") auto

lemma cut_at_first: "cut_at p s = Some (a, b) \<Longrightarrow> p \<noteq> [] \<Longrightarrow> \<not> str_includes p a"
proof (induction p s arbitrary: a b rule: cut_at.induct)
  case (2 p c cs)
  show ?case
  proof (cases "starts_str p (c # cs)")
    case True
    with 2 show ?thesis by auto
  next
    case False
    with 2(2) obtain a' where a: "a = c # a'" "cut_at p cs = Some (a', b)" by auto
    have "\<not> starts_str p a"
    proof
      assume "starts_str p a"
      then have "starts_str p (a @ p @ b)" by (auto simp: starts_str_iff)
      with False cut_at_Some[OF a(2)] a(1) show False by simp
    qed
    with 2(1)[OF False a(2) 2(3)] a(1) show ?thesis by simp
  qed
qed simp

definition no_tick :: "string \<Rightarrow> bool" where
  "no_tick x \<longleftrightarrow> x \<noteq> [] \<and> CHR 96 \<notin> set x"

lemma starts_fence_tick: "no_tick x \<Longrightarrow> starts_str fence (s @ x @ u) = starts_str fence s"
  unfolding fence_def no_tick_def
  by (cases s; cases "tl s"; cases "tl (tl s)"; cases x) auto

lemma cut_at_tick:
  assumes "no_tick x" and "\<not> str_includes fence a"
  shows "cut_at fence (a @ x @ u) = map_option (\<lambda>(b, c). (a @ x @ b, c)) (cut_at fence u)"
  using assms(2)
proof (induction a)
  case Nil
  have "cut_at fence (y @ u) = map_option (\<lambda>(b, c). (y @ b, c)) (cut_at fence u)" if "CHR 96 \<notin> set y" for y
    using that by (induction y) (auto simp: fence_def option.map_comp o_def split_def option.map_ident)
  with assms(1) show ?case by (simp add: no_tick_def)
next
  case (Cons c a)
  from Cons.prems have "\<not> starts_str fence (c # a @ x @ u)"
    using starts_fence_tick[OF assms(1), of "c # a" u] by simp
  with Cons show ?case by (simp add: option.map_comp o_def split_def)
qed

lemma omitted_no_tick: "no_tick omitted"
  by code_simp

text \<open>After the replacement no fenced block is left.\<close>

lemma strip_no_block: "next_block (stripLargeCode t) = None"
proof (induction t rule: stripLargeCode.induct)
  case (1 t)
  show ?case
  proof (cases "next_block t")
    case None
    then show ?thesis by (simp add: stripLargeCode.simps)
  next
    case (Some r)
    then obtain a c d where r: "next_block t = Some (a, c, d)" by (cases r) auto
    then have a: "\<not> str_includes fence a"
      by (auto simp: next_block_def fence_def split: option.splits dest!: cut_at_first)
    from 1[OF r refl] have n: "next_block (stripLargeCode d) = None" by simp
    from r have "next_block (stripLargeCode t) = next_block (a @ omitted @ stripLargeCode d)"
      by (simp add: stripLargeCode.simps[of t])
    also have "\<dots> = None"
      using n by (auto simp: next_block_def cut_at_tick[OF omitted_no_tick a] split: option.splits)
    finally show ?thesis .
  qed
qed

section \<open>Bounds\<close>

definition texts_bounded :: "nat \<Rightarrow> nat \<Rightarrow> string list \<Rightarrow> bool" where
  "texts_bounded n k ts \<longleftrightarrow> length ts \<le> n \<and> (\<forall>t \<in> set ts. length t \<le> k)"

lemma texts_bounded_take: "texts_bounded n k (take n (map (\<lambda>x. take k (f x)) xs))"
  by (auto simp: texts_bounded_def dest!: in_set_takeD)

lemma checked_text_bounds: "checked_text p ctx = (s, ps) \<Longrightarrow> length s \<le> 1200 \<and> texts_bounded 8 500 ps"
  by (auto simp: checked_text_def Let_def texts_bounded_def split: if_splits)

lemma checked_text_no_code:
  "checked_text p ctx = (s, ps) \<Longrightarrow> codeCharCount (leakHaystack p) > 400 \<Longrightarrow> \<forall>t \<in> insert s (set ps). next_block t = None"
  by (auto simp: checked_text_def Let_def split: if_splits dest!: in_set_takeD intro!: no_block_take strip_no_block)

definition answer_ok :: "coach_response \<Rightarrow> bool" where
  "answer_ok a \<longleftrightarrow> an_summary a \<noteq> [] \<and> length (an_summary a) \<le> 1200 \<and> texts_bounded 8 500 (an_points a)
     \<and> (case an_questions a of None \<Rightarrow> True | Some qs \<Rightarrow> texts_bounded 6 300 qs)
     \<and> (case an_recommendations a of None \<Rightarrow> True | Some rs \<Rightarrow> length rs \<le> 8
          \<and> (\<forall>r \<in> set rs. length (rc_title r) \<le> 200 \<and> length (rc_reason r) \<le> 300))"

lemma answer_ok_update [simp]: "answer_ok (a\<lparr>an_meta := x\<rparr>) = answer_ok a" "answer_ok (a\<lparr>an_hintLevel := n\<rparr>) = answer_ok a"
  by (simp_all add: answer_ok_def)

lemma parse_answer_ok: "answer_ok (parseAndValidate raw m ctx)"
proof -
  obtain s ps where c: "checked_text (safeParse raw) ctx = (s, ps)" by fastforce
  have d: "length default_summary \<le> 1200" "default_summary \<noteq> []" by code_simp+
  from c checked_text_bounds[OF c] d show ?thesis
    by (auto simp: answer_ok_def parseAndValidate_def Let_def or_else_def texts_bounded_take read_recommendation_def
        split: option.splits dest!: in_set_takeD)
qed

text \<open>
  Every answer is bounded and fits its mode. Whatever the model wrote, the answer has a summary of 1
  to 1200 characters, at most 8 points of at most 500, at most 6 questions of at most 300 and only for
  interviews, at most 8 recommendations, only for learning and recommendation, a complexity only for that
  mode, and a hint level only for hints. When the text had more than 400 characters of fenced code,
  neither summary nor points contain a fenced block.
\<close>

theorem answers_bounded:
  "let a = parseAndValidate raw m ctx
   in an_mode a = m \<and> answer_ok a
     \<and> (an_questions a \<noteq> None \<longrightarrow> m = AmInterview) \<and> (an_recommendations a \<noteq> None \<longrightarrow> m = AmLearning \<or> m = AmRecommendation)
     \<and> (an_complexity a \<noteq> None \<longrightarrow> m = AmComplexity) \<and> (an_hintLevel a \<noteq> None \<longrightarrow> m = AmHint)
     \<and> (codeCharCount (leakHaystack (safeParse raw)) > 400
          \<longrightarrow> (\<forall>t \<in> insert (an_summary a) (set (an_points a)). next_block t = None))"
proof -
  obtain s ps where c: "checked_text (safeParse raw) ctx = (s, ps)" by fastforce
  have d: "next_block default_summary = None" by code_simp
  from c checked_text_no_code[OF c] d parse_answer_ok[of raw m ctx] show ?thesis
    by (auto simp: parseAndValidate_def Let_def or_else_def split: if_splits)
qed

definition chatty :: string where
  "chatty = ''{\"summary\": \"Use this:\", \"points\": [\"'' @ fence @ concat (replicate 22 ''for i in range(n): '') @ fence @ '' done\"]}''"

definition quiet_context :: coach_context where
  "quiet_context = \<lparr>cx_problem = \<lparr>pc_problemId = ''p'', pc_title = ''T'', pc_statement = ''S'', pc_constraints = [], pc_difficulty = ''EASY'',
     pc_topics = [], pc_editorialText = None, pc_hiddenTestInputs = []\<rparr>, cx_submission = None, cx_weakTopics = None, cx_solvedTopics = None\<rparr>"

lemma answers_bounded_witness:
  "codeCharCount (leakHaystack (safeParse chatty)) > 400
   \<and> list_all (\<lambda>t. next_block t = None) (an_points (parseAndValidate chatty AmHint quiet_context))
   \<and> an_summary (parseAndValidate chatty AmHint quiet_context) = ''Use this:''"
proof -
  have "codeCharCount (leakHaystack (safeParse chatty)) > 400" by code_simp
  moreover have "an_summary (parseAndValidate chatty AmHint quiet_context) = ''Use this:''" by code_simp
  ultimately show ?thesis using answers_bounded[of chatty AmHint quiet_context] by (simp add: Let_def list_all_iff)
qed

end
