(* ===== verification/CoachLeaks.thy ===== *)
theory CoachLeaks
  imports CoachChecks
begin

text \<open>
  The leak detection of the coach: which echoes of editorial and hidden tests are scrubbed from summary
  and points, and which parts of an answer it does not look at or does not scrub.
\<close>

section \<open>Normalised text\<close>

fun ends_ws :: "bool \<Rightarrow> string \<Rightarrow> bool" where
  "ends_ws w [] = w"
| "ends_ws w (c # cs) = ends_ws (is_ws c) cs"

lemma squeeze_append: "squeeze_from w (a @ b) = squeeze_from w a @ squeeze_from (ends_ws w a) b"
  by (induction w a rule: squeeze_from.induct) auto

lemma squeeze_state: "squeeze_from False p = squeeze_from True p \<or> squeeze_from False p = CHR '' '' # squeeze_from True p"
  by (cases p) auto

lemma includes_tail: "str_includes x (CHR '' '' # s) \<Longrightarrow> x \<noteq> [] \<Longrightarrow> hd x \<noteq> CHR '' '' \<Longrightarrow> str_includes x s"
  by (cases x) auto

lemma includes_squeeze:
  assumes "str_includes x (squeeze p)" and "x \<noteq> []" and "hd x \<noteq> CHR '' ''"
  shows "str_includes x (squeeze (a @ p @ b))"
proof -
  have t: "str_includes x (squeeze_from True p)"
  proof (cases "squeeze_from False p = squeeze_from True p")
    case False
    then have "squeeze p = CHR '' '' # squeeze_from True p" using squeeze_state[of p] by (simp add: squeeze_def)
    with assms(1) have "str_includes x (CHR '' '' # squeeze_from True p)" by simp
    from includes_tail[OF this assms(2,3)] show ?thesis .
  qed (use assms in \<open>simp add: squeeze_def\<close>)
  have "str_includes x (squeeze_from w p)" for w
    using t assms(1) by (cases w) (simp_all add: squeeze_def)
  from str_includes_append[OF this[of "ends_ws False a"]] show ?thesis
    by (simp only: squeeze_def squeeze_append)
qed

lemma join_middle: "p \<in> set ps \<Longrightarrow> \<exists>a b. str_join sep ps = a @ p @ b"
proof (induction sep ps rule: str_join.induct)
  case (3 sep s s' ss)
  show ?case
  proof (cases "p = s")
    case True
    then have "str_join sep (s # s' # ss) = [] @ p @ sep @ str_join sep (s' # ss)" by simp
    then show ?thesis by blast
  next
    case False
    with 3 obtain a b where "str_join sep (s' # ss) = a @ p @ b" by auto
    then have "str_join sep (s # s' # ss) = (s @ sep @ a) @ p @ b" by simp
    then show ?thesis by blast
  qed
qed (auto intro: exI[of _ "[]"])

lemma lower_append [simp]: "js_lower (a @ b) = js_lower a @ js_lower b"
  by (simp add: js_lower_def)

lemma includes_norm_join:
  "str_includes x (norm_text p) \<Longrightarrow> x \<noteq> [] \<Longrightarrow> hd x \<noteq> CHR '' '' \<Longrightarrow> p \<in> set ps \<Longrightarrow> str_includes x (norm_text (str_join sep ps))"
  using join_middle[of p ps sep] by (auto simp: norm_text_def includes_squeeze)

section \<open>Windows\<close>

lemma join_append: "xs \<noteq> [] \<Longrightarrow> ys \<noteq> [] \<Longrightarrow> str_join sep (xs @ ys) = str_join sep xs @ sep @ str_join sep ys"
proof (induction xs)
  case (Cons x xs)
  then show ?case by (cases xs; cases ys) auto
qed simp

lemma join_part: "ys \<noteq> [] \<Longrightarrow> str_includes (str_join sep ys) (str_join sep (xs @ ys @ zs))"
proof -
  assume ys: "ys \<noteq> []"
  have r: "\<exists>b. str_join sep (ys @ zs) = str_join sep ys @ b"
    by (cases "zs = []") (auto simp: join_append ys)
  have "\<exists>a. str_join sep (xs @ ys @ zs) = a @ str_join sep (ys @ zs)"
    by (cases "xs = []") (auto simp: join_append ys)
  with r obtain a b where "str_join sep (xs @ ys @ zs) = a @ str_join sep ys @ b" by auto
  then show ?thesis unfolding str_includes_iff by blast
qed

lemma window_part: "j \<le> i \<Longrightarrow> i + n \<le> j + k \<Longrightarrow> j + k \<le> length ws \<Longrightarrow> 0 < n \<Longrightarrow> str_includes (word_window i n ws) (word_window j k ws)"
proof -
  assume a: "j \<le> i" "i + n \<le> j + k" "j + k \<le> length ws" "0 < n"
  have "take n (drop (i - j) (take k (drop j ws))) = take n (drop i ws)"
    using a by (simp add: drop_take min_def)
  then have "take k (drop j ws) = take (i - j) (take k (drop j ws)) @ take n (drop i ws) @ drop n (drop (i - j) (take k (drop j ws)))"
    by (metis append_take_drop_id)
  moreover have "take n (drop i ws) \<noteq> []" using a by simp
  ultimately show ?thesis unfolding word_window_def by (metis join_part)
qed

text \<open>Seventeen words in a row always cover a window that is looked up.\<close>

lemma sixth_window:
  assumes "pc_editorialText (cx_problem ctx) = Some ed" and "length ed \<ge> 40"
    and "ws = split_at_char (CHR '' '') (norm_text ed)" and "j + 17 \<le> length ws"
    and "str_includes (word_window j 17 ws) (norm_text t)"
  shows "leaksEditorial t ctx"
proof -
  let ?k = "(j + 5) div 6"
  have k: "j \<le> 6 * ?k" "6 * ?k + 12 \<le> j + 17" by presburger+
  have "str_includes (word_window (6 * ?k) 12 ws) (norm_text t)"
    using window_part[OF k assms(4)] assms(5) by (auto intro: str_includes_trans)
  moreover have "?k < length ws" "6 * ?k + 12 \<le> length ws" using k assms(4) by auto
  ultimately show ?thesis using assms(1-3) by (auto simp: leaksEditorial_def Let_def list_ex_iff)
qed

lemma split_no_sep: "w \<in> set (split_at_char d s) \<Longrightarrow> d \<notin> set w"
  by (induction d s arbitrary: w rule: split_at_char.induct) (auto split: if_splits list.splits)

lemma window_hd: "j < length ws \<Longrightarrow> ws ! j \<noteq> [] \<Longrightarrow> 0 < n \<Longrightarrow> word_window j n ws \<noteq> [] \<and> hd (word_window j n ws) = hd (ws ! j)"
  unfolding word_window_def
  by (cases "take n (drop j ws)"; cases "tl (take n (drop j ws))") (auto simp: Cons_nth_drop_Suc[symmetric] take_Cons split: nat.splits)

section \<open>Scrubbing\<close>

lemma scrubbed: "leaks (safeParse raw) ctx \<Longrightarrow> an_summary (parseAndValidate raw m ctx) = safe_summary \<and> an_points (parseAndValidate raw m ctx) = [safe_point]"
proof -
  assume l: "leaks (safeParse raw) ctx"
  have c: "stripLargeCode safe_summary = safe_summary" "stripLargeCode safe_point = safe_point"
    by (simp_all add: stripLargeCode.simps) (code_simp+)
  have s: "take 1200 safe_summary = safe_summary" "take 500 safe_point = safe_point" "safe_summary \<noteq> []" by code_simp+
  show ?thesis using l c s by (simp add: parseAndValidate_def checked_text_def Let_def or_else_def)
qed


definition leaky :: string where
  "leaky = ''{\"summary\": \"try 4 1 2 3 4\", \"points\": [\"sort it\"], \"complexity\": {\"explanation\": \"4 1 2 3 4\"}, \"questions\": [\"4 1 2 3 4\"]}''"

definition hidden_context :: coach_context where
  "hidden_context = with_secrets None [''4 1 2 3 4''] quiet_context"

lemma leaky_parsed: "raw_summary (safeParse leaky) = ''try 4 1 2 3 4''"
  by code_simp


text \<open>
  The detection looks at summary, points and complexity, and scrubs summary and points. What it found in
  the complexity is answered all the same, and questions are not looked at.
\<close>

lemma leaked_complexity_answered:
  "leaks (safeParse leaky) hidden_context
   \<and> an_complexity (parseAndValidate leaky AmComplexity hidden_context) = Some (''unknown'', ''unknown'', ''4 1 2 3 4'')
   \<and> an_questions (parseAndValidate leaky AmInterview hidden_context) = Some [''4 1 2 3 4'']"
  by code_simp

text \<open>A fence that is not closed hides code from the count.\<close>

lemma open_fence_uncounted: "\<not> str_includes fence t \<Longrightarrow> codeCharCount (fence @ t) = 0"
  by (simp add: codeCharCount_def code_blocks.simps[of "fence @ t"] next_block_def cut_at_None[symmetric])
    (simp add: fence_def)

end
