(* ===== verification/CoachProps.thy ===== *)
theory CoachProps
  imports CoachBlind CoachLeaks
begin

text \<open>
  What a request to the coach guarantees: which of the database reaches the model, how the hints climb,
  that a stored answer is served without a further call, what a failed request leaves behind, and the
  bounds every answer and every history keeps in every run.
\<close>

section \<open>Secrets\<close>

text \<open>
  C31. What is sent to the model does not depend on editorials and hidden tests. A request leads to the
  same calls of the model, word for word, on a database whose editorials and hidden tests were removed;
  so nothing of them can be read off the prompts, whatever was asked.
\<close>

theorem prompts_keep_secrets:
  "cw_asked (snd (coach e req (hide_secrets w))) = cw_asked (snd (coach e req w))"
proof -
  obtain r v where p: "prepare_request e req w = (r, v)" by fastforce
  with hide_prepare[of e req] have q: "prepare_request e req (hide_secrets w) = (map_sum id hide_prepared r, hide_secrets v)"
    by (simp add: blind_def)
  show ?thesis
  proof (cases r)
    case (Inl x)
    with p q show ?thesis by (simp add: coach_def bind_op_def)
  next
    case (Inr a)
    have k: "pr_key (hide_prepared a) = pr_key a" "pr_request (hide_prepared a) = pr_request a"
      by (simp_all add: hide_prepared_def)
    have g: "getResponse e key (hide_secrets v) = getResponse e key v" for key
      by (simp add: getResponse_def)
    have c: "cw_asked (snd (answer_cached e req x u)) = cw_asked u" for x u
      by (simp add: answer_cached_def Let_def recordHit_def record_interaction_def history_append_def op_simps)
    have m: "cw_asked (snd (ask_model e req b u)) = cw_asked u @ [pr_request b]" for b u
      by (simp add: ask_model_def recordMiss_def record_interaction_def history_append_def setResponse_def of_sum_def op_simps
          split: sum.splits)
    from p q Inr k g c m show ?thesis
      by (cases "getResponse e (pr_key a) v") (simp_all add: coach_def bind_op_def reads_def)
  qed
qed

section \<open>Hints\<close>

text \<open>The levels that consecutive requests for a hint obtain.\<close>

fun hint_levels :: "coach_env list \<Rightarrow> ident \<Rightarrow> ident \<Rightarrow> coach_world \<Rightarrow> (coach_error + nat) list" where
  "hint_levels [] u i w = []"
| "hint_levels (e # es) u i w = fst (nextHintLevel e u i w) # hint_levels es u i (snd (nextHintLevel e u i w))"

fun within_hours :: "int \<Rightarrow> coach_env list \<Rightarrow> bool" where
  "within_hours t [] = True"
| "within_hours t (e # es) \<longleftrightarrow> t \<le> ce_now e \<and> ce_now e \<le> t + 3600000 \<and> ce_up e CcHintIncr \<and> ce_up e CcHintExpire
     \<and> within_hours (ce_now e) es"

lemma next_hint:
  assumes "ce_up e CcHintIncr" and "ce_up e CcHintExpire" and "kv_get (ce_now e) (cw_hints w) (u, i) = n"
    and "k = (case n of None \<Rightarrow> 1 | Some m \<Rightarrow> Suc m)"
  shows "fst (nextHintLevel e u i w) = Inr (min k 5)"
    and "cw_hints (snd (nextHintLevel e u i w)) (u, i) = Some (k, Some (ce_now e + 3600000))"
proof -
  let ?m = "cw_hints w" and ?t = "ce_now e"
  have i: "key_incr ?t (u, i) ?m = (k, kv_put ?m (u, i) k (if n = None then None else snd (the (?m (u, i)))))"
    and a: "n \<noteq> None \<Longrightarrow> alive ?t (snd (the (?m (u, i))))"
    using assms(3,4) by (auto simp: key_incr_def kv_get_def split: option.splits if_splits)
  have "key_expire ?t (u, i) (?t + 3600000) (snd (key_incr ?t (u, i) ?m)) (u, i) = Some (k, Some (?t + 3600000))"
    unfolding i using a by (auto simp: key_expire_def kv_get_def kv_put_def)
  with assms(1,2) i show "fst (nextHintLevel e u i w) = Inr (min k 5)"
    and "cw_hints (snd (nextHintLevel e u i w)) (u, i) = Some (k, Some (ce_now e + 3600000))"
    by (simp_all add: nextHintLevel_def op_simps max_hints_def)
qed

lemma hint_climb:
  "within_hours t es \<Longrightarrow> cw_hints w (u, i) = Some (n, Some (t + 3600000))
   \<Longrightarrow> hint_levels es u i w = map (\<lambda>k. Inr (min (n + k) 5)) [1..<Suc (length es)]"
proof (induction es arbitrary: t w n)
  case (Cons e es)
  then have g: "kv_get (ce_now e) (cw_hints w) (u, i) = Some n" by (simp add: kv_get_def)
  from Cons.prems have up: "ce_up e CcHintIncr" "ce_up e CcHintExpire" and r: "within_hours (ce_now e) es" by auto
  note h = next_hint[OF up g refl]
  from Cons.IH[OF r h(2)[simplified]] h(1)
  have "hint_levels (e # es) u i w = Inr (min (n + 1) 5) # map (\<lambda>k. Inr (min (Suc n + k) 5)) [1..<Suc (length es)]" by simp
  also have "\<dots> = map (\<lambda>k. Inr (min (n + k) 5)) (1 # map Suc [1..<Suc (length es)])" by simp
  also have "1 # map Suc [1..<Suc (length es)] = [1..<Suc (length (e # es))]"
    by (simp add: map_Suc_upt upt_conv_Cons del: upt_Suc)
  finally show ?case .
qed simp

text \<open>
  Hints climb one level at a time. While Redis answers and each request for a hint on a problem comes
  within an hour of the one before, the first gets level 1, each further one the next level, and level 5
  is the last; a user who had asked before starts again at 1 once the key expired.
\<close>

theorem hint_ladder:
  assumes "kv_get (ce_now e) (cw_hints w) (u, i) = None" and "ce_up e CcHintIncr" and "ce_up e CcHintExpire"
    and "within_hours (ce_now e) es"
  shows "hint_levels (e # es) u i w = map (\<lambda>k. Inr (min k 5)) [1..<Suc (length (e # es))]"
proof -
  note h = next_hint[OF assms(2,3,1) refl]
  from hint_climb[OF assms(4) h(2)[simplified]] h(1)
  have "hint_levels (e # es) u i w = Inr 1 # map (\<lambda>k. Inr (min (1 + k) 5)) [1..<Suc (length es)]" by simp
  also have "\<dots> = map (\<lambda>k. Inr (min k 5)) (1 # map Suc [1..<Suc (length es)])" by simp
  also have "1 # map Suc [1..<Suc (length es)] = [1..<Suc (length (e # es))]"
    by (simp add: map_Suc_upt upt_conv_Cons del: upt_Suc)
  finally show ?thesis .
qed

section \<open>A failed request\<close>

lemma wp_of_sum [wp_simps]: "wp (of_sum x) Q E s = (case x of Inl e \<Rightarrow> E e s | Inr a \<Rightarrow> Q a s)"
  by (simp add: of_sum_def wp_simps split: sum.splits)

text \<open>What a request leaves alone until it has an answer.\<close>

definition same_answers :: "coach_world \<Rightarrow> coach_world \<Rightarrow> bool" where
  "same_answers w v \<longleftrightarrow> cw_catalogue v = cw_catalogue w \<and> cw_subs v = cw_subs w \<and> cw_cache v = cw_cache w \<and> cw_history v = cw_history w"

definition before_answer :: "coach_world \<Rightarrow> coach_world \<Rightarrow> bool" where
  "before_answer w v \<longleftrightarrow> same_answers w v \<and> cw_asked v = cw_asked w"

lemmas before_defs = before_answer_def same_answers_def

lemma wp_rate_before:
  "before_answer w v \<Longrightarrow> wp (coach_rate e u) (\<lambda>_. before_answer w) (\<lambda>x v. before_answer w v \<and> (ce_up e CcRate \<longrightarrow> x \<noteq> CoachRedisDown) \<and> x \<noteq> CoachUnavailable) v"
  by (simp add: coach_rate_def wp_simps before_defs)

lemma wp_question_before:
  "before_answer w v \<Longrightarrow> wp (check_question req) (\<lambda>_. before_answer w) (\<lambda>x v. before_answer w v \<and> x \<in> {CoachBlocked, CoachInjection}) v"
  by (simp add: check_question_def wp_simps)

lemma code_context_error: "code_context req w = Inl x \<Longrightarrow> \<exists>l. x = CoachBadLanguage l"
  by (auto simp: code_context_def Let_def split: if_splits)

lemma wp_build_before:
  "before_answer w v \<Longrightarrow> wp (build_context e req) (\<lambda>_. before_answer w) (\<lambda>x v. before_answer w v \<and> x \<notin> {CoachRedisDown, CoachUnavailable}) v"
  by (auto simp: build_context_def wp_simps dest: code_context_error split: option.splits sum.splits)

lemma wp_hint_before: "before_answer w v \<Longrightarrow> wp (nextHintLevel e u i) (\<lambda>_. before_answer w) (\<lambda>_ _. False) v"
  by (simp add: nextHintLevel_def wp_simps before_defs)

lemma build_prompt_error: "build_prompt d m c x = Inl y \<Longrightarrow> y = CoachPromptTooLarge"
  by (auto simp: build_prompt_def Let_def split: if_splits)

lemma wp_prepare_before:
  assumes "before_answer w v"
  shows "wp (prepare_request e req) (\<lambda>_. before_answer w)
    (\<lambda>x v. before_answer w v \<and> (ce_up e CcRate \<longrightarrow> x \<noteq> CoachRedisDown) \<and> x \<noteq> CoachUnavailable) v"
    (is "wp _ ?Q ?E v")
proof -
  let ?b = "\<lambda>ctx level cands. build_prompt (ce_digest e) (cr_mode req) ctx \<lparr>ex_question = cr_question req, ex_hintLevel = level, ex_candidates = cands\<rparr>"
  let ?l = "\<lambda>ctx level. bind_op (reads (\<lambda>w. if cr_mode req = AmRecommendation
       then Some (suggestProblems (case cx_weakTopics ctx of None \<Rightarrow> [] | Some ts \<Rightarrow> ts) 8 w) else None)) (\<lambda>cands.
     bind_op (of_sum (?b ctx level cands)) (\<lambda>(r, key).
     ret \<lparr>pr_ctx = ctx, pr_hintLevel = level, pr_request = r, pr_key = key\<rparr>))"
  have l: "wp (?l ctx level) ?Q ?E u" if "before_answer w u" for ctx level u
    using that by (auto simp: wp_simps split: sum.splits prod.splits dest: build_prompt_error)
  let ?h = "if cr_mode req = AmHint then bind_op (nextHintLevel e (cr_userId req) (cr_problemId req)) (\<lambda>n. ret (Some n)) else ret None"
  have n: "wp ?h (\<lambda>_. before_answer w) (\<lambda>_ _. False) u" if "before_answer w u" for u
    using that wp_hint_before[OF that] by (simp add: wp_bind wp_ret ext[OF wp_ret])
  have h: "wp (bind_op ?h (?l ctx)) ?Q ?E u" if "before_answer w u" for ctx u
    unfolding wp_bind[of ?h] by (rule wp_mono[OF n[OF that]]) (rule l, simp_all)
  show ?thesis
    unfolding prepare_request_def wp_then
    by (rule wp_mono[OF wp_rate_before[OF assms]], rule wp_mono[OF wp_question_before], assumption,
        simp only: wp_bind[of "build_context e req"], rule wp_mono[OF wp_build_before], assumption, rule h) auto
qed

text \<open>
  A failed request leaves no answer behind. It stores nothing in the cache and adds nothing to the
  history; the model was asked at most once, and only when the failure is that the model was unavailable
  or its answer was blocked; and Redis being away fails a request only at the rate limiter.
\<close>

theorem failure_leaves_no_answer:
  assumes "coach e req w = (Inl x, v)"
  shows "same_answers w v \<and> (cw_asked v = cw_asked w \<or> x \<in> {CoachUnavailable, CoachBlocked} \<and> (\<exists>r. cw_asked v = cw_asked w @ [r]))
     \<and> (x = CoachRedisDown \<longrightarrow> \<not> ce_up e CcRate)"
proof -
  let ?E = "\<lambda>x v. same_answers w v \<and> (cw_asked v = cw_asked w \<or> x \<in> {CoachUnavailable, CoachBlocked} \<and> (\<exists>r. cw_asked v = cw_asked w @ [r]))
     \<and> (x = CoachRedisDown \<longrightarrow> \<not> ce_up e CcRate)"
  have g: "gemini_complete f r = Inl y \<Longrightarrow> y = CoachUnavailable" for f r y
    by (auto simp: gemini_complete_def split: fetch_outcome.splits option.splits)
  have m: "wp (ask_model e req p) (\<lambda>_ _. True) ?E u" if "before_answer w u" for p u
    using that unfolding ask_model_def by (auto simp: wp_simps recordMiss_def setResponse_def record_interaction_def history_append_def before_defs
        split: sum.splits dest: g)
  have c: "wp (answer_cached e req a) (\<lambda>_ _. True) ?E u" for a u
    by (simp add: answer_cached_def Let_def recordHit_def record_interaction_def history_append_def wp_simps)
  have s: "wp (bind_op (reads (getResponse e (pr_key p))) (\<lambda>cached. case cached of Some a \<Rightarrow> answer_cached e req a | None \<Rightarrow> ask_model e req p))
      (\<lambda>_ _. True) ?E u" if "before_answer w u" for p u
    using m[OF that] c by (auto simp: wp_simps split: option.splits)
  have "wp (coach e req) (\<lambda>_ _. True) ?E w"
    unfolding coach_def wp_bind[of "prepare_request e req"]
    by (rule wp_mono[OF wp_prepare_before], simp add: before_defs, rule s) (auto simp: before_answer_def)
  from wp_error[OF this assms] show ?thesis .
qed

section \<open>Stored answers\<close>

lemma prepare_keeps: "prepare_request e req w = (r, v) \<Longrightarrow> before_answer w v"
  using wp_prepare_before[of w w e req] by (auto simp: wp_def before_defs split: sum.splits)

definition from_cache :: "coach_env \<Rightarrow> coach_response \<Rightarrow> coach_response" where
  "from_cache e a = a\<lparr>an_meta := (an_meta a)\<lparr>me_cached := True, me_latencyMs := ce_latency e\<rparr>\<rparr>"

lemma fresh_stored:
  assumes "coach e req w = (Inr a, v)" and "\<not> me_cached (an_meta a)" and "prepare_request e req w = (Inr p, u)" and "ce_up e CcCacheSet"
  shows "cw_cache v (pr_key p) = Some (a, Some (ce_now e + 24 * 3600 * 1000))"
proof (cases "getResponse e (pr_key p) u")
  case None
  with assms(1,3) have "ask_model e req p u = (Inr a, v)" by (simp add: coach_def bind_op_def reads_def)
  with assms(4) show ?thesis
    by (auto simp: ask_model_def recordMiss_def setResponse_def record_interaction_def history_append_def of_sum_def op_simps kv_put_def
        split: sum.splits if_splits)
next
  case (Some c)
  with assms(1,3) have "a = from_cache e c"
    by (auto simp: coach_def answer_cached_def from_cache_def Let_def recordHit_def record_interaction_def history_append_def op_simps)
  with assms(2) show ?thesis by (simp add: from_cache_def)
qed

lemma stored_served:
  assumes "prepare_request e req w = (Inr p, u)" and "cw_cache w (pr_key p) = Some (a, Some x)" and "ce_now e \<le> x" and "ce_up e CcCacheGet"
  shows "\<exists>v. coach e req w = (Inr (from_cache e a), v) \<and> cw_asked v = cw_asked w"
proof -
  note k = prepare_keeps[OF assms(1)]
  with assms(2-4) have "getResponse e (pr_key p) u = Some a" by (simp add: getResponse_def before_defs kv_get_def)
  with assms(1) k show ?thesis
    by (auto simp: coach_def answer_cached_def from_cache_def Let_def recordHit_def record_interaction_def history_append_def op_simps before_defs)
qed

text \<open>
  Asking again is free. When the coach answered from the model, a request that meets the same cache
  key within a day, the entry untouched, gets that very answer back, marked as cached, and the model is
  not asked.
\<close>

theorem second_ask_is_free:
  assumes "prepare_request e req w = (Inr p, u)" and "coach e req w = (Inr a, v)" and "\<not> me_cached (an_meta a)" and "ce_up e CcCacheSet"
    and "cw_cache v' (pr_key p) = cw_cache v (pr_key p)"
    and "prepare_request e' req' v' = (Inr p', u')" and "pr_key p' = pr_key p" and "ce_up e' CcCacheGet"
    and "ce_now e' \<le> ce_now e + 24 * 3600 * 1000"
  shows "\<exists>z. coach e' req' v' = (Inr (from_cache e' a), z) \<and> cw_asked z = cw_asked v'"
  using stored_served[OF assms(6) _ assms(9,8)] fresh_stored[OF assms(2,3,1,4)] assms(5,7) by simp

section \<open>Every run\<close>

text \<open>The worlds the coach runs in: requests in any order, and any change of catalogue and submissions between them.\<close>

inductive coach_reachable :: "coach_world \<Rightarrow> bool" where
  start: "cw_cache w = Map.empty \<Longrightarrow> cw_history w = Map.empty \<Longrightarrow> coach_reachable w"
| request: "coach_reachable w \<Longrightarrow> coach_reachable (snd (coach_route e h m b w))"
| tables: "coach_reachable w \<Longrightarrow> coach_reachable (w\<lparr>cw_catalogue := c, cw_subs := ss\<rparr>)"

definition coach_inv :: "coach_world \<Rightarrow> bool" where
  "coach_inv w \<longleftrightarrow> (\<forall>k a x. cw_cache w k = Some (a, x) \<longrightarrow> answer_ok a)
     \<and> (\<forall>u rs x. cw_history w u = Some (rs, x) \<longrightarrow> length rs \<le> 100 \<and> (\<forall>r \<in> set rs. length (ir_summary r) \<le> 200))"

lemma inv_same: "coach_inv w \<Longrightarrow> same_answers w v \<Longrightarrow> coach_inv v"
  by (simp add: coach_inv_def same_answers_def)

lemma inv_list: "coach_inv w \<Longrightarrow> length (kv_list t (cw_history w) u) \<le> 100 \<and> (\<forall>r \<in> set (kv_list t (cw_history w) u). length (ir_summary r) \<le> 200)"
proof (cases "kv_get t (cw_history w) u")
  case (Some rs)
  then obtain x where "cw_history w u = Some (rs, x)" by (auto simp: kv_get_Some)
  moreover assume "coach_inv w"
  ultimately have "length rs \<le> 100 \<and> (\<forall>r \<in> set rs. length (ir_summary r) \<le> 200)" unfolding coach_inv_def by blast
  with Some show ?thesis by (simp add: kv_list_def)
qed (simp add: kv_list_def)

lemma keeps_record: "keeps coach_inv (record_interaction e req a)"
  unfolding record_interaction_def history_append_def
proof (rule keeps_writes)
  fix w assume i: "coach_inv w"
  from inv_list[OF i, of "ce_now e" "cr_userId req"] i show "coach_inv (if ce_up e CcHistory then w\<lparr>cw_history := kv_put (cw_history w) (cr_userId req)
     (take history_max (\<lparr>ir_id = ce_uuid e, ir_mode = cr_mode req, ir_problemId = cr_problemId req, ir_at = ce_now e, ir_cached = me_cached (an_meta a),
      ir_latencyMs = me_latencyMs (an_meta a), ir_tokensIn = me_tokensIn (an_meta a), ir_tokensOut = me_tokensOut (an_meta a),
      ir_summary = take 200 (an_summary a)\<rparr> # kv_list (ce_now e) (cw_history w) (cr_userId req))) (Some (ce_now e + 30 * 24 * 3600 * 1000))\<rparr> else w)"
    by (auto simp: coach_inv_def kv_put_def history_max_def dest!: in_set_takeD split: if_splits)
qed

lemma keeps_store: "answer_ok a \<Longrightarrow> keeps coach_inv (setResponse e k a)"
  unfolding setResponse_def by (rule keeps_writes) (auto simp: coach_inv_def kv_put_def)

lemma inv_metrics: "coach_inv w \<Longrightarrow> wp (recordHit e) (\<lambda>_. coach_inv) (\<lambda>_. coach_inv) w" "coach_inv w \<Longrightarrow> wp (recordMiss e) (\<lambda>_. coach_inv) (\<lambda>_. coach_inv) w"
  by (simp_all add: recordHit_def recordMiss_def wp_simps coach_inv_def)

lemma answer_of_ok: "answer_ok (answer_of e req p x)"
  using parse_answer_ok by (simp add: answer_of_def Let_def split: option.splits)

lemma recorded:
  assumes "coach_inv w" and "answer_ok a"
  shows "wp (then_op (record_interaction e req a) (ret a)) (\<lambda>b v. answer_ok b \<and> coach_inv v) (\<lambda>_. coach_inv) w"
  using keeps_record[of e req a] assms by (auto simp: wp_then keeps_def ext[OF wp_ret] intro: wp_mono)

lemma coach_good: "coach_inv w \<Longrightarrow> wp (coach e req) (\<lambda>a v. answer_ok a \<and> coach_inv v) (\<lambda>_. coach_inv) w"
proof -
  assume i: "coach_inv w"
  let ?Q = "\<lambda>a v. answer_ok a \<and> coach_inv v"
  have c: "wp (answer_cached e req a) ?Q (\<lambda>_. coach_inv) v" if "coach_inv v" "answer_ok a" for a v
  proof -
    show ?thesis unfolding answer_cached_def Let_def wp_then[of "recordHit e"]
      by (rule wp_mono[OF inv_metrics(1)[OF that(1)]]) (rule recorded, simp_all add: that)
  qed
  have m: "wp (ask_model e req p) ?Q (\<lambda>_. coach_inv) v" if v: "coach_inv v" for p v
  proof -
    have r: "wp (then_op (setResponse e k b) (then_op (record_interaction e req b) (ret b))) ?Q (\<lambda>_. coach_inv) z" if "coach_inv z" "answer_ok b" for b k z
    proof -
      have "wp (setResponse e k b) (\<lambda>_. coach_inv) (\<lambda>_. coach_inv) z" using keeps_store[OF that(2)] that(1) by (simp add: keeps_def)
      then show ?thesis unfolding wp_then[of "setResponse e k b"]
        by (rule wp_mono) (rule recorded, use that(2) in simp_all)
    qed
    have "coach_inv (z\<lparr>cw_asked := l\<rparr>)" if "coach_inv z" for z l using that by (simp add: coach_inv_def)
    note s = this
    show ?thesis unfolding ask_model_def wp_then[of "recordMiss e"]
      by (rule wp_mono[OF inv_metrics(2)[OF v]], simp only: wp_then[of "writes f" for f] wp_writes wp_bind wp_of_sum)
        (auto split: sum.splits simp: s wp_then[of "guard_op b x" for b x] wp_guard intro!: r answer_of_ok)
  qed
  have p: "wp (prepare_request e req) (\<lambda>_. coach_inv) (\<lambda>_. coach_inv) w"
    using wp_prepare_before[of w w e req] inv_same[OF i] by (auto simp: before_defs intro: wp_mono)
  show ?thesis unfolding coach_def wp_bind[of "prepare_request e req"]
  proof (rule wp_mono[OF p])
    fix q :: prepared and v assume v: "coach_inv v"
    have "answer_ok a" if "getResponse e (pr_key q) v = Some a" for a
      using that v by (auto simp: getResponse_def kv_get_Some coach_inv_def split: if_splits)
    with c[OF v] m[OF v] show "wp (bind_op (reads (getResponse e (pr_key q)))
        (\<lambda>cached. case cached of None \<Rightarrow> ask_model e req q | Some x \<Rightarrow> answer_cached e req x)) ?Q (\<lambda>_. coach_inv) v"
      by (simp add: wp_bind wp_reads split: option.splits)
  qed
qed

lemma route_good: "coach_inv w \<Longrightarrow> wp (coach_route e h m b) (\<lambda>a v. answer_ok a \<and> coach_inv v) (\<lambda>_. coach_inv) w"
  using coach_good unfolding coach_route_def coach_user_def wp_bind wp_of_option by (simp split: option.splits)

lemma coach_reachable_inv: "coach_reachable w \<Longrightarrow> coach_inv w"
proof (induction rule: coach_reachable.induct)
  case (request w e h m b)
  have "wp (coach_route e h m b) (\<lambda>_. coach_inv) (\<lambda>_. coach_inv) w" by (rule wp_mono[OF route_good[OF request(2)]]) auto
  then show ?case by (simp add: wp_snd)
qed (simp_all add: coach_inv_def)


end
