(* ===== verification/CoachDemo.thy ===== *)
theory CoachDemo
  imports CoachProps
begin

text \<open>A concrete catalogue, a concrete model behind the coach, and the properties of the coach at work on them.\<close>

definition demo_auth :: problem_env where
  "demo_auth = \<lparr>ze_now = 0, ze_cacheUp = True, ze_auditUp = True, ze_id = (\<lambda>n. ''x''),
     ze_verify = (\<lambda>t. if t = ''tok'' then Some (''ann'', ''USER'') else None), ze_fold = (\<lambda>s. s), ze_validUrl = (\<lambda>s. True)\<rparr>"

definition demo_reply :: json where
  "demo_reply = JObj [(''candidates'', JArr [JObj [(''content'', JObj [(''parts'', JArr [JObj
     [(''text'', JStr ''{\"summary\": \"Sort first.\", \"points\": [\"Then two pointers.\"]}'')]])])]])]"

definition demo_coach_env :: "int \<Rightarrow> coach_env" where
  "demo_coach_env t = \<lparr>ce_now = t, ce_latency = 7, ce_uuid = ''r1'', ce_up = (\<lambda>c. True), ce_digest = (\<lambda>s. s),
     ce_fetch = (\<lambda>m b. FetchBody demo_reply), ce_auth = demo_auth\<rparr>"

definition coach_demo_row :: problem_row where
  "coach_demo_row = \<lparr>pm_id = ''p1'', pm_slug = ''sum'', pm_title = ''Sum'', pm_statement = ''Add two numbers.'', pm_difficulty = DfEasy, pm_visibility = VsPublic,
     pm_timeLimitMs = 1000, pm_memoryLimitMb = 64, pm_solvedCount = 0, pm_submissionCount = 0, pm_authorId = None, pm_version = 1,
     pm_deletedAt = None, pm_createdAt = 0, pm_tags = [], pm_companies = [], pm_examples = [], pm_constraints = [], pm_hints = [],
     pm_editorial = Some \<lparr>ed_content = ''Just add them.'', ed_timeComplexity = None, ed_spaceComplexity = None\<rparr>,
     pm_testCases = [\<lparr>tr_id = ''t1'', tr_input = ''12345 67890'', tr_expectedOutput = ''80235'', tr_isHidden = True, tr_weight = 1, tr_order = 0\<rparr>]\<rparr>"

definition demo_coach_world :: coach_world where
  "demo_coach_world = \<lparr>cw_catalogue = \<lparr>zw_problems = [coach_demo_row], zw_tags = [], zw_companies = [], zw_versions = [], zw_bookmarks = [],
       zw_submissions = [], zw_audit = [], zw_cache = Map.empty\<rparr>, cw_subs = [], cw_rate = Map.empty, cw_hints = Map.empty,
     cw_cache = Map.empty, cw_history = Map.empty, cw_hits = 0, cw_misses = 0, cw_asked = []\<rparr>"

definition demo_request :: coach_request where
  "demo_request = \<lparr>cr_userId = ''ann'', cr_mode = AmLearning, cr_problemId = ''p1'', cr_code = None, cr_language = None, cr_question = None\<rparr>"

lemma demo_prepared:
  "case prepare_request (demo_coach_env t) demo_request (demo_coach_world\<lparr>cw_cache := c\<rparr>) of
     (Inr p, u) \<Rightarrow> pr_key p = ''{\"mode\":\"learning\",\"problemId\":\"'' | _ \<Rightarrow> False"
  by code_simp

lemma demo_answered:
  "case coach (demo_coach_env 0) demo_request demo_coach_world of (Inr a, v) \<Rightarrow> \<not> me_cached (an_meta a) | _ \<Rightarrow> False"
  by code_simp

lemma second_ask_is_free_witness:
  "\<exists>a z. fst (coach (demo_coach_env 0) demo_request demo_coach_world) = Inr a
     \<and> coach (demo_coach_env 1000) demo_request (demo_coach_world\<lparr>cw_cache := cw_cache (snd (coach (demo_coach_env 0) demo_request demo_coach_world))\<rparr>)
       = (Inr (from_cache (demo_coach_env 1000) a), z) \<and> cw_asked z = []"
proof -
  let ?w = demo_coach_world
  from demo_answered obtain a v where a: "coach (demo_coach_env 0) demo_request ?w = (Inr a, v)" "\<not> me_cached (an_meta a)"
    by (auto split: prod.splits sum.splits)
  let ?v = "?w\<lparr>cw_cache := cw_cache v\<rparr>"
  have "?w\<lparr>cw_cache := Map.empty\<rparr> = ?w" by (simp add: demo_coach_world_def)
  with demo_prepared[of 0 Map.empty] demo_prepared[of 1000 "cw_cache v"] obtain p u p' u'
    where p: "prepare_request (demo_coach_env 0) demo_request ?w = (Inr p, u)"
      "prepare_request (demo_coach_env 1000) demo_request ?v = (Inr p', u')" "pr_key p' = pr_key p"
    by (auto split: prod.splits sum.splits)
  have "\<exists>z. coach (demo_coach_env 1000) demo_request ?v = (Inr (from_cache (demo_coach_env 1000) a), z) \<and> cw_asked z = cw_asked ?v"
    by (rule second_ask_is_free[OF p(1) a _ _ p(2,3)]) (simp_all add: demo_coach_env_def)
  with a(1) show ?thesis by (auto simp: demo_coach_world_def)
qed

lemma failure_leaves_no_answer_witness:
  "\<exists>v. coach (demo_coach_env 0) (demo_request\<lparr>cr_problemId := ''p2''\<rparr>) demo_coach_world = (Inl (CoachProblemNotFound ''p2''), v)
     \<and> same_answers demo_coach_world v \<and> cw_asked v = []"
proof -
  let ?r = "demo_request\<lparr>cr_problemId := ''p2''\<rparr>"
  have "fst (coach (demo_coach_env 0) ?r demo_coach_world) = Inl (CoachProblemNotFound ''p2'')" by code_simp
  then obtain v where v: "coach (demo_coach_env 0) ?r demo_coach_world = (Inl (CoachProblemNotFound ''p2''), v)"
    by (cases "coach (demo_coach_env 0) ?r demo_coach_world") simp
  from failure_leaves_no_answer[OF v] v show ?thesis by (simp add: demo_coach_world_def)
qed

lemma hint_ladder_witness:
  "hint_levels [demo_coach_env 0, demo_coach_env 5, demo_coach_env 60, demo_coach_env 900, demo_coach_env 1000, demo_coach_env 2000] ''ann'' ''p1'' demo_coach_world
     = [Inr 1, Inr 2, Inr 3, Inr 4, Inr 5, Inr 5]"
  using hint_ladder[of "demo_coach_env 0" demo_coach_world "''ann''" "''p1''" "[demo_coach_env 5, demo_coach_env 60, demo_coach_env 900, demo_coach_env 1000, demo_coach_env 2000]"]
  by (simp add: demo_coach_env_def demo_coach_world_def upt_rec)


text \<open>The cache key leaves out the language of the code and the candidates a recommendation chooses from.\<close>

lemma key_ignores_language:
  "cacheKey d m (ctx\<lparr>cx_submission := Some (s\<lparr>sc_language := l\<rparr>)\<rparr>) (x\<lparr>ex_candidates := cs\<rparr>)
     = cacheKey d m (ctx\<lparr>cx_submission := Some s\<rparr>) x"
  by (simp add: cacheKey_def cache_material_def)

text \<open>The context provider looks neither at the visibility of a problem nor at its deletion.\<close>

lemma drafts_are_coached:
  "getProblem i (w\<lparr>cw_catalogue := (cw_catalogue w)\<lparr>zw_problems := map (\<lambda>p. p\<lparr>pm_visibility := VsDraft, pm_deletedAt := Some t\<rparr>)
      (zw_problems (cw_catalogue w))\<rparr>\<rparr>) = getProblem i w"
  by (simp add: getProblem_def find_map tags_of_def split: option.splits)

end
