(* ===== verification/BattleHttp.thy ===== *)
theory BattleHttp
  imports BattleSystem HttpValues
begin

text \<open>
  backend/modules/battles/validators, controllers and routes: the HTTP interface of the battle engine.
  Every request passes the authentication gate and the validator of its body, query or path, and then is
  one call of the service. So the requests of clients are steps of the system of BattleSystem, and its
  invariant holds whatever they send.
\<close>

section \<open>Bodies\<close>

definition battle_types :: "(string \<times> battle_type) list" where
  "battle_types = [(''ONE_VS_ONE'', TypeOneVsOne), (''PRACTICE'', TypePractice), (''INTERVIEW'', TypeInterview),
     (''COLLABORATION'', TypeCollaboration), (''PRIVATE'', TypePrivate), (''TOURNAMENT'', TypeTournament)]"

definition battle_modes :: "(string \<times> battle_mode) list" where
  "battle_modes = [(''ONE_VS_ONE'', ModeOneVsOne), (''FREE_FOR_ALL'', ModeFreeForAll), (''TEAM'', ModeTeam)]"

fun name_text :: "json \<Rightarrow> string option" where
  "name_text (JStr s) = (if 1 \<le> length (trim s) \<and> length (trim s) \<le> 100 then Some (trim s) else None)"
| "name_text _ = None"

definition parse_create_battle :: "json \<Rightarrow> create_battle_dto option" where
  "parse_create_battle b =
     (case (with_default TypeOneVsOne (enum_value battle_types) (jfield ''type'' b),
            with_default ModeOneVsOne (enum_value battle_modes) (jfield ''mode'' b),
            optional_field uuid_value (jfield ''problemId'' b),
            with_default True bool_value (jfield ''rated'' b),
            with_default False bool_value (jfield ''isPrivate'' b),
            with_default ''Untitled Battle'' name_text (jfield ''name'' b),
            with_default (int default_capacity) (plain_int 2 (int max_capacity)) (jfield ''capacity'' b),
            optional_field (plain_int 60000 (4 * 3600000)) (jfield ''durationMs'' b)) of
        (Some ty, Some m, Some p, Some r, Some priv, Some n, Some c, Some d) \<Rightarrow>
          Some \<lparr>cd_type = ty, cd_mode = m, cd_problemId = p, cd_rated = r, cd_isPrivate = priv, cd_name = n,
            cd_capacity = nat c, cd_durationMs = d\<rparr>
      | _ \<Rightarrow> None)"

text \<open>One of the three must be there; an empty string counts as there but the lengths exclude it.\<close>

definition parse_join_battle :: "json \<Rightarrow> join_dto option" where
  "parse_join_battle b =
     (case (optional_field uuid_value (jfield ''battleId'' b),
            optional_field (str_value (int code_length) (int code_length)) (jfield ''code'' b),
            optional_field (str_value 8 128) (jfield ''inviteToken'' b)) of
        (Some i, Some c, Some t) \<Rightarrow> if i = None \<and> c = None \<and> t = None then None
          else Some \<lparr>jd_battleId = i, jd_code = c, jd_inviteToken = t\<rparr>
      | _ \<Rightarrow> None)"

text \<open>The nonce is an integer from 1 on, within the safe integers of the validator's \<open>int\<close>.\<close>

definition nonce_value :: "json \<Rightarrow> int option" where
  "nonce_value v = (case v of JNum q \<Rightarrow> if q = of_int \<lfloor>q\<rfloor> \<and> 1 \<le> \<lfloor>q\<rfloor> then Some \<lfloor>q\<rfloor> else None | _ \<Rightarrow> None)"

definition parse_action :: "json \<Rightarrow> (ident \<times> int) option" where
  "parse_action b = (case (Option.bind (jfield ''battleId'' b) uuid_value, Option.bind (jfield ''nonce'' b) nonce_value) of
       (Some i, Some n) \<Rightarrow> Some (i, n) | _ \<Rightarrow> None)"

definition parse_finish :: "json \<Rightarrow> (ident \<times> int \<times> ident option) option" where
  "parse_finish b = (case (parse_action b, optional_field uuid_value (jfield ''winnerId'' b)) of
       (Some (i, n), Some w) \<Rightarrow> Some (i, n, w) | _ \<Rightarrow> None)"

definition parse_rematch :: "json \<Rightarrow> ident option" where
  "parse_rematch b = Option.bind (jfield ''battleId'' b) uuid_value"

definition parse_battle_history :: "json \<Rightarrow> (nat \<times> nat) option" where
  "parse_battle_history q = (case (with_default 1 (int_from 1) (jfield ''page'' q), with_default 20 (int_between 1 50) (jfield ''pageSize'' q)) of
       (Some p, Some n) \<Rightarrow> Some (nat p, nat n) | _ \<Rightarrow> None)"

section \<open>Requests\<close>

datatype battle_http_error = BhUnauthorized | BhInvalid | BhBattle battle_error

fun battle_http_code :: "battle_http_error \<Rightarrow> nat \<times> string" where
  "battle_http_code BhUnauthorized = (401, ''UNAUTHORIZED'')"
| "battle_http_code BhInvalid = (422, ''VALIDATION_ERROR'')"
| "battle_http_code (BhBattle e) = battle_error_code e"

datatype battle_http = BhCreate json | BhJoin json | BhStart json | BhPause json | BhResume json | BhFinish json
  | BhRematch json | BhHistory json | BhReplay string | BhGet string

datatype battle_reply = BrCreated battle_dto string | BrBattle battle_dto | BrHistory "battle_dto list" nat | BrReplay replay_dto

text \<open>A service call with its answer put into the envelope and its error handed to the error middleware.\<close>

definition serving :: "('a \<Rightarrow> battle_reply) \<Rightarrow> 'a battle_op \<Rightarrow> (battle_world, battle_http_error, battle_reply) op" where
  "serving f m w = (case m w of (Inl e, w') \<Rightarrow> (Inl (BhBattle e), w') | (Inr a, w') \<Rightarrow> (Inr (f a), w'))"

definition battle_valid :: "'a option \<Rightarrow> ('a \<Rightarrow> (battle_world, battle_http_error, 'b) op) \<Rightarrow> (battle_world, battle_http_error, 'b) op" where
  "battle_valid x f = (case x of None \<Rightarrow> throw BhInvalid | Some a \<Rightarrow> f a)"

fun battle_handler :: "int \<Rightarrow> fresh_values \<Rightarrow> ident \<Rightarrow> battle_http \<Rightarrow> (battle_world, battle_http_error, battle_reply) op" where
  "battle_handler now fr u (BhCreate b) = battle_valid (parse_create_battle b) (\<lambda>d. serving (case_prod BrCreated) (create now fr d u))"
| "battle_handler now fr u (BhJoin b) = battle_valid (parse_join_battle b) (\<lambda>d. serving BrBattle (join now fr d u))"
| "battle_handler now fr u (BhStart b) = battle_valid (parse_action b) (\<lambda>(i, n). serving BrBattle (startCountdown now i u))"
| "battle_handler now fr u (BhPause b) = battle_valid (parse_action b) (\<lambda>(i, n). serving BrBattle (pause now i n u))"
| "battle_handler now fr u (BhResume b) = battle_valid (parse_action b) (\<lambda>(i, n). serving BrBattle (resume now i n u))"
| "battle_handler now fr u (BhFinish b) = battle_valid (parse_finish b) (\<lambda>(i, n, win). serving BrBattle (finish now fr i n win u))"
| "battle_handler now fr u (BhRematch b) = battle_valid (parse_rematch b) (\<lambda>i. serving (case_prod BrCreated) (rematch now fr i u))"
| "battle_handler now fr u (BhHistory q) = battle_valid (parse_battle_history q) (\<lambda>(p, n). serving (case_prod BrHistory) (history u p n))"
| "battle_handler now fr u (BhReplay i) = battle_valid (uuid_value (JStr i)) (\<lambda>i. serving BrReplay (replay now i))"
| "battle_handler now fr u (BhGet i) = battle_valid (uuid_value (JStr i)) (\<lambda>i. serving BrBattle (getById now i))"

definition battle_route :: "problem_env \<Rightarrow> int \<Rightarrow> fresh_values \<Rightarrow> string option \<Rightarrow> battle_http \<Rightarrow> (battle_world, battle_http_error, battle_reply) op" where
  "battle_route e now fr h r = (case optionalAuth e h of None \<Rightarrow> throw BhUnauthorized | Some u \<Rightarrow> battle_handler now fr (vw_id u) r)"

section \<open>Requests are steps\<close>

text \<open>The command of a request, when it gets past gate and validator; reads are none.\<close>

fun command_of :: "fresh_values \<Rightarrow> ident \<Rightarrow> battle_http \<Rightarrow> battle_cmd option" where
  "command_of fr u (BhCreate b) = map_option (\<lambda>d. CmdCreate fr d u) (parse_create_battle b)"
| "command_of fr u (BhJoin b) = map_option (\<lambda>d. CmdJoin fr d u) (parse_join_battle b)"
| "command_of fr u (BhStart b) = map_option (\<lambda>(i, n). CmdStart i u) (parse_action b)"
| "command_of fr u (BhPause b) = map_option (\<lambda>(i, n). CmdPause i n u) (parse_action b)"
| "command_of fr u (BhResume b) = map_option (\<lambda>(i, n). CmdResume i n u) (parse_action b)"
| "command_of fr u (BhFinish b) = map_option (\<lambda>(i, n, win). CmdFinish fr i n win u) (parse_finish b)"
| "command_of fr u (BhRematch b) = map_option (\<lambda>i. CmdRematch fr i u) (parse_rematch b)"
| "command_of fr u _ = None"

lemma serving_snd [simp]: "snd (serving f m w) = snd (m w)"
  by (simp add: serving_def split: prod.splits sum.splits)

lemma parse_create_capacity: "parse_create_battle b = Some d \<Longrightarrow> default_capacity \<le> cd_capacity d \<and> cd_capacity d \<le> max_capacity"
  by (auto simp: parse_create_battle_def with_default_def plain_int_def default_capacity_def max_capacity_def
      split: option.splits json.splits if_splits)

lemma command_ok: "command_of fr u r = Some c \<Longrightarrow> fresh_ok fr w \<Longrightarrow> cmd_ok c w"
  by (cases r) (auto dest: parse_create_capacity)

lemma reads_keep [simp]:
  "snd (getById now i w) = w" "snd (replay now i w) = w" "snd (history u p n w) = w"
  by (auto simp: getById_def replay_def history_def load_def findById_def get_runtime_def listEvents_def
      listHistoryForUser_def op_simps split: option.splits prod.splits)

lemma handler_executes:
  "snd (battle_handler now fr u r w) = (case command_of fr u r of None \<Rightarrow> w | Some c \<Rightarrow> exec_cmd now c w)"
  by (cases r) (auto simp: battle_valid_def op_simps split: option.splits)

lemma serving_valid [simp]: "fst (serving f m w) \<noteq> Inl BhInvalid"
  by (simp add: serving_def split: prod.splits sum.splits)

lemma invalid_keeps: "fst (battle_handler now fr u r w) = Inl BhInvalid \<Longrightarrow> snd (battle_handler now fr u r w) = w"
  by (cases r) (auto simp: battle_valid_def op_simps split: option.splits prod.splits)


definition door :: problem_env where
  "door = \<lparr>ze_now = 0, ze_cacheUp = True, ze_auditUp = True, ze_id = (\<lambda>n. ''x''),
     ze_verify = (\<lambda>t. if t = ''tok'' then Some (''ann'', ''USER'') else None), ze_fold = (\<lambda>s. s), ze_validUrl = (\<lambda>s. True)\<rparr>"

definition door_fresh :: fresh_values where
  "door_fresh = \<lparr>fr_bytes = [0, 1, 2, 3, 4, 5], fr_inviteToken = ''invite'', fr_lockToken = ''lock'', fr_roomId = ''r1'', fr_battleId = ''b1''\<rparr>"

definition door_body :: json where
  "door_body = JObj [(''problemId'', JStr ''11111111-2222-3333-4444-555555555555'')]"


end
