(* ===== verification/MatchHttp.thy ===== *)
theory MatchHttp
  imports MatchProps RatingProps HttpValues
begin

text \<open>
  backend/modules/matchmaking/validators, controllers and routes: the HTTP interface of the queue, the
  leaderboards and the ratings. Every route asks for a token; bodies and queries pass their validator; the
  handler is then one call of the service. Reads of boards and ratings come from the rating stores.
\<close>

section \<open>Bodies and queries\<close>

definition match_modes :: "(string \<times> match_mode) list" where
  "match_modes = map (\<lambda>m. (mode_name m, m)) [MmOneVsOne, MmPractice, MmRanked]"

definition regions :: "(string \<times> region) list" where
  "regions = map (\<lambda>r. (region_name r, r)) [RegGlobal, RegNa, RegEu, RegAsia]"

definition skill_prefs :: "(string \<times> skill_pref) list" where
  "skill_prefs = [(''ANY'', SkillAny), (''SIMILAR'', SkillSimilar), (''CHALLENGE'', SkillChallenge)]"

definition board_scopes :: "(string \<times> board_scope) list" where
  "board_scopes = [(''GLOBAL'', ScopeGlobal), (''COUNTRY'', ScopeCountry), (''COLLEGE'', ScopeCollege), (''FRIENDS'', ScopeFriends)]"

definition board_periods :: "(string \<times> board_period) list" where
  "board_periods = [(''WEEKLY'', PerWeekly), (''MONTHLY'', PerMonthly), (''ALL_TIME'', PerAllTime)]"

fun queue_language :: "json \<Rightarrow> string option" where
  "queue_language (JStr s) = (if 1 \<le> length (trim s) \<and> length (trim s) \<le> 32 then Some (trim s) else None)"
| "queue_language _ = None"

definition parse_join_queue :: "ident \<Rightarrow> json \<Rightarrow> join_input option" where
  "parse_join_queue u b =
     (case (with_default MmOneVsOne (enum_value match_modes) (jfield ''mode'' b), with_default RegGlobal (enum_value regions) (jfield ''region'' b),
            with_default ''javascript'' queue_language (jfield ''language'' b), with_default SkillAny (enum_value skill_prefs) (jfield ''skill'' b),
            optional_field uuid_value (jfield ''friendId'' b), optional_field (str_value 4 32) (jfield ''privateCode'' b)) of
        (Some m, Some r, Some l, Some s, Some f, Some c) \<Rightarrow>
          Some \<lparr>ji_userId = u, ji_mode = m, ji_region = r, ji_language = l, ji_skill = s, ji_friendId = f, ji_privateCode = c\<rparr>
      | _ \<Rightarrow> None)"

record board_query =
  bq_scope :: board_scope
  bq_period :: board_period
  bq_country :: "string option"
  bq_college :: "string option"
  bq_page :: int
  bq_pageSize :: int

definition parse_board_query :: "json \<Rightarrow> board_query option" where
  "parse_board_query q =
     (case (with_default ScopeGlobal (enum_value board_scopes) (jfield ''scope'' q), with_default PerAllTime (enum_value board_periods) (jfield ''period'' q),
            optional_field (str_value 2 2) (jfield ''country'' q), optional_field (str_value 1 64) (jfield ''college'' q),
            with_default 1 (int_from 1) (jfield ''page'' q), with_default 50 (int_between 1 100) (jfield ''pageSize'' q)) of
        (Some s, Some p, Some c, Some l, Some n, Some k) \<Rightarrow>
          Some \<lparr>bq_scope = s, bq_period = p, bq_country = c, bq_college = l, bq_page = n, bq_pageSize = k\<rparr>
      | _ \<Rightarrow> None)"

definition parse_rating_history :: "json \<Rightarrow> nat option" where
  "parse_rating_history q = map_option nat (with_default 50 (int_between 1 100) (jfield ''limit'' q))"

section \<open>The queue\<close>

datatype mm_http_error = MhUnauthorized | MhInvalid | MhQueue mm_error

fun mm_http_code :: "mm_http_error \<Rightarrow> nat \<times> string" where
  "mm_http_code MhUnauthorized = (401, ''UNAUTHORIZED'')"
| "mm_http_code MhInvalid = (422, ''VALIDATION_ERROR'')"
| "mm_http_code (MhQueue e) = mm_error_code e"

datatype mm_http = MhJoin json | MhLeave | MhStatus | MhReconnect

datatype mm_reply = MrAccepted ticket | MrLeft | MrStatus bool "ticket option" | MrMatches "match_info list"

definition queued :: "('a \<Rightarrow> mm_reply) \<Rightarrow> 'a mm_op \<Rightarrow> (mm_world, mm_http_error, mm_reply) op" where
  "queued f m w = (case m w of (Inl e, w') \<Rightarrow> (Inl (MhQueue e), w') | (Inr a, w') \<Rightarrow> (Inr (f a), w'))"

fun mm_handler :: "mm_env \<Rightarrow> int \<Rightarrow> ident \<Rightarrow> mm_http \<Rightarrow> (mm_world, mm_http_error, mm_reply) op" where
  "mm_handler m now u (MhJoin b) = (case parse_join_queue u b of None \<Rightarrow> throw MhInvalid | Some i \<Rightarrow> queued MrAccepted (join_queue m now i))"
| "mm_handler m now u MhLeave = queued (\<lambda>_. MrLeft) (leave_queue now u)"
| "mm_handler m now u MhStatus = reads (\<lambda>w. case_prod MrStatus (queue_status now u w))"
| "mm_handler m now u MhReconnect = (\<lambda>w. case reconnect_queue now u w of (ms, w') \<Rightarrow> (Inr (MrMatches ms), w'))"

definition mm_route :: "problem_env \<Rightarrow> mm_env \<Rightarrow> int \<Rightarrow> string option \<Rightarrow> mm_http \<Rightarrow> (mm_world, mm_http_error, mm_reply) op" where
  "mm_route e m now h r = (case optionalAuth e h of None \<Rightarrow> throw MhUnauthorized | Some u \<Rightarrow> mm_handler m now (vw_id u) r)"

section \<open>Boards and ratings\<close>

datatype board_http = LbBoard json | LbGlobal json | LbFriends json | LbRating json

datatype board_reply = LrBoard leaderboard_page | LrRating rating_stats "rating_change list"

text \<open>The two literal routes fix the scope and drop the discriminators.\<close>

fun board_handler :: "int \<Rightarrow> ident \<Rightarrow> board_http \<Rightarrow> rating_world \<Rightarrow> mm_http_error + board_reply" where
  "board_handler now u (LbBoard q) w = (case parse_board_query q of None \<Rightarrow> Inl MhInvalid
     | Some d \<Rightarrow> Inr (LrBoard (getBoard now (bq_scope d) (bq_period d) u (bq_country d) (bq_college d) (bq_page d) (bq_pageSize d) w)))"
| "board_handler now u (LbGlobal q) w = (case parse_board_query q of None \<Rightarrow> Inl MhInvalid
     | Some d \<Rightarrow> Inr (LrBoard (getBoard now ScopeGlobal (bq_period d) u None None (bq_page d) (bq_pageSize d) w)))"
| "board_handler now u (LbFriends q) w = (case parse_board_query q of None \<Rightarrow> Inl MhInvalid
     | Some d \<Rightarrow> Inr (LrBoard (getBoard now ScopeFriends (bq_period d) u None None (bq_page d) (bq_pageSize d) w)))"
| "board_handler now u (LbRating q) w = (case parse_rating_history q of None \<Rightarrow> Inl MhInvalid
     | Some n \<Rightarrow> Inr (LrRating (getStats u w) (historyStream u n w)))"

definition board_route :: "problem_env \<Rightarrow> int \<Rightarrow> string option \<Rightarrow> board_http \<Rightarrow> rating_world \<Rightarrow> mm_http_error + board_reply" where
  "board_route e now h r w = (case optionalAuth e h of None \<Rightarrow> Inl MhUnauthorized | Some u \<Rightarrow> board_handler now (vw_id u) r w)"

section \<open>Requests are steps\<close>

lemma queued_snd [simp]: "snd (queued f m w) = snd (m w)"
  by (simp add: queued_def split: prod.splits sum.splits)

fun mm_command_of :: "ident \<Rightarrow> mm_http \<Rightarrow> mm_cmd option" where
  "mm_command_of u (MhJoin b) = map_option MmJoin (parse_join_queue u b)"
| "mm_command_of u MhLeave = Some (MmLeave u)"
| "mm_command_of u MhStatus = None"
| "mm_command_of u MhReconnect = Some (MmReconnect u)"

text \<open>A request to the queue is a command of the queue's system, given by the caller for the caller only.\<close>

lemma mm_handler_executes:
  "snd (mm_handler m now u r w) = (case mm_command_of u r of None \<Rightarrow> w | Some c \<Rightarrow> exec_mm m now c w)"
  by (cases r) (auto simp: op_simps split: option.splits prod.splits)

text \<open>The pages a board answers with are never longer than asked for, and the validator asks for at most a hundred.\<close>

lemma parse_board_bounds: "parse_board_query q = Some d \<Longrightarrow> 1 \<le> bq_page d \<and> 1 \<le> bq_pageSize d \<and> bq_pageSize d \<le> 100"
  by (auto simp: parse_board_query_def with_default_def int_from_def dest: int_between_bounds split: option.splits js_num.splits if_splits)

end
