(* ===== verification/JudgeHttp.thy ===== *)
theory JudgeHttp
  imports JudgeProps HttpValues
begin

text \<open>
  backend/modules/judge/validators, controllers and routes: the HTTP interface of the judge. The rows of the
  submission table and of the results are handed in as the query returns them.
\<close>

section \<open>Bodies and queries\<close>

definition languages :: "(string \<times> language) list" where
  "languages = [(''JAVASCRIPT'', LJavascript), (''TYPESCRIPT'', LTypescript), (''PYTHON'', LPython), (''CPP'', LCpp), (''JAVA'', LJava)]"

definition parse_submission :: "ident \<Rightarrow> json \<Rightarrow> submit_input option" where
  "parse_submission u b =
     (case (Option.bind (jfield ''problemId'' b) uuid_value, Option.bind (jfield ''language'' b) (enum_value languages),
            Option.bind (jfield ''code'' b) (str_value 1 64000), optional_field uuid_value (jfield ''battleId'' b)) of
        (Some p, Some l, Some c, Some i) \<Rightarrow> Some \<lparr>su_userId = u, su_problemId = p, su_battleId = i, su_language = l, su_code = c\<rparr>
      | _ \<Rightarrow> None)"

definition parse_submission_history :: "json \<Rightarrow> (nat \<times> nat) option" where
  "parse_submission_history q = (case (with_default 20 (int_between 1 100) (jfield ''limit'' q), with_default 0 (int_from 0) (jfield ''offset'' q)) of
       (Some l, Some k) \<Rightarrow> Some (nat l, nat k) | _ \<Rightarrow> None)"

definition parse_result_query :: "json \<Rightarrow> ident option" where
  "parse_result_query q = Option.bind (jfield ''submissionId'' q) uuid_value"

section \<open>Requests\<close>

datatype judge_http_error = JhUnauthorized | JhInvalid | JhJudge judge_error

fun judge_http_code :: "judge_http_error \<Rightarrow> nat \<times> string" where
  "judge_http_code JhUnauthorized = (401, ''UNAUTHORIZED'')"
| "judge_http_code JhInvalid = (422, ''VALIDATION_ERROR'')"
| "judge_http_code (JhJudge e) = judge_error_code e"

text \<open>What the database holds besides: the submissions in a list, the result rows of a submission, the test cases.\<close>

record judge_tables =
  jt_rows :: "(ident \<times> sub_row) list"
  jt_results :: "ident \<Rightarrow> (ident \<times> case_row) list"
  jt_cases :: "ident \<Rightarrow> judge_case option"

datatype judge_http = JhSubmit json | JhHistory json | JhResult json | JhGet string

datatype judge_reply = JrAccepted ident | JrHistory "(ident \<times> sub_row) list" | JrResult ident verdict "result_view list" | JrSubmission sub_row

definition judged :: "('a \<Rightarrow> judge_reply) \<Rightarrow> 'a judge_op \<Rightarrow> (judge_world, judge_http_error, judge_reply) op" where
  "judged f m w = (case m w of (Inl e, w') \<Rightarrow> (Inl (JhJudge e), w') | (Inr a, w') \<Rightarrow> (Inr (f a), w'))"

fun judge_handler :: "judge_env \<Rightarrow> judge_tables \<Rightarrow> ident \<Rightarrow> ident \<Rightarrow> judge_http \<Rightarrow> (judge_world, judge_http_error, judge_reply) op" where
  "judge_handler e t i u (JhSubmit b) = (case parse_submission u b of None \<Rightarrow> throw JhInvalid | Some d \<Rightarrow> judged JrAccepted (submit e i d))"
| "judge_handler e t i u (JhHistory q) = (case parse_submission_history q of None \<Rightarrow> throw JhInvalid
     | Some (l, k) \<Rightarrow> ret (JrHistory (history_page u l k (jt_rows t))))"
| "judge_handler e t i u (JhResult q) = (case parse_result_query q of None \<Rightarrow> throw JhInvalid
     | Some s \<Rightarrow> judged (\<lambda>(v, rs). JrResult s v rs) (result_endpoint (jt_cases t) s (jt_results t s)))"
| "judge_handler e t i u (JhGet s) = (case uuid_value (JStr s) of None \<Rightarrow> throw JhInvalid | Some s \<Rightarrow> judged JrSubmission (getSubmission s))"

definition judge_route :: "problem_env \<Rightarrow> judge_env \<Rightarrow> judge_tables \<Rightarrow> ident \<Rightarrow> string option \<Rightarrow> judge_http \<Rightarrow> (judge_world, judge_http_error, judge_reply) op" where
  "judge_route d e t i h r = (case optionalAuth d h of None \<Rightarrow> throw JhUnauthorized | Some u \<Rightarrow> judge_handler e t i (vw_id u) r)"

section \<open>Requests are steps\<close>

lemma judged_snd [simp]: "snd (judged f m w) = snd (m w)"
  by (simp add: judged_def split: prod.splits sum.splits)

fun judge_command_of :: "judge_env \<Rightarrow> ident \<Rightarrow> ident \<Rightarrow> judge_http \<Rightarrow> judge_cmd option" where
  "judge_command_of e i u (JhSubmit b) = map_option (JSubmit e i) (parse_submission u b)"
| "judge_command_of e i u _ = None"

lemma judge_handler_executes:
  "snd (judge_handler e t i u r w) = (case judge_command_of e i u r of None \<Rightarrow> w | Some c \<Rightarrow> exec_judge c w)"
  by (cases r) (auto simp: op_simps result_endpoint_def getSubmission_def split: option.splits prod.splits)

lemma judge_route_reachable: "judge_reachable w \<Longrightarrow> judge_reachable (snd (judge_route d e t i h r w))"
  by (auto simp: judge_route_def throw_def judge_handler_executes intro: judge_step split: option.splits)

text \<open>
  A submission is read by its id alone: its source is answered to every user with a token, whoever wrote it.
\<close>

lemma submissions_open_to_all:
  "is_uuid s \<Longrightarrow> jw_rows w s = Some row \<Longrightarrow> optionalAuth d h = Some u
     \<Longrightarrow> fst (judge_route d e t i h (JhGet s) w) = Inr (JrSubmission row)"
  by (simp add: judge_route_def judged_def getSubmission_def op_simps)

end
