(* ===== verification/MiniJudge.thy ===== *)
theory MiniJudge
  imports Json
begin

text \<open>
  The browser's demo arena (frontend, lib/miniJudge.ts and pages/Arena.tsx): the worker that runs the
  player's function on the fixed tests, the race between its messages and the kill timer, and the match
  against the scripted opponent. The player's code is an argument: whether it loads, what it posts by
  itself and what each call does; it may depend on the number of the call, so it may keep state. Code that
  overwrites the built-in functions the worker uses is outside the model.
\<close>

section \<open>Tests and checks\<close>

record arena_test =
  at_nums :: "int list"
  at_target :: int

definition arena_tests :: "arena_test list" where
  "arena_tests =
     [\<lparr>at_nums = [2, 7, 11, 15], at_target = 9\<rparr>,
      \<lparr>at_nums = [3, 2, 4], at_target = 6\<rparr>,
      \<lparr>at_nums = [3, 3], at_target = 6\<rparr>,
      \<lparr>at_nums = [-1, -2, -3, -4, -5], at_target = -8\<rparr>,
      \<lparr>at_nums = [0, 4, 3, 0], at_target = 0\<rparr>,
      \<lparr>at_nums = [1, 5, 9, 13, 17, 21], at_target = 30\<rparr>,
      \<lparr>at_nums = [5, 75, 25], at_target = 100\<rparr>,
      \<lparr>at_nums = map (\<lambda>i. int i * 2 + 1) [0..<4000], at_target = 7997\<rparr>]"

text \<open>\<open>nums[i]\<close> for an integer index; everything out of range is undefined.\<close>

definition elem_at :: "int list \<Rightarrow> int \<Rightarrow> int option" where
  "elem_at xs i = (if 0 \<le> i \<and> i < int (length xs) then Some (xs ! nat i) else None)"

fun index_of_json :: "json \<Rightarrow> int option" where
  "index_of_json (JNum q) = (if q = of_int \<lfloor>q\<rfloor> then Some \<lfloor>q\<rfloor> else None)"
| "index_of_json _ = None"

fun test_passes :: "arena_test \<Rightarrow> json \<Rightarrow> bool" where
  "test_passes t (JArr [a, b]) = (case (index_of_json a, index_of_json b) of
       (Some i, Some j) \<Rightarrow> i \<noteq> j \<and> (case (elem_at (at_nums t) i, elem_at (at_nums t) j) of
           (Some x, Some y) \<Rightarrow> x + y = at_target t | _ \<Rightarrow> False)
     | _ \<Rightarrow> False)"
| "test_passes t _ = False"

section \<open>The worker\<close>

datatype arena_verdict = AvAC | AvWA | AvRE | AvTLE

datatype worker_msg = MsgTest nat bool | MsgDone arena_verdict | MsgError string

text \<open>What a call of the player's function does after the messages it posted itself.\<close>

datatype call_end = Returns json | Throws string | Hangs

type_synonym arena_player = "nat \<Rightarrow> int list \<Rightarrow> int \<Rightarrow> worker_msg list \<times> call_end"

datatype arena_code = Broken string | Loads arena_player

fun worker_run :: "arena_player \<Rightarrow> nat \<Rightarrow> arena_test list \<Rightarrow> worker_msg list" where
  "worker_run f i [] = [MsgDone AvAC]"
| "worker_run f i (t # ts) = (case f i (at_nums t) (at_target t) of
       (ms, Hangs) \<Rightarrow> ms
     | (ms, Throws e) \<Rightarrow> ms @ [MsgError e]
     | (ms, Returns v) \<Rightarrow> ms @ MsgTest i (test_passes t v) # (if test_passes t v then worker_run f (i + 1) ts else [MsgDone AvWA]))"

fun worker_messages :: "arena_code \<Rightarrow> arena_test list \<Rightarrow> worker_msg list" where
  "worker_messages (Broken e) ts = [MsgError e]"
| "worker_messages (Loads f) ts = worker_run f 0 ts"

section \<open>The main thread\<close>

record judge_outcome =
  jo_verdict :: arena_verdict
  jo_results :: "(nat \<times> bool) list"
  jo_error :: "string option"

datatype worker_event = Message worker_msg | KillTimer | WorkerCrash

text \<open>Results so far and the outcome, once there is one; a settled judge has terminated its worker.\<close>

type_synonym mini_judge = "(nat \<times> bool) list \<times> judge_outcome option"

fun on_worker_event :: "worker_event \<Rightarrow> mini_judge \<Rightarrow> mini_judge" where
  "on_worker_event e (rs, Some r) = (rs, Some r)"
| "on_worker_event (Message (MsgTest i p)) (rs, None) = (rs @ [(i, p)], None)"
| "on_worker_event (Message (MsgDone v)) (rs, None) = (rs, Some \<lparr>jo_verdict = v, jo_results = rs, jo_error = None\<rparr>)"
| "on_worker_event (Message (MsgError e)) (rs, None) = (rs, Some \<lparr>jo_verdict = AvRE, jo_results = rs, jo_error = Some e\<rparr>)"
| "on_worker_event KillTimer (rs, None) = (rs, Some \<lparr>jo_verdict = AvTLE, jo_results = rs, jo_error = None\<rparr>)"
| "on_worker_event WorkerCrash (rs, None) = (rs, Some \<lparr>jo_verdict = AvRE, jo_results = rs, jo_error = Some ''Worker crashed''\<rparr>)"

text \<open>
  A run: the first \<open>k\<close> messages arrive, then the kill timer, or a crash of the worker before it. When the
  messages settle the judge the timer is cleared, so it changes nothing.
\<close>

definition judge_run :: "arena_code \<Rightarrow> arena_test list \<Rightarrow> nat \<Rightarrow> bool \<Rightarrow> mini_judge" where
  "judge_run c ts k crash = fold on_worker_event
     (map Message (take k (worker_messages c ts)) @ (if crash then [WorkerCrash] else []) @ [KillTimer]) ([], None)"

definition runJudge :: "arena_code \<Rightarrow> nat \<Rightarrow> bool \<Rightarrow> mini_judge" where
  "runJudge c k crash = judge_run c arena_tests k crash"

section \<open>What the judge decides\<close>

definition fair_player :: "arena_player \<Rightarrow> bool" where
  "fair_player f \<longleftrightarrow> (\<forall>i xs t. fst (f i xs t) = [])"

lemma settled_stays [simp]: "fold on_worker_event es (rs, Some r) = (rs, Some r)"
  by (induction es) auto

lemma run_settles: "\<exists>r. snd (fold on_worker_event (es @ [KillTimer]) s) = Some r"
  by (cases "fold on_worker_event es s"; cases "snd (fold on_worker_event es s)") auto

text \<open>An accepted fair player answered every test, in order, and every answer was right.\<close>

lemma accepted_run:
  assumes "fair_player f" and "es = [KillTimer] \<or> es = [WorkerCrash, KillTimer]"
    and "fold on_worker_event (map Message (take k (worker_run f i ts)) @ es) (rs, None) = (rs', Some r)"
    and "jo_verdict r = AvAC"
  shows "jo_results r = rs @ map (\<lambda>j. (j, True)) [i..<i + length ts]
    \<and> (\<forall>j < length ts. \<exists>v. f (i + j) (at_nums (ts ! j)) (at_target (ts ! j)) = ([], Returns v) \<and> test_passes (ts ! j) v)"
  using assms(3)
proof (induction ts arbitrary: i k rs)
  case Nil
  with assms(2,4) show ?case by (cases k) auto
next
  case (Cons t ts)
  let ?c = "f i (at_nums t) (at_target t)"
  have "fst ?c = []" using assms(1) by (simp add: fair_player_def)
  then obtain e where c: "?c = ([], e)" by (cases ?c) simp
  show ?case
  proof (cases "\<exists>v. e = Returns v \<and> test_passes t v")
    case True
    then obtain v where v: "e = Returns v" "test_passes t v" by blast
    obtain k' where k: "k = Suc k'" using Cons.prems c v assms(2,4) by (cases k) auto
    have "fold on_worker_event (map Message (take k' (worker_run f (i + 1) ts)) @ es) (rs @ [(i, True)], None) = (rs', Some r)"
      using Cons.prems c v k by simp
    from Cons.IH[OF this] c v show ?thesis by (auto simp: nth_Cons upt_conv_Cons[of i] simp del: upt_Suc split: nat.splits)
  next
    case False
    then show ?thesis using Cons.prems c assms(2,4)
      by (cases e; cases k; cases "k - 1") (auto simp: take_Cons' split: if_splits)
  qed
qed

lemma elem_at_map: "elem_at (map f xs) i = (if 0 \<le> i \<and> i < int (length xs) then Some (f (xs ! nat i)) else None)"
  by (auto simp: elem_at_def nat_less_iff)

text \<open>Two odd numbers never add up to the odd target of the last test.\<close>

lemma even_odd_clash: "2 * (z::int) + 2 = 7997 \<Longrightarrow> False"
  by presburger

definition odd_test :: arena_test where
  "odd_test = \<lparr>at_nums = map (\<lambda>i. int i * 2 + 1) [0..<4000], at_target = 7997\<rparr>"

lemma arena_tests_last: "length arena_tests = 8" "arena_tests ! 7 = odd_test"
  by (simp_all add: arena_tests_def odd_test_def del: upt_rec_numeral)

lemma last_test_unsolvable: "\<not> test_passes odd_test v"
proof
  assume a: "test_passes odd_test v"
  then obtain a b where v: "v = JArr [a, b]" by (cases "(odd_test, v)" rule: test_passes.cases) auto
  from a v obtain x y m n where "elem_at (at_nums odd_test) x = Some m" "elem_at (at_nums odd_test) y = Some n"
    and s: "m + n = at_target odd_test"
    by (auto split: option.splits)
  then have "m = int (nat x) * 2 + 1" "n = int (nat y) * 2 + 1" "m + n = 7997"
    by (auto simp: odd_test_def elem_at_map nat_less_iff simp del: upt_rec_numeral split: if_splits)
  then have "2 * (int (nat x) + int (nat y)) + 2 = 7997" by simp
  then show False by (rule even_odd_clash)
qed

section \<open>The match\<close>

datatype match_result = Undecided | Victory | Defeat

datatype opponent_status = OppTyping | OppWA | OppAC

datatype page_verdict = NoVerdict | Judging | Shown arena_verdict

record arena =
  ar_secondsLeft :: nat
  ar_pips :: "(nat \<times> bool) list"
  ar_verdict :: page_verdict
  ar_judgeError :: "string option"
  ar_opponentTyped :: nat
  ar_opponentStatus :: opponent_status
  ar_result :: match_result

definition arena_start :: arena where
  "arena_start = \<lparr>ar_secondsLeft = 300, ar_pips = [], ar_verdict = NoVerdict, ar_judgeError = None, ar_opponentTyped = 0,
     ar_opponentStatus = OppTyping, ar_result = Undecided\<rparr>"

text \<open>
  The events of the page. The button calls the current submit; the editor's Ctrl+Enter was bound once, on
  mount, to the submit of the first rendering, whose state never changes. Several runs of the judge may
  therefore be under way, and each reports its outcome.
\<close>

datatype arena_event = ClockTick | OpponentTypes nat | OpponentWrong | OpponentRetries | OpponentSolves | SubmitButton | SubmitKey
  | JudgePip "nat \<times> bool" | JudgeReports arena_verdict "string option"

definition start_judging :: "arena \<Rightarrow> arena" where
  "start_judging a = a\<lparr>ar_pips := [], ar_judgeError := None, ar_verdict := Judging\<rparr>"

fun on_arena_event :: "arena_event \<Rightarrow> arena \<Rightarrow> arena" where
  "on_arena_event ClockTick a = (if ar_result a = Undecided then a\<lparr>ar_secondsLeft := ar_secondsLeft a - 1\<rparr> else a)"
| "on_arena_event (OpponentTypes n) a = a\<lparr>ar_opponentTyped := n\<rparr>"
| "on_arena_event OpponentWrong a = (if ar_result a = Undecided then a\<lparr>ar_opponentStatus := OppWA\<rparr> else a)"
| "on_arena_event OpponentRetries a = (if ar_result a = Undecided then a\<lparr>ar_opponentStatus := OppTyping\<rparr> else a)"
| "on_arena_event OpponentSolves a = (if ar_result a = Undecided then a\<lparr>ar_opponentStatus := OppAC, ar_result := Defeat\<rparr> else a)"
| "on_arena_event SubmitButton a = (if ar_verdict a = Judging \<or> ar_result a \<noteq> Undecided then a else start_judging a)"
| "on_arena_event SubmitKey a = start_judging a"
| "on_arena_event (JudgePip p) a = a\<lparr>ar_pips := ar_pips a @ [p]\<rparr>"
| "on_arena_event (JudgeReports v e) a = (let b = a\<lparr>ar_verdict := Shown v, ar_judgeError := e\<rparr>
     in if v = AvAC then b\<lparr>ar_result := Victory\<rparr> else b)"

text \<open>The events a fair player can cause: every report is the outcome of a run of the judge.\<close>

fun is_report :: "arena_event \<Rightarrow> bool" where
  "is_report (JudgeReports v e) = True"
| "is_report _ = False"

inductive arena_reachable :: "arena_player \<Rightarrow> arena \<Rightarrow> bool" for f where
  arena_begin: "arena_reachable f arena_start"
| arena_event: "arena_reachable f a \<Longrightarrow> \<not> is_report e \<Longrightarrow> arena_reachable f (on_arena_event e a)"
| arena_report: "arena_reachable f a \<Longrightarrow> snd (runJudge (Loads f) k crash) = Some r
    \<Longrightarrow> arena_reachable f (on_arena_event (JudgeReports (jo_verdict r) (jo_error r)) a)"

lemma fair_never_accepted:
  assumes "fair_player f" and "snd (runJudge (Loads f) k crash) = Some r" shows "jo_verdict r \<noteq> AvAC"
proof
  assume a: "jo_verdict r = AvAC"
  obtain rs' where "fold on_worker_event (map Message (take k (worker_run f 0 arena_tests))
      @ (if crash then [WorkerCrash] else []) @ [KillTimer]) ([], None) = (rs', Some r)"
    using assms(2) by (cases "runJudge (Loads f) k crash") (simp add: runJudge_def judge_run_def)
  moreover have "(if crash then [WorkerCrash] else []) @ [KillTimer] = [KillTimer]
      \<or> (if crash then [WorkerCrash] else []) @ [KillTimer] = [WorkerCrash, KillTimer]" by simp
  ultimately have "\<forall>j < length arena_tests. \<exists>v. test_passes (arena_tests ! j) v"
    using accepted_run[OF assms(1) _ _ a, of "(if crash then [WorkerCrash] else []) @ [KillTimer]"] by blast
  then have "\<exists>v. test_passes (arena_tests ! 7) v" unfolding arena_tests_last(1) by (rule allE[of _ 7]) simp
  then show False unfolding arena_tests_last(2) by (simp add: last_test_unsolvable)
qed

text \<open>A report accepted late overrides the defeat.\<close>

lemma late_accept_overrides_defeat:
  "ar_result (fold on_arena_event [SubmitButton, OpponentSolves, JudgeReports AvAC None] arena_start) = Victory"
  by code_simp

text \<open>Code that posts the verdict itself wins, whatever its function returns.\<close>

lemma forged_verdict_wins:
  "jo_verdict (the (snd (runJudge (Loads (\<lambda>i xs t. ([MsgDone AvAC], Hangs))) 1 False))) = AvAC"
  by (simp add: runJudge_def judge_run_def arena_tests_def del: upt_rec_numeral)


text \<open>A solver for two of the tests: it stops at the third.\<close>

definition two_solver :: arena_player where
  "two_solver i xs t = ([], Returns (if i = 0 then JArr [JNum 0, JNum 1] else if i = 1 then JArr [JNum 1, JNum 2] else JNull))"


end
