(* ===== verification/FrontApi.thy ===== *)
theory FrontApi
  imports CoachText
begin

text \<open>
  The web client's one HTTP client (frontend, services/api-client.ts and token-store.ts, utils/jwt.ts and
  utils/error.ts): the token in memory and its expiry, the three interceptors and the single refresh that
  concurrent requests share. The network is an argument: for the n-th send of the session it gives how
  long the answer takes and what it is, no answer included.
\<close>

section \<open>Tokens\<close>

text \<open>\<open>atob\<close>: whitespace is dropped, up to two padding signs are taken off a complete text.\<close>

definition b64_value :: "char \<Rightarrow> nat option" where
  "b64_value c = (let n = (of_char c :: nat) in
     if 65 \<le> n \<and> n \<le> 90 then Some (n - 65) else if 97 \<le> n \<and> n \<le> 122 then Some (n - 71)
     else if 48 \<le> n \<and> n \<le> 57 then Some (n + 4) else if n = 43 then Some 62 else if n = 47 then Some 63 else None)"

fun b64_bytes :: "nat list \<Rightarrow> string" where
  "b64_bytes (a # b # c # d # r) = char_of (a * 4 + b div 16) # char_of ((b mod 16) * 16 + c div 4) # char_of ((c mod 4) * 64 + d) # b64_bytes r"
| "b64_bytes [a, b, c] = [char_of (a * 4 + b div 16), char_of ((b mod 16) * 16 + c div 4)]"
| "b64_bytes [a, b] = [char_of (a * 4 + b div 16)]"
| "b64_bytes [a] = []"
| "b64_bytes [] = []"

definition unpadded :: "string \<Rightarrow> string" where
  "unpadded s = (if length s mod 4 \<noteq> 0 then s
     else if drop (length s - 2) s = ''=='' then take (length s - 2) s
     else if s \<noteq> [] \<and> last s = CHR ''='' then butlast s else s)"

definition atob :: "string \<Rightarrow> string option" where
  "atob s = (let u = unpadded (filter (\<lambda>c. (of_char c :: nat) \<notin> {9, 10, 12, 13, 32}) s)
     in if length u mod 4 = 1 then None else map_option b64_bytes (those (map b64_value u)))"

definition url_alphabet :: "char \<Rightarrow> char" where
  "url_alphabet c = (if c = CHR ''-'' then CHR ''+'' else if c = CHR ''_'' then CHR ''/'' else c)"

definition decodeJwt :: "string \<Rightarrow> json option" where
  "decodeJwt token = (case split_at_char CHR ''.'' token of
       _ # payload # _ \<Rightarrow> if payload = [] then None else Option.bind (atob (map url_alphabet payload)) parse_json
     | _ \<Rightarrow> None)"

text \<open>A value in a condition, and a value times a thousand.\<close>

fun truthy :: "json \<Rightarrow> bool" where
  "truthy JNull = False"
| "truthy (JBool b) = b"
| "truthy (JNum q) = (q \<noteq> 0)"
| "truthy (JStr s) = (s \<noteq> [])"
| "truthy _ = True"

fun thousand :: "js_num \<Rightarrow> js_num" where
  "thousand (Fin q) = Fin (q * 1000)"
| "thousand n = n"

definition expiryOf :: "int \<Rightarrow> string \<Rightarrow> js_num" where
  "expiryOf now token = (case Option.bind (decodeJwt token) (jfield ''exp'') of
       Some e \<Rightarrow> if truthy e then thousand (coerce_number e) else Fin (of_int (now + 15 * 60000))
     | None \<Rightarrow> Fin (of_int (now + 15 * 60000)))"

text \<open>The store: the token and its expiry. A token that cannot be read keeps no one signed out for ever: a
  number that is no number is never reached.\<close>

type_synonym tokens = "(string \<times> js_num) option"

fun reached :: "int \<Rightarrow> js_num \<Rightarrow> bool" where
  "reached now (Fin q) = (q \<le> of_int now)"
| "reached now NegInf = True"
| "reached now _ = False"

fun minus_ms :: "int \<Rightarrow> js_num \<Rightarrow> js_num" where
  "minus_ms d (Fin q) = Fin (q - of_int d)"
| "minus_ms d n = n"

definition isExpired :: "int \<Rightarrow> int \<Rightarrow> tokens \<Rightarrow> bool" where
  "isExpired now skew t = (case t of None \<Rightarrow> True | Some (_, e) \<Rightarrow> reached now (minus_ms skew e))"

section \<open>Requests\<close>

definition auth_refresh_path :: string where "auth_refresh_path = ''/auth/refresh''"

definition no_refresh_paths :: "string list" where
  "no_refresh_paths = [''/auth/login'', ''/auth/register'', auth_refresh_path, ''/auth/logout'']"

definition retryable_methods :: "string list" where
  "retryable_methods = [''get'', ''head'', ''options'']"

definition retryable_statuses :: "nat list" where
  "retryable_statuses = [408, 429, 500, 502, 503, 504]"

definition max_attempts :: nat where "max_attempts = 3"

definition base_delay :: int where "base_delay = 400"

record api_config =
  cf_url :: string
  cf_method :: string
  cf_retryCount :: nat
  cf_refreshRetried :: bool
  cf_skipAuth :: bool
  cf_authorization :: "string option"

definition refresh_config :: api_config where
  "refresh_config = \<lparr>cf_url = auth_refresh_path, cf_method = ''post'', cf_retryCount = 0, cf_refreshRetried = False,
     cf_skipAuth = True, cf_authorization = None\<rparr>"

datatype api_answer = NoAnswer | Answer nat json

record api_send =
  sd_url :: string
  sd_method :: string
  sd_authorization :: "string option"

type_synonym network = "nat \<Rightarrow> api_send \<Rightarrow> nat \<times> api_answer"

text \<open>The client: the token, the clock, how often the end of the session was announced, what was sent, and the
  time spent in backoff.\<close>

record api_state =
  ap_tokens :: tokens
  ap_now :: int
  ap_expired :: nat
  ap_sent :: "api_send list"
  ap_slept :: int

definition bearer :: "string \<Rightarrow> string" where "bearer t = ''Bearer '' @ t"

definition attach_token :: "api_config \<Rightarrow> tokens \<Rightarrow> api_config" where
  "attach_token c t = (case t of Some (a, _) \<Rightarrow> if a \<noteq> [] \<and> \<not> cf_skipAuth c then c\<lparr>cf_authorization := Some (bearer a)\<rparr> else c
     | None \<Rightarrow> c)"

definition send_of :: "api_config \<Rightarrow> api_send" where
  "send_of c = \<lparr>sd_url = cf_url c, sd_method = cf_method c, sd_authorization = cf_authorization c\<rparr>"

definition transmit :: "network \<Rightarrow> api_config \<Rightarrow> api_state \<Rightarrow> api_answer \<times> api_state" where
  "transmit net c s = (case net (length (ap_sent s)) (send_of c) of
     (d, a) \<Rightarrow> (a, s\<lparr>ap_sent := ap_sent s @ [send_of c], ap_now := ap_now s + int d\<rparr>))"

definition auth_path :: "api_config \<Rightarrow> bool" where
  "auth_path c \<longleftrightarrow> list_ex (\<lambda>p. str_includes p (cf_url c)) no_refresh_paths"

fun answer_status :: "api_answer \<Rightarrow> nat option" where
  "answer_status NoAnswer = None"
| "answer_status (Answer n b) = Some n"

definition transient :: "api_answer \<Rightarrow> bool" where
  "transient a = (case answer_status a of None \<Rightarrow> True | Some n \<Rightarrow> List.member retryable_statuses n)"

fun accepted_body :: "api_answer \<Rightarrow> json option" where
  "accepted_body NoAnswer = None"
| "accepted_body (Answer n b) = (if 200 \<le> n \<and> n < 300 then Some b else None)"

text \<open>
  What the refresh makes of its answer: the token of the envelope goes into the store. Reading a field of a
  missing \<open>data\<close> throws, as the request itself may have; then the store is cleared and the end of the
  session announced. A missing or empty token is stored but does not count as one.
\<close>

fun token_text :: "json option \<Rightarrow> string" where
  "token_text None = []"
| "token_text (Some v) = (if truthy v then js_String v else [])"

fun refreshed_token :: "json option \<Rightarrow> string option" where
  "refreshed_token None = None"
| "refreshed_token (Some b) = (case jfield ''data'' b of None \<Rightarrow> None | Some JNull \<Rightarrow> None
     | Some d \<Rightarrow> Some (token_text (jfield ''accessToken'' d)))"

definition accept_refresh :: "json option \<Rightarrow> api_state \<Rightarrow> string \<times> api_state" where
  "accept_refresh b s = (case refreshed_token b of
       Some t \<Rightarrow> (t, s\<lparr>ap_tokens := Some (t, expiryOf (ap_now s) t)\<rparr>)
     | None \<Rightarrow> ([], s\<lparr>ap_tokens := None, ap_expired := ap_expired s + 1\<rparr>))"

definition back_off :: "nat \<Rightarrow> api_state \<Rightarrow> api_state" where
  "back_off attempt s = (let d = base_delay * 2 ^ (attempt - 1) in s\<lparr>ap_now := ap_now s + d, ap_slept := ap_slept s + d\<rparr>)"

lemma refresh_is_auth_path: "auth_path refresh_config"
  by (simp add: auth_path_def refresh_config_def no_refresh_paths_def auth_refresh_path_def)

text \<open>Every nested request is nearer the end: a refresh is not refreshed, a replay is not replayed, and the
  attempts are counted.\<close>

lemma auth_path_update [simp]:
  "auth_path (c\<lparr>cf_refreshRetried := b, cf_authorization := h\<rparr>) = auth_path c"
  "auth_path (c\<lparr>cf_retryCount := n, cf_authorization := h\<rparr>) = auth_path c"
  by (simp_all add: auth_path_def)

text \<open>
  A request through the interceptors, to its answer or its error. After a 401 the refresh is such a request
  itself, and the original one is sent again with the new token; a transient failure is tried again after a
  pause. The marks on the configuration go with it.
\<close>

function api_request :: "network \<Rightarrow> api_config \<Rightarrow> api_state \<Rightarrow> (api_answer + json) \<times> api_state" where
  "api_request net c s =
     (case transmit net (attach_token c (ap_tokens s)) s of (a, s1) \<Rightarrow>
      (case accepted_body a of
         Some b \<Rightarrow> (Inr b, s1)
       | None \<Rightarrow>
           if answer_status a = Some 401 \<and> \<not> cf_refreshRetried c \<and> \<not> auth_path c then
             (case api_request net refresh_config s1 of (r, s2) \<Rightarrow>
              (case accept_refresh (case r of Inr b \<Rightarrow> Some b | Inl _ \<Rightarrow> None) s2 of (t, s3) \<Rightarrow>
                 if t \<noteq> [] then api_request net (c\<lparr>cf_refreshRetried := True, cf_authorization := Some (bearer t)\<rparr>) s3
                 else (Inl a, s3)))
           else if transient a \<and> List.member retryable_methods (cf_method c) \<and> cf_retryCount c + 1 \<le> max_attempts then
             api_request net (c\<lparr>cf_retryCount := cf_retryCount c + 1,
               cf_authorization := cf_authorization (attach_token c (ap_tokens s))\<rparr>) (back_off (cf_retryCount c + 1) s1)
           else (Inl a, s1)))"
  by pat_completeness auto
termination
  by (relation "measures [\<lambda>(net, c, s). if auth_path c then 0 else if cf_refreshRetried c then 1 else 2,
        \<lambda>(net, c, s). 3 - cf_retryCount c]")
    (auto simp: refresh_is_auth_path max_attempts_def)

declare api_request.simps [simp del]

definition refreshAccessToken :: "network \<Rightarrow> api_state \<Rightarrow> string \<times> api_state" where
  "refreshAccessToken net s = (case api_request net refresh_config s of
     (r, s2) \<Rightarrow> accept_refresh (case r of Inr b \<Rightarrow> Some b | Inl _ \<Rightarrow> None) s2)"

definition ensureFreshToken :: "network \<Rightarrow> api_state \<Rightarrow> api_state" where
  "ensureFreshToken net s = (if ap_tokens s \<noteq> None \<and> isExpired (ap_now s) 60000 (ap_tokens s) then snd (refreshAccessToken net s) else s)"

text \<open>\<open>request\<close>: the payload of the envelope.\<close>

definition request_payload :: "network \<Rightarrow> api_config \<Rightarrow> api_state \<Rightarrow> (api_answer + json option) \<times> api_state" where
  "request_payload net c s = (case api_request net c s of (Inl a, s') \<Rightarrow> (Inl a, s') | (Inr b, s') \<Rightarrow> (Inr (jfield ''data'' b), s'))"

section \<open>Every request settles\<close>

abbreviation idempotent :: "api_config \<Rightarrow> bool" where
  "idempotent c \<equiv> List.member retryable_methods (cf_method c)"

definition attempts_left :: "api_config \<Rightarrow> nat" where
  "attempts_left c = (if idempotent c then max_attempts - cf_retryCount c else 0)"

definition pause_left :: "api_config \<Rightarrow> int" where
  "pause_left c = (if idempotent c \<and> cf_retryCount c \<le> max_attempts then base_delay * (2 ^ max_attempts - 2 ^ cf_retryCount c) else 0)"

lemma left_refreshed [simp]:
  "attempts_left (c\<lparr>cf_refreshRetried := b, cf_authorization := h\<rparr>) = attempts_left c"
  "pause_left (c\<lparr>cf_refreshRetried := b, cf_authorization := h\<rparr>) = pause_left c"
  by (cases c, simp add: attempts_left_def pause_left_def)+

lemma transmit_fields:
  assumes "transmit net c s = (a, s1)"
  shows "ap_sent s1 = ap_sent s @ [send_of c]" "ap_slept s1 = ap_slept s" "ap_tokens s1 = ap_tokens s" "ap_expired s1 = ap_expired s"
  using assms by (auto simp: transmit_def split: prod.splits)

lemma send_attach [simp]: "sd_url (send_of (attach_token c t)) = cf_url c" "sd_method (send_of (attach_token c t)) = cf_method c"
  by (auto simp: send_of_def attach_token_def split: option.splits prod.splits)

lemma back_off_fields [simp]:
  "ap_sent (back_off n s) = ap_sent s" "ap_tokens (back_off n s) = ap_tokens s" "ap_expired (back_off n s) = ap_expired s"
  "ap_slept (back_off n s) = ap_slept s + base_delay * 2 ^ (n - 1)"
  by (simp_all add: back_off_def Let_def)

lemma pause_step:
  "idempotent c \<Longrightarrow> cf_retryCount c < max_attempts
     \<Longrightarrow> base_delay * 2 ^ cf_retryCount c + pause_left (c\<lparr>cf_retryCount := cf_retryCount c + 1, cf_authorization := h\<rparr>) = pause_left c"
  by (simp add: pause_left_def algebra_simps)

lemma pause_left_nonneg: "0 \<le> pause_left c"
proof -
  have "(2::int) ^ cf_retryCount c \<le> 2 ^ max_attempts" if "cf_retryCount c \<le> max_attempts" using that by (rule power_increasing) simp
  then show ?thesis by (simp add: pause_left_def base_delay_def)
qed

text \<open>Without a refresh ahead: one send and the attempts that are left.\<close>

lemma settles_without_refresh:
  assumes "cf_refreshRetried c \<or> auth_path c" and "api_request net c s = (r, s')"
  shows "\<exists>log. ap_sent s' = ap_sent s @ log \<and> list_all (\<lambda>x. sd_url x = cf_url c) log \<and> length log \<le> 1 + attempts_left c
    \<and> ap_slept s' \<le> ap_slept s + pause_left c \<and> ap_tokens s' = ap_tokens s \<and> ap_expired s' = ap_expired s"
  using assms
proof (induction "max_attempts - cf_retryCount c" arbitrary: c s)
  case less: (Suc k)
  obtain a s1 where t: "transmit net (attach_token c (ap_tokens s)) s = (a, s1)" by fastforce
  note f = transmit_fields[OF t]
  show ?case
  proof (cases "accepted_body a = None \<and> transient a \<and> idempotent c \<and> cf_retryCount c + 1 \<le> max_attempts")
    case True
    let ?c = "c\<lparr>cf_retryCount := cf_retryCount c + 1, cf_authorization := cf_authorization (attach_token c (ap_tokens s))\<rparr>"
    have "api_request net ?c (back_off (cf_retryCount c + 1) s1) = (r, s')"
      using less.prems True t by (subst (asm) api_request.simps) auto
    moreover have "k = max_attempts - cf_retryCount ?c" using less.hyps(2) by simp
    ultimately obtain log where "ap_sent s' = ap_sent s1 @ log" "list_all (\<lambda>x. sd_url x = cf_url c) log"
      "length log \<le> 1 + attempts_left ?c" "ap_slept s' \<le> ap_slept s + base_delay * 2 ^ cf_retryCount c + pause_left ?c"
      "ap_tokens s' = ap_tokens s" "ap_expired s' = ap_expired s"
      using less.hyps(1)[of ?c "back_off (cf_retryCount c + 1) s1"] less.prems(1) f by auto
    then show ?thesis using f True pause_step[of c "cf_authorization (attach_token c (ap_tokens s))"]
      by (intro exI[of _ "send_of (attach_token c (ap_tokens s)) # log"]) (auto simp: attempts_left_def)
  next
    case False
    then have "s' = s1" using less.prems t by (subst (asm) (1) api_request.simps) (auto split: option.splits if_splits)
    then show ?thesis using f pause_left_nonneg[of c] by auto
  qed
next
  case 0
  obtain a s1 where t: "transmit net (attach_token c (ap_tokens s)) s = (a, s1)" by fastforce
  then have "s' = s1" using 0 by (subst (asm) (1) api_request.simps) (auto split: option.splits if_splits)
  then show ?case using transmit_fields[OF t] pause_left_nonneg[of c] by auto
qed

lemma accept_refresh_fields:
  assumes "accept_refresh b s = (t, s')"
  shows "ap_sent s' = ap_sent s" "ap_slept s' = ap_slept s"
    "ap_expired s' = ap_expired s + 1 \<and> ap_tokens s' = None \<and> t = [] \<or> ap_expired s' = ap_expired s \<and> ap_tokens s' \<noteq> None"
  using assms by (auto simp: accept_refresh_def split: option.splits)

lemma refresh_settles:
  assumes "refreshAccessToken net s = (t, s')"
  shows "\<exists>log. ap_sent s' = ap_sent s @ log \<and> list_all (\<lambda>x. sd_url x = auth_refresh_path) log \<and> length log \<le> 1
    \<and> ap_slept s' \<le> ap_slept s \<and> (ap_expired s' = ap_expired s + 1 \<and> ap_tokens s' = None \<and> t = [] \<or> ap_expired s' = ap_expired s)"
proof -
  obtain r s2 where r: "api_request net refresh_config s = (r, s2)" by fastforce
  have z: "attempts_left refresh_config = 0" "pause_left refresh_config = 0" "cf_url refresh_config = auth_refresh_path"
    by (simp_all add: attempts_left_def pause_left_def refresh_config_def retryable_methods_def)
  from settles_without_refresh[OF disjI2[OF refresh_is_auth_path] r] z
  obtain log where l: "ap_sent s2 = ap_sent s @ log" "list_all (\<lambda>x. sd_url x = auth_refresh_path) log" "length log \<le> 1"
    "ap_slept s2 \<le> ap_slept s" "ap_expired s2 = ap_expired s" by auto
  have "accept_refresh (case r of Inr b \<Rightarrow> Some b | Inl _ \<Rightarrow> None) s2 = (t, s')"
    using assms r by (simp add: refreshAccessToken_def)
  from accept_refresh_fields[OF this] l show ?thesis by (intro exI[of _ log]) auto
qed

lemma api_request_after_401:
  assumes "transmit net (attach_token c (ap_tokens s)) s = (a, s1)" and "answer_status a = Some 401"
    and "\<not> cf_refreshRetried c" and "\<not> auth_path c"
  shows "api_request net c s = (case refreshAccessToken net s1 of (t, s3) \<Rightarrow>
     if t \<noteq> [] then api_request net (c\<lparr>cf_refreshRetried := True, cf_authorization := Some (bearer t)\<rparr>) s3 else (Inl a, s3))"
proof -
  have "accepted_body a = None" using assms(2) by (cases a) auto
  then show ?thesis using assms by (subst api_request.simps) (auto simp: refreshAccessToken_def split: prod.splits)
qed

text \<open>With a refresh ahead: one more send of the request, and one of the refresh.\<close>

lemma settles:
  assumes "\<not> cf_refreshRetried c" and "\<not> auth_path c" and "api_request net c s = (r, s')"
  shows "\<exists>log. ap_sent s' = ap_sent s @ log \<and> length (filter (\<lambda>x. sd_url x = cf_url c) log) \<le> 2 + attempts_left c
    \<and> length (filter (\<lambda>x. sd_url x = auth_refresh_path) log) \<le> 1
    \<and> list_all (\<lambda>x. sd_url x = cf_url c \<or> sd_url x = auth_refresh_path) log
    \<and> ap_slept s' \<le> ap_slept s + pause_left c
    \<and> (ap_expired s' = ap_expired s + 1 \<and> ap_tokens s' = None \<or> ap_expired s' = ap_expired s)"
  using assms
proof (induction "max_attempts - cf_retryCount c" arbitrary: c s rule: less_induct)
  case less
  obtain a s1 where t: "transmit net (attach_token c (ap_tokens s)) s = (a, s1)" by fastforce
  note f = transmit_fields[OF t]
  have ne: "cf_url c \<noteq> auth_refresh_path"
    using less.prems(2) by (auto simp: auth_path_def no_refresh_paths_def auth_refresh_path_def)
  let ?x = "send_of (attach_token c (ap_tokens s))"
  consider (again) "answer_status a = Some 401"
    | (retry) "answer_status a \<noteq> Some 401" "accepted_body a = None" "transient a" "idempotent c" "cf_retryCount c + 1 \<le> max_attempts"
    | (stop) "answer_status a \<noteq> Some 401" "\<not> (accepted_body a = None \<and> transient a \<and> idempotent c \<and> cf_retryCount c + 1 \<le> max_attempts)"
    by auto
  then show ?case
  proof cases
    case again
    obtain u s3 where u: "refreshAccessToken net s1 = (u, s3)" by fastforce
    from refresh_settles[OF u] f obtain l1 where l1: "ap_sent s3 = ap_sent s @ [?x] @ l1" "list_all (\<lambda>x. sd_url x = auth_refresh_path) l1"
      "length l1 \<le> 1" "ap_slept s3 \<le> ap_slept s"
      "ap_expired s3 = ap_expired s + 1 \<and> ap_tokens s3 = None \<and> u = [] \<or> ap_expired s3 = ap_expired s" by auto
    then have n1: "filter (\<lambda>x. sd_url x = cf_url c) l1 = []" "length (filter (\<lambda>x. sd_url x = auth_refresh_path) l1) \<le> 1"
      using ne length_filter_le[of "\<lambda>x. sd_url x = auth_refresh_path" l1] by (auto simp: list_all_iff filter_empty_conv)
    let ?c = "c\<lparr>cf_refreshRetried := True, cf_authorization := Some (bearer u)\<rparr>"
    have eq: "(if u \<noteq> [] then api_request net ?c s3 else (Inl a, s3)) = (r, s')"
      using api_request_after_401[OF t again less.prems(1,2)] u less.prems(3) by simp
    show ?thesis
    proof (cases "u = []")
      case True
      with eq l1 n1 ne pause_left_nonneg[of c] show ?thesis
        by (intro exI[of _ "[?x] @ l1"]) (auto simp: list_all_iff)
    next
      case False
      with eq have "api_request net ?c s3 = (r, s')" by simp
      from settles_without_refresh[OF _ this] obtain l2 where l2: "ap_sent s' = ap_sent s3 @ l2" "list_all (\<lambda>x. sd_url x = cf_url c) l2"
        "length l2 \<le> 1 + attempts_left c" "ap_slept s' \<le> ap_slept s3 + pause_left c" "ap_expired s' = ap_expired s3"
        by auto
      then have n2: "filter (\<lambda>x. sd_url x = auth_refresh_path) l2 = []" "length (filter (\<lambda>x. sd_url x = cf_url c) l2) \<le> 1 + attempts_left c"
        using ne length_filter_le[of "\<lambda>x. sd_url x = cf_url c" l2] by (auto simp: list_all_iff filter_empty_conv)
      show ?thesis using l1 l2 n1 n2 ne False
        by (intro exI[of _ "[?x] @ l1 @ l2"]) (auto simp: list_all_iff)
    qed
  next
    case retry
    let ?c = "c\<lparr>cf_retryCount := cf_retryCount c + 1, cf_authorization := cf_authorization (attach_token c (ap_tokens s))\<rparr>"
    have "api_request net ?c (back_off (cf_retryCount c + 1) s1) = (r, s')"
      using less.prems(3) retry t by (subst (asm) api_request.simps) auto
    moreover have "max_attempts - cf_retryCount ?c < max_attempts - cf_retryCount c" using retry(5) by simp
    ultimately have "\<exists>log. ap_sent s' = ap_sent (back_off (cf_retryCount c + 1) s1) @ log \<and> length (filter (\<lambda>x. sd_url x = cf_url c) log) \<le> 2 + attempts_left ?c
        \<and> length (filter (\<lambda>x. sd_url x = auth_refresh_path) log) \<le> 1
        \<and> list_all (\<lambda>x. sd_url x = cf_url c \<or> sd_url x = auth_refresh_path) log
        \<and> ap_slept s' \<le> ap_slept (back_off (cf_retryCount c + 1) s1) + pause_left ?c
        \<and> (ap_expired s' = ap_expired (back_off (cf_retryCount c + 1) s1) + 1 \<and> ap_tokens s' = None
          \<or> ap_expired s' = ap_expired (back_off (cf_retryCount c + 1) s1))"
      using less.hyps[of ?c "back_off (cf_retryCount c + 1) s1"] less.prems(1,2) by simp
    with f obtain log where l: "ap_sent s' = ap_sent s @ [?x] @ log"
      "length (filter (\<lambda>x. sd_url x = cf_url c) log) \<le> 2 + attempts_left ?c" "length (filter (\<lambda>x. sd_url x = auth_refresh_path) log) \<le> 1"
      "list_all (\<lambda>x. sd_url x = cf_url c \<or> sd_url x = auth_refresh_path) log"
      "ap_slept s' \<le> ap_slept s + base_delay * 2 ^ cf_retryCount c + pause_left ?c"
      "ap_expired s' = ap_expired s + 1 \<and> ap_tokens s' = None \<or> ap_expired s' = ap_expired s"
      by auto
    then show ?thesis using retry ne pause_step[of c "cf_authorization (attach_token c (ap_tokens s))"]
      by (intro exI[of _ "[?x] @ log"]) (auto simp: attempts_left_def)
  next
    case stop
    then have "s' = s1" using less.prems t by (subst (asm) (1) api_request.simps) (auto split: option.splits if_splits)
    then show ?thesis using f ne pause_left_nonneg[of c] by auto
  qed
qed

text \<open>A verb that may not be repeated is sent once, unless the answer is a 401.\<close>

lemma single_send:
  assumes "transmit net (attach_token c (ap_tokens s)) s = (a, s1)" and "\<not> idempotent c" and "answer_status a \<noteq> Some 401"
  shows "snd (api_request net c s) = s1"
  using assms by (subst api_request.simps) (auto split: option.splits)

text \<open>Whatever went wrong with the refresh, an outage included, the session is over.\<close>

lemma refresh_failure_ends_session:
  assumes "transmit net refresh_config s = (a, s1)" and "accepted_body a = None"
  shows "refreshAccessToken net s = ([], s1\<lparr>ap_tokens := None, ap_expired := ap_expired s + 1\<rparr>)"
proof -
  have t: "attach_token refresh_config u = refresh_config" for u
    by (auto simp: attach_token_def refresh_config_def split: option.splits prod.splits)
  have "\<not> idempotent refresh_config" by (simp add: refresh_config_def retryable_methods_def)
  then have "api_request net refresh_config s = (Inl a, s1)"
    using assms refresh_is_auth_path by (subst api_request.simps) (simp add: t)
  then show ?thesis using transmit_fields[OF assms(1)] by (simp add: refreshAccessToken_def accept_refresh_def)
qed

section \<open>One refresh for all\<close>

text \<open>
  Requests that meet a 401 ask for the refresh; the first makes the call, the others wait for its promise,
  and the promise is forgotten when the call has settled.
\<close>

record flight =
  fl_promise :: "nat option"
  fl_calls :: nat
  fl_open :: "nat list"
  fl_waiting :: "(nat \<times> nat) list"
  fl_got :: "(nat \<times> string) list"

definition no_flight :: flight where
  "no_flight = \<lparr>fl_promise = None, fl_calls = 0, fl_open = [], fl_waiting = [], fl_got = []\<rparr>"

definition ask_refresh :: "nat \<Rightarrow> flight \<Rightarrow> flight" where
  "ask_refresh r f = (case fl_promise f of
       Some k \<Rightarrow> f\<lparr>fl_waiting := fl_waiting f @ [(r, k)]\<rparr>
     | None \<Rightarrow> f\<lparr>fl_promise := Some (fl_calls f), fl_open := fl_calls f # fl_open f, fl_calls := fl_calls f + 1,
         fl_waiting := fl_waiting f @ [(r, fl_calls f)]\<rparr>)"

definition settle_refresh :: "nat \<Rightarrow> string \<Rightarrow> flight \<Rightarrow> flight" where
  "settle_refresh k t f = f\<lparr>fl_promise := None, fl_open := remove1 k (fl_open f),
     fl_waiting := filter (\<lambda>(r, j). j \<noteq> k) (fl_waiting f),
     fl_got := fl_got f @ map (\<lambda>(r, j). (r, t)) (filter (\<lambda>(r, j). j = k) (fl_waiting f))\<rparr>"

inductive flight_reachable :: "flight \<Rightarrow> bool" where
  flight_none: "flight_reachable no_flight"
| flight_ask: "flight_reachable f \<Longrightarrow> flight_reachable (ask_refresh r f)"
| flight_settle: "flight_reachable f \<Longrightarrow> k \<in> set (fl_open f) \<Longrightarrow> flight_reachable (settle_refresh k t f)"

lemma flight_inv:
  "flight_reachable f \<Longrightarrow> fl_open f = (case fl_promise f of None \<Rightarrow> [] | Some k \<Rightarrow> [k])
     \<and> list_all (\<lambda>(r, j). fl_promise f = Some j) (fl_waiting f)"
proof (induction rule: flight_reachable.induct)
  case (flight_ask f r)
  then show ?case by (auto simp: ask_refresh_def list_all_iff split: option.splits)
next
  case (flight_settle f k t)
  then show ?case by (auto simp: settle_refresh_def list_all_iff split: option.splits)
qed (simp add: no_flight_def)

text \<open>At most one call is under way, and its answer reaches everybody who waits.\<close>

lemma single_flight:
  assumes "flight_reachable f"
  shows "length (fl_open f) \<le> 1
    \<and> (k \<in> set (fl_open f) \<longrightarrow> fl_waiting (settle_refresh k t f) = []
        \<and> fl_got (settle_refresh k t f) = fl_got f @ map (\<lambda>(r, j). (r, t)) (fl_waiting f))"
proof -
  have "filter (\<lambda>(r, j). j = k) (fl_waiting f) = fl_waiting f" if "k \<in> set (fl_open f)"
    using flight_inv[OF assms] that by (auto simp: filter_id_conv list_all_iff split: option.splits)
  with flight_inv[OF assms] show ?thesis
    by (auto simp: settle_refresh_def list_all_iff filter_empty_conv split: option.splits)
qed

section \<open>Errors for the user\<close>

datatype thrown = HttpError api_answer | ScriptError string | OtherThrown

record normalized_error =
  ne_status :: nat
  ne_code :: json
  ne_message :: json
  ne_details :: "json option"
  ne_isNetworkError :: bool

definition not_nullish :: "json option \<Rightarrow> json option" where
  "not_nullish v = (if v = Some JNull then None else v)"

definition fallbackMessage :: "nat \<Rightarrow> string" where
  "fallbackMessage n =
     (if n = 401 then ''Your session expired. Sign in to continue.''
      else if n = 403 then ''You don't have access to this.''
      else if n = 404 then ''That doesn't exist, or it moved.''
      else if n = 409 then ''That conflicts with something that already exists.''
      else if n = 429 then ''Too many requests. Wait a moment and try again.''
      else if n \<ge> 500 then ''The server ran into a problem. Try again shortly.''
      else ''Something went wrong.'')"

fun normalizeError :: "bool \<Rightarrow> thrown \<Rightarrow> normalized_error" where
  "normalizeError online (HttpError NoAnswer) = \<lparr>ne_status = 0, ne_code = JStr ''NETWORK_ERROR'',
     ne_message = JStr (if online then ''Couldn't reach the server. Try again in a moment.'' else ''You're offline. Reconnect to continue.''),
     ne_details = None, ne_isNetworkError = True\<rparr>"
| "normalizeError online (HttpError (Answer n b)) = (let e = Option.bind (not_nullish (jfield ''error'' b)) in
     \<lparr>ne_status = n, ne_code = or_default (not_nullish (e (jfield ''code''))) (JStr ''UNKNOWN_ERROR''),
      ne_message = or_default (not_nullish (e (jfield ''message''))) (JStr (fallbackMessage n)),
      ne_details = e (jfield ''details''), ne_isNetworkError = False\<rparr>)"
| "normalizeError online (ScriptError m) = \<lparr>ne_status = 0, ne_code = JStr ''CLIENT_ERROR'', ne_message = JStr m, ne_details = None, ne_isNetworkError = False\<rparr>"
| "normalizeError online OtherThrown = \<lparr>ne_status = 0, ne_code = JStr ''UNKNOWN_ERROR'', ne_message = JStr ''Something went wrong.'',
     ne_details = None, ne_isNetworkError = False\<rparr>"

text \<open>
  The query function every endpoint goes through: refresh ahead of time, send, unwrap the envelope; a payload
  without one is passed on as it is. Looking for a field in a text or a number throws, with the engine's message.
\<close>

definition fresh_config :: "string \<Rightarrow> string \<Rightarrow> api_config" where
  "fresh_config method url = \<lparr>cf_url = url, cf_method = js_lower method, cf_retryCount = 0, cf_refreshRetried = False,
     cf_skipAuth = False, cf_authorization = None\<rparr>"

fun unwrap_body :: "json \<Rightarrow> json option" where
  "unwrap_body (JObj fs) = Some (or_default (jfield ''data'' (JObj fs)) (JObj fs))"
| "unwrap_body (JArr vs) = Some (JArr vs)"
| "unwrap_body v = (if truthy v then None else Some v)"

definition axiosBaseQuery :: "network \<Rightarrow> bool \<Rightarrow> string \<Rightarrow> string \<Rightarrow> string \<Rightarrow> api_state \<Rightarrow> (normalized_error + json) \<times> api_state" where
  "axiosBaseQuery net online engine_message method url s =
     (case api_request net (fresh_config method url) (ensureFreshToken net s) of
        (Inl a, s') \<Rightarrow> (Inl (normalizeError online (HttpError a)), s')
      | (Inr b, s') \<Rightarrow> (case unwrap_body b of
            Some d \<Rightarrow> (Inr d, s') | None \<Rightarrow> (Inl (normalizeError online (ScriptError engine_message)), s')))"

text \<open>\<open>Object.entries\<close>, and the first element of what a field holds; reading an element of null throws.\<close>

fun entries_of :: "json \<Rightarrow> (string \<times> json) list" where
  "entries_of (JObj fs) = fs"
| "entries_of (JArr vs) = map (\<lambda>(i, v). (dec_digits i, v)) (enumerate 0 vs)"
| "entries_of (JStr s) = map (\<lambda>(i, c). (dec_digits i, JStr [c])) (enumerate 0 s)"
| "entries_of _ = []"

fun first_message :: "json \<Rightarrow> json option" where
  "first_message (JArr (v # vs)) = Some v"
| "first_message (JStr (c # cs)) = Some (JStr [c])"
| "first_message (JObj fs) = map_of fs ''0''"
| "first_message _ = None"

definition toFieldErrors :: "normalized_error \<Rightarrow> (string \<times> json) list option" where
  "toFieldErrors e = (case ne_details e of
       None \<Rightarrow> Some []
     | Some d \<Rightarrow> if \<not> truthy d then Some []
         else if JNull \<in> snd ` set (entries_of d) then None
         else Some (map (\<lambda>(f, m). (f, or_default (not_nullish (first_message m)) (JStr ''Invalid value''))) (entries_of d)))"

text \<open>
  The details the backend's validators send hold the fields one level deeper, so the names of the two groups
  are taken for fields and the messages of the fields are lost.
\<close>

definition flattened :: "string list \<Rightarrow> (string \<times> string list) list \<Rightarrow> json" where
  "flattened forms fls = JObj [(''formErrors'', JArr (map JStr forms)), (''fieldErrors'', JObj (map (\<lambda>(f, ms). (f, JArr (map JStr ms))) fls))]"

lemma field_errors_lost:
  assumes "''0'' \<notin> fst ` set fls"
  shows "toFieldErrors (normalizeError online (HttpError (Answer 422 (JObj [(''error'', JObj [(''details'', flattened [] fls)])]))))
    = Some [(''formErrors'', JStr ''Invalid value''), (''fieldErrors'', JStr ''Invalid value'')]"
proof -
  have "map_of (map (\<lambda>(f, ms). (f, JArr (map JStr ms))) fls) ''0'' = None"
    using assms by (force simp: map_of_eq_None_iff)
  then show ?thesis by (simp add: toFieldErrors_def flattened_def not_nullish_def or_default_def)
qed

section \<open>The contract of the client\<close>

text \<open>
  C34. Every request settles. A fresh request that is not one of the four session calls ends for every network,
  with at most five sends when its verb may be repeated and two otherwise, one call of the refresh and 2.8
  seconds of backoff; a verb that may not be repeated is sent exactly once unless its first answer is a 401,
  and the end of the session is announced at most once, with the token gone.
\<close>

theorem request_settles:
  assumes "cf_retryCount c = 0" and "\<not> cf_refreshRetried c" and "\<not> auth_path c"
  shows "\<exists>r s' log. api_request net c s = (r, s') \<and> ap_sent s' = ap_sent s @ log
    \<and> length (filter (\<lambda>x. sd_url x = cf_url c) log) \<le> (if idempotent c then 5 else 2)
    \<and> length (filter (\<lambda>x. sd_url x = auth_refresh_path) log) \<le> 1
    \<and> list_all (\<lambda>x. sd_url x = cf_url c \<or> sd_url x = auth_refresh_path) log
    \<and> ap_slept s' \<le> ap_slept s + 2800
    \<and> (\<not> idempotent c \<and> answer_status (fst (transmit net (attach_token c (ap_tokens s)) s)) \<noteq> Some 401
        \<longrightarrow> log = [send_of (attach_token c (ap_tokens s))])
    \<and> (ap_expired s' = ap_expired s + 1 \<and> ap_tokens s' = None \<or> ap_expired s' = ap_expired s)"
proof -
  obtain r s' where e: "api_request net c s = (r, s')" by fastforce
  have n: "attempts_left c \<le> (if idempotent c then 3 else 0)" "pause_left c \<le> 2800"
    using assms(1) by (simp_all add: attempts_left_def pause_left_def max_attempts_def base_delay_def)
  obtain a s1 where t: "transmit net (attach_token c (ap_tokens s)) s = (a, s1)" by fastforce
  have "ap_sent s' = ap_sent s @ [send_of (attach_token c (ap_tokens s))]" if "\<not> idempotent c" "answer_status a \<noteq> Some 401"
    using single_send[OF t that] transmit_fields[OF t] e by simp
  with settles[OF assms(2,3) e] n t e show ?thesis by (fastforce split: if_splits)
qed

text \<open>A read with an expired token: the 401, the refresh, a lost answer, and the answer.\<close>

definition demo_network :: network where
  "demo_network n x = (if n = 0 then (10, Answer 401 JNull)
     else if n = 1 then (20, Answer 200 (JObj [(''data'', JObj [(''accessToken'', JStr ''new'')])]))
     else if n = 2 then (30, NoAnswer) else (40, Answer 200 (JObj [(''data'', JStr ''page'')])))"

definition demo_get :: api_config where
  "demo_get = \<lparr>cf_url = ''/problems'', cf_method = ''get'', cf_retryCount = 0, cf_refreshRetried = False, cf_skipAuth = False, cf_authorization = None\<rparr>"

definition demo_client :: api_state where
  "demo_client = \<lparr>ap_tokens = Some (''old'', Fin 0), ap_now = 1000, ap_expired = 0, ap_sent = [], ap_slept = 0\<rparr>"

lemma request_settles_witness:
  "map (\<lambda>x. (sd_url x, sd_authorization x)) (ap_sent (snd (api_request demo_network demo_get demo_client)))
     = [(''/problems'', Some ''Bearer old''), (''/auth/refresh'', None), (''/problems'', Some ''Bearer new''), (''/problems'', Some ''Bearer new'')]
   \<and> ap_slept (snd (api_request demo_network demo_get demo_client)) \<le> 2800
   \<and> fst (request_payload demo_network demo_get demo_client) = Inr (Some (JStr ''page''))"
proof (intro conjI)
  show "map (\<lambda>x. (sd_url x, sd_authorization x)) (ap_sent (snd (api_request demo_network demo_get demo_client)))
     = [(''/problems'', Some ''Bearer old''), (''/auth/refresh'', None), (''/problems'', Some ''Bearer new''), (''/problems'', Some ''Bearer new'')]"
    by code_simp
  have "cf_retryCount demo_get = 0" "\<not> cf_refreshRetried demo_get" "\<not> auth_path demo_get"
    by (code_simp)+
  from request_settles[OF this, of demo_network demo_client]
  show "ap_slept (snd (api_request demo_network demo_get demo_client)) \<le> 2800" by (auto simp: demo_client_def)
  show "fst (request_payload demo_network demo_get demo_client) = Inr (Some (JStr ''page''))" by code_simp
qed

end
