(* ===== verification/FrontState.thy ===== *)
theory FrontState
  imports FrontApi JudgeService ProblemTypes
begin

text \<open>
  The web client's state (frontend, store/slices): one record per slice, one function per reducer, the
  selectors, and the browser's storage that some reducers write through (utils/storage.ts). What storage
  held when the client started is an argument of the initial states.
\<close>

section \<open>Browser storage\<close>

text \<open>Texts under keys. Storage that throws is one that reads nothing and keeps nothing.\<close>

record browser_storage =
  bs_up :: bool
  bs_items :: "string \<Rightarrow> string option"

definition storage_get :: "browser_storage \<Rightarrow> string \<Rightarrow> json \<Rightarrow> json" where
  "storage_get st k fb = (if \<not> bs_up st then fb else (case bs_items st k of None \<Rightarrow> fb
     | Some raw \<Rightarrow> (case parse_json raw of Some v \<Rightarrow> v | None \<Rightarrow> fb)))"

definition storage_set :: "string \<Rightarrow> json \<Rightarrow> browser_storage \<Rightarrow> browser_storage" where
  "storage_set k v st = (if bs_up st then st\<lparr>bs_items := (bs_items st)(k \<mapsto> stringify v)\<rparr> else st)"

definition storage_remove :: "string \<Rightarrow> browser_storage \<Rightarrow> browser_storage" where
  "storage_remove k st = (if bs_up st then st\<lparr>bs_items := (bs_items st)(k := None)\<rparr> else st)"

text \<open>A text that was stored is read back as it was.\<close>

lemma hex_val_hex_char: "m < 16 \<Longrightarrow> hex_val (hex_char m) = Some m"
  by (simp add: hex_val_def hex_char_def Let_def)

lemma hex_val_zero: "hex_val (CHR ''0'') = Some 0"
  by code_simp

lemma quote_marks: "char_of (34 :: nat) = CHR 34" "char_of (92 :: nat) = CHR 92"
  by (code_simp)+

lemma read_quoted_char: "read_string (quote_char c @ t) = map_option (\<lambda>(s, r). (c # s, r)) (read_string t)"
proof -
  have hex: "radix_from 16 0 [CHR ''0'', CHR ''0'', hex_char (of_char c div 16), hex_char (of_char c mod 16)] = Some (of_char c)"
  proof -
    have "(of_char c :: nat) div 16 < 16" "(of_char c :: nat) mod 16 < 16" by (simp_all add: less_mult_imp_div_less)
    then show ?thesis by (simp add: hex_val_hex_char hex_val_zero)
  qed
  have e: "c = char_of n" if "of_char c = (n :: nat)" for n using that by (metis char_of_char)
  show ?thesis
  proof (cases "(of_char c :: nat) < 32 \<and> of_char c \<notin> {8, 9, 10, 12, 13 :: nat}")
    case True
    then show ?thesis using hex by (simp add: quote_char_def Let_def split: option.splits)
  next
    case False
    then consider "of_char c = (34 :: nat)" | "of_char c = (92 :: nat)" | "of_char c = (8 :: nat)" | "of_char c = (9 :: nat)"
      | "of_char c = (10 :: nat)" | "of_char c = (12 :: nat)" | "of_char c = (13 :: nat)"
      | (plain) "(of_char c :: nat) \<ge> 32" "of_char c \<noteq> (34 :: nat)" "of_char c \<noteq> (92 :: nat)" by fastforce
    then show ?thesis
    proof cases
      case plain
      then have "c \<noteq> CHR 34" "c \<noteq> CHR 92" by auto
      with plain show ?thesis by (simp add: quote_char_def Let_def)
    qed (drule e, simp add: quote_char_def escape_code_def quote_marks)+
  qed
qed

lemma read_quoted: "read_string (concat (map quote_char s) @ CHR 34 # r) = Some (s, r)"
  by (induction s) (simp_all add: read_quoted_char)

lemma parse_quoted: "parse_json (stringify (JStr s)) = Some (JStr s)"
proof -
  have k: "\<not> json_ws (CHR 34)" by code_simp
  have "read_value (Suc n) (quoted s) = Some (JStr s, [])" for n
    using read_quoted[of s "[]"] k by (simp add: quoted_def skip_ws_def read_atom_def)
  then show ?thesis by (simp add: parse_json_def skip_ws_def)
qed

lemma storage_roundtrip:
  "bs_up st \<Longrightarrow> storage_get (storage_set k (JStr s) st) k fb = JStr s"
  "k \<noteq> k' \<Longrightarrow> storage_get (storage_set k v st) k' fb = storage_get st k' fb"
  using parse_quoted[of s] by (simp_all add: storage_get_def storage_set_def)

lemma storage_set_other: "k \<noteq> k' \<Longrightarrow> bs_items (storage_set k v st) k' = bs_items st k'"
  by (simp add: storage_set_def)

lemma storage_up [simp]: "bs_up (storage_set k v st) = bs_up st" "bs_up (storage_remove k st) = bs_up st"
  by (simp_all add: storage_set_def storage_remove_def)

section \<open>Slices\<close>

fun language_key :: "language \<Rightarrow> string" where
  "language_key LJavascript = ''JAVASCRIPT''"
| "language_key LTypescript = ''TYPESCRIPT''"
| "language_key LPython = ''PYTHON''"
| "language_key LJava = ''JAVA''"
| "language_key LCpp = ''CPP''"

datatype user_role = RoleUser | RoleModerator | RoleAdmin

record client_user =
  cl_id :: string
  cl_email :: string
  cl_username :: string
  cl_displayName :: "string option"
  cl_avatarUrl :: "string option"
  cl_role :: user_role
  cl_rating :: int
  cl_emailVerified :: bool
  cl_createdAt :: string

datatype auth_status = AuthIdle | AuthLoading | Authenticated | Unauthenticated

record auth_state =
  as_status :: auth_status
  as_user :: "client_user option"
  as_rememberMe :: bool
  as_returnTo :: "string option"
  as_error :: "string option"

record editor_prefs =
  ep_fontSize :: int
  ep_minimap :: bool
  ep_wordWrap :: bool
  ep_tabSize :: int

record editor_state =
  ed_language :: language
  ed_drafts :: "string \<Rightarrow> string option"
  ed_preferences :: editor_prefs
  ed_lastSavedAt :: "int option"
  ed_isDirty :: bool

datatype note_variant = NoteSuccess | NoteError | NoteInfo | NoteWarning

record toast =
  to_id :: string
  to_variant :: note_variant
  to_title :: string
  to_description :: "string option"
  to_duration :: int

datatype solved_filter = FilterAll | FilterSolved | FilterUnsolved | FilterBookmarked

datatype problem_sort = SortNewest | SortTitle | SortDifficulty | SortAcceptance

record problem_query =
  pq_search :: string
  pq_difficulties :: "difficulty list"
  pq_tags :: "string list"
  pq_companies :: "string list"
  pq_status :: solved_filter
  pq_sort :: problem_sort
  pq_page :: int
  pq_pageSize :: int

definition default_problem_query :: problem_query where
  "default_problem_query = \<lparr>pq_search = [], pq_difficulties = [], pq_tags = [], pq_companies = [], pq_status = FilterAll,
     pq_sort = SortNewest, pq_page = 1, pq_pageSize = 25\<rparr>"

datatype run_status = RunIdle | RunRunning | RunDone | RunFailed

text \<open>What the flows read of a submission: its id and its verdict.\<close>

record submission_detail =
  sbd_id :: string
  sbd_status :: verdict

record submission_state =
  ss_runStatus :: run_status
  ss_runResult :: "json option"
  ss_runError :: "string option"
  ss_customInput :: string
  ss_useCustomInput :: bool
  ss_submitStatus :: run_status
  ss_activeSubmissionId :: "string option"
  ss_lastSubmission :: "submission_detail option"
  ss_submitError :: "string option"

definition submission_initial :: submission_state where
  "submission_initial = \<lparr>ss_runStatus = RunIdle, ss_runResult = None, ss_runError = None, ss_customInput = [],
     ss_useCustomInput = False, ss_submitStatus = RunIdle, ss_activeSubmissionId = None, ss_lastSubmission = None,
     ss_submitError = None\<rparr>"

datatype theme_mode = ModeLight | ModeDark | ModeSystem

datatype painted = Light | Dark

record theme_state =
  ts_mode :: theme_mode
  ts_resolved :: painted

record user_state =
  us_sidebarCollapsed :: bool
  us_preferredLanguage :: string
  us_dismissedHints :: "string list"

definition user_initial :: user_state where
  "user_initial = \<lparr>us_sidebarCollapsed = False, us_preferredLanguage = ''javascript'', us_dismissedHints = []\<rparr>"

datatype problem_tab = TabDescription | TabEditorial | TabSubmissions

datatype console_tab = TabTestcases | TabOutput | TabResult

type_synonym panel_layout = "(string \<times> rat) list"

record workspace_state =
  wk_problemTab :: problem_tab
  wk_consoleTab :: console_tab
  wk_consoleOpen :: bool
  wk_horizontal :: panel_layout
  wk_vertical :: panel_layout
  wk_revealedHints :: "string list"

text \<open>The client: its slices, the token the network layer holds, storage, the clock and what the system's colour scheme is.\<close>

record client =
  ct_auth :: auth_state
  ct_editor :: editor_state
  ct_notes :: "toast list"
  ct_query :: problem_query
  ct_submission :: submission_state
  ct_theme :: theme_state
  ct_user :: user_state
  ct_workspace :: workspace_state
  ct_tokens :: tokens
  ct_storage :: browser_storage
  ct_now :: int
  ct_system :: painted

section \<open>Initial states\<close>

definition resolve_theme :: "painted \<Rightarrow> theme_mode \<Rightarrow> painted" where
  "resolve_theme sys m = (case m of ModeSystem \<Rightarrow> sys | ModeLight \<Rightarrow> Light | ModeDark \<Rightarrow> Dark)"

record remembered =
  rm_rememberMe :: "bool option"
  rm_language :: "language option"
  rm_preferences :: "editor_prefs option"
  rm_theme :: "theme_mode option"
  rm_horizontal :: "panel_layout option"
  rm_vertical :: "panel_layout option"

definition client_start :: "remembered \<Rightarrow> browser_storage \<Rightarrow> int \<Rightarrow> painted \<Rightarrow> client" where
  "client_start m st now sys =
     \<lparr>ct_auth = \<lparr>as_status = AuthIdle, as_user = None, as_rememberMe = or_default (rm_rememberMe m) False, as_returnTo = None, as_error = None\<rparr>,
      ct_editor = \<lparr>ed_language = or_default (rm_language m) LJavascript, ed_drafts = Map.empty,
        ed_preferences = or_default (rm_preferences m) \<lparr>ep_fontSize = 14, ep_minimap = False, ep_wordWrap = True, ep_tabSize = 2\<rparr>,
        ed_lastSavedAt = None, ed_isDirty = False\<rparr>,
      ct_notes = [], ct_query = default_problem_query, ct_submission = submission_initial,
      ct_theme = \<lparr>ts_mode = or_default (rm_theme m) ModeSystem, ts_resolved = resolve_theme sys (or_default (rm_theme m) ModeSystem)\<rparr>,
      ct_user = user_initial,
      ct_workspace = \<lparr>wk_problemTab = TabDescription, wk_consoleTab = TabTestcases, wk_consoleOpen = True,
        wk_horizontal = or_default (rm_horizontal m) [(''problem'', 42), (''editor-area'', 58)],
        wk_vertical = or_default (rm_vertical m) [(''editor'', 65), (''console'', 35)], wk_revealedHints = []\<rparr>,
      ct_tokens = None, ct_storage = st, ct_now = now, ct_system = sys\<rparr>"

section \<open>Reducers\<close>

text \<open>\<open>sessionEstablished\<close> also hands the token to the network layer; the end of a session takes it away.\<close>

datatype auth_action = SessionLoading | SessionEstablished client_user string "bool option" | SessionEnded "string option"
  | SessionFailed "string option" | UserUpdated "client_user \<Rightarrow> client_user" | ReturnToSet "string option" | RememberMeSet bool

definition set_remember :: "bool \<Rightarrow> client \<Rightarrow> client" where
  "set_remember b c = c\<lparr>ct_auth := (ct_auth c)\<lparr>as_rememberMe := b\<rparr>, ct_storage := storage_set ''devarena:remember-me'' (JBool b) (ct_storage c)\<rparr>"

fun authReducer :: "auth_action \<Rightarrow> client \<Rightarrow> client" where
  "authReducer SessionLoading c = c\<lparr>ct_auth := (ct_auth c)\<lparr>as_status := AuthLoading, as_error := None\<rparr>\<rparr>"
| "authReducer (SessionEstablished u t r) c =
     (let d = c\<lparr>ct_auth := (ct_auth c)\<lparr>as_status := Authenticated, as_user := Some u, as_error := None\<rparr>\<rparr>;
          e = (case r of None \<Rightarrow> d | Some b \<Rightarrow> set_remember b d)
      in e\<lparr>ct_tokens := Some (t, expiryOf (ct_now c) t)\<rparr>)"
| "authReducer (SessionEnded reason) c =
     c\<lparr>ct_auth := (ct_auth c)\<lparr>as_status := Unauthenticated, as_user := None, as_error := reason\<rparr>, ct_tokens := None,
       ct_storage := storage_remove ''devarena:last-active'' (ct_storage c)\<rparr>"
| "authReducer (SessionFailed e) c =
     c\<lparr>ct_auth := (ct_auth c)\<lparr>as_status := Unauthenticated, as_user := None, as_error := e\<rparr>, ct_tokens := None\<rparr>"
| "authReducer (UserUpdated f) c = c\<lparr>ct_auth := (ct_auth c)\<lparr>as_user := map_option f (as_user (ct_auth c))\<rparr>\<rparr>"
| "authReducer (ReturnToSet p) c = c\<lparr>ct_auth := (ct_auth c)\<lparr>as_returnTo := p\<rparr>\<rparr>"
| "authReducer (RememberMeSet b) c = set_remember b c"

definition draft_key :: "string \<Rightarrow> language \<Rightarrow> string" where
  "draft_key p l = p @ '':'' @ language_key l"

definition autosave_key :: "string \<Rightarrow> language \<Rightarrow> string" where
  "autosave_key p l = ''devarena:draft:'' @ p @ '':'' @ language_key l"

definition prefs_json :: "editor_prefs \<Rightarrow> json" where
  "prefs_json p = JObj [(''fontSize'', JNum (of_int (ep_fontSize p))), (''minimap'', JBool (ep_minimap p)),
     (''wordWrap'', JBool (ep_wordWrap p)), (''tabSize'', JNum (of_int (ep_tabSize p)))]"

datatype editor_action = LanguageChanged language | DraftChanged string language string | DraftPersisted
  | DraftHydrated string language string | DraftReset string language string
  | PreferencesChanged "editor_prefs \<Rightarrow> editor_prefs" | FontSizeStepped bool

definition put_draft :: "string \<Rightarrow> language \<Rightarrow> string \<Rightarrow> editor_state \<Rightarrow> editor_state" where
  "put_draft p l code e = e\<lparr>ed_drafts := (ed_drafts e)(draft_key p l \<mapsto> code), ed_isDirty := True\<rparr>"

definition put_prefs :: "editor_prefs \<Rightarrow> client \<Rightarrow> client" where
  "put_prefs q c = c\<lparr>ct_editor := (ct_editor c)\<lparr>ed_preferences := q\<rparr>, ct_storage := storage_set ''devarena:editor-prefs'' (prefs_json q) (ct_storage c)\<rparr>"

fun editorReducer :: "editor_action \<Rightarrow> client \<Rightarrow> client" where
  "editorReducer (LanguageChanged l) c = c\<lparr>ct_editor := (ct_editor c)\<lparr>ed_language := l\<rparr>,
     ct_storage := storage_set ''devarena:editor-prefs:lang'' (JStr (language_key l)) (ct_storage c)\<rparr>"
| "editorReducer (DraftChanged p l code) c = c\<lparr>ct_editor := put_draft p l code (ct_editor c)\<rparr>"
| "editorReducer DraftPersisted c = c\<lparr>ct_editor := (ct_editor c)\<lparr>ed_isDirty := False, ed_lastSavedAt := Some (ct_now c)\<rparr>\<rparr>"
| "editorReducer (DraftHydrated p l code) c = (if ed_drafts (ct_editor c) (draft_key p l) = None
     then c\<lparr>ct_editor := (ct_editor c)\<lparr>ed_drafts := (ed_drafts (ct_editor c))(draft_key p l \<mapsto> code)\<rparr>\<rparr> else c)"
| "editorReducer (DraftReset p l code) c = c\<lparr>ct_editor := put_draft p l code (ct_editor c),
     ct_storage := storage_remove (autosave_key p l) (ct_storage c)\<rparr>"
| "editorReducer (PreferencesChanged f) c = put_prefs (f (ed_preferences (ct_editor c))) c"
| "editorReducer (FontSizeStepped up) c = (let q = ed_preferences (ct_editor c)
     in put_prefs (q\<lparr>ep_fontSize := min 22 (max 11 (ep_fontSize q + (if up then 1 else -1)))\<rparr>) c)"

text \<open>Toasts: the oldest goes when a fifth arrives.\<close>

datatype note_action = Notify string "note_variant option" string "string option" "int option" | Dismissed string | AllDismissed

definition max_visible :: nat where "max_visible = 4"

definition prepare_note :: "string \<Rightarrow> note_variant option \<Rightarrow> string \<Rightarrow> string option \<Rightarrow> int option \<Rightarrow> toast" where
  "prepare_note i v t d n = \<lparr>to_id = i, to_variant = or_default v NoteInfo, to_title = t, to_description = d, to_duration = or_default n 5000\<rparr>"

fun notificationReducer :: "note_action \<Rightarrow> toast list \<Rightarrow> toast list" where
  "notificationReducer (Notify i v t d n) ns = (let ns' = ns @ [prepare_note i v t d n] in if length ns' > max_visible then tl ns' else ns')"
| "notificationReducer (Dismissed i) ns = filter (\<lambda>n. to_id n \<noteq> i) ns"
| "notificationReducer AllDismissed ns = []"

text \<open>The explorer's query.\<close>

datatype query_action = SearchChanged string | DifficultyToggled difficulty | TagToggled string | CompanyToggled string
  | StatusChanged solved_filter | SortChanged problem_sort | PageChanged int | FiltersCleared | QueryHydrated "problem_query \<Rightarrow> problem_query"

definition toggle :: "'a \<Rightarrow> 'a list \<Rightarrow> 'a list" where
  "toggle v xs = (if List.member xs v then filter (\<lambda>x. x \<noteq> v) xs else xs @ [v])"

fun problemReducer :: "query_action \<Rightarrow> problem_query \<Rightarrow> problem_query" where
  "problemReducer (SearchChanged s) q = q\<lparr>pq_search := s, pq_page := 1\<rparr>"
| "problemReducer (DifficultyToggled d) q = q\<lparr>pq_difficulties := toggle d (pq_difficulties q), pq_page := 1\<rparr>"
| "problemReducer (TagToggled t) q = q\<lparr>pq_tags := toggle t (pq_tags q), pq_page := 1\<rparr>"
| "problemReducer (CompanyToggled t) q = q\<lparr>pq_companies := toggle t (pq_companies q), pq_page := 1\<rparr>"
| "problemReducer (StatusChanged f) q = q\<lparr>pq_status := f, pq_page := 1\<rparr>"
| "problemReducer (SortChanged s) q = q\<lparr>pq_sort := s, pq_page := 1\<rparr>"
| "problemReducer (PageChanged n) q = q\<lparr>pq_page := max 1 n\<rparr>"
| "problemReducer FiltersCleared q = default_problem_query"
| "problemReducer (QueryHydrated f) q = f q"

text \<open>Runs and submissions.\<close>

datatype submission_action = RunStarted | RunSucceeded json | RunFailedWith string | CustomInputChanged string | CustomInputToggled
  | SubmitStarted | SubmitQueued string | SubmitResolved submission_detail | SubmitFailed string | WorkspaceReset

fun submissionReducer :: "submission_action \<Rightarrow> submission_state \<Rightarrow> submission_state" where
  "submissionReducer RunStarted s = s\<lparr>ss_runStatus := RunRunning, ss_runError := None, ss_runResult := None\<rparr>"
| "submissionReducer (RunSucceeded r) s = s\<lparr>ss_runStatus := RunDone, ss_runResult := Some r\<rparr>"
| "submissionReducer (RunFailedWith e) s = s\<lparr>ss_runStatus := RunFailed, ss_runError := Some e\<rparr>"
| "submissionReducer (CustomInputChanged t) s = s\<lparr>ss_customInput := t\<rparr>"
| "submissionReducer CustomInputToggled s = s\<lparr>ss_useCustomInput := \<not> ss_useCustomInput s\<rparr>"
| "submissionReducer SubmitStarted s = s\<lparr>ss_submitStatus := RunRunning, ss_submitError := None, ss_lastSubmission := None\<rparr>"
| "submissionReducer (SubmitQueued i) s = s\<lparr>ss_activeSubmissionId := Some i\<rparr>"
| "submissionReducer (SubmitResolved d) s = s\<lparr>ss_lastSubmission := Some d, ss_submitStatus := RunDone, ss_activeSubmissionId := None\<rparr>"
| "submissionReducer (SubmitFailed e) s = s\<lparr>ss_submitStatus := RunFailed, ss_submitError := Some e, ss_activeSubmissionId := None\<rparr>"
| "submissionReducer WorkspaceReset s = submission_initial\<lparr>ss_customInput := ss_customInput s\<rparr>"

definition isPendingVerdict :: "verdict option \<Rightarrow> bool" where
  "isPendingVerdict v \<longleftrightarrow> v = Some Vd_PENDING \<or> v = Some Vd_QUEUED \<or> v = Some Vd_RUNNING"

text \<open>The theme.\<close>

datatype theme_action = ThemeSet theme_mode | ThemeToggled | SystemThemeChanged painted

fun mode_text :: "theme_mode \<Rightarrow> string" where
  "mode_text ModeLight = ''light''"
| "mode_text ModeDark = ''dark''"
| "mode_text ModeSystem = ''system''"

fun next_mode :: "theme_mode \<Rightarrow> theme_mode" where
  "next_mode ModeLight = ModeDark"
| "next_mode ModeDark = ModeSystem"
| "next_mode ModeSystem = ModeLight"

definition set_theme :: "theme_mode \<Rightarrow> client \<Rightarrow> client" where
  "set_theme m c = c\<lparr>ct_theme := \<lparr>ts_mode = m, ts_resolved = resolve_theme (ct_system c) m\<rparr>,
     ct_storage := storage_set ''devarena:theme'' (JStr (mode_text m)) (ct_storage c)\<rparr>"

fun themeReducer :: "theme_action \<Rightarrow> client \<Rightarrow> client" where
  "themeReducer (ThemeSet m) c = set_theme m c"
| "themeReducer ThemeToggled c = set_theme (next_mode (ts_mode (ct_theme c))) c"
| "themeReducer (SystemThemeChanged p) c = (let d = c\<lparr>ct_system := p\<rparr>
     in if ts_mode (ct_theme d) = ModeSystem then d\<lparr>ct_theme := (ct_theme d)\<lparr>ts_resolved := p\<rparr>\<rparr> else d)"

text \<open>Preferences of the user and the layout of the workspace.\<close>

definition push_new :: "'a \<Rightarrow> 'a list \<Rightarrow> 'a list" where
  "push_new x xs = (if List.member xs x then xs else xs @ [x])"

datatype user_action = SidebarToggled | SidebarSet bool | PreferredLanguageSet string | HintDismissed string | PreferencesReset

fun userReducer :: "user_action \<Rightarrow> user_state \<Rightarrow> user_state" where
  "userReducer SidebarToggled u = u\<lparr>us_sidebarCollapsed := \<not> us_sidebarCollapsed u\<rparr>"
| "userReducer (SidebarSet b) u = u\<lparr>us_sidebarCollapsed := b\<rparr>"
| "userReducer (PreferredLanguageSet l) u = u\<lparr>us_preferredLanguage := l\<rparr>"
| "userReducer (HintDismissed h) u = u\<lparr>us_dismissedHints := push_new h (us_dismissedHints u)\<rparr>"
| "userReducer PreferencesReset u = user_initial"

datatype workspace_action = ProblemTabChanged problem_tab | ConsoleTabChanged console_tab | ConsoleToggled
  | HorizontalLayoutChanged panel_layout | VerticalLayoutChanged panel_layout | HintRevealed string | HintsReset

definition layout_json :: "panel_layout \<Rightarrow> json" where
  "layout_json l = JObj (map (\<lambda>(k, n). (k, JNum n)) l)"

definition with_workspace :: "(workspace_state \<Rightarrow> workspace_state) \<Rightarrow> client \<Rightarrow> client" where
  "with_workspace f c = c\<lparr>ct_workspace := f (ct_workspace c)\<rparr>"

fun workspaceReducer :: "workspace_action \<Rightarrow> client \<Rightarrow> client" where
  "workspaceReducer (ProblemTabChanged t) c = with_workspace (\<lambda>w. w\<lparr>wk_problemTab := t\<rparr>) c"
| "workspaceReducer (ConsoleTabChanged t) c = with_workspace (\<lambda>w. w\<lparr>wk_consoleTab := t, wk_consoleOpen := True\<rparr>) c"
| "workspaceReducer ConsoleToggled c = with_workspace (\<lambda>w. w\<lparr>wk_consoleOpen := \<not> wk_consoleOpen w\<rparr>) c"
| "workspaceReducer (HorizontalLayoutChanged l) c = (with_workspace (\<lambda>w. w\<lparr>wk_horizontal := l\<rparr>) c)
     \<lparr>ct_storage := storage_set ''devarena:workspace-layout:h'' (layout_json l) (ct_storage c)\<rparr>"
| "workspaceReducer (VerticalLayoutChanged l) c = (with_workspace (\<lambda>w. w\<lparr>wk_vertical := l\<rparr>) c)
     \<lparr>ct_storage := storage_set ''devarena:workspace-layout:v'' (layout_json l) (ct_storage c)\<rparr>"
| "workspaceReducer (HintRevealed h) c = with_workspace (\<lambda>w. w\<lparr>wk_revealedHints := push_new h (wk_revealedHints w)\<rparr>) c"
| "workspaceReducer HintsReset c = with_workspace (\<lambda>w. w\<lparr>wk_revealedHints := []\<rparr>) c"

datatype client_action = AuthAct auth_action | EditorAct editor_action | NoteAct note_action | QueryAct query_action
  | SubmissionAct submission_action | ThemeAct theme_action | UserAct user_action | WorkspaceAct workspace_action

fun dispatch_action :: "client_action \<Rightarrow> client \<Rightarrow> client" where
  "dispatch_action (AuthAct a) c = authReducer a c"
| "dispatch_action (EditorAct a) c = editorReducer a c"
| "dispatch_action (NoteAct a) c = c\<lparr>ct_notes := notificationReducer a (ct_notes c)\<rparr>"
| "dispatch_action (QueryAct a) c = c\<lparr>ct_query := problemReducer a (ct_query c)\<rparr>"
| "dispatch_action (SubmissionAct a) c = c\<lparr>ct_submission := submissionReducer a (ct_submission c)\<rparr>"
| "dispatch_action (ThemeAct a) c = themeReducer a c"
| "dispatch_action (UserAct a) c = c\<lparr>ct_user := userReducer a (ct_user c)\<rparr>"
| "dispatch_action (WorkspaceAct a) c = workspaceReducer a c"

section \<open>Selectors\<close>

definition selectIsAuthenticated :: "client \<Rightarrow> bool" where
  "selectIsAuthenticated c \<longleftrightarrow> as_status (ct_auth c) = Authenticated"

definition selectIsBootstrapping :: "client \<Rightarrow> bool" where
  "selectIsBootstrapping c \<longleftrightarrow> as_status (ct_auth c) \<in> {AuthIdle, AuthLoading}"

definition selectIsAdmin :: "client \<Rightarrow> bool" where
  "selectIsAdmin c \<longleftrightarrow> map_option cl_role (as_user (ct_auth c)) = Some RoleAdmin"

definition selectDraft :: "string \<Rightarrow> client \<Rightarrow> string" where
  "selectDraft p c = or_default (ed_drafts (ct_editor c) (draft_key p (ed_language (ct_editor c)))) []"

definition selectActiveFilterCount :: "client \<Rightarrow> nat" where
  "selectActiveFilterCount c = (let q = ct_query c in length (pq_difficulties q) + length (pq_tags q) + length (pq_companies q)
     + (if pq_status q = FilterAll then 0 else 1) + (if pq_search q \<noteq> [] then 1 else 0))"

section \<open>Drafts keep apart\<close>

lemma draft_key_inject: "draft_key p l = draft_key p' l' \<longleftrightarrow> p = p' \<and> l = l'"
proof
  assume "draft_key p l = draft_key p' l'"
  then have "rev (draft_key p l) = rev (draft_key p' l')" by simp
  then show "p = p' \<and> l = l'" by (cases l; cases l') (simp_all add: draft_key_def)
qed simp

lemma autosave_key_inject: "autosave_key p l = autosave_key p' l' \<longleftrightarrow> p = p' \<and> l = l'"
  using draft_key_inject[of p l p' l'] by (simp add: autosave_key_def draft_key_def)

fun drafted :: "client_action \<Rightarrow> (string \<times> language) option" where
  "drafted (EditorAct (DraftChanged p l code)) = Some (p, l)"
| "drafted (EditorAct (DraftReset p l code)) = Some (p, l)"
| "drafted _ = None"

text \<open>A draft changes only when it is edited or reset itself; opening a problem seeds a missing one.\<close>

lemma drafts_apart:
  assumes "drafted a \<noteq> Some (p, l)" and "ed_drafts (ct_editor c) (draft_key p l) = Some code"
  shows "ed_drafts (ct_editor (dispatch_action a c)) (draft_key p l) = Some code"
proof (cases a)
  case (EditorAct e)
  with assms show ?thesis
    by (cases e) (auto simp: draft_key_inject put_draft_def put_prefs_def Let_def)
next
  case (AuthAct e)
  with assms show ?thesis by (cases e) (auto simp: set_remember_def Let_def split: option.splits)
next
  case (ThemeAct e)
  with assms show ?thesis by (cases e) (auto simp: set_theme_def Let_def)
next
  case (WorkspaceAct e)
  with assms show ?thesis by (cases e) (auto simp: with_workspace_def)
qed (use assms in auto)

section \<open>What holds in every state\<close>

definition query_ok :: "problem_query \<Rightarrow> bool" where
  "query_ok q \<longleftrightarrow> 1 \<le> pq_page q \<and> distinct (pq_difficulties q) \<and> distinct (pq_tags q) \<and> distinct (pq_companies q)"

definition font_ok :: "editor_prefs \<Rightarrow> bool" where
  "font_ok p \<longleftrightarrow> 11 \<le> ep_fontSize p \<and> ep_fontSize p \<le> 22"

definition auth_ok :: "auth_state \<Rightarrow> tokens \<Rightarrow> bool" where
  "auth_ok a t \<longleftrightarrow> (as_status a = Authenticated \<longrightarrow> as_user a \<noteq> None \<and> t \<noteq> None)
     \<and> (as_status a = Unauthenticated \<longrightarrow> as_user a = None \<and> t = None)"

definition runs_ok :: "submission_state \<Rightarrow> bool" where
  "runs_ok s \<longleftrightarrow> (ss_runStatus s = RunDone \<longrightarrow> ss_runResult s \<noteq> None) \<and> (ss_runStatus s = RunFailed \<longrightarrow> ss_runError s \<noteq> None)
     \<and> (ss_submitStatus s = RunDone \<longrightarrow> ss_lastSubmission s \<noteq> None) \<and> (ss_submitStatus s = RunFailed \<longrightarrow> ss_submitError s \<noteq> None)"

definition client_ok :: "client \<Rightarrow> bool" where
  "client_ok c \<longleftrightarrow> length (ct_notes c) \<le> max_visible \<and> query_ok (ct_query c) \<and> font_ok (ed_preferences (ct_editor c))
     \<and> auth_ok (ct_auth c) (ct_tokens c) \<and> runs_ok (ct_submission c)
     \<and> ts_resolved (ct_theme c) = resolve_theme (ct_system c) (ts_mode (ct_theme c))
     \<and> distinct (us_dismissedHints (ct_user c)) \<and> distinct (wk_revealedHints (ct_workspace c))"

text \<open>The two reducers that merge a part as it comes rely on it.\<close>

fun merge_ok :: "client_action \<Rightarrow> bool" where
  "merge_ok (QueryAct (QueryHydrated f)) = (\<forall>q. query_ok q \<longrightarrow> query_ok (f q))"
| "merge_ok (EditorAct (PreferencesChanged f)) = (\<forall>p. font_ok p \<longrightarrow> font_ok (f p))"
| "merge_ok _ = True"

inductive client_reachable :: "client \<Rightarrow> bool" where
  client_begin: "(\<And>p. rm_preferences m = Some p \<Longrightarrow> font_ok p) \<Longrightarrow> client_reachable (client_start m st now sys)"
| client_dispatch: "client_reachable c \<Longrightarrow> merge_ok a \<Longrightarrow> client_reachable (dispatch_action a c)"
| client_clock: "client_reachable c \<Longrightarrow> ct_now c \<le> t \<Longrightarrow> client_reachable (c\<lparr>ct_now := t\<rparr>)"

lemma toggle_distinct: "distinct xs \<Longrightarrow> distinct (toggle v xs)"
  by (auto simp: toggle_def)

lemma push_new_distinct: "distinct xs \<Longrightarrow> distinct (push_new x xs)"
  by (auto simp: push_new_def)

lemma problemReducer_ok: "query_ok q \<Longrightarrow> merge_ok (QueryAct a) \<Longrightarrow> query_ok (problemReducer a q)"
  by (cases a) (auto simp: query_ok_def toggle_distinct default_problem_query_def)

lemma notificationReducer_ok: "length ns \<le> max_visible \<Longrightarrow> length (notificationReducer a ns) \<le> max_visible"
  by (cases a) (auto simp: max_visible_def Let_def intro: le_trans[OF length_filter_le])

lemma submissionReducer_ok: "runs_ok s \<Longrightarrow> runs_ok (submissionReducer a s)"
  by (cases a) (auto simp: runs_ok_def submission_initial_def)

lemma userReducer_ok: "distinct (us_dismissedHints u) \<Longrightarrow> distinct (us_dismissedHints (userReducer a u))"
  by (cases a) (auto simp: user_initial_def push_new_distinct)

lemma dispatch_ok:
  assumes "client_ok c" and "merge_ok a" shows "client_ok (dispatch_action a c)"
proof (cases a)
  case (AuthAct e)
  with assms(1) show ?thesis
    by (cases e) (auto simp: client_ok_def auth_ok_def set_remember_def Let_def split: option.splits)
next
  case (EditorAct e)
  with assms show ?thesis
    by (cases e) (auto simp: client_ok_def put_draft_def put_prefs_def font_ok_def Let_def)
next
  case (ThemeAct e)
  with assms(1) show ?thesis
    by (cases e) (auto simp: client_ok_def set_theme_def resolve_theme_def Let_def split: theme_mode.splits)
next
  case (WorkspaceAct e)
  with assms(1) show ?thesis
    by (cases e) (auto simp: client_ok_def with_workspace_def push_new_distinct)
qed (use assms in \<open>auto simp: client_ok_def problemReducer_ok notificationReducer_ok submissionReducer_ok userReducer_ok\<close>)

lemma client_start_ok: "(\<And>p. rm_preferences m = Some p \<Longrightarrow> font_ok p) \<Longrightarrow> client_ok (client_start m st now sys)"
  by (cases "rm_preferences m")
    (auto simp: client_ok_def client_start_def font_ok_def query_ok_def default_problem_query_def auth_ok_def runs_ok_def
      submission_initial_def user_initial_def or_default_def max_visible_def)


definition demo_remembered :: remembered where
  "demo_remembered = \<lparr>rm_rememberMe = None, rm_language = Some LPython, rm_preferences = None, rm_theme = None, rm_horizontal = None, rm_vertical = None\<rparr>"

definition demo_user :: client_user where
  "demo_user = \<lparr>cl_id = ''u1'', cl_email = ''ada@example.com'', cl_username = ''ada'', cl_displayName = None, cl_avatarUrl = None,
     cl_role = RoleUser, cl_rating = 1200, cl_emailVerified = True, cl_createdAt = ''2026-01-01''\<rparr>"

definition demo_page :: client where
  "demo_page = fold dispatch_action
     [AuthAct (SessionEstablished demo_user ''tok'' (Some True)),
      EditorAct (DraftChanged ''p1'' LPython ''print(1)''), EditorAct (LanguageChanged LJavascript),
      QueryAct (PageChanged 7), QueryAct (TagToggled ''graph''), AuthAct (SessionEnded None)]
     (client_start demo_remembered \<lparr>bs_up = True, bs_items = Map.empty\<rparr> 0 Dark)"

lemma client_runs: "client_reachable c \<Longrightarrow> list_all merge_ok as \<Longrightarrow> client_reachable (fold dispatch_action as c)"
  by (induction as arbitrary: c) (auto intro: client_dispatch)

lemma demo_page_reachable: "client_reachable demo_page"
  unfolding demo_page_def by (rule client_runs[OF client_begin]) (simp_all add: demo_remembered_def)


end
