(* ===== verification/FrontHooks.thy ===== *)
theory FrontHooks
  imports FrontState
begin

text \<open>
  The web client's flows (frontend, hooks, features/auth/guards, features/workspace/hooks): signing in and
  out, the route guards, running and submitting, the polling of a verdict, the autosave of drafts and the
  idle watcher. The server's answers are arguments; time is the client's clock.
\<close>

section \<open>Signing in and out\<close>

datatype session_answer = SessionGranted client_user string | SessionRefused normalized_error

text \<open>The client after the flow, where it navigates to, and the error handed to the form.\<close>

definition login :: "bool \<Rightarrow> session_answer \<Rightarrow> client \<Rightarrow> client \<times> string option \<times> normalized_error option" where
  "login remember r c = (let c1 = dispatch_action (AuthAct SessionLoading) c in case r of
     SessionGranted u t \<Rightarrow> (dispatch_action (AuthAct (SessionEstablished u t (Some remember))) c1,
       Some (or_default (as_returnTo (ct_auth c)) ''/dashboard''), None)
   | SessionRefused e \<Rightarrow> (dispatch_action (AuthAct (SessionEnded None)) c1, None, Some e))"

definition signup :: "session_answer \<Rightarrow> client \<Rightarrow> client \<times> string option \<times> normalized_error option" where
  "signup r c = (let c1 = dispatch_action (AuthAct SessionLoading) c in case r of
     SessionGranted u t \<Rightarrow> (dispatch_action (AuthAct (SessionEstablished u t None)) c1, Some ''/dashboard'', None)
   | SessionRefused e \<Rightarrow> (dispatch_action (AuthAct (SessionEnded None)) c1, None, Some e))"

definition logout :: "bool \<Rightarrow> string \<Rightarrow> string option \<Rightarrow> client \<Rightarrow> client \<times> string option" where
  "logout reached_server toast_id reason c =
     (let c1 = (if reached_server then c else dispatch_action (NoteAct (Notify toast_id (Some NoteError) ''Signed out locally''
         (Some ''We could not reach the server to end the session.'') None)) c)
      in (dispatch_action (AuthAct (SessionEnded (if reason = Some [] then None else reason))) c1, Some ''/login''))"

text \<open>Recovery runs once per mount; a second effect finds the mark.\<close>

definition recover_session :: "bool \<Rightarrow> session_answer \<Rightarrow> client \<Rightarrow> client" where
  "recover_session attempted r c = (if attempted then c else
     (let c1 = dispatch_action (AuthAct SessionLoading) c in case r of
        SessionGranted u t \<Rightarrow> dispatch_action (AuthAct (SessionEstablished u t None)) c1
      | SessionRefused e \<Rightarrow> dispatch_action (AuthAct (SessionEnded None)) c1))"

datatype shown = Splash | RedirectTo string | Page

definition protected_route :: "user_role list option \<Rightarrow> client \<Rightarrow> shown" where
  "protected_route roles c =
     (if selectIsBootstrapping c then Splash
      else if \<not> selectIsAuthenticated c then RedirectTo ''/login''
      else (case (roles, as_user (ct_auth c)) of
          (Some rs, Some u) \<Rightarrow> if List.member rs (cl_role u) then Page else RedirectTo ''/403''
        | _ \<Rightarrow> Page))"

definition stash_path :: "string \<Rightarrow> client \<Rightarrow> client" where
  "stash_path path c = (if \<not> selectIsBootstrapping c \<and> \<not> selectIsAuthenticated c then dispatch_action (AuthAct (ReturnToSet (Some path))) c else c)"

definition public_only_route :: "client \<Rightarrow> shown" where
  "public_only_route c = (if selectIsBootstrapping c then Splash else if selectIsAuthenticated c then RedirectTo ''/dashboard'' else Page)"

text \<open>
  While a sign-in is under way the guard of the sign-in page shows the splash, so the form that waits for
  the answer is no longer on the page when its error arrives.
\<close>

lemma login_replaces_form: "public_only_route (dispatch_action (AuthAct SessionLoading) c) = Splash"
  by (simp add: public_only_route_def selectIsBootstrapping_def)

text \<open>After a sign-in the guard shows the page that was asked for; after a sign-out it never does.\<close>

lemma login_returns:
  assumes "protected_route None c = RedirectTo ''/login''"
  shows "login b (SessionGranted u t) (stash_path path c) = (c', to, e) \<Longrightarrow> to = Some path \<and> protected_route None c' = Page"
  using assms by (auto simp: login_def stash_path_def protected_route_def selectIsBootstrapping_def selectIsAuthenticated_def
      or_default_def set_remember_def Let_def split: if_splits option.splits)

lemma logout_closes: "protected_route roles (fst (logout s i reason c)) = RedirectTo ''/login''"
  by (simp add: logout_def protected_route_def selectIsBootstrapping_def selectIsAuthenticated_def Let_def)

section \<open>Run and submit\<close>

text \<open>The answer of a call: the payload, or the message of the normalized error.\<close>

definition run_code :: "string \<Rightarrow> (string + json) \<Rightarrow> string \<Rightarrow> client \<Rightarrow> client" where
  "run_code p answer toast_id c =
     (if trim (selectDraft p c) = [] then dispatch_action (NoteAct (Notify toast_id (Some NoteWarning) ''Nothing to run'' (Some ''Write some code first.'') None)) c
      else (let c1 = dispatch_action (SubmissionAct RunStarted) (dispatch_action (WorkspaceAct (ConsoleTabChanged TabOutput)) c) in case answer of
          Inr r \<Rightarrow> dispatch_action (SubmissionAct (RunSucceeded r)) c1
        | Inl m \<Rightarrow> dispatch_action (SubmissionAct (RunFailedWith m)) c1))"

definition run_stdin :: "string list \<Rightarrow> client \<Rightarrow> string" where
  "run_stdin inputs c = (if ss_useCustomInput (ct_submission c) then ss_customInput (ct_submission c) else case inputs of [] \<Rightarrow> [] | i # _ \<Rightarrow> i)"

definition submit_code :: "string \<Rightarrow> (string + string) \<Rightarrow> string \<Rightarrow> client \<Rightarrow> client" where
  "submit_code p answer toast_id c =
     (if trim (selectDraft p c) = [] then dispatch_action (NoteAct (Notify toast_id (Some NoteWarning) ''Nothing to submit'' (Some ''Write some code first.'') None)) c
      else (let c1 = dispatch_action (SubmissionAct SubmitStarted) (dispatch_action (WorkspaceAct (ConsoleTabChanged TabResult)) c) in case answer of
          Inr i \<Rightarrow> dispatch_action (SubmissionAct (SubmitQueued i)) c1
        | Inl m \<Rightarrow> dispatch_action (NoteAct (Notify toast_id (Some NoteError) ''Submission failed'' (Some m) None)) (dispatch_action (SubmissionAct (SubmitFailed m)) c1)))"

section \<open>Polling a verdict\<close>

definition poll_interval :: int where "poll_interval = 1200"

definition poll_timeout :: int where "poll_timeout = 90000"

datatype fetched = Detail submission_detail | Unreachable

text \<open>
  For the k-th poll the argument gives how long the answer takes and what it is. The result is the action that
  ends the polling, when it is dispatched, and the number of polls made.
\<close>

function poll :: "(nat \<Rightarrow> nat \<times> fetched) \<Rightarrow> int \<Rightarrow> int \<Rightarrow> nat \<Rightarrow> submission_action \<times> int \<times> nat" where
  "poll f started now k =
     (if now - started > poll_timeout then (SubmitFailed ''The judge is taking longer than expected. Check your submissions.'', now, k)
      else (case f k of (d, r) \<Rightarrow> (case r of
          Unreachable \<Rightarrow> (SubmitFailed ''Couldn't reach the judge. Your submission was still recorded.'', now + int d, k + 1)
        | Detail x \<Rightarrow> if isPendingVerdict (Some (sbd_status x)) then poll f started (now + int d + poll_interval) (k + 1)
            else (SubmitResolved x, now + int d, k + 1))))"
  by pat_completeness auto
termination
  by (relation "measure (\<lambda>(f, s, n, k). nat (s + poll_timeout + 1 - n))") (auto simp: poll_interval_def poll_timeout_def)

declare poll.simps [simp del]

definition poll_submission :: "(nat \<Rightarrow> nat \<times> fetched) \<Rightarrow> int \<Rightarrow> submission_action \<times> int \<times> nat" where
  "poll_submission f t = poll f t (t + poll_interval) 0"

definition still_pending :: "fetched \<Rightarrow> bool" where
  "still_pending r \<longleftrightarrow> (case r of Detail x \<Rightarrow> isPendingVerdict (Some (sbd_status x)) | Unreachable \<Rightarrow> False)"

definition verdict_action :: "fetched \<Rightarrow> submission_action" where
  "verdict_action r = (case r of Detail x \<Rightarrow> SubmitResolved x
     | Unreachable \<Rightarrow> SubmitFailed ''Couldn't reach the judge. Your submission was still recorded.'')"

lemma poll_result:
  assumes "poll f s now k = (act, t, n)" and "s + poll_interval * int (k + 1) \<le> now" and "\<And>i. fst (f i) \<le> D"
    and "now \<le> s + poll_timeout + int D + poll_interval"
  shows "k \<le> n \<and> n \<le> max k 75 \<and> t \<le> s + poll_timeout + int D + poll_interval
    \<and> ((\<exists>m. n = Suc m \<and> k \<le> m \<and> \<not> still_pending (snd (f m)) \<and> act = verdict_action (snd (f m)) \<and> (\<forall>j. k \<le> j \<and> j < m \<longrightarrow> still_pending (snd (f j))))
     \<or> act = SubmitFailed ''The judge is taking longer than expected. Check your submissions.''
       \<and> s + poll_timeout < t \<and> (\<forall>j. k \<le> j \<and> j < n \<longrightarrow> still_pending (snd (f j))))"
  using assms
proof (induction f s now k rule: poll.induct)
  case (1 f s now k)
  obtain d r where fk: "f k = (d, r)" by fastforce
  have d: "int d \<le> int D" using 1(4)[of k] fk by simp
  show ?case
  proof (cases "now - s > poll_timeout")
    case True
    then have "act = SubmitFailed ''The judge is taking longer than expected. Check your submissions.'' \<and> t = now \<and> n = k"
      using 1(2) by (subst (asm) poll.simps) simp
    with True 1(5) show ?thesis by auto
  next
    case False
    then have k: "k + 1 \<le> 75" using 1(3) by (simp add: poll_interval_def poll_timeout_def)
    show ?thesis
    proof (cases "still_pending r")
      case True
      then obtain x where x: "r = Detail x" "isPendingVerdict (Some (sbd_status x))"
        by (cases r) (auto simp: still_pending_def)
      have step: "poll f s (now + int d + poll_interval) (k + 1) = (act, t, n)"
        using 1(2) False fk x by (subst (asm) poll.simps) simp
      have lo: "s + poll_interval * int (k + 1 + 1) \<le> now + int d + poll_interval" using 1(3) by (simp add: algebra_simps)
      have hi: "now + int d + poll_interval \<le> s + poll_timeout + int D + poll_interval" using False d by simp
      note ih = 1(1)[OF False fk[symmetric] x(1) x(2) step lo 1(4) hi]
      have all: "\<forall>j. k \<le> j \<and> j < m \<longrightarrow> still_pending (snd (f j))"
        if "\<forall>j. k + 1 \<le> j \<and> j < m \<longrightarrow> still_pending (snd (f j))" for m
      proof (intro allI impI)
        fix j assume "k \<le> j \<and> j < m"
        then show "still_pending (snd (f j))" using that True fk by (cases "j = k") auto
      qed
      from ih k show ?thesis by (elim conjE disjE exE) (use all in \<open>auto intro!: all\<close>)
    next
      case np: False
      then have "act = verdict_action r \<and> t = now + int d \<and> n = k + 1"
        using 1(2) False fk by (subst (asm) poll.simps) (auto simp: still_pending_def verdict_action_def split: fetched.splits if_splits)
      with np fk d False k show ?thesis by (auto simp: poll_interval_def)
    qed
  qed
qed

lemma poll_ends_with: "act = verdict_action r \<or> act = SubmitFailed m \<Longrightarrow> ss_activeSubmissionId (submissionReducer act s) = None
    \<and> ss_submitStatus (submissionReducer act s) \<in> {RunDone, RunFailed}"
  by (auto simp: verdict_action_def split: fetched.splits)


definition demo_judge :: "nat \<Rightarrow> nat \<times> fetched" where
  "demo_judge i = (50, Detail \<lparr>sbd_id = ''s1'', sbd_status = (if i < 2 then Vd_RUNNING else Vd_ACCEPTED)\<rparr>)"


section \<open>Autosave\<close>

definition debounce :: int where "debounce = 800"

text \<open>
  The hook: the pending write with its due instant, the values of the last rendering, the values the effect
  last ran for, storage and the clock. A rendering with other values cancels the pending write and plans
  one for the new values, unless there is no code; leaving the page stores the last values at once.
\<close>

record autosave =
  sv_timer :: "(int \<times> string \<times> language \<times> string) option"
  sv_latest :: "string \<times> language \<times> string"
  sv_deps :: "(string \<times> language \<times> string) option"
  sv_storage :: browser_storage
  sv_persisted :: nat
  sv_now :: int

datatype autosave_event = Render string language string | Elapse int | Unmount

definition write_draft :: "string \<Rightarrow> language \<Rightarrow> string \<Rightarrow> browser_storage \<Rightarrow> browser_storage" where
  "write_draft p l code st = storage_set (autosave_key p l) (JStr code) st"

definition loadDraft :: "browser_storage \<Rightarrow> string \<Rightarrow> language \<Rightarrow> json" where
  "loadDraft st p l = storage_get st (autosave_key p l) JNull"

fun on_autosave :: "autosave_event \<Rightarrow> autosave \<Rightarrow> autosave" where
  "on_autosave (Render p l code) s = (let s1 = s\<lparr>sv_latest := (p, l, code)\<rparr> in
     if sv_deps s = Some (p, l, code) then s1
     else s1\<lparr>sv_deps := Some (p, l, code), sv_timer := (if p = [] \<or> code = [] then None else Some (sv_now s + debounce, p, l, code))\<rparr>)"
| "on_autosave (Elapse t) s = (let s1 = s\<lparr>sv_now := max (sv_now s) t\<rparr> in (case sv_timer s of
       Some (due, p, l, code) \<Rightarrow> if due \<le> sv_now s1
         then s1\<lparr>sv_storage := write_draft p l code (sv_storage s), sv_persisted := sv_persisted s + 1, sv_timer := None\<rparr> else s1
     | None \<Rightarrow> s1))"
| "on_autosave Unmount s = (case sv_latest s of (p, l, code) \<Rightarrow>
     s\<lparr>sv_timer := None, sv_storage := (if p \<noteq> [] \<and> code \<noteq> [] then write_draft p l code (sv_storage s) else sv_storage s)\<rparr>)"

definition autosave_start :: "browser_storage \<Rightarrow> int \<Rightarrow> autosave" where
  "autosave_start st now = \<lparr>sv_timer = None, sv_latest = ([], LJavascript, []), sv_deps = None, sv_storage = st, sv_persisted = 0, sv_now = now\<rparr>"

lemma load_written: "bs_up st \<Longrightarrow> loadDraft (write_draft p l code st) p l = JStr code"
  by (simp add: loadDraft_def write_draft_def storage_roundtrip)

lemma load_other: "(p, l) \<noteq> (p', l') \<Longrightarrow> loadDraft (write_draft p l code st) p' l' = loadDraft st p' l'"
  by (auto simp: loadDraft_def write_draft_def autosave_key_inject storage_roundtrip)

lemma write_draft_up [simp]: "bs_up (write_draft p l code st) = bs_up st"
  by (simp add: write_draft_def)

text \<open>While the same values are rendered: either their write is pending or it has been done.\<close>

definition keeping :: "string \<Rightarrow> language \<Rightarrow> string \<Rightarrow> int \<Rightarrow> browser_storage \<Rightarrow> autosave \<Rightarrow> bool" where
  "keeping p l code due st s \<longleftrightarrow> sv_deps s = Some (p, l, code) \<and> sv_latest s = (p, l, code) \<and> bs_up (sv_storage s)
     \<and> (sv_timer s = Some (due, p, l, code) \<and> sv_now s < due \<and> sv_storage s = st
       \<or> sv_timer s = None \<and> loadDraft (sv_storage s) p l = JStr code)
     \<and> (\<forall>p' l'. (p', l') \<noteq> (p, l) \<longrightarrow> loadDraft (sv_storage s) p' l' = loadDraft st p' l')"

lemma keeping_event:
  assumes "keeping p l code due st s" and "e = Render p l code \<or> e = Elapse t"
  shows "keeping p l code due st (on_autosave e s)"
  using assms(2)
proof
  assume "e = Render p l code"
  then show ?thesis using assms(1) by (simp add: keeping_def)
next
  assume e: "e = Elapse t"
  show ?thesis
  proof (cases "sv_timer s")
    case None
    then show ?thesis using assms(1) e by (simp add: keeping_def)
  next
    case (Some x)
    then have x: "x = (due, p, l, code)" and st: "sv_storage s = st" and up: "bs_up st" using assms(1) by (auto simp: keeping_def)
    show ?thesis
    proof (cases "due \<le> max (sv_now s) t")
      case True
      have "on_autosave e s = s\<lparr>sv_now := max (sv_now s) t, sv_storage := write_draft p l code (sv_storage s),
          sv_persisted := sv_persisted s + 1, sv_timer := None\<rparr>"
        unfolding e using True by (simp add: Some x Let_def)
      then show ?thesis using assms(1) st load_written[OF up] load_other[of p l _ _ code st] by (auto simp: keeping_def)
    next
      case False
      have "on_autosave e s = s\<lparr>sv_now := max (sv_now s) t\<rparr>" unfolding e using False by (simp add: Some x Let_def)
      then show ?thesis using assms(1) Some x False by (auto simp: keeping_def)
    qed
  qed
qed

lemma keeping_run:
  "keeping p l code due st s \<Longrightarrow> list_all (\<lambda>e. e = Render p l code \<or> e \<in> range Elapse) es
     \<Longrightarrow> keeping p l code due st (fold on_autosave es s)"
  by (induction es arbitrary: s) (auto intro: keeping_event)


definition empty_storage :: browser_storage where
  "empty_storage = \<lparr>bs_up = True, bs_items = Map.empty\<rparr>"


text \<open>
  Another problem or language rendered within the 800 milliseconds cancels the pending write of the previous
  one, and nothing stores it later; and code that was deleted down to nothing is not stored either, so the
  earlier text comes back on the next visit.
\<close>

lemma quick_switch_loses_edit:
  "loadDraft (sv_storage (fold on_autosave [Render ''p'' LJavascript ''let x'', Elapse 500, Render ''p'' LPython ''x = 1'', Elapse 9000, Unmount]
     (autosave_start empty_storage 0))) ''p'' LJavascript = JNull"
  by code_simp

lemma cleared_code_comes_back:
  "loadDraft (sv_storage (fold on_autosave [Render ''p'' LJavascript ''old'', Elapse 900, Render ''p'' LJavascript [], Elapse 9000, Unmount]
     (autosave_start empty_storage 0))) ''p'' LJavascript = JStr ''old''"
  by code_simp

text \<open>The draft a workspace opens with: what is in the store, what storage kept, or the starter.\<close>

definition open_draft :: "string \<Rightarrow> string \<Rightarrow> client \<Rightarrow> client" where
  "open_draft p starter c = (let l = ed_language (ct_editor c) in
     if ed_drafts (ct_editor c) (draft_key p l) \<noteq> None then c
     else dispatch_action (EditorAct (DraftHydrated p l (case loadDraft (ct_storage c) p l of JStr t \<Rightarrow> t | _ \<Rightarrow> starter))) c)"

lemma open_draft_resumes:
  assumes "ed_drafts (ct_editor c) (draft_key p (ed_language (ct_editor c))) = None" and "ct_storage c = write_draft p (ed_language (ct_editor c)) code st"
    and "bs_up st"
  shows "selectDraft p (open_draft p starter c) = code"
  using assms by (simp add: open_draft_def selectDraft_def load_written or_default_def)

section \<open>The idle watcher\<close>

definition idle_limit :: "bool \<Rightarrow> rat" where
  "idle_limit remember = (if remember then 7 * 24 * 60 * 60000 else 30 * 60000)"

definition touch :: "int \<Rightarrow> browser_storage \<Rightarrow> browser_storage" where
  "touch now st = storage_set ''devarena:last-active'' (JNum (of_int now)) st"

text \<open>One check: whether it signs the user out. The stamp falls back to the present.\<close>

definition idle_check :: "bool \<Rightarrow> int \<Rightarrow> browser_storage \<Rightarrow> bool" where
  "idle_check remember now st = (case storage_get st ''devarena:last-active'' (JNum (of_int now)) of
       JNum q \<Rightarrow> idle_limit remember < of_int now - q | _ \<Rightarrow> False)"

text \<open>Without storage nobody is ever signed out; and mounting the watcher, on a reload too, stamps before it checks.\<close>

lemma no_storage_no_logout: "\<not> bs_up st \<Longrightarrow> \<not> idle_check remember now (touch t st)"
  by (cases remember) (simp_all add: idle_check_def touch_def storage_set_def storage_get_def idle_limit_def)

lemma idle_signs_out:
  "storage_get st ''devarena:last-active'' (JNum (of_int now)) = JNum (of_int t) \<Longrightarrow> idle_check False now st \<longleftrightarrow> now - t > 1800000"
proof -
  have "(1800000 :: rat) < of_int now - of_int t \<longleftrightarrow> now - t > 1800000"
    by (metis of_int_diff of_int_less_iff of_int_numeral)
  then show "storage_get st ''devarena:last-active'' (JNum (of_int now)) = JNum (of_int t) \<Longrightarrow> idle_check False now st \<longleftrightarrow> now - t > 1800000"
    by (simp add: idle_check_def idle_limit_def)
qed

lemma reload_restarts_idle: "touch now (touch t st) = touch now st"
  by (simp add: touch_def storage_set_def)

end
