(* ===== verification/FrontBridge.thy ===== *)
theory FrontBridge
  imports FrontHooks ProblemService JudgeHttp
begin

text \<open>
  The web client's endpoints against the backend's routes (frontend, store/api): the query the problem
  explorer sends through the validator that reads it, the bookmark star with its optimistic patch, and the
  submission the client sends and polls.
\<close>

section \<open>The explorer's query\<close>

fun filter_text :: "solved_filter \<Rightarrow> string" where
  "filter_text FilterAll = ''all''"
| "filter_text FilterSolved = ''solved''"
| "filter_text FilterUnsolved = ''unsolved''"
| "filter_text FilterBookmarked = ''bookmarked''"

fun sort_text :: "problem_sort \<Rightarrow> string" where
  "sort_text SortNewest = ''newest''"
| "sort_text SortTitle = ''title''"
| "sort_text SortDifficulty = ''difficulty''"
| "sort_text SortAcceptance = ''acceptance''"

fun difficulty_text :: "difficulty \<Rightarrow> string" where
  "difficulty_text DfEasy = ''EASY''"
| "difficulty_text DfMedium = ''MEDIUM''"
| "difficulty_text DfHard = ''HARD''"

text \<open>A parameter that is undefined is left out; on the wire every value is a text.\<close>

definition param :: "bool \<Rightarrow> string \<Rightarrow> string \<Rightarrow> (string \<times> json) list" where
  "param b k v = (if b then [(k, JStr v)] else [])"

definition explorer_params :: "problem_query \<Rightarrow> json" where
  "explorer_params q = JObj
     (param (pq_search q \<noteq> []) ''search'' (pq_search q)
      @ param (pq_difficulties q \<noteq> []) ''difficulty'' (str_join '','' (map difficulty_text (pq_difficulties q)))
      @ param (pq_tags q \<noteq> []) ''tags'' (str_join '','' (pq_tags q))
      @ param (pq_companies q \<noteq> []) ''companies'' (str_join '','' (pq_companies q))
      @ param (pq_status q \<noteq> FilterAll) ''status'' (filter_text (pq_status q))
      @ param True ''sort'' (sort_text (pq_sort q))
      @ param True ''page'' (num_text (of_int (pq_page q)))
      @ param True ''pageSize'' (num_text (of_int (pq_pageSize q))))"

definition list_request :: "problem_query \<Rightarrow> user_request" where
  "list_request q = UrList (explorer_params q)"

lemma explorer_fields:
  "jfield ''q'' (explorer_params q) = None" "jfield ''sortBy'' (explorer_params q) = None"
  "jfield ''solved'' (explorer_params q) = None" "jfield ''bookmarked'' (explorer_params q) = None"
  "jfield ''page'' (explorer_params q) = Some (JStr (num_text (of_int (pq_page q))))"
  "jfield ''pageSize'' (explorer_params q) = Some (JStr (num_text (of_int (pq_pageSize q))))"
  "jfield ''difficulty'' (explorer_params q) = (if pq_difficulties q = [] then None
     else Some (JStr (str_join '','' (map difficulty_text (pq_difficulties q)))))"
  "jfield ''tags'' (explorer_params q) = (if pq_tags q = [] then None else Some (JStr (str_join '','' (pq_tags q))))"
  "jfield ''companies'' (explorer_params q) = (if pq_companies q = [] then None else Some (JStr (str_join '','' (pq_companies q))))"
  by (simp_all add: explorer_params_def param_def)

lemma two_difficulties_unknown: "difficulty_value (JStr (str_join '','' (map difficulty_text (d # d' # ds)))) = None"
proof -
  have "CHR '','' \<in> set (str_join '','' (map difficulty_text (d # d' # ds)))" by simp
  then show ?thesis by (auto simp del: str_join.simps)
qed

text \<open>Search text, status filter and order never reach the listing, and two difficulties at once are refused.\<close>

lemma explorer_filters_lost:
  "parse_query False (explorer_params q) = parse_query False (explorer_params (q\<lparr>pq_search := s, pq_status := f, pq_sort := so\<rparr>))"
  "parse_query False (explorer_params q) = Some l \<Longrightarrow> lq_q l = None \<and> lq_sortBy l = SoNewest \<and> lq_solved l = None \<and> lq_bookmarked l = None"
  by (auto simp: parse_query_def explorer_fields optional_field_def with_default_def split: option.splits)

lemma two_difficulties_refused:
  assumes "2 \<le> length (pq_difficulties q)"
  shows "user_route e h (list_request q) w = (Inl ApiValidation, w)"
proof -
  obtain d d' ds where "pq_difficulties q = d # d' # ds"
    using assms by (cases "pq_difficulties q" rule: remdups_adj.cases) auto
  then have "optional_field difficulty_value (jfield ''difficulty'' (explorer_params q)) = None"
    using two_difficulties_unknown[of d d' ds] by (simp add: explorer_fields optional_field_def del: str_join.simps)
  then have "parse_query False (explorer_params q) = None" by (auto simp: parse_query_def split: option.splits)
  then show ?thesis by (simp add: list_request_def op_simps)
qed

section \<open>The bookmark star\<close>

text \<open>
  The cached pages and details hold whether a problem is bookmarked. The star patches them at once; when the
  request fails the patches are undone, each giving back what it had replaced.
\<close>

record star_cache =
  sc_pages :: "(string \<times> bool) list list"
  sc_details :: "(string \<times> bool) list"

definition set_star :: "string \<Rightarrow> bool \<Rightarrow> (string \<times> bool) list \<Rightarrow> (string \<times> bool) list" where
  "set_star p b rows = (case List.find (\<lambda>(i, r). fst r = p) (enumerate 0 rows) of None \<Rightarrow> rows | Some (i, r) \<Rightarrow> rows[i := (p, b)])"

definition patch_star :: "string \<Rightarrow> bool \<Rightarrow> star_cache \<Rightarrow> star_cache" where
  "patch_star p b c = \<lparr>sc_pages = map (set_star p b) (sc_pages c), sc_details = map (\<lambda>(i, s). if i = p then (i, b) else (i, s)) (sc_details c)\<rparr>"

definition star_request :: "string \<Rightarrow> bool \<Rightarrow> user_request" where
  "star_request p bookmarked = (if bookmarked then UrUnbookmark p else UrBookmark p)"

definition toggle_star :: "problem_env \<Rightarrow> string option \<Rightarrow> string \<Rightarrow> bool \<Rightarrow> star_cache \<Rightarrow> problem_world \<Rightarrow> star_cache \<times> problem_world" where
  "toggle_star e h p bookmarked c w = (case user_route e h (star_request p bookmarked) w of
     (Inl err, w') \<Rightarrow> (c, w') | (Inr r, w') \<Rightarrow> (patch_star p (\<not> bookmarked) c, w'))"

text \<open>A failed request leaves the stars as they were; a bookmark that was accepted is shown in the listings.\<close>

lemma failed_star_undone: "fst (user_route e h (star_request p b) w) = Inl err \<Longrightarrow> fst (toggle_star e h p b c w) = c"
  by (cases "user_route e h (star_request p b) w") (simp add: toggle_star_def)

lemma set_star_other: "r \<in> set rows \<Longrightarrow> fst r \<noteq> p \<Longrightarrow> r \<in> set (set_star p b rows)"
proof -
  assume r: "r \<in> set rows" "fst r \<noteq> p"
  then obtain k where k: "k < length rows" "rows ! k = r" by (metis in_set_conv_nth)
  have "rows[i := (p, b)] ! k = r" if "rows ! i = x" "fst x = p" "i < length rows" for i x
    using that k r by (cases "i = k") auto
  moreover have "rows ! i = x \<and> fst x = p \<and> i < length rows" if "List.find (\<lambda>(i, r). fst r = p) (enumerate 0 rows) = Some (i, x)" for i x
  proof -
    from that have "(i, x) \<in> set (enumerate 0 rows)" "fst x = p" by (auto simp: find_Some_iff in_set_conv_nth)
    then show ?thesis by (auto simp: in_set_enumerate_eq)
  qed
  ultimately show "r \<in> set (set_star p b rows)"
    unfolding set_star_def using k r by (auto split: option.splits simp: in_set_conv_nth)
qed

text \<open>A detail opened by its slug is cached under the slug, and no star of the problem's id reaches it.\<close>

lemma star_misses_open_page:
  assumes "p \<noteq> slug" and "sc_details c = [(slug, b)]"
  shows "sc_details (fst (toggle_star e h p b c w)) = [(slug, b)]"
  using assms by (simp add: toggle_star_def patch_star_def split: prod.splits sum.splits)

section \<open>From the editor to the verdict on the page\<close>

definition submission_body :: "string \<Rightarrow> language \<Rightarrow> string \<Rightarrow> json" where
  "submission_body p l code = JObj [(''problemId'', JStr p), (''language'', JStr (language_key l)), (''code'', JStr code)]"

definition fetch_submission :: "problem_env \<Rightarrow> judge_env \<Rightarrow> judge_tables \<Rightarrow> string option \<Rightarrow> judge_world \<Rightarrow> string \<Rightarrow> fetched" where
  "fetch_submission d e t h w s = (case fst (judge_route d e t [] h (JhGet s) w) of
     Inr (JrSubmission row) \<Rightarrow> Detail \<lparr>sbd_id = s, sbd_status = sr_status row\<rparr> | _ \<Rightarrow> Unreachable)"

lemma submission_understood:
  assumes "is_uuid p" and "1 \<le> length code" and "length code \<le> 64000"
  shows "parse_submission u (submission_body p l code)
    = Some \<lparr>su_userId = u, su_problemId = p, su_battleId = None, su_language = l, su_code = code\<rparr>"
  using assms by (cases l) (simp_all add: parse_submission_def submission_body_def languages_def optional_field_def)


definition page_env :: problem_env where
  "page_env = \<lparr>ze_now = 0, ze_cacheUp = True, ze_auditUp = True, ze_id = (\<lambda>n. ''x''),
     ze_verify = (\<lambda>t. if t = ''tok'' then Some (''ann'', ''USER'') else None), ze_fold = (\<lambda>s. s), ze_validUrl = (\<lambda>s. True)\<rparr>"

definition page_uuid :: string where
  "page_uuid = ''11111111-2222-3333-4444-555555555555''"

definition page_row :: sub_row where
  "page_row = \<lparr>sr_userId = ''ann'', sr_problemId = page_uuid, sr_battleId = None, sr_language = LPython, sr_code = ''print(1)'',
     sr_status = Vd_ACCEPTED, sr_runtimeMs = Some 12, sr_memoryKb = Some 900, sr_createdAt = 0\<rparr>"

definition page_world :: judge_world where
  "page_world = no_submissions\<lparr>jw_rows := [page_uuid \<mapsto> page_row]\<rparr>"

definition page_tables :: judge_tables where
  "page_tables = \<lparr>jt_rows = [], jt_results = (\<lambda>_. []), jt_cases = (\<lambda>_. None)\<rparr>"


end
