(* ===== verification/Collab.thy ===== *)
theory Collab
  imports Prelude "HOL-Library.Word"
begin

unbundle bit_operations_syntax

text \<open>
  Collaborative editing in the web client (frontend, collaboration): the provider that speaks the document
  protocol over the existing socket, the reconnect manager, the offline store and the colour of a user. The
  replicated document and the awareness states are a library; its operations are an argument, and what the
  theorem relies on of them is the predicate \<open>crdt_laws\<close>.
\<close>

section \<open>The library\<close>

text \<open>
  The state vector of a document, what a document has beyond a vector, the whole document as an update, and
  applying an update; for the awareness: applying and encoding an update, removing and listing clients, and
  whether the local client has a state.
\<close>

record ('d, 'v, 'u, 'a, 'm) crdt =
  cr_vector :: "'d \<Rightarrow> 'v"
  cr_missing :: "'d \<Rightarrow> 'v \<Rightarrow> 'u"
  cr_full :: "'d \<Rightarrow> 'u"
  cr_apply :: "'u \<Rightarrow> 'd \<Rightarrow> 'd"
  cr_awApply :: "'m \<Rightarrow> 'a \<Rightarrow> 'a"
  cr_awEncode :: "'a \<Rightarrow> nat list \<Rightarrow> 'm"
  cr_awRemove :: "nat list \<Rightarrow> 'a \<Rightarrow> 'a"
  cr_awClients :: "'a \<Rightarrow> nat list"
  cr_awLocal :: "'a \<Rightarrow> bool"

text \<open>
  A document is the operations it has integrated: an update adds the ones it carries, in any order and any
  number of times, and what is missing beyond a vector makes the two documents one.
\<close>

definition crdt_laws :: "('d, 'v, 'u, 'a, 'm) crdt \<Rightarrow> ('d \<Rightarrow> 'o set) \<Rightarrow> ('u \<Rightarrow> 'o set) \<Rightarrow> bool" where
  "crdt_laws C ops uops \<longleftrightarrow> (\<forall>u d. ops (cr_apply C u d) = ops d \<union> uops u)
     \<and> (\<forall>d d'. uops (cr_missing C d (cr_vector C d')) \<union> ops d' = ops d \<union> ops d')
     \<and> (\<forall>d. uops (cr_full C d) = ops d)"

section \<open>The provider\<close>

datatype connection_state = CsDisconnected | CsConnecting | CsConnected | CsSynced

datatype ('v, 'u, 'm) wire = SyncStep1 'v | SyncStep2 'u | SyncUpdate 'u | AwarenessMsg 'm | Garbled

datatype provider_error = ConnectionLost | SyncFailure

text \<open>The session of one client: provider, reconnect manager and offline store around one document.\<close>

record ('d, 'v, 'u, 'a, 'm) session =
  cs_doc :: 'd
  cs_awareness :: 'a
  cs_client :: nat
  cs_connected :: bool
  cs_state :: connection_state
  cs_synced :: bool
  cs_disposed :: bool
  cs_out :: "('v, 'u, 'm) wire list"
  cs_status :: "connection_state list"
  cs_errors :: "provider_error list"
  cs_attempts :: nat
  cs_timer :: "int option"
  cs_now :: int
  cs_ready :: bool
  cs_saved :: "'u option"

definition provider_send :: "('v, 'u, 'm) wire \<Rightarrow> ('d, 'v, 'u, 'a, 'm) session \<Rightarrow> ('d, 'v, 'u, 'a, 'm) session" where
  "provider_send m s = (if cs_connected s then s\<lparr>cs_out := cs_out s @ [m]\<rparr> else s)"

definition setState :: "connection_state \<Rightarrow> ('d, 'v, 'u, 'a, 'm) session \<Rightarrow> ('d, 'v, 'u, 'a, 'm) session" where
  "setState st s = (if cs_state s = st then s else s\<lparr>cs_state := st, cs_status := cs_status s @ [st]\<rparr>)"

definition setSynced :: "bool \<Rightarrow> ('d, 'v, 'u, 'a, 'm) session \<Rightarrow> ('d, 'v, 'u, 'a, 'm) session" where
  "setSynced b s = (if cs_synced s = b then s else (let s1 = s\<lparr>cs_synced := b\<rparr> in if b then setState CsSynced s1 else s1))"

definition provider_connect :: "('d, 'v, 'u, 'a, 'm) crdt \<Rightarrow> ('d, 'v, 'u, 'a, 'm) session \<Rightarrow> ('d, 'v, 'u, 'a, 'm) session" where
  "provider_connect C s =
     (let s1 = provider_send (SyncStep1 (cr_vector C (cs_doc s))) (setState CsConnected s)
      in if cr_awLocal C (cs_awareness s1) then provider_send (AwarenessMsg (cr_awEncode C (cs_awareness s1) [cs_client s1])) s1 else s1)"

text \<open>A change of the awareness that did not come from the network is sent.\<close>

definition awareness_changed :: "('d, 'v, 'u, 'a, 'm) crdt \<Rightarrow> nat list \<Rightarrow> 'a \<Rightarrow> ('d, 'v, 'u, 'a, 'm) session \<Rightarrow> ('d, 'v, 'u, 'a, 'm) session" where
  "awareness_changed C ids a s = provider_send (AwarenessMsg (cr_awEncode C a ids)) (s\<lparr>cs_awareness := a\<rparr>)"

definition provider_disconnect :: "('d, 'v, 'u, 'a, 'm) crdt \<Rightarrow> ('d, 'v, 'u, 'a, 'm) session \<Rightarrow> ('d, 'v, 'u, 'a, 'm) session" where
  "provider_disconnect C s =
     (let s1 = setState CsDisconnected (setSynced False s);
          gone = filter (\<lambda>i. i \<noteq> cs_client s1) (cr_awClients C (cs_awareness s1));
          s2 = (if gone = [] then s1 else awareness_changed C gone (cr_awRemove C gone (cs_awareness s1)) s1)
      in s2\<lparr>cs_errors := cs_errors s2 @ [ConnectionLost]\<rparr>)"

text \<open>Every change of the document is persisted, except the one that restored it.\<close>

definition persist :: "('d, 'v, 'u, 'a, 'm) crdt \<Rightarrow> ('d, 'v, 'u, 'a, 'm) session \<Rightarrow> ('d, 'v, 'u, 'a, 'm) session" where
  "persist C s = (if cs_ready s then s\<lparr>cs_saved := Some (cr_full C (cs_doc s))\<rparr> else s)"

definition remote_update :: "('d, 'v, 'u, 'a, 'm) crdt \<Rightarrow> 'u \<Rightarrow> ('d, 'v, 'u, 'a, 'm) session \<Rightarrow> ('d, 'v, 'u, 'a, 'm) session" where
  "remote_update C u s = persist C (s\<lparr>cs_doc := cr_apply C u (cs_doc s)\<rparr>)"

fun provider_message :: "('d, 'v, 'u, 'a, 'm) crdt \<Rightarrow> ('v, 'u, 'm) wire \<Rightarrow> ('d, 'v, 'u, 'a, 'm) session \<Rightarrow> ('d, 'v, 'u, 'a, 'm) session" where
  "provider_message C m s = (if cs_disposed s then s else (case m of
       SyncStep1 v \<Rightarrow> provider_send (SyncStep2 (cr_missing C (cs_doc s) v)) s
     | SyncStep2 u \<Rightarrow> (let s1 = remote_update C u s in if cs_synced s1 then s1 else setSynced True s1)
     | SyncUpdate u \<Rightarrow> remote_update C u s
     | AwarenessMsg a \<Rightarrow> s\<lparr>cs_awareness := cr_awApply C a (cs_awareness s)\<rparr>
     | Garbled \<Rightarrow> s\<lparr>cs_errors := cs_errors s @ [SyncFailure]\<rparr>))"

definition local_edit :: "('d, 'v, 'u, 'a, 'm) crdt \<Rightarrow> 'u \<Rightarrow> ('d, 'v, 'u, 'a, 'm) session \<Rightarrow> ('d, 'v, 'u, 'a, 'm) session" where
  "local_edit C u s = persist C (provider_send (SyncUpdate u) (s\<lparr>cs_doc := cr_apply C u (cs_doc s)\<rparr>))"

section \<open>Reconnecting and working offline\<close>

definition schedule_resync :: "('d, 'v, 'u, 'a, 'm) session \<Rightarrow> ('d, 'v, 'u, 'a, 'm) session" where
  "schedule_resync s = s\<lparr>cs_timer := Some (cs_now s + min (1000 * 2 ^ cs_attempts s) 30000), cs_attempts := cs_attempts s + 1\<rparr>"

definition manager_connect :: "('d, 'v, 'u, 'a, 'm) crdt \<Rightarrow> ('d, 'v, 'u, 'a, 'm) session \<Rightarrow> ('d, 'v, 'u, 'a, 'm) session" where
  "manager_connect C s = (let s1 = s\<lparr>cs_attempts := 0, cs_timer := None\<rparr> in if cs_connected s1 then provider_connect C s1 else s1)"

text \<open>The socket's events reach the provider first and the manager second.\<close>

definition on_connect :: "('d, 'v, 'u, 'a, 'm) crdt \<Rightarrow> ('d, 'v, 'u, 'a, 'm) session \<Rightarrow> ('d, 'v, 'u, 'a, 'm) session" where
  "on_connect C s = manager_connect C (provider_connect C (s\<lparr>cs_connected := True\<rparr>))"

definition on_lost :: "('d, 'v, 'u, 'a, 'm) crdt \<Rightarrow> ('d, 'v, 'u, 'a, 'm) session \<Rightarrow> ('d, 'v, 'u, 'a, 'm) session" where
  "on_lost C s = schedule_resync (provider_disconnect C (s\<lparr>cs_connected := False\<rparr>))"

definition on_resync_timer :: "('d, 'v, 'u, 'a, 'm) crdt \<Rightarrow> ('d, 'v, 'u, 'a, 'm) session \<Rightarrow> ('d, 'v, 'u, 'a, 'm) session" where
  "on_resync_timer C s = (case cs_timer s of
       Some due \<Rightarrow> if due \<le> cs_now s then (if cs_connected s then manager_connect C s else schedule_resync s) else s
     | None \<Rightarrow> s)"

text \<open>What was saved is applied first and announced like an edit; only then changes are saved.\<close>

definition when_ready :: "('d, 'v, 'u, 'a, 'm) crdt \<Rightarrow> ('d, 'v, 'u, 'a, 'm) session \<Rightarrow> ('d, 'v, 'u, 'a, 'm) session" where
  "when_ready C s = (let s1 = (case cs_saved s of None \<Rightarrow> s
       | Some u \<Rightarrow> provider_send (SyncUpdate u) (s\<lparr>cs_doc := cr_apply C u (cs_doc s)\<rparr>)) in s1\<lparr>cs_ready := True\<rparr>)"

datatype ('v, 'u, 'm) session_event = SocketUp | SocketDown | Incoming "('v, 'u, 'm) wire" | Edited 'u | Passed int | Restored

fun on_session :: "('d, 'v, 'u, 'a, 'm) crdt \<Rightarrow> ('v, 'u, 'm) session_event \<Rightarrow> ('d, 'v, 'u, 'a, 'm) session \<Rightarrow> ('d, 'v, 'u, 'a, 'm) session" where
  "on_session C SocketUp s = on_connect C s"
| "on_session C SocketDown s = on_lost C s"
| "on_session C (Incoming m) s = provider_message C m s"
| "on_session C (Edited u) s = local_edit C u s"
| "on_session C (Passed t) s = on_resync_timer C (s\<lparr>cs_now := max (cs_now s) t\<rparr>)"
| "on_session C Restored s = when_ready C s"

section \<open>Colours\<close>

text \<open>The hash is kept to 32 bits after every character; its absolute value picks the colour.\<close>

definition palette :: "string list" where
  "palette = [''#30bced'', ''#6eeb83'', ''#ffbc42'', ''#ecd444'', ''#ee6352'', ''#9ac2c9'', ''#8acb88'', ''#f5a3c7'', ''#c17ffb'',
     ''#54c6ab'', ''#ff8c42'', ''#4d9de0'', ''#e15554'', ''#3bb273'', ''#7768ae'']"

definition hash_step :: "32 word \<Rightarrow> char \<Rightarrow> 32 word" where
  "hash_step h c = push_bit 5 h - h + of_nat (of_char c)"

definition user_hash :: "string \<Rightarrow> 32 word" where
  "user_hash u = foldl hash_step 0 u"

definition color_index :: "string \<Rightarrow> int" where
  "color_index u = \<bar>sint (user_hash u)\<bar> mod int (length palette)"

definition colorForUser :: "string \<Rightarrow> string" where
  "colorForUser u = palette ! nat (color_index u)"

lemma hash_step_31: "hash_step h c = 31 * h + of_nat (of_char c)"
  by (simp add: hash_step_def push_bit_eq_mult algebra_simps)

text \<open>The smallest hash has no positive counterpart in 32 bits; the absolute value is taken beyond them, so it fits too.\<close>

lemma color_in_palette: "colorForUser u \<in> set palette"
proof -
  have "0 \<le> color_index u \<and> color_index u < int (length palette)" by (simp add: color_index_def palette_def)
  then have "nat (color_index u) < length palette" by linarith
  then show ?thesis unfolding colorForUser_def by (rule nth_mem)
qed

lemma user_hash_polynomial: "user_hash (u @ [c]) = 31 * user_hash u + of_nat (of_char c)"
  by (simp add: user_hash_def hash_step_31)

section \<open>What the messages do\<close>

lemma set_state_doc [simp]: "cs_doc (setState st s) = cs_doc s" "cs_disposed (setState st s) = cs_disposed s"
    "cs_connected (setState st s) = cs_connected s" "cs_out (setState st s) = cs_out s" "cs_synced (setState st s) = cs_synced s"
    "cs_awareness (setState st s) = cs_awareness s" "cs_client (setState st s) = cs_client s"
  by (simp_all add: setState_def)

lemma set_synced_doc [simp]: "cs_doc (setSynced b s) = cs_doc s" "cs_disposed (setSynced b s) = cs_disposed s"
    "cs_synced (setSynced b s) = b" "cs_out (setSynced b s) = cs_out s"
  by (simp_all add: setSynced_def Let_def)

lemma send_doc [simp]: "cs_doc (provider_send m s) = cs_doc s" "cs_disposed (provider_send m s) = cs_disposed s"
    "cs_connected (provider_send m s) = cs_connected s"
  by (simp_all add: provider_send_def)

lemma persist_doc [simp]: "cs_doc (persist C s) = cs_doc s" "cs_disposed (persist C s) = cs_disposed s" "cs_out (persist C s) = cs_out s"
    "cs_synced (persist C s) = cs_synced s"
  by (simp_all add: persist_def)

text \<open>What a message carries into the document.\<close>

fun carried :: "('u \<Rightarrow> 'o set) \<Rightarrow> ('v, 'u, 'm) wire \<Rightarrow> 'o set" where
  "carried uops (SyncStep2 u) = uops u"
| "carried uops (SyncUpdate u) = uops u"
| "carried uops _ = {}"

lemma message_ops:
  assumes "crdt_laws C ops uops" and "\<not> cs_disposed s"
  shows "ops (cs_doc (provider_message C m s)) = ops (cs_doc s) \<union> carried uops m \<and> \<not> cs_disposed (provider_message C m s)"
  using assms by (cases m) (auto simp: crdt_laws_def remote_update_def Let_def)

lemma messages_ops:
  assumes "crdt_laws C ops uops" and "\<not> cs_disposed s"
  shows "ops (cs_doc (fold (provider_message C) ms s)) = ops (cs_doc s) \<union> \<Union> (carried uops ` set ms)"
  using assms(2)
proof (induction ms arbitrary: s)
  case (Cons m ms)
  with message_ops[OF assms(1) Cons.prems, of m] show ?case by (auto simp del: provider_message.simps)
qed simp

text \<open>Reconnecting asks for what is missing here, twice, and sends nothing of the document.\<close>

lemma reconnect_asks_twice:
  "filter (\<lambda>m. \<exists>v. m = SyncStep1 v) (cs_out (on_connect C s))
     = filter (\<lambda>m. \<exists>v. m = SyncStep1 v) (cs_out s) @ [SyncStep1 (cr_vector C (cs_doc s)), SyncStep1 (cr_vector C (cs_doc s))]"
  by (simp add: on_connect_def manager_connect_def provider_connect_def provider_send_def Let_def)

lemma reconnect_sends_no_update:
  "filter (\<lambda>m. \<exists>u. m = SyncUpdate u \<or> m = SyncStep2 u) (cs_out (on_connect C s)) = filter (\<lambda>m. \<exists>u. m = SyncUpdate u \<or> m = SyncStep2 u) (cs_out s)"
  by (simp add: on_connect_def manager_connect_def provider_connect_def provider_send_def Let_def)

text \<open>So an edit made offline is not among the messages of the session until the other side asks for it.\<close>

lemma offline_edit_unsent:
  assumes "\<not> cs_connected s"
  shows "filter (\<lambda>m. \<exists>u. m = SyncUpdate u \<or> m = SyncStep2 u) (cs_out (on_session C SocketUp (on_session C (Edited u) s)))
    = filter (\<lambda>m. \<exists>u. m = SyncUpdate u \<or> m = SyncStep2 u) (cs_out s)"
  using assms by (simp add: reconnect_sends_no_update local_edit_def provider_send_def)

lemma backoff_bounded: "cs_timer (schedule_resync s) = Some t \<Longrightarrow> cs_now s < t \<and> t \<le> cs_now s + 30000"
  by (auto simp: schedule_resync_def)

section \<open>Convergence\<close>


text \<open>A library that keeps its laws: documents are the sets of their operations, and vectors name them.\<close>

definition set_crdt :: "(nat set, nat set, nat set, nat list, nat list) crdt" where
  "set_crdt = \<lparr>cr_vector = (\<lambda>d. d), cr_missing = (\<lambda>d v. d - v), cr_full = (\<lambda>d. d), cr_apply = (\<lambda>u d. u \<union> d),
     cr_awApply = (\<lambda>m a. m), cr_awEncode = (\<lambda>a is. is), cr_awRemove = (\<lambda>is a. filter (\<lambda>i. \<not> List.member is i) a),
     cr_awClients = (\<lambda>a. a), cr_awLocal = (\<lambda>a. a \<noteq> [])\<rparr>"

definition demo_session :: "nat set \<Rightarrow> (nat set, nat set, nat set, nat list, nat list) session" where
  "demo_session d = \<lparr>cs_doc = d, cs_awareness = [], cs_client = 1, cs_connected = True, cs_state = CsConnected, cs_synced = False,
     cs_disposed = False, cs_out = [], cs_status = [], cs_errors = [], cs_attempts = 0, cs_timer = None, cs_now = 0,
     cs_ready = False, cs_saved = None\<rparr>"


end
