(* ===== verification/Presence.thy ===== *)
theory Presence
  imports Collab
begin

text \<open>
  Presence in a collaborative session (frontend, collaboration/awareness): the entry a client publishes about
  itself, its idle countdown, and the entries of the others. The awareness states are those of the library, a
  local one and a list of clients with theirs; the countdown is a due instant.
\<close>

datatype presence_status = PsActive | PsIdle

record collaborator =
  co_userId :: string
  co_username :: string
  co_avatarUrl :: "string option"
  co_color :: string

type_synonym cursor_position = "int \<times> int"
type_synonym selection_range = "(int \<times> int) \<times> (int \<times> int)"

record aware_state =
  au_user :: collaborator
  au_status :: presence_status
  au_cursor :: "cursor_position option"
  au_selection :: "selection_range option"
  au_language :: string
  au_file :: string
  au_lastActive :: int

record presence =
  am_local :: "aware_state option"
  am_timer :: "int option"
  am_now :: int

definition idle_after :: int where "idle_after = 60000"

text \<open>An entry that was taken back stays taken back.\<close>

definition presence_patch :: "(aware_state \<Rightarrow> aware_state) \<Rightarrow> presence \<Rightarrow> presence" where
  "presence_patch f m = (case am_local m of None \<Rightarrow> m
     | Some s \<Rightarrow> m\<lparr>am_local := Some ((f s)\<lparr>au_lastActive := am_now m\<rparr>)\<rparr>)"

definition bump_activity :: "presence \<Rightarrow> presence" where
  "bump_activity m = (presence_patch (au_status_update (\<lambda>_. PsActive)) m)\<lparr>am_timer := Some (am_now m + idle_after)\<rparr>"

definition presence_init :: "collaborator \<Rightarrow> string \<Rightarrow> string \<Rightarrow> presence \<Rightarrow> presence" where
  "presence_init who lang file m = bump_activity (m\<lparr>am_local := Some \<lparr>au_user = who, au_status = PsActive, au_cursor = None,
     au_selection = None, au_language = lang, au_file = file, au_lastActive = am_now m\<rparr>\<rparr>)"

datatype presence_event = CursorMoved "cursor_position option" | Selected "selection_range option"
  | LanguageSet string | FileSet string | Waited int | PresenceLeft

fun on_presence :: "presence_event \<Rightarrow> presence \<Rightarrow> presence" where
  "on_presence (CursorMoved c) m = bump_activity (presence_patch (au_cursor_update (\<lambda>_. c)) m)"
| "on_presence (Selected r) m = bump_activity (presence_patch (au_selection_update (\<lambda>_. r)) m)"
| "on_presence (LanguageSet l) m = presence_patch (au_language_update (\<lambda>_. l)) m"
| "on_presence (FileSet f) m = presence_patch (au_file_update (\<lambda>_. f)) m"
| "on_presence (Waited t) m = (let m1 = m\<lparr>am_now := max (am_now m) t\<rparr> in (case am_timer m of
       Some due \<Rightarrow> if due \<le> am_now m1
         then (presence_patch (au_status_update (\<lambda>_. PsIdle)) m1)\<lparr>am_timer := None\<rparr> else m1
     | None \<Rightarrow> m1))"
| "on_presence PresenceLeft m = m\<lparr>am_timer := None, am_local := None\<rparr>"

text \<open>The entries of the others: everybody's but one's own, and only those that name a user.\<close>

definition remote_states :: "nat \<Rightarrow> (nat \<times> aware_state option) list \<Rightarrow> (nat \<times> aware_state) list" where
  "remote_states me states = List.map_filter (\<lambda>(i, s). if i = me then None else map_option (Pair i) s) states"

section \<open>Who is idle\<close>

definition presence_ok :: "presence \<Rightarrow> bool" where
  "presence_ok m \<longleftrightarrow> (case am_local m of None \<Rightarrow> True | Some s \<Rightarrow>
     (au_status s = PsActive \<longleftrightarrow> am_timer m \<noteq> None) \<and> au_lastActive s \<le> am_now m)
     \<and> (\<forall>due. am_timer m = Some due \<longrightarrow> am_now m < due \<and> due \<le> am_now m + idle_after)"

lemma presence_init_ok: "presence_ok (presence_init who lang file m)"
  by (simp add: presence_init_def bump_activity_def presence_patch_def presence_ok_def idle_after_def)

lemma on_presence_ok: "presence_ok m \<Longrightarrow> presence_ok (on_presence e m)"
  by (cases e) (auto simp: presence_ok_def bump_activity_def presence_patch_def idle_after_def Let_def
      split: option.splits)

lemma presence_run_ok: "presence_ok m \<Longrightarrow> presence_ok (fold on_presence es m)"
  by (induction es arbitrary: m) (simp_all add: on_presence_ok)

text \<open>Once taken back, an entry does not come back.\<close>

lemma left_stays_left: "am_local m = None \<Longrightarrow> am_local (fold on_presence es m) = None"
proof (induction es arbitrary: m)
  case (Cons e es)
  have "am_local (on_presence e m) = None"
    using Cons.prems by (cases e) (auto simp: bump_activity_def presence_patch_def Let_def split: option.splits)
  then show ?case using Cons.IH by simp
qed simp

text \<open>A client is shown as idle exactly when no cursor or selection moved for a minute.\<close>

lemma idle_after_a_minute:
  assumes "am_local m = Some s"
  shows "map_option au_status (am_local (on_presence (Waited t) (on_presence (CursorMoved c) m)))
    = Some (if am_now m + 60000 \<le> t then PsIdle else PsActive)"
  using assms by (auto simp: bump_activity_def presence_patch_def idle_after_def Let_def)

text \<open>
  Falling idle counts as activity in the time stamp of the entry, and so does a change of the language, which
  on the other hand does not end the idleness.
\<close>

lemma idling_stamps_activity:
  assumes "am_local m = Some s" and "am_now m + 60000 \<le> t"
  shows "map_option au_lastActive (am_local (on_presence (Waited t) (on_presence (CursorMoved c) m))) = Some t"
  using assms by (auto simp: bump_activity_def presence_patch_def idle_after_def Let_def)

lemma language_change_leaves_idle:
  "am_local m = Some s \<Longrightarrow> map_option (\<lambda>s. (au_status s, au_lastActive s)) (am_local (on_presence (LanguageSet l) m))
     = Some (au_status s, am_now m)"
  by (simp add: presence_patch_def)

lemma remote_states_others: "(i, s) \<in> set (remote_states me states) \<longleftrightarrow> i \<noteq> me \<and> (i, Some s) \<in> set states"
  by (force simp: remote_states_def map_filter_def split: if_splits)

section \<open>Remote cursors\<close>

text \<open>
  What the editor shows of the others (collaboration/cursor/remote-cursors.ts): for each entry a highlight of
  its selection and a caret, with the classes of the user's colour, whose style is added once.
\<close>

record decoration =
  dc_range :: selection_range
  dc_class :: string
  dc_hover :: "string option"

record cursor_view =
  cv_shown :: "decoration list"
  cv_styled :: "string list"

definition cursor_class :: "string \<Rightarrow> string" where
  "cursor_class color = ''remote-cursor-'' @ remove1 CHR ''#'' color"

definition ensure_style :: "string \<Rightarrow> string list \<Rightarrow> string list" where
  "ensure_style color styled = (if List.member styled color then styled else styled @ [color])"

definition decorations_for :: "aware_state \<Rightarrow> decoration list" where
  "decorations_for s = (let cls = cursor_class (co_color (au_user s)) in
     (case au_selection s of None \<Rightarrow> [] | Some r \<Rightarrow> [\<lparr>dc_range = r, dc_class = cls @ ''-selection'', dc_hover = None\<rparr>])
   @ (case au_cursor s of None \<Rightarrow> [] | Some p \<Rightarrow> [\<lparr>dc_range = (p, p), dc_class = cls @ ''-caret'', dc_hover = Some (co_username (au_user s))\<rparr>]))"

definition render_cursors :: "(nat \<times> aware_state) list \<Rightarrow> cursor_view \<Rightarrow> cursor_view" where
  "render_cursors states v = \<lparr>cv_shown = concat (map (\<lambda>(i, s). decorations_for s) states),
     cv_styled = fold (\<lambda>(i, s). ensure_style (co_color (au_user s))) states (cv_styled v)\<rparr>"

text \<open>Every colour is styled once, and every shown class has its style.\<close>

lemma styled_mem: "set (fold (\<lambda>(i, s). ensure_style (co_color (au_user s))) states cs) = set cs \<union> (\<lambda>(i, s). co_color (au_user s)) ` set states"
  by (induction states arbitrary: cs) (auto simp: ensure_style_def split: if_splits)

lemma styled_once: "distinct (cv_styled v) \<Longrightarrow> distinct (cv_styled (render_cursors states v))"
proof -
  have "distinct cs \<Longrightarrow> distinct (fold (\<lambda>(i, s). ensure_style (co_color (au_user s))) states cs)" for cs
    by (induction states arbitrary: cs) (auto simp: ensure_style_def split: if_splits)
  then show "distinct (cv_styled v) \<Longrightarrow> distinct (cv_styled (render_cursors states v))" by (simp add: render_cursors_def)
qed

lemma shown_styled:
  assumes "d \<in> set (cv_shown (render_cursors states v))"
  shows "\<exists>c \<in> set (cv_styled (render_cursors states v)). dc_class d \<in> {cursor_class c @ ''-selection'', cursor_class c @ ''-caret''}"
proof -
  obtain i s where s: "(i, s) \<in> set states" "d \<in> set (decorations_for s)" using assms by (auto simp: render_cursors_def)
  have "dc_class d \<in> {cursor_class (co_color (au_user s)) @ ''-selection'', cursor_class (co_color (au_user s)) @ ''-caret''}"
    using s(2) by (auto simp: decorations_for_def Let_def split: option.splits)
  moreover have "co_color (au_user s) \<in> set (cv_styled (render_cursors states v))"
    using s(1) by (force simp: render_cursors_def styled_mem)
  ultimately show ?thesis by blast
qed

text \<open>A client that has gone, or that never said who it is, leaves no trace in the editor.\<close>

lemma only_others_shown:
  "cv_shown (render_cursors (remote_states me [(me, x)]) v) = []" "cv_shown (render_cursors (remote_states me [(i, None)]) v) = []"
  by (simp_all add: remote_states_def render_cursors_def map_filter_def)

end
