(* ===== verification/FrontForms.thy ===== *)
theory FrontForms
  imports Period Complex_Main
begin

text \<open>
  The forms of the web client (frontend, features/auth/schemas) and the texts it makes of passwords and
  measurements (utils/password-strength.ts, utils/format.ts). Text is ASCII. What counts as an address is
  decided by the validator of the library, which is an argument. Measurements are rationals; the dash shown
  for a missing one is the code unit 151.
\<close>

section \<open>Validation\<close>

definition is_lower :: "char \<Rightarrow> bool" where "is_lower c \<longleftrightarrow> (of_char c :: nat) \<in> {97..122}"
definition is_upper :: "char \<Rightarrow> bool" where "is_upper c \<longleftrightarrow> (of_char c :: nat) \<in> {65..90}"
definition is_digit_char :: "char \<Rightarrow> bool" where "is_digit_char c \<longleftrightarrow> (of_char c :: nat) \<in> {48..57}"

text \<open>A rule and its message; all failing rules of a field are reported, in order.\<close>

type_synonym form_issue = "string \<times> string"

definition broken :: "(bool \<times> string) list \<Rightarrow> string list" where
  "broken rules = map snd (filter (\<lambda>r. \<not> fst r) rules)"

definition at_field :: "string \<Rightarrow> string list \<Rightarrow> form_issue list" where
  "at_field f ms = map (Pair f) ms"

definition email_rules :: "(string \<Rightarrow> bool) \<Rightarrow> string \<Rightarrow> string list" where
  "email_rules is_email v = broken [(1 \<le> length v, ''Enter your email address''), (is_email v, ''That does not look like an email address'')]"

definition password_rules :: "string \<Rightarrow> string list" where
  "password_rules v = broken [(8 \<le> length v, ''Use at least 8 characters''), (length v \<le> 128, ''Keep it under 128 characters''),
     (list_ex is_lower v, ''Include a lowercase letter''), (list_ex is_upper v, ''Include a capital letter''),
     (list_ex is_digit_char v, ''Include a number'')]"

definition username_char :: "char \<Rightarrow> bool" where
  "username_char c \<longleftrightarrow> is_lower c \<or> is_upper c \<or> is_digit_char c \<or> c = CHR ''_''"

definition username_rules :: "string \<Rightarrow> string list" where
  "username_rules v = broken [(3 \<le> length v, ''Use at least 3 characters''), (length v \<le> 24, ''Keep it under 24 characters''),
     (v \<noteq> [] \<and> list_all username_char v, ''Letters, numbers and underscores only'')]"

definition login_issues :: "(string \<Rightarrow> bool) \<Rightarrow> string \<Rightarrow> string \<Rightarrow> form_issue list" where
  "login_issues is_email email password = at_field ''email'' (email_rules is_email email)
     @ at_field ''password'' (broken [(1 \<le> length password, ''Enter your password'')])"

record signup_form =
  sf_username :: string
  sf_email :: string
  sf_password :: string
  sf_confirmPassword :: string
  sf_acceptTerms :: bool

definition confirm_issues :: "string \<Rightarrow> string \<Rightarrow> form_issue list" where
  "confirm_issues password confirm = at_field ''confirmPassword'' (broken [(password = confirm, ''Passwords do not match'')])"

definition confirm_rules :: "string \<Rightarrow> string list" where
  "confirm_rules v = broken [(1 \<le> length v, ''Re-enter your password'')]"

text \<open>
  The library compares the two passwords after the fields, unless a field has a value of the wrong kind: the
  terms not accepted are such a value, a text that breaks a rule is not.
\<close>

definition signup_issues :: "(string \<Rightarrow> bool) \<Rightarrow> signup_form \<Rightarrow> form_issue list" where
  "signup_issues is_email v = at_field ''username'' (username_rules (sf_username v))
     @ at_field ''email'' (email_rules is_email (sf_email v)) @ at_field ''password'' (password_rules (sf_password v))
     @ at_field ''confirmPassword'' (confirm_rules (sf_confirmPassword v))
     @ (if sf_acceptTerms v then confirm_issues (sf_password v) (sf_confirmPassword v)
        else [(''acceptTerms'', ''Accept the terms to continue'')])"

definition forgot_issues :: "(string \<Rightarrow> bool) \<Rightarrow> string \<Rightarrow> form_issue list" where
  "forgot_issues is_email email = at_field ''email'' (email_rules is_email email)"

definition reset_issues :: "string \<Rightarrow> string \<Rightarrow> form_issue list" where
  "reset_issues password confirm = at_field ''password'' (password_rules password)
     @ at_field ''confirmPassword'' (confirm_rules confirm) @ confirm_issues password confirm"

section \<open>Strength\<close>

definition join_and :: "string list \<Rightarrow> string" where
  "join_and ms = concat (case ms of [] \<Rightarrow> [] | m # r \<Rightarrow> m # map (\<lambda>x. '' and '' @ x) r)"

definition password_variety :: "string \<Rightarrow> nat" where
  "password_variety v = length (filter (\<lambda>b. b) [list_ex is_lower v, list_ex is_upper v, list_ex is_digit_char v,
     list_ex (\<lambda>c. \<not> is_lower c \<and> \<not> is_upper c \<and> \<not> is_digit_char c) v])"

definition scorePassword :: "string \<Rightarrow> nat \<times> string" where
  "scorePassword v = (if length v < 8 then (0, ''use at least 8 characters'')
     else (let variety = password_variety v;
         score = 1 + (if 12 \<le> length v then 1 else 0) + (if 3 \<le> variety then 1 else 0) + (if variety = 4 \<and> 16 \<le> length v then 1 else 0);
         missing = broken [(list_ex is_upper v, ''a capital''), (list_ex is_digit_char v, ''a number''),
           (list_ex (\<lambda>c. \<not> is_lower c \<and> \<not> is_upper c \<and> \<not> is_digit_char c) v, ''a symbol'')]
       in (min score 4, if missing \<noteq> [] \<and> score < 3 then ''add '' @ join_and (take 2 missing) else [])))"

section \<open>Measurements\<close>

definition em_dash_text :: string where "em_dash_text = [char_of (151 :: nat)]"

definition round_near :: "rat \<Rightarrow> int" where "round_near x = \<lfloor>x + 1 / 2\<rfloor>"

text \<open>\<open>toFixed\<close> of a number that is not negative.\<close>

definition pad_left :: "nat \<Rightarrow> string \<Rightarrow> string" where
  "pad_left n s = replicate (n - length s) CHR ''0'' @ s"

definition to_fixed :: "nat \<Rightarrow> rat \<Rightarrow> string" where
  "to_fixed f x = (let n = nat (round_near (x * 10 ^ f)) in digits (n div 10 ^ f) @ ''.'' @ pad_left f (digits (n mod 10 ^ f)))"

definition formatRuntime :: "rat option \<Rightarrow> string" where
  "formatRuntime ms = (case ms of None \<Rightarrow> em_dash_text
     | Some x \<Rightarrow> if x < 1000 then int_str (round_near x) @ '' ms'' else to_fixed 2 (x / 1000) @ '' s'')"

definition formatMemory :: "rat option \<Rightarrow> string" where
  "formatMemory kb = (case kb of None \<Rightarrow> em_dash_text
     | Some x \<Rightarrow> if x < 1024 then int_str (round_near x) @ '' KB'' else to_fixed 1 (x / 1024) @ '' MB'')"

definition formatPercent :: "rat \<Rightarrow> string" where
  "formatPercent x = to_fixed 1 (x * 100) @ ''%''"

text \<open>The time of an entry, if its text is a date, and the text of a date in the locale are arguments.\<close>

definition formatRelativeTime :: "int option \<Rightarrow> string \<Rightarrow> int \<Rightarrow> string" where
  "formatRelativeTime date locale_text now = (case date of None \<Rightarrow> em_dash_text
     | Some t \<Rightarrow> (let seconds = round_near (of_int (now - t) / 1000); minutes = round_near (of_int seconds / 60);
           hours = round_near (of_int minutes / 60); days = round_near (of_int hours / 24)
         in if seconds < 60 then ''just now'' else if minutes < 60 then int_str minutes @ ''m ago''
            else if hours < 24 then int_str hours @ ''h ago'' else if days < 30 then int_str days @ ''d ago'' else locale_text))"

section \<open>What the forms admit\<close>

lemma broken_Nil: "broken rules = [] \<longleftrightarrow> list_all fst rules"
  by (simp add: broken_def filter_empty_conv list_all_iff)

lemma at_field_Nil [simp]: "at_field f ms = [] \<longleftrightarrow> ms = []"
  by (simp add: at_field_def)

lemma signup_admitted:
  "signup_issues is_email v = [] \<longleftrightarrow> sf_acceptTerms v \<and> sf_password v = sf_confirmPassword v \<and> is_email (sf_email v) \<and> sf_email v \<noteq> []
     \<and> 8 \<le> length (sf_password v) \<and> length (sf_password v) \<le> 128
     \<and> list_ex is_lower (sf_password v) \<and> list_ex is_upper (sf_password v) \<and> list_ex is_digit_char (sf_password v)
     \<and> 3 \<le> length (sf_username v) \<and> length (sf_username v) \<le> 24 \<and> list_all username_char (sf_username v)"
  by (auto simp: signup_issues_def username_rules_def email_rules_def password_rules_def confirm_rules_def confirm_issues_def broken_Nil
      Suc_le_eq)

text \<open>Whatever is admitted scores at least two, and no score is above four.\<close>

lemma admitted_scores:
  assumes "password_rules v = []"
  shows "2 \<le> fst (scorePassword v)"
proof -
  have "list_ex is_lower v" "list_ex is_upper v" "list_ex is_digit_char v" "8 \<le> length v"
    using assms by (simp_all add: password_rules_def broken_Nil)
  then have "3 \<le> password_variety v" "\<not> length v < 8" by (simp_all add: password_variety_def)
  then show ?thesis by (simp add: scorePassword_def Let_def)
qed

lemma score_bounded: "fst (scorePassword v) \<le> 4"
  by (simp add: scorePassword_def Let_def)

text \<open>A password with a good score and no advice may still be refused.\<close>

lemma unadvised_refused:
  "scorePassword ''OPEN-SESAME-PLEASE-1'' = (3, [])" "password_rules ''OPEN-SESAME-PLEASE-1'' = [''Include a lowercase letter'']"
  by code_simp+

text \<open>Passwords that differ are not reported while the terms are not accepted.\<close>

lemma at_field_mem [simp]: "(g, m) \<in> set (at_field f ms) \<longleftrightarrow> g = f \<and> m \<in> set ms"
  by (auto simp: at_field_def)

lemma mismatch_unreported:
  "\<not> sf_acceptTerms v \<Longrightarrow> (''confirmPassword'', ''Passwords do not match'') \<notin> set (signup_issues is_email v)"
  by (simp add: signup_issues_def confirm_rules_def broken_def)

text \<open>Measurements just under a unit are shown in the smaller one.\<close>

lemma rounds_to_full_unit: "formatRuntime (Some (9997 / 10)) = ''1000 ms''" "formatMemory (Some (10238 / 10)) = ''1024 KB''"
  by code_simp+

end
