(* ===== verification/Spec2Isabelle.thy ===== *)
theory Spec2Isabelle
  imports BattleProps MatchProps RatingProps JudgeProps Bridges SocketProps ProblemViews CoachDemo
    BattleHttp MatchHttp JudgeHttp MiniJudge FrontBridge Presence FrontForms
begin

text \<open>
  DevArena: a platform for programming battles. A Node backend (apps/backend) keeps battles, matchmaking and
  ratings, judges submissions, serves the problem catalogue and an AI coach; an execution engine
  (services/execution-engine) runs untrusted code in containers; a socket service (services/socket-service)
  keeps rooms and presence; a web client (apps/frontend) talks to all of them. This development models their
  logic and proves what it guarantees. Findings, that is what the code does otherwise than it says or means,
  are lemmas beside the definitions they are about.

  \<^bold>\<open>How the program is modelled.\<close> An asynchronous method becomes a function from the state it runs in to a
  result and the state it leaves; the result is \<open>Inl\<close> of the error it throws or \<open>Inr\<close> of its value (\<open>op\<close>,
  \<open>throw\<close>, \<open>then_op\<close> in Prelude). Records of the source are records, unions are datatypes, Redis keys are
  maps with expiry instants (\<open>kv_put\<close>, \<open>kv_get\<close>), tables are lists or maps of rows. A request, a job or a
  sweep runs at one instant and is atomic, except where the code has an answer to interleaving that a
  theorem is about: the compare-and-set of battles takes the writes other clients make between its
  attempts as an argument, the admission of the execution queue is two steps, the shared refresh of the
  client is a state machine. Systems are inductive relations of requests, jobs, deliveries and time, and what
  holds in every run is proved by rule induction. Integers of the source that count or measure are \<open>int\<close> or
  \<open>nat\<close> (all of them stay far below the exact range of the language's numbers), scores and limits that may be
  fractions are rationals, and the one computation that wraps, the 32-bit hash behind the colour of a
  collaborator, is a 32-bit word. Text is code units up to 255.

  \<^bold>\<open>Shared theories.\<close> Prelude: operations that throw, expiring data, the interfaces \<open>nonce_guard\<close> and \<open>cas_store\<close>.
  RateLimit: the interface \<open>fixed_window\<close>, provided by the Redis counter of the HTTP modules and by the
  per-socket counter. SortedSet: Redis' sorted sets and the interface \<open>score_store\<close>. Json: JSON values.
  CoachText: strings, reading and writing JSON text. Regex: regular expressions with backtracking order,
  proved against an inductive matching relation. HttpValues: enumerations and UUIDs of the validators.

  \<^bold>\<open>Battles\<close> (backend/src/modules/battles).
    \<^item> BattleTypes: types, errors, state: the lifecycle states, the transition table, rows and replay events.
    \<^item> BattleStore: store, scheduler and gateway: the ephemeral state in Redis with its compare-and-set, the
      delayed jobs, emissions and published results.
    \<^item> BattleRepo: repositories and services/room.service.ts.
    \<^item> BattleService: services/battle.service.ts, dto and the workers, one definition per method.
    \<^item> BattleInv, BattleSteps, BattleGood: the invariant that ties rows, ephemeral records, event
      logs and timers together, and that every operation keeps it.
    \<^item> BattleSystem: requests, verdicts and due jobs in any order. BattleDemo: one concrete run.
    \<^item> BattleProps: live records agree with their rows, closed battles are final, the first accepted verdict
      wins, steps follow the table, every live battle has the timer that drives it on, a successful
      compare-and-set is linearizable, only the host drives.
    \<^item> BattleHttp: validators, controllers and routes; every HTTP request is a step of the system.

  \<^bold>\<open>Matchmaking and ratings\<close> (backend/src/modules/matchmaking).
    \<^item> MatchQueue, MatchService: store and services/matchmaking.service.ts: tickets, pools, the claim of a pair, the
      sweep, reconnect lists. MatchInv, MatchProps: nobody is booked twice, pairs are compatible and within the
      window, a sweep leaves no pair behind, queued matches come back in order and once.
    \<^item> Elo, Period, Rating, RatingProps: elo, services/period.util.ts, the rating and leaderboard services: rating
      arithmetic over the reals, the UTC calendar, and that change logs, statistics and boards agree.
    \<^item> MatchHttp: validators, controllers and routes.

  \<^bold>\<open>Judge\<close> (backend/src/modules/judge).
    \<^item> JudgeCompare, JudgeScore: comparators, verdict and scoring, with their order, bounds and the reference
      definition of token comparison.
    \<^item> JudgeService: services, queue, events and repositories: admission, batches of runs, verdicts and deliveries.
      JudgeRun, JudgeInv, JudgeProps: results line up with the cases, no submission is stuck, verdicts are final.
    \<^item> JudgeHttp: validators, controllers and routes.
    \<^item> Bridges: the adapter that calls the execution engine and the callbacks of index.ts by which matchmaking
      creates battles and verdicts reach them.

  \<^bold>\<open>Execution engine\<close> (services/execution-engine/src). ExecEngine: the request schema, the clamping of limits, the
  container's options, captured output, the workspace, the queue and its worker. ExecProps: captured output is
  capped, requests only tighten ceilings, faults end in results, and by how much the queue overruns its ceiling.

  \<^bold>\<open>Socket service\<close> (services/socket-service/src). SocketRooms: stores, managers, handlers, middlewares and the
  gateway. SocketProps: bounded rooms and connections in every run, ownership, the clean-up of the last socket.

  \<^bold>\<open>Problem catalogue\<close> (backend/src/modules/problems, middlewares, lib/cache.ts, errors).
    \<^item> ProblemTypes, ProblemStore, ProblemService: validators and slugs; repositories, cache and audit log; services,
      response mappers, gates, controllers and routes.
    \<^item> ProblemInv, ProblemKeep, ProblemProps, ProblemSlug, ProblemViews: stored problems are well-formed, the version
      history has no gaps, stale edits are refused, only staff writes, drafts stay hidden, pages partition the
      listing.

  \<^bold>\<open>AI coach\<close> (backend/src/modules/ai-coach).
    \<^item> CoachTypes, CoachGuard, CoachPrompt, CoachAnswer, CoachService: request bodies; what is refused and redacted; the
      prompts word for word and the model's adapter; validation of answers; one request from token to answer.
    \<^item> CoachBlind, CoachChecks, CoachLeaks, CoachProps, CoachDemo: withheld material does not influence what the model
      is sent, long echoes of it are scrubbed, answers and histories are bounded in every run.

  \<^bold>\<open>Web client\<close> (frontend/src).
    \<^item> FrontApi: services/api-client.ts, token-store.ts, utils/jwt.ts, utils/error.ts, store/api/base-query.ts: tokens, the
      interceptors as one recursive request, the refresh concurrent requests share; every request ends.
    \<^item> FrontState: store/slices, store/selectors.ts, utils/storage.ts: one record per slice, one function per reducer.
    \<^item> FrontHooks: hooks, features/auth/guards, features/workspace/hooks: sessions, guards, polling, autosave, idle watch.
    \<^item> FrontBridge: store/api against the backend's own parsers and handlers, so that what the client sends is what
      the backend reads.
    \<^item> Collab: collaboration: the provider, the reconnect manager, the offline store, colours.
    \<^item> Presence: collaboration/awareness and cursor: the own entry with its idle countdown, what is shown of the others.
    \<^item> FrontForms: features/auth/schemas, utils/password-strength.ts and format.ts: what the forms admit.
    \<^item> MiniJudge: lib/miniJudge.ts and the match of pages/Arena.tsx.

  \<^bold>\<open>Parameters.\<close> Code that is not in the repository is an argument: Docker (what is observed of the n-th
  container), the file system of workspaces, the verification of token signatures, the case folding before a
  slug and the URL parser, the generators of ids, the digest and the hash, the model behind the coach, the
  network between client and server, the library of replicated documents (\<open>crdt_laws\<close>: applying an update adds
  its operations, the update for a state vector holds what that vector lacks), and the player's own code.
  Results hold for every value of these arguments; where a law is assumed, its witness gives a concrete instance.

  \<^bold>\<open>Bounds and fuel.\<close> The compare-and-set tries \<open>cas_attempts\<close> times, as the code does, and then fails as
  contended. Reading JSON text takes twice the length of the text and one as fuel; \<open>parse_fuel_enough\<close> shows
  that more changes nothing. An iteration of a regular expression that consumes nothing is given up, so the
  text ahead bounds it. The client's request and its polling loop are functions with measures: a refresh is
  not refreshed, a replay is not replayed, attempts are counted, and each poll takes 1.2 of the 90 seconds.
  Retries of jobs are bounded by the queues' attempts. Every other recursion is structural.

  \<^bold>\<open>Idealised.\<close> The expected score of Elo is the exact real; decimal numbers are read exactly, without the rounding of
  doubles. The approximate trimming of the rating stream keeps every entry. Requests of one process run one
  after the other at an instant. Hash fields and set members keep insertion order.

  \<^bold>\<open>Not modelled.\<close> Environment variables, logging, metrics, the OpenAPI documents, the seed of the database and
  the start and stop of processes hold no logic of the program. The AI service is a skeleton and the shared
  packages are declarations. Of the web client: markup, styles and static content of pages and components, the
  router's table, the query cache (a library), the endpoints that are a URL each, the binding to the editor
  and the recovery of versions (calls of their libraries). Of the battle repository: \<open>recordRatingEvents\<close>, which nothing
  calls, and the random invite token. Of the problem repository: \<open>listTestCases\<close>, which nothing calls.
\<close>

end
